(* ===== verification/Prelude.thy ===== *)
theory Prelude
  imports Main "HOL-Library.Signed_Division"
begin

text \<open>
  The vocabulary every component shares.

  \<^item> \<open>result\<close> is Rust's \<open>Result\<close> with one more value, \<open>Panic\<close>, for the aborts that are
    not error values (an overflow of a plain operator, which the release profile checks, a
    zero divisor of \<open>/\<close>, an index out of range). \<open>and_then e f\<close> is \<open>let x = e?; f x\<close>.
  \<^item> \<open>int_ty\<close> names the machine integer types; a value of such a type is an \<open>int\<close> and
    \<open>fits\<close> says that it is in the type's range. Every operation of the model that produces a
    machine integer checks the range at the width the source uses.
  \<^item> \<open>run_ops\<close> runs a list of instructions the way the runtime does: an instruction that does
    not return \<open>Ok\<close> leaves the accounts as they were. The locale \<open>instruction_set\<close> lifts a
    property of single instructions to runs and to the reachable states.
\<close>

named_theorems ok_iff \<open>when a fallible operation returns Ok, and with which value\<close>
named_theorems eval_defs \<open>definitions to unfold when a closed term is evaluated\<close>

section \<open>Results\<close>

text \<open>
  An error code is the discriminant of its variant in the enum \<open>ErrorCode\<close> of \<open>error.rs\<close>: the
  number a client sees is 6000 plus it. The variants the modelled code returns are named here.
\<close>

datatype error_code = ErrorCode nat

abbreviation "InsufficientDeposit \<equiv> ErrorCode 2"
abbreviation "InsufficientCollateral \<equiv> ErrorCode 3"
abbreviation "SufficientCollateral \<equiv> ErrorCode 4"
abbreviation "MaxNumberOfPositions \<equiv> ErrorCode 5"
abbreviation "MarketDelisted \<equiv> ErrorCode 7"
abbreviation "UserHasNoPositionInMarket \<equiv> ErrorCode 10"
abbreviation "InvalidRepegRedundant \<equiv> ErrorCode 12"
abbreviation "InvalidRepegDirection \<equiv> ErrorCode 13"
abbreviation "InvalidRepegProfitability \<equiv> ErrorCode 14"
abbreviation "InvalidUpdateK \<equiv> ErrorCode 17"
abbreviation "MathError \<equiv> ErrorCode 19"
abbreviation "BnConversionError \<equiv> ErrorCode 20"
abbreviation "UnableToLoadOracle \<equiv> ErrorCode 22"
abbreviation "PriceBandsBreached \<equiv> ErrorCode 23"
abbreviation "ExchangePaused \<equiv> ErrorCode 24"
abbreviation "InvalidWhitelistToken \<equiv> ErrorCode 25"
abbreviation "ReferrerAndReferrerStatsAuthorityUnequal \<equiv> ErrorCode 33"
abbreviation "InvalidReferrer \<equiv> ErrorCode 34"
abbreviation "InvalidOracle \<equiv> ErrorCode 35"
abbreviation "OracleNotFound \<equiv> ErrorCode 36"
abbreviation "MaxDeposit \<equiv> ErrorCode 38"
abbreviation "InvalidFundingProfitability \<equiv> ErrorCode 40"
abbreviation "CastingFailure \<equiv> ErrorCode 41"
abbreviation "InvalidOrder \<equiv> ErrorCode 42"
abbreviation "InvalidOrderMarketType \<equiv> ErrorCode 44"
abbreviation "InvalidOrderNotRiskReducing \<equiv> ErrorCode 46"
abbreviation "InvalidOrderSizeTooSmall \<equiv> ErrorCode 47"
abbreviation "InvalidOrderNotStepSizeMultiple \<equiv> ErrorCode 48"
abbreviation "InvalidOrderIOC \<equiv> ErrorCode 50"
abbreviation "InvalidOrderPostOnly \<equiv> ErrorCode 51"
abbreviation "InvalidOrderIOCPostOnly \<equiv> ErrorCode 52"
abbreviation "InvalidOrderTrigger \<equiv> ErrorCode 53"
abbreviation "InvalidOrderAuction \<equiv> ErrorCode 54"
abbreviation "InvalidOrderOracleOffset \<equiv> ErrorCode 55"
abbreviation "InvalidOrderMinOrderSize \<equiv> ErrorCode 56"
abbreviation "PlacePostOnlyLimitFailure \<equiv> ErrorCode 57"
abbreviation "OrderAmountTooSmall \<equiv> ErrorCode 59"
abbreviation "MaxNumberOfOrders \<equiv> ErrorCode 60"
abbreviation "OrderDoesNotExist \<equiv> ErrorCode 61"
abbreviation "OrderNotOpen \<equiv> ErrorCode 62"
abbreviation "UnableToLoadAccountLoader \<equiv> ErrorCode 65"
abbreviation "TradeSizeTooLarge \<equiv> ErrorCode 66"
abbreviation "UserOrderIdAlreadyInUse \<equiv> ErrorCode 71"
abbreviation "InvalidMarginRatio \<equiv> ErrorCode 73"
abbreviation "CouldNotLoadMarketData \<equiv> ErrorCode 77"
abbreviation "PerpMarketNotFound \<equiv> ErrorCode 78"
abbreviation "InvalidMarketAccount \<equiv> ErrorCode 79"
abbreviation "UnableToLoadPerpMarketAccount \<equiv> ErrorCode 80"
abbreviation "MarketWrongMutability \<equiv> ErrorCode 81"
abbreviation "UnableToCastUnixTime \<equiv> ErrorCode 82"
abbreviation "CouldNotFindSpotPosition \<equiv> ErrorCode 83"
abbreviation "NoSpotPositionAvailable \<equiv> ErrorCode 84"
abbreviation "InvalidSpotMarketInitialization \<equiv> ErrorCode 85"
abbreviation "CouldNotLoadSpotMarketData \<equiv> ErrorCode 86"
abbreviation "SpotMarketNotFound \<equiv> ErrorCode 87"
abbreviation "InvalidSpotMarketAccount \<equiv> ErrorCode 88"
abbreviation "UnableToLoadSpotMarketAccount \<equiv> ErrorCode 89"
abbreviation "SpotMarketWrongMutability \<equiv> ErrorCode 90"
abbreviation "SpotMarketInsufficientDeposits \<equiv> ErrorCode 92"
abbreviation "UserMustSettleTheirOwnPositiveUnsettledPNL \<equiv> ErrorCode 93"
abbreviation "CantUpdateSpotBalanceType \<equiv> ErrorCode 94"
abbreviation "InsufficientCollateralForSettlingPNL \<equiv> ErrorCode 95"
abbreviation "AMMNotUpdatedInSameSlot \<equiv> ErrorCode 96"
abbreviation "OrderBreachesOraclePriceLimits \<equiv> ErrorCode 109"
abbreviation "OrderMustBeTriggeredFirst \<equiv> ErrorCode 110"
abbreviation "OrderNotTriggerable \<equiv> ErrorCode 111"
abbreviation "OrderDidNotSatisfyTriggerCondition \<equiv> ErrorCode 112"
abbreviation "PositionDoesntHaveOpenPositionOrOrders \<equiv> ErrorCode 114"
abbreviation "UserIsBeingLiquidated \<equiv> ErrorCode 117"
abbreviation "LiquidationsOngoing \<equiv> ErrorCode 118"
abbreviation "WrongSpotBalanceType \<equiv> ErrorCode 119"
abbreviation "UserCantLiquidateThemself \<equiv> ErrorCode 120"
abbreviation "InvalidPerpPositionToLiquidate \<equiv> ErrorCode 121"
abbreviation "InvalidBaseAssetAmountForLiquidatePerp \<equiv> ErrorCode 122"
abbreviation "InvalidPositionLastFundingRate \<equiv> ErrorCode 123"
abbreviation "InvalidPositionDelta \<equiv> ErrorCode 124"
abbreviation "UserBankrupt \<equiv> ErrorCode 125"
abbreviation "UserNotBankrupt \<equiv> ErrorCode 126"
abbreviation "UserHasInvalidBorrow \<equiv> ErrorCode 127"
abbreviation "DailyWithdrawLimit \<equiv> ErrorCode 128"
abbreviation "DefaultError \<equiv> ErrorCode 129"
abbreviation "TryingToRemoveLiquidityTooFast \<equiv> ErrorCode 133"
abbreviation "InvalidSpotMarketState \<equiv> ErrorCode 135"
abbreviation "InvalidFeeStructure \<equiv> ErrorCode 144"
abbreviation "InsufficientIFShares \<equiv> ErrorCode 145"
abbreviation "MarketActionPaused \<equiv> ErrorCode 146"
abbreviation "MarketPlaceOrderPaused \<equiv> ErrorCode 147"
abbreviation "MarketFillOrderPaused \<equiv> ErrorCode 148"
abbreviation "MarketWithdrawPaused \<equiv> ErrorCode 149"
abbreviation "ProtectedAssetTierViolation \<equiv> ErrorCode 150"
abbreviation "IsolatedAssetTierViolation \<equiv> ErrorCode 151"
abbreviation "UserCantBeDeleted \<equiv> ErrorCode 152"
abbreviation "ReduceOnlyWithdrawIncreasedRisk \<equiv> ErrorCode 153"
abbreviation "MaxOpenInterest \<equiv> ErrorCode 154"
abbreviation "CantResolvePerpBankruptcy \<equiv> ErrorCode 155"
abbreviation "LiquidationDoesntSatisfyLimitPrice \<equiv> ErrorCode 156"
abbreviation "MarginTradingDisabled \<equiv> ErrorCode 157"
abbreviation "InvalidMarketStatusToSettlePnl \<equiv> ErrorCode 158"
abbreviation "PerpMarketNotInSettlement \<equiv> ErrorCode 159"
abbreviation "PerpMarketSettlementBufferNotReached \<equiv> ErrorCode 161"
abbreviation "PerpMarketSettlementUserHasOpenOrders \<equiv> ErrorCode 162"
abbreviation "UnableToSettleExpiredUserPosition \<equiv> ErrorCode 164"
abbreviation "UnequalMarketIndexForSpotTransfer \<equiv> ErrorCode 165"
abbreviation "InvalidPerpPositionDetected \<equiv> ErrorCode 166"
abbreviation "InvalidSpotPositionDetected \<equiv> ErrorCode 167"
abbreviation "InvalidAmmDetected \<equiv> ErrorCode 168"
abbreviation "InvalidAmmForFillDetected \<equiv> ErrorCode 169"
abbreviation "InvalidAmmLimitPriceOverride \<equiv> ErrorCode 170"
abbreviation "InvalidOrderFillPrice \<equiv> ErrorCode 171"
abbreviation "SpotMarketVaultInvariantViolated \<equiv> ErrorCode 173"
abbreviation "RevenueSettingsCannotSettleToIF \<equiv> ErrorCode 176"
abbreviation "NoRevenueToSettleToIF \<equiv> ErrorCode 177"
abbreviation "NoAmmPerpPnlDeficit \<equiv> ErrorCode 178"
abbreviation "SufficientPerpPnlPool \<equiv> ErrorCode 179"
abbreviation "InsufficientPerpPnlPool \<equiv> ErrorCode 180"
abbreviation "PerpPnlDeficitBelowThreshold \<equiv> ErrorCode 181"
abbreviation "MaxRevenueWithdrawPerPeriodReached \<equiv> ErrorCode 182"
abbreviation "MaxIFWithdrawReached \<equiv> ErrorCode 183"
abbreviation "NoIFWithdrawAvailable \<equiv> ErrorCode 184"
abbreviation "InvalidIFUnstake \<equiv> ErrorCode 185"
abbreviation "InvalidIFUnstakeSize \<equiv> ErrorCode 186"
abbreviation "InvalidIFForNewStakes \<equiv> ErrorCode 188"
abbreviation "InvalidIFRebase \<equiv> ErrorCode 189"
abbreviation "InvalidInsuranceUnstakeSize \<equiv> ErrorCode 190"
abbreviation "InvalidOrderLimitPrice \<equiv> ErrorCode 191"
abbreviation "InvalidIFDetected \<equiv> ErrorCode 192"
abbreviation "InvalidAmmMaxSpreadDetected \<equiv> ErrorCode 193"
abbreviation "InvalidConcentrationCoef \<equiv> ErrorCode 194"
abbreviation "IFWithdrawRequestInProgress \<equiv> ErrorCode 198"
abbreviation "NoIFWithdrawRequestInProgress \<equiv> ErrorCode 199"
abbreviation "IFWithdrawRequestTooSmall \<equiv> ErrorCode 200"
abbreviation "IncorrectSpotMarketAccountPassed \<equiv> ErrorCode 201"
abbreviation "BlockchainClockInconsistency \<equiv> ErrorCode 202"
abbreviation "InvalidIFSharesDetected \<equiv> ErrorCode 203"
abbreviation "InvalidMarkTwapUpdateDetected \<equiv> ErrorCode 206"
abbreviation "MarketSettlementAttemptOnActiveMarket \<equiv> ErrorCode 207"
abbreviation "MarketSettlementAttemptTooEarly \<equiv> ErrorCode 209"
abbreviation "MarketSettlementTargetPriceInvalid \<equiv> ErrorCode 210"
abbreviation "UnsupportedSpotMarket \<equiv> ErrorCode 211"
abbreviation "MarketBeingInitialized \<equiv> ErrorCode 213"
abbreviation "InvalidUserSubAccountId \<equiv> ErrorCode 214"
abbreviation "InvalidTriggerOrderCondition \<equiv> ErrorCode 215"
abbreviation "InvalidSpotPosition \<equiv> ErrorCode 216"
abbreviation "CantTransferBetweenSameUserAccount \<equiv> ErrorCode 217"
abbreviation "InvalidPerpPosition \<equiv> ErrorCode 218"
abbreviation "UnableToGetLimitPrice \<equiv> ErrorCode 219"
abbreviation "InvalidLiquidation \<equiv> ErrorCode 220"
abbreviation "FailedUnwrap \<equiv> ErrorCode 223"
abbreviation "MaxNumberOfUsers \<equiv> ErrorCode 224"
abbreviation "MarginOrdersOpen \<equiv> ErrorCode 226"
abbreviation "TierViolationLiquidatingPerpPnl \<equiv> ErrorCode 227"
abbreviation "CouldNotLoadUserData \<equiv> ErrorCode 228"
abbreviation "UserWrongMutability \<equiv> ErrorCode 229"
abbreviation "InvalidUserAccount \<equiv> ErrorCode 230"
abbreviation "CouldNotLoadUserStatsData \<equiv> ErrorCode 231"
abbreviation "UserStatsWrongMutability \<equiv> ErrorCode 232"
abbreviation "InvalidUserStatsAccount \<equiv> ErrorCode 233"
abbreviation "UserNotFound \<equiv> ErrorCode 234"
abbreviation "UnableToLoadUserAccount \<equiv> ErrorCode 235"
abbreviation "UserStatsNotFound \<equiv> ErrorCode 236"
abbreviation "UnableToLoadUserStatsAccount \<equiv> ErrorCode 237"
abbreviation "UserNotInactive \<equiv> ErrorCode 238"
abbreviation "RevertFill \<equiv> ErrorCode 239"
abbreviation "InvalidSpotFulfillmentParams \<equiv> ErrorCode 241"
abbreviation "InvalidSwap \<equiv> ErrorCode 248"
abbreviation "SwapLimitPriceBreached \<equiv> ErrorCode 249"
abbreviation "SpotMarketReduceOnly \<equiv> ErrorCode 250"
abbreviation "FundingWasNotUpdated \<equiv> ErrorCode 251"
abbreviation "CantUpdatePerpBidAskTwap \<equiv> ErrorCode 253"
abbreviation "UserReduceOnly \<equiv> ErrorCode 254"
abbreviation "InvalidMarginCalculation \<equiv> ErrorCode 255"
abbreviation "CantPayUserInitFee \<equiv> ErrorCode 256"
abbreviation "CantReclaimRent \<equiv> ErrorCode 257"
abbreviation "InsuranceFundOperationPaused \<equiv> ErrorCode 258"
abbreviation "NoUnsettledPnl \<equiv> ErrorCode 259"
abbreviation "PnlPoolCantSettleUser \<equiv> ErrorCode 260"
abbreviation "OracleNonPositive \<equiv> ErrorCode 261"
abbreviation "OracleTooVolatile \<equiv> ErrorCode 262"
abbreviation "OracleTooUncertain \<equiv> ErrorCode 263"
abbreviation "OracleStaleForMargin \<equiv> ErrorCode 264"
abbreviation "OracleInsufficientDataPoints \<equiv> ErrorCode 265"
abbreviation "OracleStaleForAMM \<equiv> ErrorCode 266"
abbreviation "MaxBorrows \<equiv> ErrorCode 268"
abbreviation "NonZeroTransferFee \<equiv> ErrorCode 282"
abbreviation "LiquidationOrderFailedToFill \<equiv> ErrorCode 283"
abbreviation "InvalidVerificationIxIndex \<equiv> ErrorCode 285"
abbreviation "SigVerificationFailed \<equiv> ErrorCode 286"
abbreviation "InvalidSignedMsgOrderParam \<equiv> ErrorCode 288"
abbreviation "PlaceAndTakeOrderSuccessConditionFailed \<equiv> ErrorCode 289"
abbreviation "SignedMsgUserOrdersAccountFull \<equiv> ErrorCode 299"
abbreviation "SignedMsgOrderDoesNotExist \<equiv> ErrorCode 300"
abbreviation "InvalidSignedMsgOrderId \<equiv> ErrorCode 301"
abbreviation "InvalidPoolId \<equiv> ErrorCode 302"
abbreviation "InvalidLiquidateSpotWithSwap \<equiv> ErrorCode 308"
abbreviation "SignedMsgUserContextUserMismatch \<equiv> ErrorCode 309"
abbreviation "InvalidTransferPerpPosition \<equiv> ErrorCode 312"
abbreviation "InvalidSignedMsgUserOrdersResize \<equiv> ErrorCode 313"
abbreviation "InvalidRevenueShareResize \<equiv> ErrorCode 317"
abbreviation "RevenueShareEscrowAuthorityMismatch \<equiv> ErrorCode 320"
abbreviation "RevenueShareEscrowOrdersAccountFull \<equiv> ErrorCode 321"
abbreviation "InvalidRevenueShareAccount \<equiv> ErrorCode 322"
abbreviation "CannotRevokeBuilderWithOpenOrders \<equiv> ErrorCode 323"
abbreviation "UnableToLoadRevenueShareAccount \<equiv> ErrorCode 324"
abbreviation "InvalidConstituent \<equiv> ErrorCode 325"
abbreviation "AMMCacheStale \<equiv> ErrorCode 332"
abbreviation "ConstituentOracleStale \<equiv> ErrorCode 334"
abbreviation "InvalidConstituentDerivativeWeights \<equiv> ErrorCode 336"
abbreviation "SettleLpPoolDisabled \<equiv> ErrorCode 338"
abbreviation "LpPoolSettleInvariantBreached \<equiv> ErrorCode 340"
abbreviation "InvalidConstituentOperation \<equiv> ErrorCode 341"
abbreviation "Unauthorized \<equiv> ErrorCode 342"
abbreviation "InvalidLpPoolId \<equiv> ErrorCode 343"
abbreviation "MarketIndexNotFoundAmmCache \<equiv> ErrorCode 344"
abbreviation "InvalidIsolatedPerpMarket \<equiv> ErrorCode 345"
abbreviation "InvalidOrderScaleOrderCount \<equiv> ErrorCode 346"
abbreviation "InvalidOrderScalePriceRange \<equiv> ErrorCode 347"
abbreviation "SpotDlobTradingDisabled \<equiv> ErrorCode 350"
abbreviation "WithdrawGuardThresholdNotionalTooLarge \<equiv> ErrorCode 352"
abbreviation "InvalidNativeStateAccount \<equiv> ErrorCode 355"
abbreviation "InvalidNativePerpMarketAccount \<equiv> ErrorCode 356"
abbreviation "IsolatedPositionDisabled \<equiv> ErrorCode 357"
abbreviation "EquityBelowFloor \<equiv> ErrorCode 358"
abbreviation "InvalidEquityFloorTransfer \<equiv> ErrorCode 359"
abbreviation "IFDepositMintsZeroShares \<equiv> ErrorCode 360"
abbreviation "LiquidationWorsensAccountHealth \<equiv> ErrorCode 361"
abbreviation "PerpBankruptcyMustPrecedeSpot \<equiv> ErrorCode 362"
abbreviation "InvalidRevenueShareRecipient \<equiv> ErrorCode 363"
abbreviation "DailyDepositLimit \<equiv> ErrorCode 364"
abbreviation "CannotModifyBuilderOrder \<equiv> ErrorCode 366"
abbreviation "InvalidNativeInstructionData \<equiv> ErrorCode 369"
abbreviation "SpotMarketInterestStaleForMargin \<equiv> ErrorCode 371"
abbreviation "RevenueShareOrderNotForfeitable \<equiv> ErrorCode 373"
abbreviation "VammQuoteManagementValueOutOfBounds \<equiv> ErrorCode 374"
abbreviation "FeePoolWithdrawMarketNotEligible \<equiv> ErrorCode 375"
abbreviation "FeePoolWithdrawInsufficientBalance \<equiv> ErrorCode 376"

datatype 'a result = Ok 'a | Err error_code | Panic

primrec and_then :: "'a result \<Rightarrow> ('a \<Rightarrow> 'b result) \<Rightarrow> 'b result" where
  "and_then (Ok x) f = f x"
| "and_then (Err e) f = Err e"
| "and_then Panic f = Panic"

definition map_ok :: "('a \<Rightarrow> 'b) \<Rightarrow> 'a result \<Rightarrow> 'b result" where
  "map_ok f r = and_then r (\<lambda>x. Ok (f x))"

definition ok_or :: "'a option \<Rightarrow> error_code \<Rightarrow> 'a result" where
  "ok_or r e = (case r of Some x \<Rightarrow> Ok x | None \<Rightarrow> Err e)"

primrec or_err :: "'a result \<Rightarrow> error_code \<Rightarrow> 'a result" where
  "or_err (Ok x) e = Ok x"
| "or_err (Err _) e = Err e"
| "or_err Panic e = Panic"

definition validate :: "bool \<Rightarrow> error_code \<Rightarrow> unit result" where
  "validate b e = (if b then Ok () else Err e)"

text \<open>
  Arrays. An index out of range panics. \<open>position_of P xs\<close> is \<open>xs.iter().position(P)\<close>.
\<close>

definition with_nth :: "nat \<Rightarrow> 'a list \<Rightarrow> ('a \<Rightarrow> 'b result) \<Rightarrow> 'b result" where
  "with_nth i xs f = (if i < length xs then f (xs ! i) else Panic)"

fun position_of :: "('a \<Rightarrow> bool) \<Rightarrow> 'a list \<Rightarrow> nat option" where
  "position_of P [] = None"
| "position_of P (x # xs) = (if P x then Some 0 else map_option Suc (position_of P xs))"

lemma with_nth_Ok_iff [ok_iff]: "with_nth i xs f = Ok y \<longleftrightarrow> i < length xs \<and> f (xs ! i) = Ok y"
  by (simp add: with_nth_def)

lemma with_nth_in [simp]: "i < length xs \<Longrightarrow> with_nth i xs f = f (xs ! i)"
  by (simp add: with_nth_def)

lemma position_of_None_iff: "position_of P xs = None \<longleftrightarrow> (\<forall>x \<in> set xs. \<not> P x)"
  by (induction xs) auto

lemma position_of_Some:
  "position_of P xs = Some i \<Longrightarrow> i < length xs \<and> P (xs ! i) \<and> (\<forall>j < i. \<not> P (xs ! j))"
proof (induction xs arbitrary: i)
  case (Cons x xs)
  then show ?case
    by (auto simp: nth_Cons less_Suc_eq_0_disj split: if_splits nat.splits)
qed simp

text \<open>A fallible fold: Rust's \<open>try_for_each\<close> and \<open>for\<close> loops whose body uses \<open>?\<close>.\<close>

fun try_fold :: "('s \<Rightarrow> 'a \<Rightarrow> 's result) \<Rightarrow> 's \<Rightarrow> 'a list \<Rightarrow> 's result" where
  "try_fold f s [] = Ok s"
| "try_fold f s (x # xs) = and_then (f s x) (\<lambda>s'. try_fold f s' xs)"

lemma and_then_Ok_iff [ok_iff]:
  "and_then m f = Ok y \<longleftrightarrow> (\<exists>x. m = Ok x \<and> f x = Ok y)"
  by (cases m) simp_all

lemma and_thenE:
  assumes "and_then m f = Ok y"
  obtains x where "m = Ok x" "f x = Ok y"
  using assms by (auto simp: and_then_Ok_iff)

lemma if_OkE:
  assumes "(if b then m else m') = Ok y"
  obtains "b" "m = Ok y" | "\<not> b" "m' = Ok y"
  using assms by (auto split: if_splits)

lemma case_prod_OkE:
  assumes "(case p of (a, b) \<Rightarrow> f a b) = Ok y"
  obtains a b where "p = (a, b)" "f a b = Ok y"
  using assms by (cases p) auto

lemmas ok_elims = and_thenE if_OkE case_prod_OkE

lemma and_then_cong [fundef_cong]:
  "m = m' \<Longrightarrow> (\<And>x. m' = Ok x \<Longrightarrow> f x = f' x) \<Longrightarrow> and_then m f = and_then m' f'"
  by (cases m') simp_all

lemma and_then_assoc: "and_then (and_then m f) g = and_then m (\<lambda>x. and_then (f x) g)"
  by (cases m) simp_all

lemma map_ok_Ok_iff [ok_iff]: "map_ok f m = Ok y \<longleftrightarrow> (\<exists>x. m = Ok x \<and> y = f x)"
  by (auto simp: map_ok_def and_then_Ok_iff)

lemma ok_or_Ok_iff [ok_iff]: "ok_or r e = Ok x \<longleftrightarrow> r = Some x"
  by (simp add: ok_or_def split: option.split)

lemma or_err_Ok_iff [ok_iff]: "or_err r e = Ok x \<longleftrightarrow> r = Ok x"
  by (cases r) simp_all

lemma validate_Ok_iff [ok_iff]: "validate b e = Ok u \<longleftrightarrow> b"
  by (simp add: validate_def)

lemma if_Ok_iff [ok_iff]:
  "(if b then Ok x else Err e) = Ok y \<longleftrightarrow> b \<and> y = x"
  "(if b then Ok x else Panic) = Ok y \<longleftrightarrow> b \<and> y = x"
  by auto

lemma try_fold_append:
  "try_fold f s (xs @ ys) = and_then (try_fold f s xs) (\<lambda>s'. try_fold f s' ys)"
  by (induction xs arbitrary: s) (simp_all add: and_then_assoc)

lemma try_fold_invariant:
  assumes step: "\<And>s x s'. x \<in> set xs \<Longrightarrow> P s \<Longrightarrow> f s x = Ok s' \<Longrightarrow> P s'"
    and run: "try_fold f s xs = Ok s'" and start: "P s"
  shows "P s'"
  using assms
proof (induction xs arbitrary: s)
  case Nil
  then show ?case by simp
next
  case (Cons x xs)
  then obtain s1 where s1: "f s x = Ok s1" "try_fold f s1 xs = Ok s'"
    by (auto simp: and_then_Ok_iff)
  have "P s1" using Cons.prems(1) [of x s s1] Cons.prems(3) s1(1) by simp
  moreover have "P s''" if "y \<in> set xs" "P t" "f t y = Ok s''" for y t s''
    using Cons.prems(1) [of y t s''] that by simp
  ultimately show ?case using Cons.IH s1(2) by blast
qed

text \<open>Sums over a list with one element replaced.\<close>

lemma sum_list_map_update:
  fixes f :: "'a \<Rightarrow> int"
  shows "i < length xs \<Longrightarrow> sum_list (map f (xs[i := x])) = sum_list (map f xs) - f (xs ! i) + f x"
  by (induction xs arbitrary: i) (auto simp: nth_Cons split: nat.splits)

lemma list_all_update: "list_all P xs \<Longrightarrow> P x \<Longrightarrow> list_all P (xs[i := x])"
  by (auto simp: list_all_iff dest!: set_update_subset_insert [THEN subsetD])

lemma list_all_nth: "list_all P xs \<Longrightarrow> i < length xs \<Longrightarrow> P (xs ! i)"
  by (simp add: list_all_length)

text \<open>A result that evaluates to an \<open>Ok\<close> with some property.\<close>

lemma Ok_case: "(case r of Ok x \<Rightarrow> P x | _ \<Rightarrow> False) \<Longrightarrow> \<exists>x. r = Ok x \<and> P x"
  by (cases r) simp_all

section \<open>Machine integers\<close>

datatype int_ty = U8 | U16 | U32 | U64 | U128 | U192 | U256 | Usize | I8 | I16 | I32 | I64 | I128

fun ty_min :: "int_ty \<Rightarrow> int" where
  "ty_min I8 = - 128"
| "ty_min I16 = - 32768"
| "ty_min I32 = - 2147483648"
| "ty_min I64 = - 9223372036854775808"
| "ty_min I128 = - 170141183460469231731687303715884105728"
| "ty_min U8 = 0"
| "ty_min U16 = 0"
| "ty_min U32 = 0"
| "ty_min U64 = 0"
| "ty_min U128 = 0"
| "ty_min U192 = 0"
| "ty_min U256 = 0"
| "ty_min Usize = 0"

fun ty_max :: "int_ty \<Rightarrow> int" where
  "ty_max I8 = 127"
| "ty_max I16 = 32767"
| "ty_max I32 = 2147483647"
| "ty_max I64 = 9223372036854775807"
| "ty_max I128 = 170141183460469231731687303715884105727"
| "ty_max U8 = 255"
| "ty_max U16 = 65535"
| "ty_max U32 = 4294967295"
| "ty_max U64 = 18446744073709551615"
| "ty_max U128 = 340282366920938463463374607431768211455"
| "ty_max U192 = 6277101735386680763835789423207666416102355444464034512895"
| "ty_max U256 = 115792089237316195423570985008687907853269984665640564039457584007913129639935"
| "ty_max Usize = 18446744073709551615"

definition is_signed :: "int_ty \<Rightarrow> bool" where
  "is_signed t = (ty_min t < 0)"

definition fits :: "int_ty \<Rightarrow> int \<Rightarrow> bool" where
  "fits t x \<longleftrightarrow> ty_min t \<le> x \<and> x \<le> ty_max t"

declare fits_def [eval_defs] is_signed_def [eval_defs] map_ok_def [eval_defs]
  ok_or_def [eval_defs] validate_def [eval_defs]

lemma ty_powers:
  "ty_max U8 = 2 ^ 8 - 1" "ty_max U16 = 2 ^ 16 - 1" "ty_max U32 = 2 ^ 32 - 1"
  "ty_max U64 = 2 ^ 64 - 1" "ty_max U128 = 2 ^ 128 - 1" "ty_max U192 = 2 ^ 192 - 1"
  "ty_max U256 = 2 ^ 256 - 1" "ty_max Usize = 2 ^ 64 - 1"
  "ty_max I8 = 2 ^ 7 - 1" "ty_max I16 = 2 ^ 15 - 1" "ty_max I32 = 2 ^ 31 - 1"
  "ty_max I64 = 2 ^ 63 - 1" "ty_max I128 = 2 ^ 127 - 1"
  by simp_all

lemma ty_range: "ty_min t \<le> 0" "0 < ty_max t"
  by (cases t; simp)+

lemma fits_0 [simp]: "fits t 0"
  using ty_range [of t] by (simp add: fits_def)

lemma fits_1 [simp]: "fits t 1"
  by (cases t) (simp_all add: fits_def)

lemma fits_unsigned_nonneg: "fits t x \<Longrightarrow> \<not> is_signed t \<Longrightarrow> 0 \<le> x"
  using ty_range(1) [of t] by (auto simp: fits_def is_signed_def)

lemma unsigned_tys [simp]:
  "\<not> is_signed U8" "\<not> is_signed U16" "\<not> is_signed U32" "\<not> is_signed U64" "\<not> is_signed U128"
  "\<not> is_signed U192" "\<not> is_signed U256" "\<not> is_signed Usize"
  by (simp_all add: is_signed_def)

lemma fits_nonneg [dest]:
  "fits U8 x \<Longrightarrow> 0 \<le> x" "fits U16 x \<Longrightarrow> 0 \<le> x" "fits U32 x \<Longrightarrow> 0 \<le> x" "fits U64 x \<Longrightarrow> 0 \<le> x"
  "fits U128 x \<Longrightarrow> 0 \<le> x" "fits U192 x \<Longrightarrow> 0 \<le> x" "fits Usize x \<Longrightarrow> 0 \<le> x"
  by (simp_all add: fits_def)

text \<open>A value between two values of a type is a value of the type.\<close>

lemma fits_between: "fits t lo \<Longrightarrow> fits t hi \<Longrightarrow> lo \<le> x \<Longrightarrow> x \<le> hi \<Longrightarrow> fits t x"
  by (simp add: fits_def)

lemma fits_mono_unsigned: "fits t hi \<Longrightarrow> 0 \<le> x \<Longrightarrow> x \<le> hi \<Longrightarrow> fits t x"
  by (rule fits_between [of t 0 hi]) simp_all

section \<open>Rounding division\<close>

text \<open>
  Rust's \<open>/\<close> and \<open>%\<close> truncate towards zero: they are \<open>sdiv\<close> and \<open>smod\<close> of
  \<open>HOL-Library.Signed_Division\<close>, and \<open>div\<close> and \<open>mod\<close> on non-negative operands.
\<close>

lemma sdiv_nonneg [simp]: "0 \<le> (a::int) \<Longrightarrow> 0 \<le> b \<Longrightarrow> a sdiv b = a div b"
  by (cases "a = 0"; cases "b = 0") (auto simp: signed_divide_int_def)

lemma smod_nonneg [simp]: "0 \<le> (a::int) \<Longrightarrow> 0 \<le> b \<Longrightarrow> a smod b = a mod b"
  by (simp add: smod_int_alt_def abs_mult sgn_if)

lemma mod_pos_iff [simp]: "0 < (b::int) \<Longrightarrow> 0 < a mod b \<longleftrightarrow> a mod b \<noteq> 0"
  by (simp only: order_less_le pos_mod_sign) auto

lemma div_mul_le: "0 < (b::int) \<Longrightarrow> a div b * b \<le> a"
  using pos_mod_sign [of b a] minus_mod_eq_div_mult [of a b] by linarith

lemma less_div_mul: "0 < (b::int) \<Longrightarrow> a < a div b * b + b"
  using pos_mod_bound [of b a] minus_mod_eq_div_mult [of a b] by linarith

lemma le_div_iff_mul:
  fixes a b q :: int
  assumes "0 < b"
  shows "q \<le> a div b \<longleftrightarrow> q * b \<le> a"
proof
  assume "q \<le> a div b"
  then have "q * b \<le> a div b * b" using assms by (intro mult_right_mono) simp_all
  then show "q * b \<le> a" using div_mul_le [OF assms, of a] by linarith
next
  assume "q * b \<le> a"
  then have "q * b div b \<le> a div b" using assms by (rule zdiv_mono1)
  then show "q \<le> a div b" using assms by simp
qed

lemma div_less_iff_mul: "0 < (b::int) \<Longrightarrow> a div b < q \<longleftrightarrow> a < q * b"
  using le_div_iff_mul [of b q a] by linarith

lemma div_nonneg: "0 \<le> (a::int) \<Longrightarrow> 0 \<le> b \<Longrightarrow> 0 \<le> a div b"
  by (simp add: div_int_pos_iff)

lemma div_le_self:
  fixes a b :: int
  assumes "0 \<le> a" "0 < b"
  shows "a div b \<le> a"
proof -
  have "a div b * 1 \<le> a div b * b"
    using assms div_nonneg [of a b] by (intro mult_left_mono) simp_all
  then show ?thesis using div_mul_le [of b a] assms by linarith
qed

text \<open>The ceiling of a quotient.\<close>

definition ceil_div :: "int \<Rightarrow> int \<Rightarrow> int" where
  "ceil_div a b = - ((- a) div b)"

lemma ceil_div_le_iff: "0 < b \<Longrightarrow> ceil_div a b \<le> q \<longleftrightarrow> a \<le> q * b"
  using le_div_iff_mul [of b "- q" "- a"] by (auto simp: ceil_div_def)

lemma less_ceil_div_iff: "0 < b \<Longrightarrow> q < ceil_div a b \<longleftrightarrow> q * b < a"
  using ceil_div_le_iff [of b a q] by linarith

lemma ceil_div_eq: "0 < b \<Longrightarrow> ceil_div a b = (if a mod b = 0 then a div b else a div b + 1)"
  by (simp add: ceil_div_def zdiv_zminus1_eq_if)

lemma div_le_ceil_div: "0 < b \<Longrightarrow> a div b \<le> ceil_div a b"
  by (simp add: ceil_div_eq)

lemma ceil_div_le_div: "0 < b \<Longrightarrow> ceil_div a b \<le> a div b + 1"
  by (simp add: ceil_div_eq)

lemma ceil_div_nonneg: "0 \<le> a \<Longrightarrow> 0 < b \<Longrightarrow> 0 \<le> ceil_div a b"
  using div_le_ceil_div [of b a] div_nonneg [of a b] by linarith

lemma ceil_div_mul_ge: "0 < b \<Longrightarrow> a \<le> ceil_div a b * b"
  using ceil_div_le_iff [of b a "ceil_div a b"] by simp

lemma ceil_div_mono: "0 < b \<Longrightarrow> a \<le> a' \<Longrightarrow> ceil_div a b \<le> ceil_div a' b"
  using ceil_div_le_iff [of b a "ceil_div a' b"] ceil_div_mul_ge [of b a'] by linarith

text \<open>Truncating division undoes an exact product; counting elements as integers.\<close>

lemma sum_of_bools:
  "0 \<le> (\<Sum>x \<leftarrow> xs. of_bool (P x) :: int)" "(\<Sum>x \<leftarrow> xs. of_bool (P x) :: int) \<le> int (length xs)"
  by (induction xs) auto

lemma member_le_sum_list_int: "x \<in> set xs \<Longrightarrow> (\<And>y. y \<in> set xs \<Longrightarrow> 0 \<le> y) \<Longrightarrow> x \<le> sum_list (xs :: int list)"
  by (induction xs) (fastforce simp: sum_list_nonneg intro: add_increasing add_increasing2)+

lemma mult_sdiv_cancel: "0 < b \<Longrightarrow> a * b sdiv b = (a :: int)"
proof (cases "0 \<le> a")
  case False
  moreover assume "0 < b"
  moreover have "- (a * b) div b = - a" using \<open>0 < b\<close> by (simp flip: mult_minus_left)
  ultimately show ?thesis by (simp add: signed_divide_int_def abs_mult sgn_mult)
qed simp

lemma sum_list_of_bool: "(\<Sum>x \<leftarrow> xs. of_bool (P x) :: int) = int (length (filter P xs))"
  by (induction xs) auto

end
