(* ===== verification/Safe_Math.thy ===== *)
theory Safe_Math
  imports Prelude
begin

text \<open>
  The checked arithmetic every other module is written in: \<open>math/safe_math.rs\<close>,
  \<open>math/casting.rs\<close>, \<open>math/ceil_div.rs\<close>, \<open>math/floor_div.rs\<close> and \<open>math/safe_unwrap.rs\<close>.
  The macros of those files generate one implementation per integer type; here the type is the
  first argument. \<open>checked_add\<close> to \<open>checked_rem\<close> are the operations of Rust's integers
  the macros call.
\<close>

section \<open>The integer operations of the language\<close>

definition checked_add :: "int_ty \<Rightarrow> int \<Rightarrow> int \<Rightarrow> int option" where
  "checked_add t a b = (if fits t (a + b) then Some (a + b) else None)"

definition checked_sub :: "int_ty \<Rightarrow> int \<Rightarrow> int \<Rightarrow> int option" where
  "checked_sub t a b = (if fits t (a - b) then Some (a - b) else None)"

definition checked_mul :: "int_ty \<Rightarrow> int \<Rightarrow> int \<Rightarrow> int option" where
  "checked_mul t a b = (if fits t (a * b) then Some (a * b) else None)"

definition checked_div :: "int_ty \<Rightarrow> int \<Rightarrow> int \<Rightarrow> int option" where
  "checked_div t a b = (if b \<noteq> 0 \<and> fits t (a sdiv b) then Some (a sdiv b) else None)"

definition checked_rem :: "int_ty \<Rightarrow> int \<Rightarrow> int \<Rightarrow> int option" where
  "checked_rem t a b = (if b \<noteq> 0 \<and> fits t (a sdiv b) then Some (a smod b) else None)"

definition saturating_sub :: "int_ty \<Rightarrow> int \<Rightarrow> int \<Rightarrow> int" where
  "saturating_sub t a b = max (ty_min t) (min (ty_max t) (a - b))"

definition saturating_add :: "int_ty \<Rightarrow> int \<Rightarrow> int \<Rightarrow> int" where
  "saturating_add t a b = max (ty_min t) (min (ty_max t) (a + b))"

definition saturating_mul :: "int_ty \<Rightarrow> int \<Rightarrow> int \<Rightarrow> int" where
  "saturating_mul t a b = max (ty_min t) (min (ty_max t) (a * b))"

definition checked_rem_euclid :: "int_ty \<Rightarrow> int \<Rightarrow> int \<Rightarrow> int option" where
  "checked_rem_euclid t a b = (if b \<noteq> 0 \<and> fits t (a sdiv b) then Some (a mod \<bar>b\<bar>) else None)"

text \<open>Plain operators: the release profile sets \<open>overflow-checks = true\<close>.\<close>

definition plain_add :: "int_ty \<Rightarrow> int \<Rightarrow> int \<Rightarrow> int result" where
  "plain_add t a b = (if fits t (a + b) then Ok (a + b) else Panic)"

definition plain_sub :: "int_ty \<Rightarrow> int \<Rightarrow> int \<Rightarrow> int result" where
  "plain_sub t a b = (if fits t (a - b) then Ok (a - b) else Panic)"

definition plain_mul :: "int_ty \<Rightarrow> int \<Rightarrow> int \<Rightarrow> int result" where
  "plain_mul t a b = (if fits t (a * b) then Ok (a * b) else Panic)"

definition plain_div :: "int_ty \<Rightarrow> int \<Rightarrow> int \<Rightarrow> int result" where
  "plain_div t a b = (if b \<noteq> 0 \<and> fits t (a sdiv b) then Ok (a sdiv b) else Panic)"

definition plain_neg :: "int_ty \<Rightarrow> int \<Rightarrow> int result" where
  "plain_neg t a = (if fits t (- a) then Ok (- a) else Panic)"

definition plain_abs :: "int_ty \<Rightarrow> int \<Rightarrow> int result" where
  "plain_abs t a = (if fits t \<bar>a\<bar> then Ok \<bar>a\<bar> else Panic)"

definition plain_pow :: "int_ty \<Rightarrow> int \<Rightarrow> int \<Rightarrow> int result" where
  "plain_pow t b n = (if fits t (b ^ nat n) then Ok (b ^ nat n) else Panic)"

section \<open>SafeMath, Cast, SafeUnwrap\<close>

definition safe_add :: "int_ty \<Rightarrow> int \<Rightarrow> int \<Rightarrow> int result" where
  "safe_add t a b = (case checked_add t a b of Some r \<Rightarrow> Ok r | None \<Rightarrow> Err MathError)"

definition safe_sub :: "int_ty \<Rightarrow> int \<Rightarrow> int \<Rightarrow> int result" where
  "safe_sub t a b = (case checked_sub t a b of Some r \<Rightarrow> Ok r | None \<Rightarrow> Err MathError)"

definition safe_mul :: "int_ty \<Rightarrow> int \<Rightarrow> int \<Rightarrow> int result" where
  "safe_mul t a b = (case checked_mul t a b of Some r \<Rightarrow> Ok r | None \<Rightarrow> Err MathError)"

definition safe_div :: "int_ty \<Rightarrow> int \<Rightarrow> int \<Rightarrow> int result" where
  "safe_div t a b = (case checked_div t a b of Some r \<Rightarrow> Ok r | None \<Rightarrow> Err MathError)"

definition checked_ceil_div :: "int_ty \<Rightarrow> int \<Rightarrow> int \<Rightarrow> int option" where
  "checked_ceil_div t a b =
     (case checked_div t a b of None \<Rightarrow> None | Some q \<Rightarrow>
      (case checked_rem t a b of None \<Rightarrow> None | Some r \<Rightarrow>
       if r > 0 then checked_add t q 1 else Some q))"

definition safe_div_ceil :: "int_ty \<Rightarrow> int \<Rightarrow> int \<Rightarrow> int result" where
  "safe_div_ceil t a b = (case checked_ceil_div t a b of Some r \<Rightarrow> Ok r | None \<Rightarrow> Err MathError)"

definition checked_floor_div :: "int_ty \<Rightarrow> int \<Rightarrow> int \<Rightarrow> int option" where
  "checked_floor_div t a b =
     (case checked_div t a b of None \<Rightarrow> None | Some q \<Rightarrow>
      (case checked_rem t a b of None \<Rightarrow> None | Some r \<Rightarrow>
       if r \<noteq> 0 then checked_sub t q 1 else Some q))"

definition safe_div_floor :: "int_ty \<Rightarrow> int \<Rightarrow> int \<Rightarrow> int result" where
  "safe_div_floor t a b = (case checked_floor_div t a b of Some r \<Rightarrow> Ok r | None \<Rightarrow> Err MathError)"

definition cast :: "int_ty \<Rightarrow> int \<Rightarrow> int result" where
  "cast t x = (if fits t x then Ok x else Err CastingFailure)"

definition safe_unwrap :: "'a option \<Rightarrow> 'a result" where
  "safe_unwrap r = (case r of Some v \<Rightarrow> Ok v | None \<Rightarrow> Err FailedUnwrap)"

lemmas safe_math_defs [eval_defs] =
  checked_add_def checked_sub_def checked_mul_def checked_div_def checked_rem_def
  saturating_sub_def saturating_add_def
  saturating_mul_def checked_rem_euclid_def plain_add_def plain_sub_def plain_mul_def plain_div_def plain_neg_def
  plain_abs_def plain_pow_def safe_add_def safe_sub_def safe_mul_def safe_div_def checked_ceil_div_def
  safe_div_ceil_def checked_floor_div_def safe_div_floor_def cast_def safe_unwrap_def

section \<open>When they return\<close>

lemma plain_Ok_iff [ok_iff]:
  "plain_add t a b = Ok c \<longleftrightarrow> c = a + b \<and> fits t c"
  "plain_sub t a b = Ok c \<longleftrightarrow> c = a - b \<and> fits t c"
  "plain_mul t a b = Ok c \<longleftrightarrow> c = a * b \<and> fits t c"
  "plain_div t a b = Ok c \<longleftrightarrow> b \<noteq> 0 \<and> c = a sdiv b \<and> fits t c"
  "plain_neg t a = Ok c \<longleftrightarrow> c = - a \<and> fits t c"
  "plain_abs t a = Ok c \<longleftrightarrow> c = \<bar>a\<bar> \<and> fits t c"
  "plain_pow t a n = Ok c \<longleftrightarrow> c = a ^ nat n \<and> fits t c"
  by (auto simp: plain_add_def plain_sub_def plain_mul_def plain_div_def plain_neg_def plain_abs_def plain_pow_def)

lemma checked_rem_euclid_iff [ok_iff]:
  "0 \<le> a \<Longrightarrow> fits t a \<Longrightarrow> 0 < b \<Longrightarrow> checked_rem_euclid t a b = Some r \<longleftrightarrow> r = a mod b"
  "checked_rem_euclid t a 0 = Some r \<longleftrightarrow> False"
  using div_le_self [of a b] pos_imp_zdiv_nonneg_iff [of b a] ty_range(1) [of t]
  by (auto simp: checked_rem_euclid_def fits_def)

lemma safe_add_Ok_iff [ok_iff]: "safe_add t a b = Ok c \<longleftrightarrow> c = a + b \<and> fits t c"
  by (auto simp: safe_add_def checked_add_def)

lemma safe_sub_Ok_iff [ok_iff]: "safe_sub t a b = Ok c \<longleftrightarrow> c = a - b \<and> fits t c"
  by (auto simp: safe_sub_def checked_sub_def)

lemma safe_mul_Ok_iff [ok_iff]: "safe_mul t a b = Ok c \<longleftrightarrow> c = a * b \<and> fits t c"
  by (auto simp: safe_mul_def checked_mul_def)

lemma safe_div_Ok_iff [ok_iff]: "safe_div t a b = Ok c \<longleftrightarrow> b \<noteq> 0 \<and> c = a sdiv b \<and> fits t c"
  by (auto simp: safe_div_def checked_div_def)

lemma cast_Ok_iff [ok_iff]: "cast t x = Ok y \<longleftrightarrow> y = x \<and> fits t x"
  by (auto simp: cast_def)

lemma safe_unwrap_Ok_iff [ok_iff]: "safe_unwrap r = Ok x \<longleftrightarrow> r = Some x"
  by (simp add: safe_unwrap_def split: option.split)

lemma checked_div_Some_iff [ok_iff]:
  "checked_div t a b = Some c \<longleftrightarrow> b \<noteq> 0 \<and> c = a sdiv b \<and> fits t c"
  by (auto simp: checked_div_def)

text \<open>On non-negative operands the signed q is \<open>div\<close>, and it always fits.\<close>

lemma fits_div: "fits t a \<Longrightarrow> 0 \<le> a \<Longrightarrow> 0 < b \<Longrightarrow> fits t (a div b)"
  by (rule fits_mono_unsigned [of t a]) (simp_all add: div_nonneg div_le_self)

lemma safe_div_nonneg [simp]:
  assumes "0 \<le> a" "0 < b" "fits t a"
  shows "safe_div t a b = Ok (a div b)"
  using assms fits_div [of t a b] by (simp add: safe_div_def checked_div_def)

text \<open>\<open>safe_div_ceil\<close> on non-negative operands is the ceiling.\<close>

lemma safe_div_ceil_nonneg:
  assumes "0 \<le> a" "0 < b" "fits t a"
  shows "safe_div_ceil t a b = (if fits t (ceil_div a b) then Ok (ceil_div a b) else Err MathError)"
  using assms fits_div [of t a b]
  by (auto simp: ceil_div_eq safe_div_ceil_def checked_ceil_div_def checked_div_def
      checked_rem_def checked_add_def)

lemma safe_div_ceil_Ok_iff:
  assumes "0 \<le> a" "0 \<le> b" "fits t a"
  shows "safe_div_ceil t a b = Ok c \<longleftrightarrow> 0 < b \<and> c = ceil_div a b \<and> fits t c"
proof (cases "b = 0")
  case True
  then show ?thesis by (simp add: safe_div_ceil_def checked_ceil_div_def checked_div_def)
next
  case False
  then show ?thesis using assms by (auto simp: safe_div_ceil_nonneg)
qed

text \<open>
  \<open>safe_div_floor\<close> of a negative dividend by a positive divisor is the floor. On a positive
  dividend that the divisor does not divide it is one less than the floor.
\<close>

lemma neg_sdiv: "a < 0 \<Longrightarrow> 0 < b \<Longrightarrow> a sdiv b = ceil_div a b"
  by (simp add: signed_divide_int_def ceil_div_def)

lemma neg_smod: "(a::int) < 0 \<Longrightarrow> 0 < b \<Longrightarrow> a smod b = - ((- a) mod b)"
  by (simp add: smod_int_alt_def)

lemma safe_div_floor_neg_Ok_iff:
  assumes "a < 0" "0 < b" "fits t a"
  shows "safe_div_floor t a b = Ok c \<longleftrightarrow> c = a div b \<and> fits t c"
proof -
  have "ty_min t < 0" using assms by (auto simp: fits_def)
  moreover have "a \<le> ceil_div a b" "ceil_div a b \<le> 0"
    using assms ceil_div_le_iff [of b a 0] div_le_self [of "- a" b] by (auto simp: ceil_div_def)
  ultimately have q: "fits t (ceil_div a b)" using assms ty_range(2) [of t] by (auto simp: fits_def)
  have fl: "a div b = (if (- a) mod b = 0 then ceil_div a b else ceil_div a b - 1)"
    using assms by (simp add: ceil_div_def zdiv_zminus1_eq_if [of b "- a", simplified] zmod_zminus1_eq_if)
  show ?thesis using assms q fl
    by (auto simp: safe_div_floor_def checked_floor_div_def checked_div_def checked_rem_def
        checked_sub_def neg_sdiv neg_smod)
qed

lemma safe_div_floor_pos:
  assumes "0 \<le> a" "0 < b" "fits t a" "ty_min t < 0"
  shows "safe_div_floor t a b = Ok (if b dvd a then a div b else a div b - 1)"
proof -
  have "fits t (a div b - 1)"
    using fits_div [of t a b] assms div_nonneg [of a b] by (auto simp: fits_def)
  then show ?thesis using assms fits_div [of t a b]
    by (auto simp: safe_div_floor_def checked_floor_div_def checked_div_def checked_rem_def
        checked_sub_def dvd_eq_mod_eq_0)
qed

lemma fits_saturating [simp]: "fits t (saturating_sub t a b)" "fits t (saturating_add t a b)"
  by (cases t; simp add: saturating_sub_def saturating_add_def fits_def)+

end
