(* ===== verification/Constants.thy ===== *)
theory Constants
  imports Main
begin

text \<open>
  The constants of \<open>math/constants.rs\<close> the modelled components use. The source declares one
  copy per integer type (\<open>PRICE_PRECISION\<close>, \<open>PRICE_PRECISION_I64\<close>, ...); a value is an
  \<open>int\<close> here, so one name stands for all of them.
\<close>

abbreviation (input) QUOTE_SPOT_MARKET_INDEX :: int where "QUOTE_SPOT_MARKET_INDEX \<equiv> 0"
abbreviation (input) AMM_RESERVE_PRECISION :: int where "AMM_RESERVE_PRECISION \<equiv> 1000000000"
abbreviation (input) BASE_PRECISION :: int where "BASE_PRECISION \<equiv> 1000000000"
abbreviation (input) PRICE_PRECISION :: int where "PRICE_PRECISION \<equiv> 1000000"
abbreviation (input) PEG_PRECISION :: int where "PEG_PRECISION \<equiv> 1000000"
abbreviation (input) QUOTE_PRECISION :: int where "QUOTE_PRECISION \<equiv> 1000000"
abbreviation (input) MARGIN_PRECISION :: int where "MARGIN_PRECISION \<equiv> 10000"
abbreviation (input) SPOT_WEIGHT_PRECISION :: int where "SPOT_WEIGHT_PRECISION \<equiv> 10000"
abbreviation (input) BPS_PRECISION :: int where "BPS_PRECISION \<equiv> 10000"
abbreviation (input) SPOT_BALANCE_PRECISION :: int where "SPOT_BALANCE_PRECISION \<equiv> 1000000000"
abbreviation (input) SPOT_CUMULATIVE_INTEREST_PRECISION :: int where
  "SPOT_CUMULATIVE_INTEREST_PRECISION \<equiv> 10000000000"
abbreviation (input) PERCENTAGE_PRECISION :: int where "PERCENTAGE_PRECISION \<equiv> 1000000"
abbreviation (input) IF_FACTOR_PRECISION :: int where "IF_FACTOR_PRECISION \<equiv> 1000000"
abbreviation (input) SPOT_UTILIZATION_PRECISION :: int where "SPOT_UTILIZATION_PRECISION \<equiv> 1000000"
abbreviation (input) SPOT_RATE_PRECISION :: int where "SPOT_RATE_PRECISION \<equiv> 1000000"
abbreviation (input) LIQUIDATION_FEE_PRECISION :: int where "LIQUIDATION_FEE_PRECISION \<equiv> 1000000"
abbreviation (input) AMM_TO_QUOTE_PRECISION_RATIO :: int where "AMM_TO_QUOTE_PRECISION_RATIO \<equiv> 1000"
abbreviation (input) AMM_TIMES_PEG_TO_QUOTE_PRECISION_RATIO :: int where
  "AMM_TIMES_PEG_TO_QUOTE_PRECISION_RATIO \<equiv> 1000000000"
abbreviation (input) FUNDING_RATE_BUFFER :: int where "FUNDING_RATE_BUFFER \<equiv> 1000"
abbreviation (input) FUNDING_RATE_PRECISION :: int where "FUNDING_RATE_PRECISION \<equiv> 1000000000"
abbreviation (input) ONE_MINUTE :: int where "ONE_MINUTE \<equiv> 60"
abbreviation (input) FIVE_MINUTE :: int where "FIVE_MINUTE \<equiv> 300"
abbreviation (input) ONE_HOUR :: int where "ONE_HOUR \<equiv> 3600"
abbreviation (input) TWENTY_FOUR_HOUR :: int where "TWENTY_FOUR_HOUR \<equiv> 86400"
abbreviation (input) ONE_YEAR :: int where "ONE_YEAR \<equiv> 31536000"
abbreviation (input) SPOT_MARKET_TOKEN_TWAP_WINDOW :: int where "SPOT_MARKET_TOKEN_TWAP_WINDOW \<equiv> 86400"
abbreviation (input) OPEN_ORDER_MARGIN_REQUIREMENT :: int where "OPEN_ORDER_MARGIN_REQUIREMENT \<equiv> 10000"
abbreviation (input) MAX_WITHDRAW_GUARD_THRESHOLD_NOTIONAL :: int where
  "MAX_WITHDRAW_GUARD_THRESHOLD_NOTIONAL \<equiv> 10000000000"
abbreviation (input) DEFAULT_MAX_TWAP_UPDATE_PRICE_BAND_DENOMINATOR :: int where
  "DEFAULT_MAX_TWAP_UPDATE_PRICE_BAND_DENOMINATOR \<equiv> 3"
abbreviation (input) MAX_APR_PER_REVENUE_SETTLE_TO_INSURANCE_FUND_VAULT :: int where
  "MAX_APR_PER_REVENUE_SETTLE_TO_INSURANCE_FUND_VAULT \<equiv> 10000000"

abbreviation (input) PERP_DECIMALS :: int where "PERP_DECIMALS \<equiv> 9"
abbreviation (input) PRICE_TIMES_AMM_TO_QUOTE_PRECISION_RATIO :: int where
  "PRICE_TIMES_AMM_TO_QUOTE_PRECISION_RATIO \<equiv> 1000000000"
abbreviation (input) FEE_ADJUSTMENT_MAX :: int where "FEE_ADJUSTMENT_MAX \<equiv> 100"
abbreviation (input) MAX_BASE_ASSET_AMOUNT_WITH_AMM :: int where
  "MAX_BASE_ASSET_AMOUNT_WITH_AMM \<equiv> 400000000000000000"
abbreviation (input) AUCTION_DERIVE_PRICE_FRACTION :: int where "AUCTION_DERIVE_PRICE_FRACTION \<equiv> 200"
abbreviation (input) BID_ASK_SPREAD_PRECISION :: int where "BID_ASK_SPREAD_PRECISION \<equiv> 1000000"
abbreviation (input) TEN_BPS :: int where "TEN_BPS \<equiv> 1000"
abbreviation (input) CONCENTRATION_PRECISION :: int where "CONCENTRATION_PRECISION \<equiv> 1000000"
abbreviation (input) SPOT_IMF_PRECISION :: int where "SPOT_IMF_PRECISION \<equiv> 1000000"
abbreviation (input) K_BPS_UPDATE_SCALE :: int where "K_BPS_UPDATE_SCALE \<equiv> 1000000"
abbreviation (input) PEG_BPS_UPDATE_SCALE :: int where "PEG_BPS_UPDATE_SCALE \<equiv> 1000000"
abbreviation (input) PRICE_TO_PEG_PRECISION_RATIO :: int where
  "PRICE_TO_PEG_PRECISION_RATIO \<equiv> 1"
abbreviation (input) QUOTE_TO_BASE_AMT_FUNDING_PRECISION :: int where
  "QUOTE_TO_BASE_AMT_FUNDING_PRECISION \<equiv> 1000000000000"
abbreviation (input) PRICE_TO_QUOTE_PRECISION_RATIO :: int where
  "PRICE_TO_QUOTE_PRECISION_RATIO \<equiv> 1"
abbreviation (input) LIQUIDATION_FEE_TO_MARGIN_PRECISION_RATIO :: int where
  "LIQUIDATION_FEE_TO_MARGIN_PRECISION_RATIO \<equiv> 100"
abbreviation (input) FUNDING_RATE_TO_QUOTE_PRECISION_PRECISION_RATIO :: int where
  "FUNDING_RATE_TO_QUOTE_PRECISION_PRECISION_RATIO \<equiv> 1000"
abbreviation (input) LIQUIDATION_PCT_PRECISION :: int where
  "LIQUIDATION_PCT_PRECISION \<equiv> 10000"
abbreviation (input) THIRTEEN_DAY :: int where "THIRTEEN_DAY \<equiv> 1123200"
abbreviation (input) MAX_SPOT_INTEREST_UNDERSTATEMENT_FOR_MARGIN :: int where
  "MAX_SPOT_INTEREST_UNDERSTATEMENT_FOR_MARGIN \<equiv> 100"
abbreviation (input) MAX_SPOT_INTEREST_STALENESS_FOR_MARGIN :: int where
  "MAX_SPOT_INTEREST_STALENESS_FOR_MARGIN \<equiv> 3600"
abbreviation (input) EPOCH_DURATION :: int where "EPOCH_DURATION \<equiv> 2419200"
abbreviation (input) THIRTY_DAY :: int where "THIRTY_DAY \<equiv> 2592000"
abbreviation (input) MARK_TWAP_RESEED_FUNDING_PERIODS :: int where
  "MARK_TWAP_RESEED_FUNDING_PERIODS \<equiv> 3"
abbreviation (input) TRIGGER_PRICE_LAST_FILL_MAX_AGE :: int where
  "TRIGGER_PRICE_LAST_FILL_MAX_AGE \<equiv> 300"
abbreviation (input) INSURANCE_A_MAX :: int where "INSURANCE_A_MAX \<equiv> 100000000000000"
abbreviation (input) INSURANCE_B_MAX :: int where "INSURANCE_B_MAX \<equiv> 1000000000000"
abbreviation (input) INSURANCE_C_MAX :: int where "INSURANCE_C_MAX \<equiv> 100000000000"
abbreviation (input) INSURANCE_SPECULATIVE_MAX :: int where "INSURANCE_SPECULATIVE_MAX \<equiv> 0"
abbreviation (input) FEE_POOL_TO_REVENUE_POOL_THRESHOLD :: int where
  "FEE_POOL_TO_REVENUE_POOL_THRESHOLD \<equiv> 250000000"
abbreviation (input) ONE_BPS_DENOMINATOR :: int where "ONE_BPS_DENOMINATOR \<equiv> 10000"
abbreviation (input) LP_FEE_SLICE_NUMERATOR :: int where "LP_FEE_SLICE_NUMERATOR \<equiv> 8"
abbreviation (input) LP_FEE_SLICE_DENOMINATOR :: int where "LP_FEE_SLICE_DENOMINATOR \<equiv> 10"
abbreviation (input) FEE_DENOMINATOR :: int where "FEE_DENOMINATOR \<equiv> 100000"
abbreviation (input) FEE_PERCENTAGE_DENOMINATOR :: int where
  "FEE_PERCENTAGE_DENOMINATOR \<equiv> 100"
abbreviation (input) ACCELERATED_REFERRER_REWARD_NUMERATOR :: int where
  "ACCELERATED_REFERRER_REWARD_NUMERATOR \<equiv> 20"
abbreviation (input) MAX_BUILDER_FEE_TENTH_BPS :: int where
  "MAX_BUILDER_FEE_TENTH_BPS \<equiv> 1000"
abbreviation (input) MAX_TAKER_FEE_ADDON_TENTH_BPS :: int where
  "MAX_TAKER_FEE_ADDON_TENTH_BPS \<equiv> 100"
abbreviation (input) PERP_FEE_TIER_MAX_INDEX :: int where "PERP_FEE_TIER_MAX_INDEX \<equiv> 3"
abbreviation (input) EQUITY_FLOOR_SWAP_MAX_VALUE_LOSS_BPS :: int where
  "EQUITY_FLOOR_SWAP_MAX_VALUE_LOSS_BPS \<equiv> 100"
abbreviation (input) MAX_K_BPS_INCREASE :: int where "MAX_K_BPS_INCREASE \<equiv> 1000"
abbreviation (input) MAX_K_BPS_DECREASE :: int where "MAX_K_BPS_DECREASE \<equiv> 22000"
abbreviation (input) MAX_SQRT_K :: int where "MAX_SQRT_K \<equiv> 1000000000000000000000"
abbreviation (input) MAX_PEG_BPS_INCREASE :: int where "MAX_PEG_BPS_INCREASE \<equiv> 1000"
abbreviation (input) MAX_PEG_BPS_DECREASE :: int where "MAX_PEG_BPS_DECREASE \<equiv> 1000"
abbreviation (input) MAX_CONCENTRATION_COEFFICIENT :: int where
  "MAX_CONCENTRATION_COEFFICIENT \<equiv> 1414200"
abbreviation (input) MAX_LIQUIDATION_MULTIPLIER :: int where "MAX_LIQUIDATION_MULTIPLIER \<equiv> 3"
abbreviation (input) LIQUIDATION_FEE_INCREASE_PER_PERIOD :: int where
  "LIQUIDATION_FEE_INCREASE_PER_PERIOD \<equiv> 1"
abbreviation (input) MAX_LIQUIDATION_SLIPPAGE :: int where "MAX_LIQUIDATION_SLIPPAGE \<equiv> 10000"
abbreviation (input) MAX_MARK_TWAP_DIVERGENCE :: int where
  "MAX_MARK_TWAP_DIVERGENCE \<equiv> 500000"
abbreviation (input) MAX_MARGIN_RATIO :: int where "MAX_MARGIN_RATIO \<equiv> 10000"
abbreviation (input) MIN_MARGIN_RATIO :: int where "MIN_MARGIN_RATIO \<equiv> 125"
abbreviation (input) MAX_BID_ASK_INVENTORY_SKEW_FACTOR :: int where
  "MAX_BID_ASK_INVENTORY_SKEW_FACTOR \<equiv> 10000000"
abbreviation (input) LAZER_CONF_FLOOR_DIVISOR :: int where "LAZER_CONF_FLOOR_DIVISOR \<equiv> 500"
abbreviation (input) LAZER_CONF_FLOOR_PCT :: int where "LAZER_CONF_FLOOR_PCT \<equiv> 2000"
abbreviation (input) SPREAD_CONF_DISCOUNT_DIVISOR :: int where
  "SPREAD_CONF_DISCOUNT_DIVISOR \<equiv> 20"
abbreviation (input) SPREAD_VOL_STD_DISCOUNT_DIVISOR :: int where
  "SPREAD_VOL_STD_DISCOUNT_DIVISOR \<equiv> 4"
abbreviation (input) SPREAD_REVENUE_RETREAT_MAX_DIVISOR :: int where
  "SPREAD_REVENUE_RETREAT_MAX_DIVISOR \<equiv> 10"
abbreviation (input) REFERENCE_PRICE_OFFSET_FULL_INVENTORY_PCT :: int where
  "REFERENCE_PRICE_OFFSET_FULL_INVENTORY_PCT \<equiv> 100000"
abbreviation (input) BID_ASK_TWAP_MAX_ORACLE_DIVERGENCE_PERCENT :: int where
  "BID_ASK_TWAP_MAX_ORACLE_DIVERGENCE_PERCENT \<equiv> 15"
abbreviation (input) BID_ASK_TWAP_MIN_QUOTE_REST :: int where
  "BID_ASK_TWAP_MIN_QUOTE_REST \<equiv> 9600"
abbreviation (input) MAX_POSITIVE_UPNL_FOR_INITIAL_MARGIN :: int where
  "MAX_POSITIVE_UPNL_FOR_INITIAL_MARGIN \<equiv> 100000000"
abbreviation (input) DEFAULT_REVENUE_SINCE_LAST_FUNDING_SPREAD_RETREAT :: int where
  "DEFAULT_REVENUE_SINCE_LAST_FUNDING_SPREAD_RETREAT \<equiv> - 25000000"
abbreviation (input) DEFAULT_BANKRUPTCY_IF_FLOOR_PCT :: int where
  "DEFAULT_BANKRUPTCY_IF_FLOOR_PCT \<equiv> 1000"
abbreviation (input) BANKRUPTCY_IF_FLOOR_DISABLED :: int where
  "BANKRUPTCY_IF_FLOOR_DISABLED \<equiv> 4294967295"
abbreviation (input) DEFAULT_LARGE_BID_ASK_FACTOR :: int where
  "DEFAULT_LARGE_BID_ASK_FACTOR \<equiv> 10000000"
abbreviation (input) DEFAULT_LIQUIDATION_MARGIN_BUFFER_RATIO :: int where
  "DEFAULT_LIQUIDATION_MARGIN_BUFFER_RATIO \<equiv> 200"
abbreviation (input) FUNDING_RATE_OFFSET_DENOMINATOR :: int where
  "FUNDING_RATE_OFFSET_DENOMINATOR \<equiv> 3333"
abbreviation (input) FUNDING_RATE_OFFSET_PERCENTAGE :: int where
  "FUNDING_RATE_OFFSET_PERCENTAGE \<equiv> 300030"
abbreviation (input) FUNDING_RATE_CLAMP_DENOMINATOR :: int where
  "FUNDING_RATE_CLAMP_DENOMINATOR \<equiv> 2000"
abbreviation (input) MM_ORACLE_MIN_WRITE_GAP :: int where "MM_ORACLE_MIN_WRITE_GAP \<equiv> 800"
abbreviation (input) MM_ORACLE_MAX_STEP_PCT_PRECISION :: int where
  "MM_ORACLE_MAX_STEP_PCT_PRECISION \<equiv> 10000"
abbreviation (input) MM_ORACLE_MAX_SOURCE_AGE :: int where "MM_ORACLE_MAX_SOURCE_AGE \<equiv> 800"
abbreviation (input) SHARE_OF_IF_ESCROW_ALLOCATED_TO_PROTOCOL_NUMERATOR :: int where
  "SHARE_OF_IF_ESCROW_ALLOCATED_TO_PROTOCOL_NUMERATOR \<equiv> 1"
abbreviation (input) SHARE_OF_IF_ESCROW_ALLOCATED_TO_PROTOCOL_DENOMINATOR :: int where
  "SHARE_OF_IF_ESCROW_ALLOCATED_TO_PROTOCOL_DENOMINATOR \<equiv> 2"
abbreviation (input) SHARE_OF_REVENUE_ALLOCATED_TO_INSURANCE_FUND_VAULT_NUMERATOR :: int where
  "SHARE_OF_REVENUE_ALLOCATED_TO_INSURANCE_FUND_VAULT_NUMERATOR \<equiv> 1"
abbreviation (input) SHARE_OF_REVENUE_ALLOCATED_TO_INSURANCE_FUND_VAULT_DENOMINATOR :: int where
  "SHARE_OF_REVENUE_ALLOCATED_TO_INSURANCE_FUND_VAULT_DENOMINATOR \<equiv> 1"

end
