(* ===== verification/Math_Helpers.thy ===== *)
theory Math_Helpers
  imports Safe_Math Constants
begin

text \<open>
  \<open>math/helpers.rs\<close> (proportions, the on-the-hour schedule, the decimal logarithm),
  \<open>math/stats.rs\<close> (time-weighted averages and the leaky rolling sum) and
  \<open>math/quote_asset.rs\<close>. The results: a proportion is the exact floor in all four branches of
  its overflow-avoiding implementation, an average lies within one unit of its two data, a
  funding schedule lands on a multiple of its period.
\<close>

section \<open>Definitions\<close>

definition standardize_value_with_remainder_i128 :: "int \<Rightarrow> int \<Rightarrow> (int \<times> int) result" where
  "standardize_value_with_remainder_i128 value step_size =
     and_then (if step_size = 0 then Err MathError else Ok (\<bar>value\<bar> mod step_size)) (\<lambda>rem.
     and_then (cast I128 rem) (\<lambda>rem.
     and_then (safe_mul I128 rem (sgn value)) (\<lambda>remainder.
     and_then (safe_sub I128 value remainder) (\<lambda>standardized_value.
     Ok (standardized_value, remainder)))))"

definition get_proportion_u128 :: "int \<Rightarrow> int \<Rightarrow> int \<Rightarrow> int result" where
  "get_proportion_u128 value numerator denominator =
     and_then (cast U128 (ty_max U64)) (\<lambda>large_constant.
     if numerator = denominator then Ok value
     else if value \<ge> large_constant \<or> numerator \<ge> large_constant then
       and_then (safe_mul U192 value numerator) (\<lambda>v.
       and_then (safe_div U192 v denominator) (\<lambda>v. cast U128 v))
     else if numerator > denominator div 2 \<and> denominator > numerator then
       and_then (safe_sub U128 denominator numerator) (\<lambda>rest.
       and_then (safe_mul U128 value rest) (\<lambda>v.
       and_then (cast I128 v) (\<lambda>v.
       and_then (standardize_value_with_remainder_i128 v denominator) (\<lambda>(std_value, r).
       and_then (cast U128 std_value) (\<lambda>std_value.
       and_then (safe_div U128 std_value denominator) (\<lambda>q.
       and_then (safe_sub U128 value q) (\<lambda>v.
       and_then (cast U128 (sgn r)) (\<lambda>s.
       safe_sub U128 v s))))))))
     else
       and_then (safe_mul U128 value numerator) (\<lambda>v. safe_div U128 v denominator))"

definition get_proportion_i128 :: "int \<Rightarrow> int \<Rightarrow> int \<Rightarrow> int result" where
  "get_proportion_i128 value numerator denominator =
     and_then (get_proportion_u128 \<bar>value\<bar> numerator denominator) (\<lambda>p.
     and_then (cast I128 p) (\<lambda>p.
     safe_mul I128 p (sgn value)))"

definition on_the_hour_update :: "int \<Rightarrow> int \<Rightarrow> int \<Rightarrow> int result" where
  "on_the_hour_update now last_update_ts update_period =
     and_then (safe_sub I64 now last_update_ts) (\<lambda>time_since_last_update.
     and_then
       (if update_period > 1 then
          (let last_update_delay = last_update_ts mod update_period in
           if last_update_delay \<noteq> 0 then
             and_then (safe_div I64 update_period 3) (\<lambda>max_delay_for_next_period.
             and_then (safe_mul I64 update_period 2) (\<lambda>two_funding_periods.
             and_then
               (if last_update_delay > max_delay_for_next_period
                then safe_sub I64 two_funding_periods last_update_delay
                else safe_sub I64 update_period last_update_delay) (\<lambda>next_update_wait.
             if next_update_wait > two_funding_periods
             then safe_sub I64 next_update_wait update_period
             else Ok next_update_wait)))
           else Ok update_period)
        else Ok update_period) (\<lambda>next_update_wait.
     and_then (safe_sub I64 next_update_wait time_since_last_update) (\<lambda>rest.
     Ok (max rest 0))))"

text \<open>The \<open>while\<close> loop of \<open>log10_iter\<close>; its counter stays below 39 on \<open>u128\<close>.\<close>

function log10_loop :: "int \<Rightarrow> int \<Rightarrow> int" where
  "log10_loop result n_copy = (if n_copy \<ge> 10 then log10_loop (result + 1) (n_copy sdiv 10) else result)"
  by pat_completeness auto
termination
  by (relation "measure (\<lambda>(result, n_copy). nat n_copy)") auto

declare log10_loop.simps [simp del]

definition log10_iter :: "int \<Rightarrow> int" where
  "log10_iter n = log10_loop 0 n"

definition calculate_rolling_sum :: "int \<Rightarrow> int \<Rightarrow> int \<Rightarrow> int \<Rightarrow> int result" where
  "calculate_rolling_sum data1 data2 weight1_numer weight1_denom =
     and_then (cast U128 data1) (\<lambda>d1.
     and_then (safe_sub I64 weight1_denom weight1_numer) (\<lambda>diff.
     and_then (cast U128 (max 0 diff)) (\<lambda>w.
     and_then (safe_mul U128 d1 w) (\<lambda>v.
     and_then (cast U128 weight1_denom) (\<lambda>denom.
     and_then (safe_div U128 v denom) (\<lambda>prev_twap_99.
     and_then (cast U64 prev_twap_99) (\<lambda>p.
     safe_add U64 p data2)))))))"

definition calculate_weighted_average ::
  "int \<Rightarrow> int \<Rightarrow> int \<Rightarrow> int \<Rightarrow> int option \<Rightarrow> int result" where
  "calculate_weighted_average data1 data2 weight1 weight2 bias =
     and_then (safe_add I64 weight1 weight2) (\<lambda>d.
     and_then (cast I128 d) (\<lambda>denominator.
     and_then (safe_mul I128 data1 weight1) (\<lambda>prev_twap_99.
     and_then (safe_mul I128 data2 weight2) (\<lambda>latest_price_01.
     if weight1 = 0 then Ok data2
     else if weight2 = 0 then Ok data1
     else
       (let bias = (case bias of Some b \<Rightarrow> b
          | None \<Rightarrow>
              if weight2 > 1 then
                (if latest_price_01 < prev_twap_99 then - 1
                 else if latest_price_01 > prev_twap_99 then 1 else 0)
              else 0) in
        and_then (safe_add I128 prev_twap_99 latest_price_01) (\<lambda>s.
        and_then (safe_div I128 s denominator) (\<lambda>q.
        and_then (cast I64 q) (\<lambda>twap.
        if twap = 0 \<and> bias < 0 then Ok twap else safe_add I64 twap bias))))))))"

definition calculate_new_twap :: "int \<Rightarrow> int \<Rightarrow> int \<Rightarrow> int \<Rightarrow> int \<Rightarrow> int result" where
  "calculate_new_twap current_price current_ts last_twap last_ts period =
     and_then (safe_sub I64 current_ts last_ts) (\<lambda>d.
     let since_last = max 0 d in
     and_then (safe_sub I64 period since_last) (\<lambda>f.
     let from_start = max 1 f in
     calculate_weighted_average current_price last_twap since_last from_start None))"

definition roll_std :: "int \<Rightarrow> int \<Rightarrow> int \<Rightarrow> int \<Rightarrow> int \<Rightarrow> int \<Rightarrow> int result" where
  "roll_std prev last_ts now price ewma ewma_5min =
     and_then (safe_sub I64 now last_ts) (\<lambda>d.
     let since_last = max 1 d in
     and_then (cast I64 price) (\<lambda>p.
     and_then (cast I64 ewma) (\<lambda>e.
     and_then (safe_sub I64 p e) (\<lambda>change.
     and_then (cast I64 ewma_5min) (\<lambda>e5.
     and_then (safe_sub I64 p e5) (\<lambda>change_5min.
     let price_change_abs = max \<bar>change\<bar> \<bar>change_5min\<bar> in
     calculate_rolling_sum prev price_change_abs (max ONE_HOUR since_last) ONE_HOUR))))))"

definition reserve_to_asset_amount :: "int \<Rightarrow> int \<Rightarrow> int result" where
  "reserve_to_asset_amount quote_asset_reserve peg_multiplier =
     and_then (safe_mul U128 quote_asset_reserve peg_multiplier) (\<lambda>v.
     plain_div U128 v AMM_TIMES_PEG_TO_QUOTE_PRECISION_RATIO)"

definition asset_to_reserve_amount :: "int \<Rightarrow> int \<Rightarrow> int result" where
  "asset_to_reserve_amount quote_asset_amount peg_multiplier =
     and_then (safe_mul U128 quote_asset_amount AMM_TIMES_PEG_TO_QUOTE_PRECISION_RATIO) (\<lambda>v.
     plain_div U128 v peg_multiplier)"

lemmas math_helpers_defs [eval_defs] =
  standardize_value_with_remainder_i128_def get_proportion_u128_def get_proportion_i128_def
  on_the_hour_update_def log10_iter_def calculate_rolling_sum_def calculate_weighted_average_def
  calculate_new_twap_def roll_std_def reserve_to_asset_amount_def asset_to_reserve_amount_def Let_def

section \<open>Proportions\<close>

lemma standardize_value_with_remainder_i128_nonneg:
  assumes "0 \<le> value" "0 < step" "fits I128 value"
  shows "standardize_value_with_remainder_i128 value step =
    Ok (value - value mod step, if value = 0 then 0 else value mod step)"
proof -
  have m: "0 \<le> value mod step" "value mod step \<le> value"
    using assms by (simp_all add: zmod_le_nonneg_dividend)
  then have "fits I128 (value mod step)" "fits I128 (value - value mod step)"
    using assms by (auto intro: fits_mono_unsigned [of I128 "value"])
  moreover have "sgn value = (if value = 0 then 0 else 1)" "\<bar>value\<bar> = value"
    using assms by (simp_all add: sgn_if)
  ultimately show ?thesis using assms
    by (simp add: standardize_value_with_remainder_i128_def cast_def safe_mul_def checked_mul_def
        safe_sub_def checked_sub_def)
qed

text \<open>The branch that subtracts a rounded-up complement is the floor of the proportion too.\<close>

lemma complement_floor:
  fixes v n d :: int
  assumes "0 < d" and x: "x = v * (d - n)"
  shows "v - (x - x mod d) div d - sgn (x mod d) = v * n div d"
proof -
  have "v * n div d = v + (- x) div d"
  proof -
    have "v * n = - x + v * d" by (simp add: x algebra_simps)
    then have "v * n div d = (- x + v * d) div d" by (rule arg_cong)
    also have "\<dots> = v + (- x) div d" using assms(1) by (intro div_mult_self1) simp
    finally show ?thesis .
  qed
  also have "(- x) div d = - ceil_div x d" by (simp add: ceil_div_def)
  also have "ceil_div x d = x div d + sgn (x mod d)"
    using assms(1) by (simp add: ceil_div_eq sgn_if)
  finally show ?thesis by (simp add: minus_mod_eq_div_mult)
qed

lemma get_proportion_u128_Ok:
  assumes "get_proportion_u128 v n d = Ok r" "0 \<le> v" "0 \<le> n" "0 < d"
  shows "r = v * n div d"
proof -
  consider (eq) "n = d"
    | (wide) "n \<noteq> d" "v \<ge> ty_max U64 \<or> n \<ge> ty_max U64"
    | (compl) "n \<noteq> d" "\<not> (v \<ge> ty_max U64 \<or> n \<ge> ty_max U64)" "n > d div 2 \<and> d > n"
    | (plain) "n \<noteq> d" "\<not> (v \<ge> ty_max U64 \<or> n \<ge> ty_max U64)" "\<not> (n > d div 2 \<and> d > n)"
    by blast
  then show ?thesis
  proof cases
    case eq
    then show ?thesis using assms by (auto simp: get_proportion_u128_def ok_iff)
  next
    case wide
    then show ?thesis using assms by (auto simp: get_proportion_u128_def ok_iff)
  next
    case plain
    then show ?thesis using assms
      by (auto simp: get_proportion_u128_def ok_iff simp del: ty_max.simps)
  next
    case compl
    let ?x = "v * (d - n)"
    from compl assms have x: "fits I128 ?x" "0 \<le> ?x"
      by (auto simp: get_proportion_u128_def ok_iff simp del: ty_max.simps)
    have "standardize_value_with_remainder_i128 ?x d =
        Ok (?x - ?x mod d, if ?x = 0 then 0 else ?x mod d)"
      using x assms by (intro standardize_value_with_remainder_i128_nonneg) simp_all
    moreover have "(if ?x = 0 then 0 else ?x mod d) = ?x mod d" by simp
    ultimately have st: "standardize_value_with_remainder_i128 ?x d = Ok (?x - ?x mod d, ?x mod d)"
      by metis
    have nn: "0 \<le> ?x - ?x mod d" using x assms by (simp add: zmod_le_nonneg_dividend)
    have "r = v - (?x - ?x mod d) div d - sgn (?x mod d)"
      using compl assms nn
      by (auto simp: get_proportion_u128_def ok_iff st simp del: ty_max.simps)
    then show ?thesis using complement_floor [of d ?x v n] assms by simp
  qed
qed

section \<open>Averages\<close>

lemma sdiv_between:
  fixes a b lo hi :: int
  assumes "0 < b" "lo * b \<le> a" "a \<le> hi * b"
  shows "lo \<le> a sdiv b" "a sdiv b \<le> hi"
proof -
  have "a div b \<le> a sdiv b \<and> a sdiv b \<le> ceil_div a b"
    using assms(1) div_le_ceil_div [of b a] by (cases "a < 0") (simp_all add: neg_sdiv)
  moreover have "lo \<le> a div b" using assms by (simp add: le_div_iff_mul)
  moreover have "ceil_div a b \<le> hi" using assms by (simp add: ceil_div_le_iff)
  ultimately show "lo \<le> a sdiv b" "a sdiv b \<le> hi" by linarith+
qed

lemma weighted_sum_between:
  fixes d1 d2 w1 w2 :: int
  assumes "0 \<le> w1" "0 \<le> w2"
  shows "min d1 d2 * (w1 + w2) \<le> d1 * w1 + d2 * w2" "d1 * w1 + d2 * w2 \<le> max d1 d2 * (w1 + w2)"
proof -
  have "min d1 d2 * w1 + min d1 d2 * w2 \<le> d1 * w1 + d2 * w2"
    using assms by (intro add_mono mult_right_mono) simp_all
  moreover have "d1 * w1 + d2 * w2 \<le> max d1 d2 * w1 + max d1 d2 * w2"
    using assms by (intro add_mono mult_right_mono) simp_all
  ultimately show "min d1 d2 * (w1 + w2) \<le> d1 * w1 + d2 * w2"
    "d1 * w1 + d2 * w2 \<le> max d1 d2 * (w1 + w2)"
    by (simp_all add: distrib_left)
qed

lemma calculate_weighted_average_bounds:
  assumes avg: "calculate_weighted_average d1 d2 w1 w2 None = Ok r" and w: "0 \<le> w1" "0 \<le> w2"
  shows "min d1 d2 - 1 \<le> r \<and> r \<le> max d1 d2 + 1"
proof (cases "w1 = 0 \<or> w2 = 0")
  case True
  then have "r = d1 \<or> r = d2" using avg
    by (elim disjE) (simp_all add: calculate_weighted_average_def ok_iff split: if_split_asm)
  then show ?thesis by auto
next
  case False
  let ?q = "(d1 * w1 + d2 * w2) sdiv (w1 + w2)"
  have "0 < w1 + w2" using False w by auto
  then have q: "min d1 d2 \<le> ?q" "?q \<le> max d1 d2"
    using sdiv_between [of "w1 + w2" "min d1 d2" "d1 * w1 + d2 * w2" "max d1 d2"]
      weighted_sum_between [OF w, of d1 d2] by simp_all
  have "\<exists>b \<in> {- 1, 0, 1}. r = ?q + b"
    using avg False by (auto simp: calculate_weighted_average_def ok_iff Let_def split: if_splits)
  then show ?thesis using q by auto
qed

lemma calculate_new_twap_bounds:
  assumes "calculate_new_twap price now prev last_ts period = Ok r"
  shows "min price prev - 1 \<le> r \<and> r \<le> max price prev + 1"
  using assms by (auto simp: calculate_new_twap_def ok_iff Let_def dest!: calculate_weighted_average_bounds)

text \<open>The rolling sum forgets its history once a whole window has passed.\<close>

lemma calculate_rolling_sum_Ok:
  assumes "calculate_rolling_sum d1 d2 n d = Ok r" "0 \<le> d1"
  shows "r = d1 * max 0 (d - n) div d + d2"
  using assms by (auto simp: calculate_rolling_sum_def ok_iff)

section \<open>The on-the-hour schedule\<close>

lemma on_the_hour_update_Ok:
  assumes "on_the_hour_update now prev P = Ok r" "1 < P"
  shows "\<exists>wait. P - P div 3 \<le> wait \<and> wait < 2 * P - P div 3 \<and> (prev + wait) mod P = 0 \<and>
    r = max (wait - (now - prev)) 0"
proof -
  define d where "d = prev mod P"
  define wait where "wait = (if d = 0 then P else if d > P div 3 then 2 * P - d else P - d)"
  have d: "0 \<le> d" "d < P" using assms(2) by (simp_all add: d_def)
  have third: "0 \<le> P div 3" "3 * (P div 3) \<le> P" using assms(2) by linarith+
  have range: "P - P div 3 \<le> wait" "wait < 2 * P - P div 3" "wait \<le> 2 * P"
    using d third assms(2) by (auto simp: wait_def)
  have "prev + wait = (prev - d) + (if d = 0 then P else if d > P div 3 then 2 * P else P)"
    by (simp add: wait_def)
  also have "\<dots> mod P = 0" by (simp add: d_def minus_mod_eq_mult_div)
  finally have on: "(prev + wait) mod P = 0" .
  have q3: "safe_div I64 P 3 = Ok q \<Longrightarrow> q = P div 3" for q
    using assms(2) by (auto simp: ok_iff)
  have "r = max (wait - (now - prev)) 0"
  proof (cases "d = 0")
    case True
    then show ?thesis using assms
      by (simp add: on_the_hour_update_def ok_iff wait_def d_def)
  next
    case False
    then show ?thesis using assms(1) range(3) unfolding on_the_hour_update_def d_def [symmetric]
      by (auto simp: assms(2) and_then_Ok_iff Let_def wait_def safe_sub_Ok_iff safe_mul_Ok_iff
          dest!: q3 split: if_split_asm)
  qed
  then show ?thesis using range(1,2) on by (intro exI [of _ wait] conjI)
qed

section \<open>The decimal logarithm\<close>

lemma log10_loop_correct:
  "1 \<le> n \<Longrightarrow> \<exists>k. log10_loop r n = r + int k \<and> 10 ^ k \<le> n \<and> n < 10 ^ Suc k"
proof (induction r n rule: log10_loop.induct)
  case (1 r n)
  show ?case
  proof (cases "n \<ge> 10")
    case False
    then show ?thesis using "1.prems" by (intro exI [of _ 0]) (simp add: log10_loop.simps [of r n])
  next
    case True
    then have "1 \<le> n sdiv 10" by simp
    with "1.IH" True obtain k where k: "log10_loop (r + 1) (n div 10) = r + 1 + int k"
        "10 ^ k \<le> n div 10" "n div 10 < 10 ^ Suc k"
      by auto
    from k(2,3) have "10 ^ k * 10 \<le> n" "n < 10 ^ Suc k * 10"
      by (simp_all add: le_div_iff_mul div_less_iff_mul)
    then have "10 ^ Suc k \<le> n \<and> n < 10 ^ Suc (Suc k)" by simp
    with k(1) True show ?thesis
      by (intro exI [of _ "Suc k"]) (simp add: log10_loop.simps [of r n])
  qed
qed

end
