(* ===== verification/Paused_Operations.thy ===== *)
theory Paused_Operations
  imports "HOL-Library.Word"
begin

text \<open>
  The pause masks of \<open>state/paused_operations.rs\<close>. A mask is a \<open>u8\<close>, kept as an \<open>8 word\<close>;
  every operation owns one bit. A warm admin may move a perp market's mask only within
  \<open>WARM_EDITABLE\<close>.
\<close>

unbundle bit_operations_syntax

datatype perp_operation =
    UpdateFunding | AmmFill | PerpFill | SettlePnl | SettlePnlWithPosition | PerpLiquidation
  | AmmImmediateFill | SettleRevPool

datatype spot_operation =
    UpdateCumulativeInterest | SpotFill | SpotDeposit | SpotWithdraw | SpotLiquidation

datatype insurance_fund_operation = IfInit | IfAdd | IfRequestRemove | IfRemove

datatype perp_lp_operation = TrackAmmRevenue | SettleQuoteOwed

datatype constituent_lp_operation = LpSwap | LpDeposit | LpWithdraw

primrec perp_operation_bit :: "perp_operation \<Rightarrow> 8 word" where
  "perp_operation_bit UpdateFunding = 0b00000001"
| "perp_operation_bit AmmFill = 0b00000010"
| "perp_operation_bit PerpFill = 0b00000100"
| "perp_operation_bit SettlePnl = 0b00001000"
| "perp_operation_bit SettlePnlWithPosition = 0b00010000"
| "perp_operation_bit PerpLiquidation = 0b00100000"
| "perp_operation_bit AmmImmediateFill = 0b01000000"
| "perp_operation_bit SettleRevPool = 0b10000000"

primrec spot_operation_bit :: "spot_operation \<Rightarrow> 8 word" where
  "spot_operation_bit UpdateCumulativeInterest = 0b00000001"
| "spot_operation_bit SpotFill = 0b00000010"
| "spot_operation_bit SpotDeposit = 0b00000100"
| "spot_operation_bit SpotWithdraw = 0b00001000"
| "spot_operation_bit SpotLiquidation = 0b00010000"

primrec if_operation_bit :: "insurance_fund_operation \<Rightarrow> 8 word" where
  "if_operation_bit IfInit = 0b00000001"
| "if_operation_bit IfAdd = 0b00000010"
| "if_operation_bit IfRequestRemove = 0b00000100"
| "if_operation_bit IfRemove = 0b00001000"

primrec perp_lp_operation_bit :: "perp_lp_operation \<Rightarrow> 8 word" where
  "perp_lp_operation_bit TrackAmmRevenue = 0b00000001"
| "perp_lp_operation_bit SettleQuoteOwed = 0b00000010"

primrec constituent_lp_operation_bit :: "constituent_lp_operation \<Rightarrow> 8 word" where
  "constituent_lp_operation_bit LpSwap = 0b00000001"
| "constituent_lp_operation_bit LpDeposit = 0b00000010"
| "constituent_lp_operation_bit LpWithdraw = 0b00000100"

definition WARM_EDITABLE :: "8 word" where
  "WARM_EDITABLE = perp_operation_bit UpdateFunding OR perp_operation_bit SettleRevPool"

definition is_perp_operation_paused :: "8 word \<Rightarrow> perp_operation \<Rightarrow> bool" where
  "is_perp_operation_paused current operation = (current AND perp_operation_bit operation \<noteq> 0)"

definition is_warm_update_allowed :: "8 word \<Rightarrow> 8 word \<Rightarrow> bool" where
  "is_warm_update_allowed current next_mask = ((current XOR next_mask) AND NOT WARM_EDITABLE = 0)"

definition is_spot_operation_paused :: "8 word \<Rightarrow> spot_operation \<Rightarrow> bool" where
  "is_spot_operation_paused current operation = (current AND spot_operation_bit operation \<noteq> 0)"

definition is_if_operation_paused :: "8 word \<Rightarrow> insurance_fund_operation \<Rightarrow> bool" where
  "is_if_operation_paused current operation = (current AND if_operation_bit operation \<noteq> 0)"

definition is_perp_lp_operation_paused :: "8 word \<Rightarrow> perp_lp_operation \<Rightarrow> bool" where
  "is_perp_lp_operation_paused current operation = (current AND perp_lp_operation_bit operation \<noteq> 0)"

definition is_constituent_lp_operation_paused :: "8 word \<Rightarrow> constituent_lp_operation \<Rightarrow> bool" where
  "is_constituent_lp_operation_paused current operation =
     (current AND constituent_lp_operation_bit operation \<noteq> 0)"

section \<open>Each operation reads its own bit\<close>

text \<open>The index of an operation's bit; the discriminants are its powers of two.\<close>

primrec perp_operation_index :: "perp_operation \<Rightarrow> nat" where
  "perp_operation_index UpdateFunding = 0"
| "perp_operation_index AmmFill = 1"
| "perp_operation_index PerpFill = 2"
| "perp_operation_index SettlePnl = 3"
| "perp_operation_index SettlePnlWithPosition = 4"
| "perp_operation_index PerpLiquidation = 5"
| "perp_operation_index AmmImmediateFill = 6"
| "perp_operation_index SettleRevPool = 7"

lemma perp_operation_bit_push: "perp_operation_bit op = push_bit (perp_operation_index op) 1"
  by (cases op) simp_all

lemma and_push_bit_1: "w AND push_bit n 1 \<noteq> 0 \<longleftrightarrow> bit w n" for w :: "8 word"
  by (simp only: bit_iff_and_push_bit_not_eq_0)

lemma is_perp_operation_paused_bit:
  "is_perp_operation_paused current op \<longleftrightarrow> bit current (perp_operation_index op)"
  by (simp only: is_perp_operation_paused_def perp_operation_bit_push and_push_bit_1)

lemma perp_operation_index_less: "perp_operation_index op < 8"
  by (cases op) simp_all

lemma perp_operation_index_surj: "n < 8 \<Longrightarrow> \<exists>op. perp_operation_index op = n"
  by (auto simp: numeral_eq_Suc less_Suc_eq
      intro: exI [of _ UpdateFunding] exI [of _ AmmFill] exI [of _ PerpFill] exI [of _ SettlePnl]
        exI [of _ SettlePnlWithPosition] exI [of _ PerpLiquidation] exI [of _ AmmImmediateFill]
        exI [of _ SettleRevPool])

lemma bit_WARM_EDITABLE: "bit WARM_EDITABLE n \<longleftrightarrow> n = 0 \<or> n = 7"
proof -
  have warm: "WARM_EDITABLE = push_bit 0 1 OR push_bit 7 1"
    by (simp only: WARM_EDITABLE_def perp_operation_bit_push perp_operation_index.simps)
  show ?thesis
    unfolding warm bit_or_iff bit_push_bit_iff bit_1_iff by (auto simp: possible_bit_word)
qed

lemma warm_index_iff:
  "bit WARM_EDITABLE (perp_operation_index op) \<longleftrightarrow> op \<in> {UpdateFunding, SettleRevPool}"
  by (cases op) (simp_all add: bit_WARM_EDITABLE)

lemma is_warm_update_allowed_bits:
  "is_warm_update_allowed cur new \<longleftrightarrow>
     (\<forall>n < 8. \<not> bit WARM_EDITABLE n \<longrightarrow> (bit cur n \<longleftrightarrow> bit new n))"
  by (auto simp: is_warm_update_allowed_def bit_eq_iff [of "_ AND _"] bit_simps)

end
