(* ===== verification/Market_State.thy ===== *)
theory Market_State
  imports Safe_Math Constants Paused_Operations
begin

text \<open>
  The account data the components share: \<open>state/market_status.rs\<close>, the price records of
  \<open>state/oracle.rs\<close>, \<open>PoolBalance\<close> of \<open>state/perp_market.rs\<close> and \<open>SpotMarket\<close> with its
  \<open>InsuranceFund\<close> of \<open>state/spot_market.rs\<close>. A record has one field per field of the struct, in
  its order, with a prefix that keeps field names apart; padding bytes are left out. Machine
  integers are \<open>int\<close>, bit masks are \<open>8 word\<close>, an address is a number. \<open>fits_spot_market\<close> states
  that the integer fields used by the lending code lie in their declared types.
\<close>

type_synonym pubkey = nat

datatype market_status = Initialized | Active | ReduceOnly | Settlement | Delisted

datatype oracle_source =
    Pyth | DeprecatedSwitchboard | QuoteAsset | Pyth1K | Pyth1M | PythStableCoin | Prelaunch
  | PythPull | Pyth1KPull | Pyth1MPull | PythStableCoinPull | DeprecatedSwitchboardOnDemand
  | PythLazer | PythLazer1K | PythLazer1M | PythLazerStableCoin

datatype spot_balance_type = Deposit | Borrow

datatype asset_tier = Collateral | Protected | Cross | Isolated | Unlisted

datatype margin_requirement_type = Initial | Fill | Maintenance

record historical_oracle_data =
  ho_last_oracle_price :: int
  ho_last_oracle_conf :: int
  ho_last_oracle_delay :: int
  ho_last_oracle_price_twap :: int
  ho_last_oracle_price_twap_5min :: int
  ho_last_oracle_price_twap_ts :: int

definition default_historical_oracle_data :: historical_oracle_data where
  "default_historical_oracle_data =
     \<lparr> ho_last_oracle_price = 0, ho_last_oracle_conf = 0, ho_last_oracle_delay = 0,
       ho_last_oracle_price_twap = 0, ho_last_oracle_price_twap_5min = 0,
       ho_last_oracle_price_twap_ts = 0 \<rparr>"

record historical_index_data =
  hi_last_index_bid_price :: int
  hi_last_index_ask_price :: int
  hi_last_index_price_twap :: int
  hi_last_index_price_twap_5min :: int
  hi_last_index_price_twap_ts :: int

definition default_historical_index_data :: historical_index_data where
  "default_historical_index_data =
     \<lparr> hi_last_index_bid_price = 0, hi_last_index_ask_price = 0, hi_last_index_price_twap = 0,
       hi_last_index_price_twap_5min = 0, hi_last_index_price_twap_ts = 0 \<rparr>"

record oracle_price_data =
  op_price :: int
  op_confidence :: int
  op_delay :: int
  op_has_sufficient_number_of_data_points :: bool
  op_sequence_id :: "int option"

record pool_balance =
  pb_scaled_balance :: int
  pb_market_index :: int
  pb_pending_interest_split_dust :: int
  pb_pending_interest_dust :: int

definition default_pool_balance :: pool_balance where
  "default_pool_balance =
     \<lparr> pb_scaled_balance = 0, pb_market_index = 0, pb_pending_interest_split_dust = 0,
       pb_pending_interest_dust = 0 \<rparr>"

record insurance_fund =
  if_vault :: pubkey
  if_total_shares :: int
  if_user_shares :: int
  if_shares_base :: int
  if_unstaking_period :: int
  if_last_revenue_settle_ts :: int
  if_revenue_settle_period :: int
  if_if_fee_factor :: int

definition default_insurance_fund :: insurance_fund where
  "default_insurance_fund =
     \<lparr> if_vault = 0, if_total_shares = 0, if_user_shares = 0, if_shares_base = 0,
       if_unstaking_period = 0, if_last_revenue_settle_ts = 0, if_revenue_settle_period = 0,
       if_if_fee_factor = 0 \<rparr>"

record spot_market =
  sm_pubkey :: pubkey
  sm_oracle :: pubkey
  sm_mint :: pubkey
  sm_vault :: pubkey
  sm_name :: "nat list"
  sm_insurance_fund :: insurance_fund
  sm_total_spot_fee :: int
  sm_deposit_balance :: int
  sm_borrow_balance :: int
  sm_cumulative_deposit_interest :: int
  sm_cumulative_borrow_interest :: int
  sm_total_social_loss :: int
  sm_total_quote_social_loss :: int
  sm_revenue_pool :: pool_balance
  sm_historical_oracle_data :: historical_oracle_data
  sm_historical_index_data :: historical_index_data
  sm_withdraw_guard_threshold :: int
  sm_max_token_deposits :: int
  sm_deposit_token_twap :: int
  sm_borrow_token_twap :: int
  sm_utilization_twap :: int
  sm_last_interest_ts :: int
  sm_last_twap_ts :: int
  sm_expiry_ts :: int
  sm_order_step_size :: int
  sm_order_tick_size :: int
  sm_min_order_size :: int
  sm_max_position_size :: int
  sm_next_fill_record_id :: int
  sm_next_deposit_record_id :: int
  sm_initial_asset_weight :: int
  sm_maintenance_asset_weight :: int
  sm_initial_liability_weight :: int
  sm_maintenance_liability_weight :: int
  sm_imf_factor :: int
  sm_liquidator_fee :: int
  sm_if_liquidation_fee :: int
  sm_optimal_utilization :: int
  sm_optimal_borrow_rate :: int
  sm_max_borrow_rate :: int
  sm_decimals :: int
  sm_market_index :: int
  sm_orders_enabled :: bool
  sm_oracle_source :: oracle_source
  sm_status :: market_status
  sm_asset_tier :: asset_tier
  sm_paused_operations :: "8 word"
  sm_if_paused_operations :: "8 word"
  sm_fee_adjustment :: int
  sm_max_token_borrows_fraction :: int
  sm_flash_loan_amount :: int
  sm_flash_loan_initial_token_amount :: int
  sm_total_swap_fee :: int
  sm_scale_initial_asset_weight_start :: int
  sm_min_borrow_rate :: int
  sm_token_program_flag :: "8 word"
  sm_pool_id :: int
  sm_withdraw_circuit_breaker_bps :: int
  sm_max_deposit_bps_per_day :: int
  sm_deposit_guard_threshold :: int
  sm_protocol_fee_pool :: pool_balance
  sm_protocol_liquidation_fee :: int
  sm_protocol_fee_factor :: int
  sm_if_last_settle_vault_amount :: int

definition default_spot_market :: spot_market where
  "default_spot_market =
     \<lparr> sm_pubkey = 0, sm_oracle = 0, sm_mint = 0, sm_vault = 0, sm_name = replicate 32 0,
       sm_insurance_fund = default_insurance_fund, sm_total_spot_fee = 0,
       sm_deposit_balance = 0, sm_borrow_balance = 0, sm_cumulative_deposit_interest = 0,
       sm_cumulative_borrow_interest = 0, sm_total_social_loss = 0,
       sm_total_quote_social_loss = 0, sm_revenue_pool = default_pool_balance,
       sm_historical_oracle_data = default_historical_oracle_data,
       sm_historical_index_data = default_historical_index_data,
       sm_withdraw_guard_threshold = 0, sm_max_token_deposits = 0, sm_deposit_token_twap = 0,
       sm_borrow_token_twap = 0, sm_utilization_twap = 0, sm_last_interest_ts = 0,
       sm_last_twap_ts = 0, sm_expiry_ts = 0, sm_order_step_size = 1, sm_order_tick_size = 0,
       sm_min_order_size = 0, sm_max_position_size = 0, sm_next_fill_record_id = 0,
       sm_next_deposit_record_id = 0, sm_initial_asset_weight = 0,
       sm_maintenance_asset_weight = 0, sm_initial_liability_weight = 0,
       sm_maintenance_liability_weight = 0, sm_imf_factor = 0, sm_liquidator_fee = 0,
       sm_if_liquidation_fee = 0, sm_optimal_utilization = 0, sm_optimal_borrow_rate = 0,
       sm_max_borrow_rate = 0, sm_decimals = 0, sm_market_index = 0, sm_orders_enabled = False,
       sm_oracle_source = Pyth, sm_status = Initialized, sm_asset_tier = Unlisted,
       sm_paused_operations = 0, sm_if_paused_operations = 0, sm_fee_adjustment = 0,
       sm_max_token_borrows_fraction = 0, sm_flash_loan_amount = 0,
       sm_flash_loan_initial_token_amount = 0, sm_total_swap_fee = 0,
       sm_scale_initial_asset_weight_start = 0, sm_min_borrow_rate = 0,
       sm_token_program_flag = 0, sm_pool_id = 0, sm_withdraw_circuit_breaker_bps = 0,
       sm_max_deposit_bps_per_day = 0, sm_deposit_guard_threshold = 0,
       sm_protocol_fee_pool = default_pool_balance, sm_protocol_liquidation_fee = 0,
       sm_protocol_fee_factor = 0, sm_if_last_settle_vault_amount = 0 \<rparr>"

text \<open>The cumulative interest index a balance of either type is scaled by.\<close>

primrec cumulative_interest :: "spot_balance_type \<Rightarrow> spot_market \<Rightarrow> int" where
  "cumulative_interest Deposit m = sm_cumulative_deposit_interest m"
| "cumulative_interest Borrow m = sm_cumulative_borrow_interest m"

text \<open>The declared ranges of the fields the lending code reads and writes.\<close>

definition fits_pool_balance :: "pool_balance \<Rightarrow> bool" where
  "fits_pool_balance p \<longleftrightarrow> fits U128 (pb_scaled_balance p) \<and> fits U16 (pb_market_index p)
     \<and> fits U32 (pb_pending_interest_split_dust p) \<and> fits U64 (pb_pending_interest_dust p)"

definition fits_spot_market :: "spot_market \<Rightarrow> bool" where
  "fits_spot_market m \<longleftrightarrow>
     fits U128 (sm_deposit_balance m) \<and> fits U128 (sm_borrow_balance m)
     \<and> fits U128 (sm_cumulative_deposit_interest m) \<and> fits U128 (sm_cumulative_borrow_interest m)
     \<and> fits_pool_balance (sm_revenue_pool m) \<and> fits_pool_balance (sm_protocol_fee_pool m)
     \<and> fits U32 (if_if_fee_factor (sm_insurance_fund m)) \<and> fits U32 (sm_protocol_fee_factor m)
     \<and> fits U64 (sm_withdraw_guard_threshold m) \<and> fits U64 (sm_max_token_deposits m)
     \<and> fits U64 (sm_deposit_token_twap m) \<and> fits U64 (sm_borrow_token_twap m)
     \<and> fits U64 (sm_utilization_twap m) \<and> fits U64 (sm_last_interest_ts m)
     \<and> fits U64 (sm_last_twap_ts m) \<and> fits U32 (sm_optimal_utilization m)
     \<and> fits U32 (sm_optimal_borrow_rate m) \<and> fits U32 (sm_max_borrow_rate m)
     \<and> fits U32 (sm_decimals m) \<and> fits U16 (sm_market_index m)
     \<and> fits U16 (sm_max_token_borrows_fraction m) \<and> fits U8 (sm_min_borrow_rate m)
     \<and> fits U16 (sm_withdraw_circuit_breaker_bps m) \<and> fits U16 (sm_max_deposit_bps_per_day m)
     \<and> fits U64 (sm_deposit_guard_threshold m)"

lemmas market_state_defs [eval_defs] =
  default_historical_oracle_data_def default_historical_index_data_def default_pool_balance_def
  default_insurance_fund_def default_spot_market_def fits_pool_balance_def fits_spot_market_def

end
