(* ===== verification/Spot_Balance_Math.thy ===== *)
theory Spot_Balance_Math
  imports Math_Helpers Market_State
begin

text \<open>
  \<open>math/spot_balance.rs\<close>: the conversion between scaled balances and token amounts, the split of
  lending interest between lenders, insurance fund and protocol, the utilization and borrow-rate
  curve and the interest of an interval.
\<close>

section \<open>Definitions\<close>

subsection \<open>Scaled balances and token amounts\<close>

definition get_spot_balance ::
  "int \<Rightarrow> spot_market \<Rightarrow> spot_balance_type \<Rightarrow> bool \<Rightarrow> int result" where
  "get_spot_balance token_amount spot_market balance_type round_up =
     and_then (safe_sub U32 19 (sm_decimals spot_market)) (\<lambda>e.
     and_then (plain_pow U128 10 e) (\<lambda>precision_increase.
     let cumulative_interest = (case balance_type of
           Deposit \<Rightarrow> sm_cumulative_deposit_interest spot_market
         | Borrow \<Rightarrow> sm_cumulative_borrow_interest spot_market) in
     and_then (safe_mul U128 token_amount precision_increase) (\<lambda>v.
     and_then (safe_div U128 v cumulative_interest) (\<lambda>balance.
     if round_up \<and> token_amount \<noteq> 0 then safe_add U128 balance 1 else Ok balance))))"

definition get_token_amount :: "int \<Rightarrow> spot_market \<Rightarrow> spot_balance_type \<Rightarrow> int result" where
  "get_token_amount balance spot_market balance_type =
     and_then (safe_sub U32 19 (sm_decimals spot_market)) (\<lambda>e.
     and_then (plain_pow U128 10 e) (\<lambda>precision_decrease.
     let cumulative_interest = (case balance_type of
           Deposit \<Rightarrow> sm_cumulative_deposit_interest spot_market
         | Borrow \<Rightarrow> sm_cumulative_borrow_interest spot_market) in
     case balance_type of
       Deposit \<Rightarrow>
         and_then (safe_mul U128 balance cumulative_interest) (\<lambda>v.
         safe_div U128 v precision_decrease)
     | Borrow \<Rightarrow>
         and_then (safe_mul U128 balance cumulative_interest) (\<lambda>v.
         safe_div_ceil U128 v precision_decrease)))"

definition get_signed_token_amount :: "int \<Rightarrow> spot_balance_type \<Rightarrow> int result" where
  "get_signed_token_amount token_amount balance_type =
     (case balance_type of
        Deposit \<Rightarrow> cast I128 token_amount
      | Borrow \<Rightarrow> and_then (cast I128 token_amount) (\<lambda>t. plain_neg I128 t))"

definition get_interest_token_amount :: "int \<Rightarrow> spot_market \<Rightarrow> int \<Rightarrow> int result" where
  "get_interest_token_amount balance spot_market interest =
     and_then (safe_sub U32 19 (sm_decimals spot_market)) (\<lambda>e.
     and_then (plain_pow U128 10 e) (\<lambda>precision_decrease.
     and_then (safe_mul U128 balance interest) (\<lambda>v.
     safe_div U128 v precision_decrease)))"

subsection \<open>Interest\<close>

record interest_split =
  is_for_lenders :: int
  is_for_insurance_fund :: int
  is_for_protocol :: int
  is_carveout_dust :: int
  is_insurance_fund_dust :: int

definition split_deposit_interest :: "spot_market \<Rightarrow> int \<Rightarrow> interest_split result" where
  "split_deposit_interest spot_market deposit_interest =
     and_then (cast U128 (if_if_fee_factor (sm_insurance_fund spot_market))) (\<lambda>if_factor.
     and_then (cast U128 (sm_protocol_fee_factor spot_market)) (\<lambda>protocol_factor.
     and_then (safe_add U128 if_factor protocol_factor) (\<lambda>combined_factor.
     and_then (cast U128 (pb_pending_interest_split_dust (sm_revenue_pool spot_market)))
       (\<lambda>carried_carveout.
     and_then (cast U128 (pb_pending_interest_split_dust (sm_protocol_fee_pool spot_market)))
       (\<lambda>carried_if.
     let carried_if = min carried_if (saturating_sub U128 combined_factor 1) in
     if combined_factor = 0 \<and> carried_carveout = 0 \<and> carried_if = 0 then
       Ok \<lparr> is_for_lenders = deposit_interest, is_for_insurance_fund = 0, is_for_protocol = 0,
            is_carveout_dust = 0, is_insurance_fund_dust = 0 \<rparr>
     else
       and_then (safe_mul U128 deposit_interest combined_factor) (\<lambda>v.
       and_then (safe_add U128 v carried_carveout) (\<lambda>carveout_numerator.
       and_then (safe_div U128 carveout_numerator IF_FACTOR_PRECISION) (\<lambda>withheld.
       and_then (safe_mul U128 withheld IF_FACTOR_PRECISION) (\<lambda>w.
       and_then (safe_sub U128 carveout_numerator w) (\<lambda>d.
       and_then (cast U32 d) (\<lambda>carveout_dust.
       and_then (safe_sub U128 deposit_interest withheld) (\<lambda>for_lenders.
       and_then
         (if combined_factor = 0 then Ok (0, 0)
          else
            and_then (safe_mul U128 withheld if_factor) (\<lambda>v.
            and_then (safe_add U128 v carried_if) (\<lambda>if_numerator.
            and_then (safe_div U128 if_numerator combined_factor) (\<lambda>for_insurance_fund.
            and_then (safe_mul U128 for_insurance_fund combined_factor) (\<lambda>w.
            and_then (safe_sub U128 if_numerator w) (\<lambda>d.
            and_then (cast U32 d) (\<lambda>dust.
            Ok (for_insurance_fund, dust))))))))
         (\<lambda>(for_insurance_fund, insurance_fund_dust).
       and_then (safe_sub U128 withheld for_insurance_fund) (\<lambda>for_protocol.
       Ok \<lparr> is_for_lenders = for_lenders, is_for_insurance_fund = for_insurance_fund,
            is_for_protocol = for_protocol, is_carveout_dust = carveout_dust,
            is_insurance_fund_dust = insurance_fund_dust \<rparr>))))))))))))))"

definition get_interest_token_amount_with_dust ::
  "int \<Rightarrow> spot_market \<Rightarrow> int \<Rightarrow> int \<Rightarrow> (int \<times> int) result" where
  "get_interest_token_amount_with_dust balance spot_market interest carried_dust =
     and_then (safe_sub U32 19 (sm_decimals spot_market)) (\<lambda>e.
     and_then (plain_pow U128 10 e) (\<lambda>precision_decrease.
     and_then (safe_mul U128 balance interest) (\<lambda>v.
     and_then (cast U128 carried_dust) (\<lambda>carried_dust.
     and_then (safe_add U128 v carried_dust) (\<lambda>numerator.
     and_then (safe_div U128 numerator precision_decrease) (\<lambda>token_amount.
     and_then (safe_mul U128 token_amount precision_decrease) (\<lambda>w.
     and_then (safe_sub U128 numerator w) (\<lambda>d.
     and_then (cast U64 d) (\<lambda>dust.
     Ok (token_amount, dust))))))))))"

definition calculate_utilization :: "int \<Rightarrow> int \<Rightarrow> int result" where
  "calculate_utilization deposit_token_amount borrow_token_amount =
     and_then (safe_mul U128 borrow_token_amount SPOT_UTILIZATION_PRECISION) (\<lambda>v.
     Ok (case checked_div U128 v deposit_token_amount of
           Some u \<Rightarrow> u
         | None \<Rightarrow> if deposit_token_amount = 0 \<and> borrow_token_amount = 0 then 0
                   else SPOT_UTILIZATION_PRECISION))"

definition calculate_spot_market_utilization :: "spot_market \<Rightarrow> int result" where
  "calculate_spot_market_utilization spot_market =
     and_then (get_token_amount (sm_deposit_balance spot_market) spot_market Deposit)
       (\<lambda>deposit_token_amount.
     and_then (get_token_amount (sm_borrow_balance spot_market) spot_market Borrow)
       (\<lambda>borrow_token_amount.
     calculate_utilization deposit_token_amount borrow_token_amount))"

definition INTEREST_RATE_SEGMENT_AND_WEIGHTS :: "(int \<times> int) list" where
  "INTEREST_RATE_SEGMENT_AND_WEIGHTS =
     [(850000, 50), (900000, 100), (950000, 150), (990000, 200), (995000, 250), (1000000, 250)]"

text \<open>\<open>SpotMarket::get_min_borrow_rate\<close> of \<open>state/spot_market.rs\<close>.\<close>

definition get_min_borrow_rate :: "spot_market \<Rightarrow> int result" where
  "get_min_borrow_rate spot_market =
     and_then (cast U32 (sm_min_borrow_rate spot_market)) (\<lambda>r.
     and_then (cast U32 (PERCENTAGE_PRECISION div 200)) (\<lambda>c.
     safe_mul U32 r c))"

text \<open>The \<open>for\<close> loop over the segments of the curve, with \<open>rate\<close> and \<open>prev_util\<close> as its state.\<close>

fun borrow_rate_segments ::
  "int \<Rightarrow> int \<Rightarrow> (int \<times> int) list \<Rightarrow> int \<Rightarrow> int \<Rightarrow> int result" where
  "borrow_rate_segments utilization total_extra_rate [] rate prev_util = Ok rate"
| "borrow_rate_segments utilization total_extra_rate ((bp, weight) # segments) rate prev_util =
     and_then (safe_sub U128 bp prev_util) (\<lambda>segment_range.
     and_then (safe_mul U128 total_extra_rate weight) (\<lambda>v.
     and_then (safe_div U128 v 1000) (\<lambda>segment_rate_total.
     if utilization \<le> bp then
       and_then (safe_sub U128 utilization prev_util) (\<lambda>partial_util.
       and_then (safe_mul U128 segment_rate_total partial_util) (\<lambda>v.
       and_then (safe_div U128 v segment_range) (\<lambda>partial_rate.
       safe_add U128 rate partial_rate)))
     else
       and_then (safe_add U128 rate segment_rate_total) (\<lambda>rate.
       borrow_rate_segments utilization total_extra_rate segments rate bp))))"

definition calculate_borrow_rate :: "spot_market \<Rightarrow> int \<Rightarrow> int result" where
  "calculate_borrow_rate spot_market utilization =
     and_then (cast U128 (sm_optimal_utilization spot_market)) (\<lambda>optimal_util.
     and_then (cast U128 (sm_optimal_borrow_rate spot_market)) (\<lambda>optimal_rate.
     and_then (cast U128 (sm_max_borrow_rate spot_market)) (\<lambda>max_rate.
     and_then (get_min_borrow_rate spot_market) (\<lambda>min_rate.
     and_then (cast U128 min_rate) (\<lambda>min_rate.
     and_then
       (if utilization \<le> optimal_util then
          and_then (safe_mul U128 optimal_rate SPOT_UTILIZATION_PRECISION) (\<lambda>v.
          and_then (safe_div U128 v optimal_util) (\<lambda>slope.
          and_then (safe_mul U128 utilization slope) (\<lambda>v.
          safe_div U128 v SPOT_UTILIZATION_PRECISION)))
        else
          and_then (safe_sub U128 max_rate optimal_rate) (\<lambda>total_extra_rate.
          borrow_rate_segments utilization total_extra_rate INTEREST_RATE_SEGMENT_AND_WEIGHTS
            optimal_rate optimal_util)) (\<lambda>borrow_rate.
     Ok (max borrow_rate min_rate)))))))"

record interest_accumulated =
  ia_borrow_interest :: int
  ia_deposit_interest :: int

definition calculate_accumulated_interest :: "spot_market \<Rightarrow> int \<Rightarrow> interest_accumulated result" where
  "calculate_accumulated_interest spot_market now =
     and_then (cast I64 (sm_last_interest_ts spot_market)) (\<lambda>last_ts.
     if now \<le> last_ts then Ok \<lparr> ia_borrow_interest = 0, ia_deposit_interest = 0 \<rparr>
     else
       and_then (calculate_spot_market_utilization spot_market) (\<lambda>utilization.
       if utilization = 0 then Ok \<lparr> ia_borrow_interest = 0, ia_deposit_interest = 0 \<rparr>
       else
         and_then (calculate_borrow_rate spot_market utilization) (\<lambda>borrow_rate.
         and_then (or_err (cast U64 now) UnableToCastUnixTime) (\<lambda>now_u64.
         and_then (safe_sub U64 now_u64 (sm_last_interest_ts spot_market))
           (\<lambda>time_since_last_update.
         and_then (safe_mul U128 borrow_rate time_since_last_update) (\<lambda>modified_borrow_rate.
         and_then (safe_mul U128 modified_borrow_rate utilization) (\<lambda>v.
         and_then (safe_div U128 v SPOT_UTILIZATION_PRECISION) (\<lambda>modified_deposit_rate.
         and_then (safe_mul U128 (sm_cumulative_borrow_interest spot_market) modified_borrow_rate)
           (\<lambda>v.
         and_then (safe_div U128 v ONE_YEAR) (\<lambda>v.
         and_then (safe_div U128 v SPOT_RATE_PRECISION) (\<lambda>v.
         and_then (safe_add U128 v 1) (\<lambda>borrow_interest.
         and_then (safe_mul U128 (sm_cumulative_deposit_interest spot_market) modified_deposit_rate)
           (\<lambda>v.
         and_then (safe_div U128 v ONE_YEAR) (\<lambda>v.
         and_then (safe_div U128 v SPOT_RATE_PRECISION) (\<lambda>deposit_interest.
         and_then (get_interest_token_amount (sm_deposit_balance spot_market) spot_market
             deposit_interest) (\<lambda>deposit_token_amount_gain.
         and_then (get_interest_token_amount (sm_borrow_balance spot_market) spot_market
             borrow_interest) (\<lambda>borrow_token_amount_gain.
         and_then
           (if deposit_token_amount_gain > borrow_token_amount_gain then
              and_then (safe_mul U128 deposit_interest borrow_token_amount_gain) (\<lambda>v.
              safe_div U128 v deposit_token_amount_gain)
            else Ok deposit_interest) (\<lambda>deposit_interest.
         Ok \<lparr> ia_borrow_interest = borrow_interest,
              ia_deposit_interest = deposit_interest \<rparr>))))))))))))))))))"

subsection \<open>Values\<close>

record strict_oracle_price =
  so_current :: int
  so_twap_5min :: "int option"

definition strict_max :: "strict_oracle_price \<Rightarrow> int" where
  "strict_max p = (case so_twap_5min p of Some twap \<Rightarrow> max (so_current p) twap | None \<Rightarrow> so_current p)"

definition strict_min :: "strict_oracle_price \<Rightarrow> int" where
  "strict_min p = (case so_twap_5min p of Some twap \<Rightarrow> min (so_current p) twap | None \<Rightarrow> so_current p)"

definition get_strict_token_value :: "int \<Rightarrow> int \<Rightarrow> strict_oracle_price \<Rightarrow> int result" where
  "get_strict_token_value token_amount spot_decimals strict_price =
     (if token_amount = 0 then Ok 0
      else
        and_then (plain_pow I128 10 spot_decimals) (\<lambda>precision_decrease.
        let price = (if token_amount > 0 then strict_min strict_price else strict_max strict_price) in
        and_then (cast I128 price) (\<lambda>price.
        and_then (safe_mul I128 token_amount price) (\<lambda>token_with_price.
        if token_with_price < 0 then safe_div_floor I128 token_with_price precision_decrease
        else safe_div I128 token_with_price precision_decrease))))"

definition get_token_value :: "int \<Rightarrow> int \<Rightarrow> int \<Rightarrow> int result" where
  "get_token_value token_amount spot_decimals oracle_price =
     (if token_amount = 0 then Ok 0
      else
        and_then (plain_pow I128 10 spot_decimals) (\<lambda>precision_decrease.
        and_then (cast I128 oracle_price) (\<lambda>oracle_price.
        and_then (safe_mul I128 token_amount oracle_price) (\<lambda>token_with_oracle.
        if token_with_oracle < 0 then safe_div_floor I128 token_with_oracle \<bar>precision_decrease\<bar>
        else safe_div I128 token_with_oracle precision_decrease))))"

lemmas spot_balance_math_defs [eval_defs] =
  get_spot_balance_def get_token_amount_def get_signed_token_amount_def
  get_interest_token_amount_def split_deposit_interest_def
  get_interest_token_amount_with_dust_def calculate_utilization_def
  calculate_spot_market_utilization_def INTEREST_RATE_SEGMENT_AND_WEIGHTS_def
  get_min_borrow_rate_def calculate_borrow_rate_def calculate_accumulated_interest_def
  strict_max_def strict_min_def get_strict_token_value_def get_token_value_def


section \<open>Conversions between scaled balances and tokens\<close>

text \<open>
  \<open>spot_precision m\<close> is \<open>10 ^ (19 - decimals)\<close>: a scaled balance \<open>b\<close> of type \<open>t\<close> is worth
  \<open>b * cumulative_interest t m / spot_precision m\<close> tokens.
\<close>

definition spot_precision :: "spot_market \<Rightarrow> int" where
  "spot_precision m = 10 ^ nat (19 - sm_decimals m)"

lemma spot_precision_pos [simp]: "0 < spot_precision m" "0 \<le> spot_precision m" "spot_precision m \<noteq> 0"
  by (simp_all add: spot_precision_def)

lemma spot_precision_le: "fits U32 (sm_decimals m) \<Longrightarrow> spot_precision m \<le> 10 ^ 19"
  unfolding spot_precision_def by (rule power_increasing) (auto dest: fits_nonneg)

lemma spot_precision_fits: "fits U32 (sm_decimals m) \<Longrightarrow> fits U128 (spot_precision m)"
  using spot_precision_le [of m] spot_precision_pos [of m] by (simp add: fits_def)

lemma precision_Ok_iff:
  assumes "fits U32 (sm_decimals m)"
  shows "and_then (safe_sub U32 19 (sm_decimals m)) (\<lambda>e. and_then (plain_pow U128 10 e) f) = Ok y
     \<longleftrightarrow> sm_decimals m \<le> 19 \<and> f (spot_precision m) = Ok y"
proof (cases "sm_decimals m \<le> 19")
  case True
  then have "safe_sub U32 19 (sm_decimals m) = Ok (19 - sm_decimals m)"
    using assms by (auto simp: safe_sub_def checked_sub_def fits_def)
  moreover have "plain_pow U128 10 (19 - sm_decimals m) = Ok (spot_precision m)"
    using spot_precision_fits [OF assms] by (simp add: plain_pow_def spot_precision_def)
  ultimately show ?thesis using True by simp
next
  case False
  then have "safe_sub U32 19 (sm_decimals m) = Err MathError"
    by (simp add: safe_sub_def checked_sub_def fits_def)
  then show ?thesis using False by simp
qed

lemma case_cumulative_interest:
  "(case t of Deposit \<Rightarrow> sm_cumulative_deposit_interest m | Borrow \<Rightarrow> sm_cumulative_borrow_interest m)
     = cumulative_interest t m"
  by (cases t) simp_all

lemma get_spot_balance_Ok_iff:
  assumes "fits U32 (sm_decimals m)" "0 \<le> tokens" "0 \<le> cumulative_interest t m"
  shows "get_spot_balance tokens m t round_up = Ok b \<longleftrightarrow>
     sm_decimals m \<le> 19 \<and> 0 < cumulative_interest t m \<and> fits U128 (tokens * spot_precision m)
     \<and> b = tokens * spot_precision m div cumulative_interest t m
           + (if round_up \<and> tokens \<noteq> 0 then 1 else 0) \<and> fits U128 b"
proof -
  have nn: "0 \<le> tokens * spot_precision m" using assms(2) by simp
  show ?thesis
    using assms(3) nn unfolding get_spot_balance_def case_cumulative_interest Let_def
      precision_Ok_iff [OF assms(1)]
    by (auto simp: ok_iff fits_div split: if_splits)
qed

lemma get_token_amount_Ok_iff:
  assumes "fits U32 (sm_decimals m)" "0 \<le> b" "0 \<le> cumulative_interest t m"
  shows "get_token_amount b m t = Ok tokens \<longleftrightarrow>
     sm_decimals m \<le> 19 \<and> fits U128 (b * cumulative_interest t m)
     \<and> tokens = (case t of Deposit \<Rightarrow> b * cumulative_interest t m div spot_precision m
                          | Borrow \<Rightarrow> ceil_div (b * cumulative_interest t m) (spot_precision m))"
proof -
  have nn: "0 \<le> b * cumulative_interest t m" using assms by simp
  have fits_ceil: "fits U128 (ceil_div x (spot_precision m))" if "fits U128 x" "0 \<le> x" for x
  proof -
    have "x * 1 \<le> x * spot_precision m"
      using that(2) spot_precision_pos(1) [of m] by (intro mult_left_mono) linarith+
    then have "ceil_div x (spot_precision m) \<le> x" by (simp add: ceil_div_le_iff)
    then show ?thesis
      using that by (simp add: fits_mono_unsigned [of U128 x] ceil_div_nonneg)
  qed
  have dep: "safe_div U128 x (spot_precision m) = Ok y \<longleftrightarrow> y = x div spot_precision m"
    if "fits U128 x" "0 \<le> x" for x y
    using that by auto
  have bor: "safe_div_ceil U128 x (spot_precision m) = Ok y \<longleftrightarrow> y = ceil_div x (spot_precision m)"
    if "fits U128 x" "0 \<le> x" for x y
    using that fits_ceil [OF that] by (auto simp: safe_div_ceil_nonneg)
  show ?thesis
    using nn unfolding get_token_amount_def case_cumulative_interest Let_def
      precision_Ok_iff [OF assms(1)]
    by (cases t) (auto simp: and_then_Ok_iff safe_mul_Ok_iff dep bor)
qed

lemma get_interest_token_amount_Ok_iff:
  assumes "fits U32 (sm_decimals m)" "0 \<le> b" "0 \<le> interest"
  shows "get_interest_token_amount b m interest = Ok tokens \<longleftrightarrow>
     sm_decimals m \<le> 19 \<and> fits U128 (b * interest) \<and> tokens = b * interest div spot_precision m"
proof -
  have "0 \<le> b * interest" using assms by simp
  then show ?thesis
    unfolding get_interest_token_amount_def precision_Ok_iff [OF assms(1)]
    by (auto simp: and_then_Ok_iff safe_mul_Ok_iff)
qed

text \<open>
  The side a rounding falls on. \<open>token_value\<close> is the exact value, in units of
  \<open>1 / spot_precision\<close> tokens.
\<close>

definition scaled_value :: "int \<Rightarrow> spot_market \<Rightarrow> spot_balance_type \<Rightarrow> int" where
  "scaled_value b m t = b * cumulative_interest t m"

lemma get_token_amount_bounds:
  assumes "fits U32 (sm_decimals m)" "0 \<le> b" "0 \<le> cumulative_interest t m"
    and "get_token_amount b m t = Ok tokens"
  shows "t = Deposit \<Longrightarrow> tokens * spot_precision m \<le> scaled_value b m t
           \<and> scaled_value b m t < (tokens + 1) * spot_precision m"
    and "t = Borrow \<Longrightarrow> scaled_value b m t \<le> tokens * spot_precision m
           \<and> (tokens - 1) * spot_precision m < scaled_value b m t"
proof -
  let ?v = "b * cumulative_interest t m" and ?P = "spot_precision m"
  have eq: "tokens = (case t of Deposit \<Rightarrow> ?v div ?P | Borrow \<Rightarrow> ceil_div ?v ?P)"
    using assms by (simp add: get_token_amount_Ok_iff)
  show "t = Deposit \<Longrightarrow> tokens * ?P \<le> scaled_value b m t \<and> scaled_value b m t < (tokens + 1) * ?P"
    using eq div_mul_le [of ?P ?v] less_div_mul [of ?P ?v]
    by (simp add: scaled_value_def algebra_simps)
  show "t = Borrow \<Longrightarrow> scaled_value b m t \<le> tokens * ?P \<and> (tokens - 1) * ?P < scaled_value b m t"
    using eq ceil_div_mul_ge [of ?P ?v] less_ceil_div_iff [of ?P "tokens - 1" ?v]
    by (simp add: scaled_value_def)
qed

lemma get_spot_balance_bounds:
  assumes "fits U32 (sm_decimals m)" "0 \<le> tokens" "0 \<le> cumulative_interest t m"
    and "get_spot_balance tokens m t round_up = Ok b"
  shows "0 \<le> b" "0 < cumulative_interest t m"
    and "\<not> round_up \<or> tokens = 0 \<Longrightarrow> scaled_value b m t \<le> tokens * spot_precision m"
    and "\<not> round_up \<or> tokens = 0 \<Longrightarrow>
           tokens * spot_precision m < scaled_value b m t + cumulative_interest t m"
    and "round_up \<Longrightarrow> tokens * spot_precision m \<le> scaled_value b m t"
    and "scaled_value b m t \<le> tokens * spot_precision m + cumulative_interest t m"
proof -
  let ?v = "tokens * spot_precision m" and ?ci = "cumulative_interest t m"
  from assms have ci: "0 < ?ci"
    and b: "b = ?v div ?ci + (if round_up \<and> tokens \<noteq> 0 then 1 else 0)"
    by (simp_all add: get_spot_balance_Ok_iff)
  note dm = div_mul_le [OF ci, of ?v] less_div_mul [OF ci, of ?v]
  show "0 < ?ci" by (fact ci)
  show "0 \<le> b" using b ci assms(2) by (simp add: div_nonneg)
  show "\<not> round_up \<or> tokens = 0 \<Longrightarrow> scaled_value b m t \<le> ?v"
    using b dm by (auto simp: scaled_value_def)
  show "\<not> round_up \<or> tokens = 0 \<Longrightarrow> ?v < scaled_value b m t + ?ci"
    using b dm ci by (auto simp: scaled_value_def)
  show "round_up \<Longrightarrow> ?v \<le> scaled_value b m t"
    using b dm by (auto simp: scaled_value_def algebra_simps split: if_splits)
  show "scaled_value b m t \<le> ?v + ?ci"
    using b dm ci by (auto simp: scaled_value_def algebra_simps)
qed


section \<open>Splitting the interest of an interval\<close>

text \<open>The market's factors and the remainders its two pools carry.\<close>

abbreviation (input) if_factor :: "spot_market \<Rightarrow> int" where
  "if_factor m \<equiv> if_if_fee_factor (sm_insurance_fund m)"

abbreviation (input) combined_factor :: "spot_market \<Rightarrow> int" where
  "combined_factor m \<equiv> if_factor m + sm_protocol_fee_factor m"

abbreviation (input) carried_carveout :: "spot_market \<Rightarrow> int" where
  "carried_carveout m \<equiv> pb_pending_interest_split_dust (sm_revenue_pool m)"

abbreviation (input) carried_if :: "spot_market \<Rightarrow> int" where
  "carried_if m \<equiv> min (pb_pending_interest_split_dust (sm_protocol_fee_pool m))
     (max 0 (combined_factor m - 1))"

text \<open>What \<open>update_spot_market_if_factor\<close> and the first split keep of the market.\<close>

definition split_inv :: "spot_market \<Rightarrow> bool" where
  "split_inv m \<longleftrightarrow> 0 \<le> if_factor m \<and> 0 \<le> sm_protocol_fee_factor m
     \<and> combined_factor m < IF_FACTOR_PRECISION
     \<and> 0 \<le> carried_carveout m \<and> carried_carveout m < IF_FACTOR_PRECISION
     \<and> fits U32 (pb_pending_interest_split_dust (sm_protocol_fee_pool m))"

lemma div_carry_le:
  fixes n c k P :: int
  assumes "0 \<le> n" "c \<le> P" "k < P" "0 < P"
  shows "(n * c + k) div P \<le> n"
proof -
  have "n * c \<le> n * P" using assms by (intro mult_left_mono) simp_all
  then have "n * c + k < (n + 1) * P" using assms(3) by (simp add: algebra_simps)
  then show ?thesis using div_less_iff_mul [OF assms(4), of "n * c + k" "n + 1"] by simp
qed

text \<open>One division with a carried remainder, as both splits and the token conversion perform it.\<close>

lemma div_steps:
  assumes "0 \<le> num" "fits U128 num" "0 < P"
  shows "safe_div U128 num P = Ok (num div P)"
    and "safe_mul U128 (num div P) P = Ok (num div P * P)"
    and "safe_sub U128 num (num div P * P) = Ok (num mod P)"
    and "P \<le> ty_max t + 1 \<Longrightarrow> cast t (num mod P) = Ok (num mod P)"
proof -
  show "safe_div U128 num P = Ok (num div P)" using assms by simp
  have "fits U128 (num div P * P)"
    by (rule fits_mono_unsigned [of U128 num])
      (use assms div_mul_le [of P num] in \<open>simp_all add: div_nonneg\<close>)
  then show "safe_mul U128 (num div P) P = Ok (num div P * P)"
    by (simp add: safe_mul_Ok_iff)
  show "safe_sub U128 num (num div P * P) = Ok (num mod P)"
    using assms fits_mono_unsigned [of U128 num "num mod P"] zmod_le_nonneg_dividend [of num P]
    by (simp add: safe_sub_Ok_iff minus_div_mult_eq_mod)
  show "cast t (num mod P) = Ok (num mod P)" if "P \<le> ty_max t + 1"
  proof -
    have "num mod P < P" "0 \<le> num mod P" using assms(3) by simp_all
    then have "num mod P \<le> ty_max t" using that by linarith
    then show ?thesis using \<open>0 \<le> num mod P\<close> ty_range(1) [of t] by (simp add: cast_def fits_def)
  qed
qed

lemma split_deposit_interest_eq:
  assumes inv: "split_inv m" and d: "0 \<le> d" "fits U128 ((d + 1) * IF_FACTOR_PRECISION)"
  defines "c \<equiv> combined_factor m" and "num \<equiv> d * combined_factor m + carried_carveout m"
  defines "w \<equiv> num div IF_FACTOR_PRECISION"
  defines "num2 \<equiv> w * if_factor m + carried_if m"
  shows "split_deposit_interest m d = Ok
     \<lparr> is_for_lenders = d - w,
       is_for_insurance_fund = (if c = 0 then 0 else num2 div c),
       is_for_protocol = w - (if c = 0 then 0 else num2 div c),
       is_carveout_dust = num mod IF_FACTOR_PRECISION,
       is_insurance_fund_dust = (if c = 0 then 0 else num2 mod c) \<rparr>"
proof -
  let ?k = "carried_carveout m" and ?f = "if_factor m" and ?j = "carried_if m"
  have c: "0 \<le> c" "c < 1000000" "?f \<le> c" "0 \<le> ?f" and k: "0 \<le> ?k" "?k < 1000000"
    and p: "0 \<le> sm_protocol_fee_factor m" "sm_protocol_fee_factor m \<le> c"
    and j: "0 \<le> pb_pending_interest_split_dust (sm_protocol_fee_pool m)"
      "fits U32 (pb_pending_interest_split_dust (sm_protocol_fee_pool m))"
    using inv by (auto simp: split_inv_def c_def)
  have "0 \<le> d * c" using c d by simp
  have "d * c \<le> d * 1000000" using c d by (intro mult_left_mono) simp_all
  then have num: "0 \<le> num" "num \<le> (d + 1) * 1000000" and dc: "0 \<le> d * c" "d * c \<le> (d + 1) * 1000000"
    using k \<open>0 \<le> d * c\<close> by (auto simp: num_def c_def algebra_simps)
  then have fn: "fits U128 num" "fits U128 (d * c)"
    using d(2) by (auto intro: fits_mono_unsigned)
  have w: "0 \<le> w" "w \<le> d"
    using num c k d div_carry_le [of d c 1000000 ?k] by (auto simp: w_def num_def c_def div_nonneg)
  have fdw: "fits U128 d" using d by (intro fits_mono_unsigned [OF d(2)]) auto
  have casts: "cast U128 ?f = Ok ?f" "cast U128 (sm_protocol_fee_factor m) = Ok (sm_protocol_fee_factor m)"
    "safe_add U128 ?f (sm_protocol_fee_factor m) = Ok c" "cast U128 ?k = Ok ?k"
    "cast U128 (pb_pending_interest_split_dust (sm_protocol_fee_pool m))
       = Ok (pb_pending_interest_split_dust (sm_protocol_fee_pool m))"
    "saturating_sub U128 c 1 = max 0 (c - 1)"
    using c k p j by (auto simp: cast_def safe_add_def checked_add_def saturating_sub_def fits_def c_def)
  have steps: "safe_mul U128 d c = Ok (d * c)" "safe_add U128 (d * c) ?k = Ok num"
    "safe_sub U128 d w = Ok (d - w)"
    using fn w fits_mono_unsigned [OF fdw, of "d - w"] by (auto simp: ok_iff num_def c_def)
  show ?thesis
  proof (cases "c = 0")
    case True
    then have "num = ?k" by (simp add: num_def c_def)
    then show ?thesis
      using True steps w fdw k d fits_mono_unsigned [OF fdw, of w]
        div_steps [OF num(1) fn(1), of 1000000, folded w_def] div_steps(4) [OF num(1) fn(1), of 1000000 U32]
      unfolding split_deposit_interest_def casts and_then.simps Let_def
      by (auto simp: safe_sub_def checked_sub_def w_def)
  next
    case False
    have j2: "0 \<le> ?j" "?j < c" using False c j by (auto simp: c_def)
    have wf: "0 \<le> w * ?f" "w * ?f \<le> w * c" using w c by (auto intro: mult_left_mono)
    have "w * c + c \<le> (d + 1) * 1000000"
      using w c d mult_mono [of "w + 1" "d + 1" c 1000000] by (simp add: algebra_simps)
    then have n2: "0 \<le> num2" "num2 \<le> (d + 1) * 1000000" "w * ?f \<le> (d + 1) * 1000000"
      using wf j2 by (auto simp: num2_def)
    then have fn2: "fits U128 num2" "fits U128 (w * ?f)"
      using d(2) wf by (auto intro: fits_mono_unsigned)
    have q: "0 \<le> num2 div c" "num2 div c \<le> w"
      using False c n2 w j2 div_carry_le [of w ?f c ?j] by (auto simp: num2_def div_nonneg)
    have steps2: "safe_mul U128 w ?f = Ok (w * ?f)" "safe_add U128 (w * ?f) (min (pb_pending_interest_split_dust (sm_protocol_fee_pool m)) (c - 1)) = Ok num2"
      "safe_sub U128 w (num2 div c) = Ok (w - num2 div c)"
      using fn2 q w False c fits_mono_unsigned [OF fdw, of "w - num2 div c"]
      by (auto simp: ok_iff num2_def c_def max_def)
    show ?thesis
      using False c
      unfolding split_deposit_interest_def casts and_then.simps Let_def steps
        div_steps [OF num(1) fn(1), of 1000000, simplified, folded w_def]
      by (simp add: steps steps2 div_steps [OF n2(1) fn2(1)]
          div_steps(4) [OF num(1) fn(1), of 1000000 U32] )
  qed
qed


lemma div_carry_nonneg: "0 \<le> n \<Longrightarrow> 0 \<le> c \<Longrightarrow> 0 \<le> k \<Longrightarrow> 0 < P \<Longrightarrow> 0 \<le> (n * c + k) div (P::int)"
  by (simp add: div_nonneg)

text \<open>The parts of a split: nothing is lost, nobody's share is negative, the carries stay reduced.\<close>

lemma split_deposit_interest_parts:
  assumes "split_inv m" "0 \<le> d" "fits U128 ((d + 1) * IF_FACTOR_PRECISION)"
    and "split_deposit_interest m d = Ok s"
  shows "0 \<le> is_for_lenders s" "0 \<le> is_for_insurance_fund s" "0 \<le> is_for_protocol s"
    and "is_for_lenders s + is_for_insurance_fund s + is_for_protocol s = d"
    and "is_for_insurance_fund s + is_for_protocol s =
           (d * combined_factor m + carried_carveout m) div IF_FACTOR_PRECISION"
    and "is_carveout_dust s = (d * combined_factor m + carried_carveout m) mod IF_FACTOR_PRECISION"
    and "0 < combined_factor m \<Longrightarrow> is_for_insurance_fund s =
           ((is_for_insurance_fund s + is_for_protocol s) * if_factor m + carried_if m)
             div combined_factor m"
    and "0 < combined_factor m \<Longrightarrow> is_insurance_fund_dust s =
           ((is_for_insurance_fund s + is_for_protocol s) * if_factor m + carried_if m)
             mod combined_factor m"
    and "combined_factor m = 0 \<Longrightarrow> is_insurance_fund_dust s = 0"
proof -
  let ?c = "combined_factor m" and ?k = "carried_carveout m" and ?f = "if_factor m"
    and ?j = "carried_if m"
  let ?w = "(d * ?c + ?k) div 1000000"
  note s = split_deposit_interest_eq [OF assms(1-3)] assms(4)
  have c: "0 \<le> ?c" "?c \<le> 1000000" "?f \<le> ?c" "0 \<le> ?f" "0 \<le> ?k" "?k < 1000000"
    and j: "0 \<le> ?j" "0 < ?c \<Longrightarrow> ?j < ?c"
    using assms(1) by (auto simp: split_inv_def)
  have w: "0 \<le> ?w" "?w \<le> d" using c assms(2) by (auto intro: div_carry_le div_carry_nonneg)
  have q: "0 \<le> (?w * ?f + ?j) div ?c \<and> (?w * ?f + ?j) div ?c \<le> ?w" if "0 < ?c"
    using that c j w by (auto intro: div_carry_le div_carry_nonneg)
  define i where "i = (if ?c = 0 then 0 else (?w * ?f + ?j) div ?c)"
  have i: "0 \<le> i" "i \<le> ?w" using q w(1) c(1) by (cases "?c = 0"; simp add: i_def)+
  have s_eq: "s = \<lparr> is_for_lenders = d - ?w, is_for_insurance_fund = i, is_for_protocol = ?w - i,
      is_carveout_dust = (d * ?c + ?k) mod 1000000,
      is_insurance_fund_dust = (if ?c = 0 then 0 else (?w * ?f + ?j) mod ?c) \<rparr>"
    using s by (simp add: i_def)
  show "0 \<le> is_for_lenders s" "0 \<le> is_for_insurance_fund s" "0 \<le> is_for_protocol s"
    "is_for_lenders s + is_for_insurance_fund s + is_for_protocol s = d"
    "is_for_insurance_fund s + is_for_protocol s = ?w"
    "is_carveout_dust s = (d * ?c + ?k) mod 1000000"
    "?c = 0 \<Longrightarrow> is_insurance_fund_dust s = 0"
    using w(2) i by (simp_all add: s_eq)
  show "0 < ?c \<Longrightarrow> is_for_insurance_fund s =
       ((is_for_insurance_fund s + is_for_protocol s) * ?f + ?j) div ?c"
    "0 < ?c \<Longrightarrow> is_insurance_fund_dust s =
       ((is_for_insurance_fund s + is_for_protocol s) * ?f + ?j) mod ?c"
    by (simp_all add: s_eq) (simp add: i_def)
qed

text \<open>
  \<open>store_split\<close> is what the accrual does with the remainders of a split, \<open>split_run\<close> the splits
  of a sequence of intervals with the totals each side received.
\<close>

definition store_split :: "spot_market \<Rightarrow> interest_split \<Rightarrow> spot_market" where
  "store_split m s = m
     \<lparr> sm_revenue_pool := (sm_revenue_pool m) \<lparr> pb_pending_interest_split_dust := is_carveout_dust s \<rparr>,
       sm_protocol_fee_pool :=
         (sm_protocol_fee_pool m) \<lparr> pb_pending_interest_split_dust := is_insurance_fund_dust s \<rparr> \<rparr>"

fun split_run :: "spot_market \<Rightarrow> int list \<Rightarrow> (int \<times> int \<times> int) result" where
  "split_run m [] = Ok (0, 0, 0)"
| "split_run m (d # ds) =
     and_then (split_deposit_interest m d) (\<lambda>s.
     and_then (split_run (store_split m s) ds) (\<lambda>(lenders, insurance_fund, protocol).
     Ok (is_for_lenders s + lenders, is_for_insurance_fund s + insurance_fund,
         is_for_protocol s + protocol)))"

lemma store_split_simps [simp]:
  "sm_insurance_fund (store_split m s) = sm_insurance_fund m"
  "sm_protocol_fee_factor (store_split m s) = sm_protocol_fee_factor m"
  "carried_carveout (store_split m s) = is_carveout_dust s"
  "pb_pending_interest_split_dust (sm_protocol_fee_pool (store_split m s)) = is_insurance_fund_dust s"
  by (simp_all add: store_split_def)

lemma split_inv_store_split:
  assumes "split_inv m" "0 \<le> d" "fits U128 ((d + 1) * IF_FACTOR_PRECISION)"
    and s: "split_deposit_interest m d = Ok s"
  shows "split_inv (store_split m s)"
    and "0 < combined_factor m \<Longrightarrow> is_insurance_fund_dust s < combined_factor m"
proof -
  note parts = split_deposit_interest_parts [OF assms]
  have c: "combined_factor m < 1000000" "0 \<le> combined_factor m"
    using assms(1) by (auto simp: split_inv_def)
  then show lt: "0 < combined_factor m \<Longrightarrow> is_insurance_fund_dust s < combined_factor m"
    using parts(8) by simp
  have "0 \<le> is_insurance_fund_dust s \<and> is_insurance_fund_dust s < 1000000"
  proof (cases "combined_factor m = 0")
    case True
    then show ?thesis using parts(9) by simp
  next
    case False
    then have pos: "0 < combined_factor m" using c by linarith
    have "0 \<le> is_insurance_fund_dust s" by (simp only: parts(8) [OF pos] pos_mod_sign [OF pos])
    then show ?thesis using lt [OF pos] c by linarith
  qed
  then show "split_inv (store_split m s)"
    using assms(1) parts(6) unfolding split_inv_def by (simp add: fits_def)
qed

lemma div_mod_carry:
  fixes a b P :: int
  assumes "0 < P"
  shows "a div P + (b + a mod P) div P = (a + b) div P"
    and "(b + a mod P) mod P = (a + b) mod P"
proof -
  have "a + b = a div P * P + (b + a mod P)"
    using div_mult_mod_eq [of a P] by linarith
  then show "a div P + (b + a mod P) div P = (a + b) div P"
    using assms by (metis div_mult_self3 less_irrefl)
  show "(b + a mod P) mod P = (a + b) mod P" by (simp add: mod_add_right_eq add.commute)
qed

lemma split_run_totals:
  assumes "split_inv m" "0 < combined_factor m"
    and "pb_pending_interest_split_dust (sm_protocol_fee_pool m) < combined_factor m"
    and "list_all (\<lambda>d. 0 \<le> d \<and> fits U128 ((d + 1) * IF_FACTOR_PRECISION)) ds"
  shows "\<exists>lenders insurance_fund protocol. split_run m ds = Ok (lenders, insurance_fund, protocol)
     \<and> insurance_fund + protocol =
         (sum_list ds * combined_factor m + carried_carveout m) div IF_FACTOR_PRECISION
     \<and> insurance_fund = ((insurance_fund + protocol) * if_factor m
         + pb_pending_interest_split_dust (sm_protocol_fee_pool m)) div combined_factor m
     \<and> lenders = sum_list ds - (insurance_fund + protocol)"
  using assms
proof (induction ds arbitrary: m)
  case Nil
  then show ?case by (auto simp: split_inv_def)
next
  case (Cons d ds)
  let ?c = "combined_factor m" and ?f = "if_factor m" and ?k = "carried_carveout m"
    and ?j = "pb_pending_interest_split_dust (sm_protocol_fee_pool m)"
  have d: "0 \<le> d" "fits U128 ((d + 1) * 1000000)" using Cons.prems(4) by simp_all
  obtain s where s: "split_deposit_interest m d = Ok s"
    using split_deposit_interest_eq [OF Cons.prems(1) d] by blast
  note parts = split_deposit_interest_parts [OF Cons.prems(1) d s]
  note next_inv = split_inv_store_split [OF Cons.prems(1) d s]
  have j: "carried_if m = ?j" using Cons.prems(2,3) by simp
  obtain L I R where run: "split_run (store_split m s) ds = Ok (L, I, R)"
    and IR: "I + R = (sum_list ds * ?c + is_carveout_dust s) div 1000000"
    and I: "I = ((I + R) * ?f + is_insurance_fund_dust s) div ?c"
    and L: "L = sum_list ds - (I + R)"
    using Cons.IH [of "store_split m s"] next_inv Cons.prems by auto
  let ?i = "is_for_insurance_fund s" and ?p = "is_for_protocol s"
  have tot: "(?i + I) + (?p + R) = ((d + sum_list ds) * ?c + ?k) div 1000000"
    using parts(5) IR div_mod_carry(1) [of 1000000 "d * ?c + ?k" "sum_list ds * ?c"] parts(6)
    by (simp add: algebra_simps)
  have "?i + I = (((?i + ?p) * ?f + ?j) + (I + R) * ?f) div ?c"
    using parts(7,8) I j Cons.prems(2) div_mod_carry(1) [of ?c "(?i + ?p) * ?f + ?j" "(I + R) * ?f"]
    by simp
  also have "((?i + ?p) * ?f + ?j) + (I + R) * ?f = ((?i + I) + (?p + R)) * ?f + ?j"
    by (simp add: algebra_simps)
  finally have fund: "?i + I = (((?i + I) + (?p + R)) * ?f + ?j) div ?c" .
  have "split_run m (d # ds) = Ok (is_for_lenders s + L, ?i + I, ?p + R)" using s run by simp
  moreover have "is_for_lenders s + L = sum_list (d # ds) - ((?i + I) + (?p + R))"
    using L parts(4) by simp
  ultimately show ?case using tot fund
    by (intro exI [of _ "is_for_lenders s + L"] exI [of _ "?i + I"] exI [of _ "?p + R"]) simp
qed

end
