(* ===== verification/Spot_Interest.thy ===== *)
theory Spot_Interest
  imports Spot_Balance_Math
begin

text \<open>
  What the interest functions of \<open>math/spot_balance.rs\<close> compute: the token conversion that carries
  its remainder, the utilization, the shape of the borrow-rate curve and the conservation clamp of
  \<open>calculate_accumulated_interest\<close>.
\<close>

section \<open>Token conversion with a carried remainder\<close>

lemma get_interest_token_amount_with_dust_eq:
  assumes "fits U32 (sm_decimals m)" "sm_decimals m \<le> 19" "0 \<le> b" "0 \<le> i"
    and "fits U64 k" "fits U128 (b * i + k)"
  shows "get_interest_token_amount_with_dust b m i k =
     Ok ((b * i + k) div spot_precision m, (b * i + k) mod spot_precision m)"
proof -
  have k: "0 \<le> k" using assms(5) by auto
  have n: "0 \<le> b * i" "fits U128 (b * i)" "0 \<le> b * i + k" "fits U128 k"
    using assms k by (auto intro: fits_mono_unsigned)
  have P: "spot_precision m \<le> ty_max U64 + 1" using spot_precision_le [OF assms(1)] by simp
  note steps = div_steps(1-3) [OF n(3) assms(6) spot_precision_pos(1)]
    div_steps(4) [OF n(3) assms(6) spot_precision_pos(1) P]
  have pre: "safe_mul U128 b i = Ok (b * i)" "cast U128 k = Ok k" "safe_add U128 (b * i) k = Ok (b * i + k)"
    using n assms(6) by (simp_all add: ok_iff)
  show ?thesis
    unfolding get_interest_token_amount_with_dust_def precision_Ok_iff [OF assms(1)]
    using assms(2) by (simp add: pre steps)
qed

section \<open>Utilization\<close>

lemma calculate_utilization_eq:
  assumes "0 \<le> deposits" "0 \<le> borrows" "fits U128 (borrows * SPOT_UTILIZATION_PRECISION)"
  shows "calculate_utilization deposits borrows =
     Ok (if deposits = 0 then (if borrows = 0 then 0 else SPOT_UTILIZATION_PRECISION)
         else borrows * SPOT_UTILIZATION_PRECISION div deposits)"
  using assms fits_div [OF assms(3)]
  by (simp add: calculate_utilization_def safe_mul_def checked_mul_def checked_div_def)

lemma calculate_utilization_Ok_iff:
  assumes "0 \<le> deposits" "0 \<le> borrows"
  shows "calculate_utilization deposits borrows = Ok u \<longleftrightarrow>
     fits U128 (borrows * SPOT_UTILIZATION_PRECISION)
     \<and> u = (if deposits = 0 then (if borrows = 0 then 0 else SPOT_UTILIZATION_PRECISION)
            else borrows * SPOT_UTILIZATION_PRECISION div deposits)"
proof (cases "fits U128 (borrows * 1000000)")
  case True
  then show ?thesis using calculate_utilization_eq [OF assms] by auto
next
  case False
  then show ?thesis by (simp add: calculate_utilization_def safe_mul_def checked_mul_def)
qed

section \<open>The borrow-rate curve\<close>

definition segment_rate :: "int \<Rightarrow> int \<Rightarrow> int" where
  "segment_rate extra weight = extra * weight div 1000"

text \<open>A list of segments is increasing from \<open>prev\<close>.\<close>

fun segments_from :: "int \<Rightarrow> (int \<times> int) list \<Rightarrow> bool" where
  "segments_from prev [] = True"
| "segments_from prev ((bp, weight) # segs) =
     (prev \<le> bp \<and> bp \<le> 1000000 \<and> 0 \<le> weight \<and> weight \<le> 1000 \<and> segments_from bp segs)"

text \<open>The loop as a function that cannot fail.\<close>

fun curve :: "int \<Rightarrow> int \<Rightarrow> (int \<times> int) list \<Rightarrow> int \<Rightarrow> int \<Rightarrow> int" where
  "curve u extra [] rate prev = rate"
| "curve u extra ((bp, weight) # segs) rate prev =
     (if u \<le> bp then rate + segment_rate extra weight * (u - prev) div (bp - prev)
      else curve u extra segs (rate + segment_rate extra weight) bp)"

lemma segment_rate_bounds:
  assumes "0 \<le> extra" "0 \<le> weight" "weight \<le> 1000"
  shows "0 \<le> segment_rate extra weight" "segment_rate extra weight \<le> extra"
proof -
  show "0 \<le> segment_rate extra weight" using assms by (simp add: segment_rate_def div_nonneg)
  have "extra * weight \<le> extra * 1000" using assms by (intro mult_left_mono) simp_all
  then show "segment_rate extra weight \<le> extra"
    using div_less_iff_mul [of 1000 "extra * weight" "extra + 1"] by (simp add: segment_rate_def)
qed

lemma partial_rate_bounds:
  fixes r u p b :: int
  assumes "0 \<le> r" "p \<le> u" "u \<le> b" "p < b"
  shows "0 \<le> r * (u - p) div (b - p)" "r * (u - p) div (b - p) \<le> r"
proof -
  show "0 \<le> r * (u - p) div (b - p)" using assms by (simp add: div_nonneg)
  have "r * (u - p) \<le> r * (b - p)" using assms by (intro mult_left_mono) simp_all
  then have "r * (u - p) div (b - p) \<le> r * (b - p) div (b - p)" using assms by (intro zdiv_mono1) simp_all
  then show "r * (u - p) div (b - p) \<le> r" using assms by simp
qed

lemma curve_lower:
  assumes "segments_from prev segs" "prev < u" "0 \<le> extra"
  shows "rate \<le> curve u extra segs rate prev"
  using assms
proof (induction segs arbitrary: rate prev)
  case (Cons s segs)
  obtain bp weight where s: "s = (bp, weight)" by (cases s)
  have seg: "0 \<le> segment_rate extra weight" using Cons.prems s by (simp add: segment_rate_bounds)
  show ?case
  proof (cases "u \<le> bp")
    case True
    then show ?thesis
      using Cons.prems s seg partial_rate_bounds(1) [of "segment_rate extra weight" prev u bp] by simp
  next
    case False
    then have "rate + segment_rate extra weight \<le> curve u extra segs (rate + segment_rate extra weight) bp"
      using Cons.IH [of bp "rate + segment_rate extra weight"] Cons.prems s by simp
    then show ?thesis using False s seg by simp
  qed
qed simp

lemma curve_upper:
  assumes "segments_from prev segs" "prev < u" "0 \<le> extra"
  shows "curve u extra segs rate prev \<le> rate + sum_list (map (\<lambda>(bp, w). segment_rate extra w) segs)"
  using assms
proof (induction segs arbitrary: rate prev)
  case (Cons s segs)
  obtain bp weight where s: "s = (bp, weight)" by (cases s)
  have seg: "0 \<le> segment_rate extra weight" using Cons.prems s by (simp add: segment_rate_bounds)
  have rest: "0 \<le> sum_list (map (\<lambda>(bp, w). segment_rate extra w) segs)"
    if "segments_from bp segs" for bp
    using that Cons.prems(3)
    by (induction segs arbitrary: bp) (auto simp: segment_rate_bounds)
  show ?case
  proof (cases "u \<le> bp")
    case True
    then show ?thesis
      using Cons.prems s seg partial_rate_bounds(2) [of "segment_rate extra weight" prev u bp] rest [of bp]
      by simp
  next
    case False
    then show ?thesis
      using Cons.IH [of bp "rate + segment_rate extra weight"] Cons.prems s by (simp add: algebra_simps)
  qed
qed simp

lemma curve_mono:
  assumes "segments_from prev segs" "prev < u" "u \<le> v" "0 \<le> extra"
  shows "curve u extra segs rate prev \<le> curve v extra segs rate prev"
  using assms
proof (induction segs arbitrary: rate prev)
  case (Cons s segs)
  obtain bp weight where s: "s = (bp, weight)" by (cases s)
  let ?r = "segment_rate extra weight"
  have seg: "0 \<le> ?r" using Cons.prems s by (simp add: segment_rate_bounds)
  consider "v \<le> bp" | "u \<le> bp" "bp < v" | "bp < u" by linarith
  then show ?case
  proof cases
    case 1
    have "?r * (u - prev) \<le> ?r * (v - prev)" using seg Cons.prems by (intro mult_left_mono) simp_all
    then have "?r * (u - prev) div (bp - prev) \<le> ?r * (v - prev) div (bp - prev)"
      using 1 Cons.prems by (intro zdiv_mono1) simp_all
    then show ?thesis using 1 Cons.prems s by simp
  next
    case 2
    have "?r * (u - prev) div (bp - prev) \<le> ?r"
      using 2 Cons.prems seg by (intro partial_rate_bounds(2)) simp_all
    moreover have "rate + ?r \<le> curve v extra segs (rate + ?r) bp"
      using 2 Cons.prems s by (intro curve_lower) simp_all
    ultimately show ?thesis using 2 s by simp
  next
    case 3
    then show ?thesis using Cons.IH [of bp "rate + ?r"] Cons.prems s by simp
  qed
qed simp

text \<open>On the market's parameters the loop never fails and computes \<open>curve\<close>.\<close>

lemma borrow_rate_segments_eq:
  assumes "segments_from prev segs" "0 \<le> prev" "prev < u" "0 \<le> extra" "extra \<le> ty_max U32"
    and "0 \<le> rate" "rate + int (length segs) * ty_max U32 \<le> ty_max U128"
  shows "borrow_rate_segments u extra segs rate prev = Ok (curve u extra segs rate prev)"
  using assms
proof (induction segs arbitrary: rate prev)
  case (Cons s segs)
  obtain bp weight where s: "s = (bp, weight)" by (cases s)
  let ?r = "segment_rate extra weight"
  have w: "0 \<le> weight" "weight \<le> 1000" "prev \<le> bp" "bp \<le> 1000000" "segments_from bp segs"
    using Cons.prems s by simp_all
  have r: "0 \<le> ?r" "?r \<le> extra" using segment_rate_bounds [OF Cons.prems(4) w(1,2)] by simp_all
  have mul: "0 \<le> extra * weight" "extra * weight \<le> ty_max U32 * 1000"
    using Cons.prems w mult_mono [of extra "ty_max U32" weight 1000] by simp_all
  have ops: "safe_sub U128 bp prev = Ok (bp - prev)" "safe_mul U128 extra weight = Ok (extra * weight)"
    "safe_div U128 (extra * weight) 1000 = Ok ?r"
    using w Cons.prems mul by (simp_all add: ok_iff fits_def segment_rate_def)
  have len: "0 \<le> int (length segs) * ty_max U32" by simp
  show ?case
  proof (cases "u \<le> bp")
    case True
    have pb: "0 \<le> ?r * (u - prev)" "?r * (u - prev) \<le> ty_max U32 * 1000000"
      using True Cons.prems w r mult_mono [of ?r "ty_max U32" "u - prev" 1000000] by simp_all
    note pr = partial_rate_bounds [OF r(1), of prev u bp]
    have "safe_sub U128 u prev = Ok (u - prev)" "safe_mul U128 ?r (u - prev) = Ok (?r * (u - prev))"
      "safe_div U128 (?r * (u - prev)) (bp - prev) = Ok (?r * (u - prev) div (bp - prev))"
      "safe_add U128 rate (?r * (u - prev) div (bp - prev))
        = Ok (rate + ?r * (u - prev) div (bp - prev))"
      using True Cons.prems w pb pr r len by (simp_all add: ok_iff fits_def)
    then show ?thesis using True ops s by simp
  next
    case False
    have "safe_add U128 rate ?r = Ok (rate + ?r)"
      using Cons.prems r len s by (simp add: ok_iff fits_def)
    moreover have "borrow_rate_segments u extra segs (rate + ?r) bp = Ok (curve u extra segs (rate + ?r) bp)"
      by (rule Cons.IH) (use False Cons.prems w r s in \<open>simp_all add: algebra_simps\<close>)
    ultimately show ?thesis using False ops s by simp
  qed
qed simp


text \<open>The market's rate parameters, as \<open>validate_borrow_rate\<close> admits them, below the first kink.\<close>

definition rate_params_ok :: "spot_market \<Rightarrow> bool" where
  "rate_params_ok m \<longleftrightarrow>
     0 \<le> sm_optimal_utilization m \<and> sm_optimal_utilization m \<le> 850000
     \<and> 0 \<le> sm_optimal_borrow_rate m \<and> sm_optimal_borrow_rate m \<le> sm_max_borrow_rate m
     \<and> sm_max_borrow_rate m \<le> ty_max U32 \<and> fits U8 (sm_min_borrow_rate m)"

definition base_rate :: "spot_market \<Rightarrow> int \<Rightarrow> int" where
  "base_rate m u =
     (if u \<le> sm_optimal_utilization m then
        u * (sm_optimal_borrow_rate m * 1000000 div sm_optimal_utilization m) div 1000000
      else curve u (sm_max_borrow_rate m - sm_optimal_borrow_rate m)
        INTEREST_RATE_SEGMENT_AND_WEIGHTS (sm_optimal_borrow_rate m) (sm_optimal_utilization m))"

lemma get_min_borrow_rate_eq:
  assumes "fits U8 (sm_min_borrow_rate m)"
  shows "get_min_borrow_rate m = Ok (sm_min_borrow_rate m * 5000)"
  using assms by (simp add: get_min_borrow_rate_def cast_def safe_mul_def checked_mul_def fits_def)

lemma segments_from_optimal:
  "prev \<le> 850000 \<Longrightarrow> segments_from prev INTEREST_RATE_SEGMENT_AND_WEIGHTS"
  by (simp add: INTEREST_RATE_SEGMENT_AND_WEIGHTS_def)

lemma below_kink_bounds:
  fixes u opt rate :: int
  assumes "0 < u" "u \<le> opt" "0 \<le> rate"
  shows "0 \<le> u * (rate * 1000000 div opt) div 1000000" "u * (rate * 1000000 div opt) div 1000000 \<le> rate"
proof -
  let ?s = "rate * 1000000 div opt"
  have s: "0 \<le> ?s" "?s * opt \<le> rate * 1000000"
    using assms div_mul_le [of opt "rate * 1000000"] by (simp_all add: div_nonneg)
  show "0 \<le> u * ?s div 1000000" using s assms by (simp add: div_nonneg)
  have "u * ?s \<le> opt * ?s" using s assms by (intro mult_right_mono) simp_all
  then have "u * ?s \<le> rate * 1000000" using s by (simp add: mult.commute)
  then show "u * ?s div 1000000 \<le> rate"
    using div_less_iff_mul [of 1000000 "u * ?s" "rate + 1"] by simp
qed

lemma base_rate_bounds:
  assumes "rate_params_ok m" "0 < u"
  shows "0 \<le> base_rate m u" "base_rate m u \<le> sm_max_borrow_rate m"
proof -
  let ?o = "sm_optimal_borrow_rate m" and ?x = "sm_max_borrow_rate m - sm_optimal_borrow_rate m"
    and ?segs = INTEREST_RATE_SEGMENT_AND_WEIGHTS
  have par: "sm_optimal_utilization m \<le> 850000" "0 \<le> ?o" "0 \<le> ?x"
    using assms(1) by (auto simp: rate_params_ok_def)
  show "0 \<le> base_rate m u"
    using par below_kink_bounds(1) [of u "sm_optimal_utilization m" ?o] assms(2)
      curve_lower [OF segments_from_optimal [OF par(1)], of u ?x ?o]
    by (auto simp: base_rate_def)
  have "sum_list (map (\<lambda>(bp, w). segment_rate ?x w) ?segs) \<le> ?x"
    by (simp add: INTEREST_RATE_SEGMENT_AND_WEIGHTS_def segment_rate_def)
  then show "base_rate m u \<le> sm_max_borrow_rate m"
    using par below_kink_bounds(2) [of u "sm_optimal_utilization m" ?o] assms(2)
      curve_upper [OF segments_from_optimal [OF par(1)], of u ?x ?o]
    by (auto simp: base_rate_def)
qed

lemma base_rate_mono:
  assumes "rate_params_ok m" "0 < u" "u \<le> v"
  shows "base_rate m u \<le> base_rate m v"
proof -
  let ?o = "sm_optimal_borrow_rate m" and ?opt = "sm_optimal_utilization m"
  have par: "?opt \<le> 850000" "0 \<le> ?o" "0 \<le> sm_max_borrow_rate m - ?o" "0 \<le> ?opt"
    using assms(1) by (auto simp: rate_params_ok_def)
  consider "v \<le> ?opt" | "u \<le> ?opt" "?opt < v" | "?opt < u" by linarith
  then show ?thesis
  proof cases
    case 1
    have "u * (?o * 1000000 div ?opt) \<le> v * (?o * 1000000 div ?opt)"
      using assms par 1 by (intro mult_right_mono) (simp_all add: div_nonneg)
    then show ?thesis using 1 assms(3) by (simp add: base_rate_def zdiv_mono1)
  next
    case 2
    then show ?thesis
      using below_kink_bounds(2) [of u ?opt ?o] assms(2) par
        curve_lower [OF segments_from_optimal [OF par(1)], of v "sm_max_borrow_rate m - ?o" ?o]
      by (simp add: base_rate_def)
  next
    case 3
    then show ?thesis using assms(3) par
      by (simp add: base_rate_def curve_mono segments_from_optimal)
  qed
qed

text \<open>On such parameters the rate of a positive utilization exists and is \<open>base_rate\<close>, floored.\<close>

lemma calculate_borrow_rate_eq:
  assumes "rate_params_ok m" "0 < u" "fits U128 u"
  shows "calculate_borrow_rate m u = Ok (max (base_rate m u) (sm_min_borrow_rate m * 5000))"
proof -
  let ?o = "sm_optimal_borrow_rate m" and ?opt = "sm_optimal_utilization m"
    and ?x = "sm_max_borrow_rate m - sm_optimal_borrow_rate m"
  have par: "0 \<le> ?opt" "?opt \<le> 850000" "0 \<le> ?o" "?o \<le> sm_max_borrow_rate m"
    "sm_max_borrow_rate m \<le> 4294967295" "0 \<le> sm_min_borrow_rate m" "sm_min_borrow_rate m \<le> 255"
    using assms(1) by (auto simp: rate_params_ok_def fits_def)
  have casts: "cast U128 ?opt = Ok ?opt" "cast U128 ?o = Ok ?o"
    "cast U128 (sm_max_borrow_rate m) = Ok (sm_max_borrow_rate m)"
    "cast U128 (sm_min_borrow_rate m * 5000) = Ok (sm_min_borrow_rate m * 5000)"
    "safe_sub U128 (sm_max_borrow_rate m) ?o = Ok ?x"
    using par by (simp_all add: ok_iff fits_def)
  have min: "get_min_borrow_rate m = Ok (sm_min_borrow_rate m * 5000)"
    using assms(1) by (simp add: get_min_borrow_rate_eq rate_params_ok_def)
  show ?thesis
  proof (cases "u \<le> ?opt")
    case True
    let ?s = "?o * 1000000 div ?opt"
    have s: "0 \<le> ?s" "?s \<le> ?o * 1000000" using True par assms(2) by (simp_all add: div_nonneg div_le_self)
    have "u * ?s \<le> 850000 * 4294967295000000" using True par s assms(2) by (intro mult_mono) simp_all
    then have "safe_mul U128 ?o 1000000 = Ok (?o * 1000000)" "safe_div U128 (?o * 1000000) ?opt = Ok ?s"
      "safe_mul U128 u ?s = Ok (u * ?s)" "safe_div U128 (u * ?s) 1000000 = Ok (u * ?s div 1000000)"
      using True par s assms(2) by (simp_all add: ok_iff fits_def)
    then show ?thesis using True unfolding calculate_borrow_rate_def by (simp add: casts min base_rate_def)
  next
    case False
    have "borrow_rate_segments u ?x INTEREST_RATE_SEGMENT_AND_WEIGHTS ?o ?opt
        = Ok (curve u ?x INTEREST_RATE_SEGMENT_AND_WEIGHTS ?o ?opt)"
      using False par assms(2)
      by (intro borrow_rate_segments_eq segments_from_optimal)
        (simp_all add: INTEREST_RATE_SEGMENT_AND_WEIGHTS_def)
    then show ?thesis using False unfolding calculate_borrow_rate_def by (simp add: casts min base_rate_def)
  qed
qed

text \<open>
  An optimal utilization above the first kink of the table, which \<open>validate_borrow_rate\<close> admits,
  makes the first segment's range negative: every utilization above it fails.
\<close>

lemma calculate_borrow_rate_above_first_kink:
  assumes "850000 < sm_optimal_utilization m" "sm_optimal_utilization m < u"
    and "fits U32 (sm_optimal_utilization m)" "fits U32 (sm_optimal_borrow_rate m)"
    and "fits U32 (sm_max_borrow_rate m)" "sm_optimal_borrow_rate m \<le> sm_max_borrow_rate m"
    and "fits U8 (sm_min_borrow_rate m)"
  shows "calculate_borrow_rate m u = Err MathError"
  using assms get_min_borrow_rate_eq [OF assms(7)]
  by (simp add: calculate_borrow_rate_def INTEREST_RATE_SEGMENT_AND_WEIGHTS_def cast_def
      safe_sub_def checked_sub_def fits_def)


section \<open>The interest of an interval\<close>

lemma clamp_le:
  fixes D i g n P :: int
  assumes "0 \<le> D" "0 \<le> i" "0 < P" "0 \<le> n" "n < D * i div P"
  shows "D * (i * n div (D * i div P)) div P \<le> n"
proof -
  let ?g = "D * i div P" and ?q = "i * n div (D * i div P)"
  have g: "0 < ?g" using assms by linarith
  have "?q * ?g \<le> i * n" by (rule div_mul_le [OF g])
  then have "D * (?q * ?g) \<le> D * (i * n)" using assms(1) by (rule mult_left_mono)
  also have "\<dots> = D * i * n" by simp
  also have "\<dots> \<le> ((?g + 1) * P) * n"
    using less_div_mul [OF assms(3), of "D * i"] assms(4) by (intro mult_right_mono) (simp_all add: algebra_simps)
  also have "\<dots> = ?g * P * n + P * n" by (simp add: algebra_simps)
  also have "\<dots> < ?g * P * n + P * ?g" using assms by simp
  finally have "D * ?q * ?g < (n + 1) * P * ?g" by (simp add: algebra_simps)
  then have "D * ?q < (n + 1) * P" using g by (simp add: mult_less_cancel_right)
  then show ?thesis using div_less_iff_mul [OF assms(3), of "D * ?q" "n + 1"] by simp
qed

lemma calculate_accumulated_interest_cases:
  assumes "calculate_accumulated_interest m now = Ok a"
  obtains (none) "a = \<lparr> ia_borrow_interest = 0, ia_deposit_interest = 0 \<rparr>"
  | (some) i0 g n where
      "get_interest_token_amount (sm_deposit_balance m) m i0 = Ok g"
      "get_interest_token_amount (sm_borrow_balance m) m (ia_borrow_interest a) = Ok n"
      "fits U128 i0" "fits U128 (ia_borrow_interest a)" "1 \<le> ia_borrow_interest a"
      "if n < g then and_then (safe_mul U128 i0 n) (\<lambda>v. safe_div U128 v g) = Ok (ia_deposit_interest a)
       else ia_deposit_interest a = i0"
      "sm_last_interest_ts m < now"
proof -
  show thesis
  proof (cases "a = \<lparr> ia_borrow_interest = 0, ia_deposit_interest = 0 \<rparr>")
    case False
    obtain i0 b0 b g n where
      "fits U128 i0" "b = b0 + 1" "fits U128 b0" "fits U128 b"
      "get_interest_token_amount (sm_deposit_balance m) m i0 = Ok g"
      "get_interest_token_amount (sm_borrow_balance m) m b = Ok n"
      "ia_borrow_interest a = b"
      "(if n < g then and_then (safe_mul U128 i0 n) (\<lambda>v. safe_div U128 v g) else Ok i0)
         = Ok (ia_deposit_interest a)"
      "sm_last_interest_ts m < now"
      using assms unfolding calculate_accumulated_interest_def
      by (elim ok_elims; (use False in \<open>simp; fail\<close>)?)
        (auto simp: cast_Ok_iff safe_add_Ok_iff safe_div_Ok_iff)
    then show thesis
      by (intro some [of i0 g n]) (auto simp: and_then_Ok_iff split: if_split_asm)
  qed (rule none)
qed


lemma fits_spot_market_dests:
  assumes "fits_spot_market m"
  shows "fits U32 (sm_decimals m)" "0 \<le> sm_deposit_balance m" "0 \<le> sm_borrow_balance m"
    "0 \<le> cumulative_interest t m" "0 \<le> sm_cumulative_deposit_interest m"
    "0 \<le> sm_cumulative_borrow_interest m" "fits U64 (sm_last_interest_ts m)"
  using assms by (cases t; auto simp: fits_spot_market_def dest: fits_nonneg)+

text \<open>
  What an interval pays the deposit side, in tokens, is at most what it charges the borrow side.
\<close>

lemma accumulated_interest_conserved:
  assumes m: "fits_spot_market m" and a: "calculate_accumulated_interest m now = Ok a"
  shows "0 \<le> ia_deposit_interest a" "0 \<le> ia_borrow_interest a"
    and "sm_deposit_balance m * ia_deposit_interest a div spot_precision m
         \<le> sm_borrow_balance m * ia_borrow_interest a div spot_precision m"
proof -
  note nn = fits_spot_market_dests [OF m]
  have "0 \<le> ia_deposit_interest a \<and> 0 \<le> ia_borrow_interest a
    \<and> sm_deposit_balance m * ia_deposit_interest a div spot_precision m
         \<le> sm_borrow_balance m * ia_borrow_interest a div spot_precision m"
    using a
  proof (cases rule: calculate_accumulated_interest_cases)
    case none
    then show ?thesis by simp
  next
    case (some i0 g n)
    have i0: "0 \<le> i0" and b: "0 \<le> ia_borrow_interest a" using some by auto
    have g: "g = sm_deposit_balance m * i0 div spot_precision m"
      and n: "n = sm_borrow_balance m * ia_borrow_interest a div spot_precision m"
      using some(1,2) i0 b nn by (simp_all add: get_interest_token_amount_Ok_iff)
    have n0: "0 \<le> n" using n b nn by (simp add: div_nonneg)
    show ?thesis
    proof (cases "n < g")
      case True
      then have "ia_deposit_interest a = i0 * n div g"
        using some(6) i0 n0 by (auto simp: ok_iff)
      then show ?thesis
        using True i0 b n0 clamp_le [of "sm_deposit_balance m" i0 "spot_precision m" n] nn
        by (simp add: g n [symmetric] div_nonneg)
    next
      case False
      then show ?thesis using some(6) i0 b by (simp add: g n)
    qed
  qed
  then show "0 \<le> ia_deposit_interest a" "0 \<le> ia_borrow_interest a"
    "sm_deposit_balance m * ia_deposit_interest a div spot_precision m
       \<le> sm_borrow_balance m * ia_borrow_interest a div spot_precision m"
    by blast+
qed

end
