(* ===== verification/Transactions.thy ===== *)
theory Transactions
  imports Prelude
begin

text \<open>
  Sequences of instructions. A Solana instruction is atomic: one that returns an error (or
  panics) leaves every account as it was. A component's instructions are therefore a partial
  step function \<open>'s \<Rightarrow> 'op \<Rightarrow> 's result\<close>, \<open>exec_op\<close> is one transaction and \<open>run_ops\<close> a
  sequence of them. The locales lift what one successful instruction keeps to every sequence and
  to every reachable state; the components interpret them on their own step functions.
\<close>

definition exec_op :: "('s \<Rightarrow> 'op \<Rightarrow> 's result) \<Rightarrow> 's \<Rightarrow> 'op \<Rightarrow> 's" where
  "exec_op step s op = (case step s op of Ok s' \<Rightarrow> s' | _ \<Rightarrow> s)"

fun run_ops :: "('s \<Rightarrow> 'op \<Rightarrow> 's result) \<Rightarrow> 's \<Rightarrow> 'op list \<Rightarrow> 's" where
  "run_ops step s [] = s"
| "run_ops step s (op # ops) = run_ops step (exec_op step s op) ops"

inductive reachable :: "('s \<Rightarrow> 'op \<Rightarrow> 's result) \<Rightarrow> 's \<Rightarrow> 's \<Rightarrow> bool" for step s0 where
  reach_start: "reachable step s0 s0"
| reach_step: "reachable step s0 s \<Longrightarrow> step s op = Ok s' \<Longrightarrow> reachable step s0 s'"

lemma exec_op_cases:
  assumes "\<And>s'. step s op = Ok s' \<Longrightarrow> P s'" and "P s"
  shows "P (exec_op step s op)"
  using assms by (auto simp: exec_op_def split: result.split)

lemma run_ops_append: "run_ops step s (xs @ ys) = run_ops step (run_ops step s xs) ys"
  by (induction xs arbitrary: s) simp_all

lemma reachable_exec: "reachable step s0 s \<Longrightarrow> reachable step s0 (exec_op step s op)"
  by (rule exec_op_cases) (auto intro: reach_step)

lemma reachable_run: "reachable step s0 s \<Longrightarrow> reachable step s0 (run_ops step s ops)"
  by (induction ops arbitrary: s) (auto intro: reachable_exec)

locale instruction_set =
  fixes step :: "'s \<Rightarrow> 'op \<Rightarrow> 's result" and inv :: "'s \<Rightarrow> bool"
  assumes step_inv: "inv s \<Longrightarrow> step s op = Ok s' \<Longrightarrow> inv s'"
begin

lemma exec_inv: "inv s \<Longrightarrow> inv (exec_op step s op)"
  by (rule exec_op_cases) (auto intro: step_inv)

lemma run_inv: "inv s \<Longrightarrow> inv (run_ops step s ops)"
  by (induction ops arbitrary: s) (auto intro: exec_inv)

lemma reachable_inv: "reachable step s0 s \<Longrightarrow> inv s0 \<Longrightarrow> inv s"
  by (induction rule: reachable.induct) (auto intro: step_inv)

end

text \<open>An order that every successful instruction respects, in states of the invariant.\<close>

locale monotone_instructions = instruction_set +
  fixes le :: "'a \<Rightarrow> 'a \<Rightarrow> bool"
  assumes le_refl: "le s s"
    and le_trans: "le s t \<Longrightarrow> le t u \<Longrightarrow> le s u"
    and step_le: "inv s \<Longrightarrow> step s op = Ok s' \<Longrightarrow> le s s'"
begin

lemma exec_le: "inv s \<Longrightarrow> le s (exec_op step s op)"
  by (rule exec_op_cases) (auto intro: step_le le_refl)

lemma run_le: "inv s \<Longrightarrow> le s (run_ops step s ops)"
proof (induction ops arbitrary: s)
  case Nil
  show ?case by (simp add: le_refl)
next
  case (Cons op ops)
  have "le s (exec_op step s op)" using Cons.prems by (rule exec_le)
  moreover have "le (exec_op step s op) (run_ops step (exec_op step s op) ops)"
    using Cons.prems by (intro Cons.IH exec_inv)
  ultimately show ?case by (auto intro: le_trans)
qed

end

end
