(* ===== verification/User_Data.thy ===== *)
theory User_Data
  imports Market_State
begin

unbundle bit_operations_syntax

text \<open>
  The account data of a user: \<open>SpotPosition\<close>, \<open>PerpPosition\<close>, \<open>Order\<close> and \<open>User\<close> of
  \<open>state/user.rs\<close>, with their enums, flag bits and default values, and the predicates of those
  structs that only read flags and amounts. Flag bytes are \<open>8 word\<close>; a fixed-size array is a list
  whose length \<open>user_wf\<close> states.
\<close>

section \<open>Enums and flags\<close>

datatype position_direction = Long | Short

primrec opposite :: "position_direction \<Rightarrow> position_direction" where
  "opposite Long = Short"
| "opposite Short = Long"

datatype user_status =
    US_BeingLiquidated | US_Bankrupt | US_ReduceOnly | US_AdvancedLp | US_VaultOwned

primrec user_status_bit :: "user_status \<Rightarrow> 8 word" where
  "user_status_bit US_BeingLiquidated = 0b00000001"
| "user_status_bit US_Bankrupt = 0b00000010"
| "user_status_bit US_ReduceOnly = 0b00000100"
| "user_status_bit US_AdvancedLp = 0b00001000"
| "user_status_bit US_VaultOwned = 0b00100000"

datatype position_flag = PF_IsolatedPosition | PF_BeingLiquidated | PF_Bankrupt | PF_BankruptcyClaim

primrec position_flag_bit :: "position_flag \<Rightarrow> 8 word" where
  "position_flag_bit PF_IsolatedPosition = 0b00000001"
| "position_flag_bit PF_BeingLiquidated = 0b00000010"
| "position_flag_bit PF_Bankrupt = 0b00000100"
| "position_flag_bit PF_BankruptcyClaim = 0b00001000"

datatype order_status = Init | Open | Filled | Canceled

datatype order_type = Market | Limit | TriggerMarket | TriggerLimit | Oracle

datatype order_trigger_condition = Above | Below | TriggeredAbove | TriggeredBelow

datatype market_type = Spot | Perp

datatype asset_type = Base | Quote

datatype order_bit_flag =
    OB_SignedMessage | OB_OracleTriggerMarket | OB_SafeTriggerOrder | OB_NewTriggerReduceOnly
  | OB_HasBuilder | OB_IsIsolatedPosition

primrec order_bit_flag_bit :: "order_bit_flag \<Rightarrow> 8 word" where
  "order_bit_flag_bit OB_SignedMessage = 0b00000001"
| "order_bit_flag_bit OB_OracleTriggerMarket = 0b00000010"
| "order_bit_flag_bit OB_SafeTriggerOrder = 0b00000100"
| "order_bit_flag_bit OB_NewTriggerReduceOnly = 0b00001000"
| "order_bit_flag_bit OB_HasBuilder = 0b00010000"
| "order_bit_flag_bit OB_IsIsolatedPosition = 0b00100000"

section \<open>Positions, orders, users\<close>

record spot_position =
  sp_scaled_balance :: int
  sp_open_bids :: int
  sp_open_asks :: int
  sp_cumulative_deposits :: int
  sp_market_index :: int
  sp_balance_type :: spot_balance_type
  sp_open_orders :: int

definition default_spot_position :: spot_position where
  "default_spot_position =
     \<lparr> sp_scaled_balance = 0, sp_open_bids = 0, sp_open_asks = 0, sp_cumulative_deposits = 0,
       sp_market_index = 0, sp_balance_type = Deposit, sp_open_orders = 0 \<rparr>"

record perp_position =
  pp_last_cumulative_funding_rate :: int
  pp_base_asset_amount :: int
  pp_quote_asset_amount :: int
  pp_quote_break_even_amount :: int
  pp_quote_entry_amount :: int
  pp_open_bids :: int
  pp_open_asks :: int
  pp_settled_pnl :: int
  pp_isolated_position_scaled_balance :: int
  pp_max_margin_ratio :: int
  pp_market_index :: int
  pp_open_orders :: int
  pp_position_flag :: "8 word"

definition default_perp_position :: perp_position where
  "default_perp_position =
     \<lparr> pp_last_cumulative_funding_rate = 0, pp_base_asset_amount = 0, pp_quote_asset_amount = 0,
       pp_quote_break_even_amount = 0, pp_quote_entry_amount = 0, pp_open_bids = 0,
       pp_open_asks = 0, pp_settled_pnl = 0, pp_isolated_position_scaled_balance = 0,
       pp_max_margin_ratio = 0, pp_market_index = 0, pp_open_orders = 0, pp_position_flag = 0 \<rparr>"

record order =
  od_slot :: int
  od_price :: int
  od_base_asset_amount :: int
  od_base_asset_amount_filled :: int
  od_quote_asset_amount_filled :: int
  od_trigger_price :: int
  od_auction_start_price :: int
  od_auction_end_price :: int
  od_max_ts :: int
  od_oracle_price_offset :: int
  od_order_id :: int
  od_market_index :: int
  od_status :: order_status
  od_order_type :: order_type
  od_market_type :: market_type
  od_user_order_id :: int
  od_existing_position_direction :: position_direction
  od_direction :: position_direction
  od_reduce_only :: bool
  od_post_only :: bool
  od_immediate_or_cancel :: bool
  od_trigger_condition :: order_trigger_condition
  od_auction_duration :: int
  od_posted_slot_tail :: int
  od_bit_flags :: "8 word"

definition default_order :: order where
  "default_order =
     \<lparr> od_slot = 0, od_price = 0, od_base_asset_amount = 0, od_base_asset_amount_filled = 0,
       od_quote_asset_amount_filled = 0, od_trigger_price = 0, od_auction_start_price = 0,
       od_auction_end_price = 0, od_max_ts = 0, od_oracle_price_offset = 0, od_order_id = 0,
       od_market_index = 0, od_status = Init, od_order_type = Limit, od_market_type = Perp,
       od_user_order_id = 0, od_existing_position_direction = Long, od_direction = Long,
       od_reduce_only = False, od_post_only = False, od_immediate_or_cancel = False,
       od_trigger_condition = Above, od_auction_duration = 0, od_posted_slot_tail = 0,
       od_bit_flags = 0 \<rparr>"

record user =
  us_authority :: pubkey
  us_delegate :: pubkey
  us_spot_positions :: "spot_position list"
  us_perp_positions :: "perp_position list"
  us_orders :: "order list"
  us_total_deposits :: int
  us_total_withdraws :: int
  us_total_social_loss :: int
  us_settled_perp_pnl :: int
  us_cumulative_spot_fees :: int
  us_cumulative_perp_funding :: int
  us_liquidation_margin_freed :: int
  us_last_active_slot :: int
  us_next_order_id :: int
  us_max_margin_ratio :: int
  us_next_liquidation_id :: int
  us_sub_account_id :: int
  us_status :: "8 word"
  us_is_margin_trading_enabled :: bool
  us_idle :: bool
  us_open_orders :: int
  us_has_open_order :: bool
  us_open_auctions :: int
  us_has_open_auction :: bool
  us_pool_id :: int
  us_special_user_status :: int
  us_equity_floor :: int
  us_equity_floor_buffer :: int

definition default_user :: user where
  "default_user =
     \<lparr> us_authority = 0, us_delegate = 0, us_spot_positions = replicate 8 default_spot_position,
       us_perp_positions = replicate 8 default_perp_position, us_orders = replicate 32 default_order,
       us_total_deposits = 0, us_total_withdraws = 0, us_total_social_loss = 0,
       us_settled_perp_pnl = 0, us_cumulative_spot_fees = 0, us_cumulative_perp_funding = 0,
       us_liquidation_margin_freed = 0, us_last_active_slot = 0, us_next_order_id = 0,
       us_max_margin_ratio = 0, us_next_liquidation_id = 0, us_sub_account_id = 0, us_status = 0,
       us_is_margin_trading_enabled = False, us_idle = False, us_open_orders = 0,
       us_has_open_order = False, us_open_auctions = 0, us_has_open_auction = False,
       us_pool_id = 0, us_special_user_status = 0, us_equity_floor = 0,
       us_equity_floor_buffer = 0 \<rparr>"

definition user_wf :: "user \<Rightarrow> bool" where
  "user_wf u \<longleftrightarrow> length (us_spot_positions u) = 8 \<and> length (us_perp_positions u) = 8
     \<and> length (us_orders u) = 32"

lemmas user_data_defs [eval_defs] =
  default_spot_position_def default_perp_position_def default_order_def default_user_def

section \<open>What a position reports\<close>

definition spot_is_available :: "spot_position \<Rightarrow> bool" where
  "spot_is_available p \<longleftrightarrow> sp_scaled_balance p = 0 \<and> sp_open_orders p = 0"

definition spot_has_open_order :: "spot_position \<Rightarrow> bool" where
  "spot_has_open_order p \<longleftrightarrow> sp_open_orders p \<noteq> 0 \<or> sp_open_bids p \<noteq> 0 \<or> sp_open_asks p \<noteq> 0"

definition spot_is_borrow :: "spot_position \<Rightarrow> bool" where
  "spot_is_borrow p \<longleftrightarrow> sp_scaled_balance p > 0 \<and> sp_balance_type p = Borrow"

definition has_flag :: "perp_position \<Rightarrow> position_flag \<Rightarrow> bool" where
  "has_flag p f \<longleftrightarrow> pp_position_flag p AND position_flag_bit f > 0"

definition set_flag :: "position_flag \<Rightarrow> perp_position \<Rightarrow> perp_position" where
  "set_flag f p = p\<lparr>pp_position_flag := pp_position_flag p OR position_flag_bit f\<rparr>"

definition clear_flag :: "position_flag \<Rightarrow> perp_position \<Rightarrow> perp_position" where
  "clear_flag f p = p\<lparr>pp_position_flag := pp_position_flag p AND NOT (position_flag_bit f)\<rparr>"

definition is_open_position :: "perp_position \<Rightarrow> bool" where
  "is_open_position p \<longleftrightarrow> pp_base_asset_amount p \<noteq> 0"

definition perp_has_open_order :: "perp_position \<Rightarrow> bool" where
  "perp_has_open_order p \<longleftrightarrow> pp_open_orders p \<noteq> 0 \<or> pp_open_bids p \<noteq> 0 \<or> pp_open_asks p \<noteq> 0"

definition has_unsettled_pnl :: "perp_position \<Rightarrow> bool" where
  "has_unsettled_pnl p \<longleftrightarrow> pp_base_asset_amount p = 0 \<and> pp_quote_asset_amount p \<noteq> 0"

definition is_isolated :: "perp_position \<Rightarrow> bool" where
  "is_isolated p = has_flag p PF_IsolatedPosition"

definition perp_is_being_liquidated :: "perp_position \<Rightarrow> bool" where
  "perp_is_being_liquidated p \<longleftrightarrow>
     pp_position_flag p AND (position_flag_bit PF_BeingLiquidated OR position_flag_bit PF_Bankrupt) > 0"

definition perp_is_bankrupt :: "perp_position \<Rightarrow> bool" where
  "perp_is_bankrupt p = has_flag p PF_Bankrupt"

definition has_bankruptcy_claim :: "perp_position \<Rightarrow> bool" where
  "has_bankruptcy_claim p = has_flag p PF_BankruptcyClaim"

definition set_bankruptcy_claim :: "perp_position \<Rightarrow> perp_position" where
  "set_bankruptcy_claim p = set_flag PF_BankruptcyClaim p"

definition clear_bankruptcy_claim :: "perp_position \<Rightarrow> perp_position" where
  "clear_bankruptcy_claim p = clear_flag PF_BankruptcyClaim p"

definition perp_is_available :: "perp_position \<Rightarrow> bool" where
  "perp_is_available p \<longleftrightarrow> \<not> is_open_position p \<and> \<not> perp_has_open_order p
     \<and> \<not> has_unsettled_pnl p \<and> pp_isolated_position_scaled_balance p = 0
     \<and> \<not> perp_is_being_liquidated p"

definition is_for :: "perp_position \<Rightarrow> int \<Rightarrow> bool" where
  "is_for p market_index \<longleftrightarrow> pp_market_index p = market_index \<and> \<not> perp_is_available p"

definition can_transfer_isolated_position_deposit :: "perp_position \<Rightarrow> bool" where
  "can_transfer_isolated_position_deposit p \<longleftrightarrow> is_isolated p
     \<and> pp_isolated_position_scaled_balance p > 0 \<and> \<not> is_open_position p
     \<and> \<not> perp_has_open_order p \<and> \<not> has_unsettled_pnl p"

definition get_direction :: "perp_position \<Rightarrow> position_direction" where
  "get_direction p = (if pp_base_asset_amount p \<ge> 0 then Long else Short)"

definition get_direction_to_close :: "perp_position \<Rightarrow> position_direction" where
  "get_direction_to_close p = (if pp_base_asset_amount p \<ge> 0 then Short else Long)"

definition get_existing_position_params_for_order_action ::
  "perp_position \<Rightarrow> position_direction \<Rightarrow> (int \<times> int) option" where
  "get_existing_position_params_for_order_action p fill_direction =
     (if pp_base_asset_amount p = 0 then None
      else if get_direction_to_close p = fill_direction
      then Some (\<bar>pp_quote_entry_amount p\<bar>, \<bar>pp_base_asset_amount p\<bar>)
      else None)"

lemmas position_defs [eval_defs] =
  spot_is_available_def spot_has_open_order_def spot_is_borrow_def has_flag_def set_flag_def
  clear_flag_def is_open_position_def perp_has_open_order_def has_unsettled_pnl_def is_isolated_def
  perp_is_being_liquidated_def perp_is_bankrupt_def has_bankruptcy_claim_def
  set_bankruptcy_claim_def clear_bankruptcy_claim_def perp_is_available_def is_for_def
  can_transfer_isolated_position_deposit_def get_direction_def get_direction_to_close_def

text \<open>
  Flag bytes. An enum whose variants are distinct bits of a \<open>u8\<close>: setting or clearing one flag is
  seen by the test of that flag and by no other.
\<close>

locale flag_byte =
  fixes bit_of :: "'f \<Rightarrow> 8 word" and index_of :: "'f \<Rightarrow> nat"
  assumes bit_of_push: "bit_of f = push_bit (index_of f) 1"
    and index_less: "index_of f < 8"
    and index_inj: "index_of f = index_of g \<longleftrightarrow> f = g"
begin

lemma test_bit: "w AND bit_of f > 0 \<longleftrightarrow> bit w (index_of f)"
  using and_push_bit_1 [of w "index_of f"] by (auto simp: bit_of_push word_gt_0)

lemma test_bit_neq: "w AND bit_of f \<noteq> 0 \<longleftrightarrow> bit w (index_of f)"
  unfolding bit_of_push by (rule and_push_bit_1)

lemma bit_bit_of: "bit (bit_of f) n \<longleftrightarrow> n = index_of f"
  using index_less [of f] by (auto simp: bit_of_push bit_exp_iff)

lemma test_set: "bit (w OR bit_of g) (index_of f) \<longleftrightarrow> f = g \<or> bit w (index_of f)"
  by (auto simp: bit_or_iff bit_bit_of index_inj)

lemma test_clear: "bit (w AND NOT (bit_of g)) (index_of f) \<longleftrightarrow> f \<noteq> g \<and> bit w (index_of f)"
  using index_less [of f] by (auto simp: bit_and_iff bit_not_iff bit_bit_of index_inj)

lemma test_either: "w AND (bit_of f OR bit_of g) > 0 \<longleftrightarrow> bit w (index_of f) \<or> bit w (index_of g)"
proof -
  have "w AND (bit_of f OR bit_of g) \<noteq> 0 \<longleftrightarrow> w AND bit_of f \<noteq> 0 \<or> w AND bit_of g \<noteq> 0"
    by (simp add: bit.conj_disj_distrib or_eq_0_iff)
  then show ?thesis by (auto simp: word_gt_0 test_bit_neq)
qed

lemmas flag_tests = test_bit test_bit_neq test_set test_clear test_either

end

primrec position_flag_index :: "position_flag \<Rightarrow> nat" where
  "position_flag_index PF_IsolatedPosition = 0"
| "position_flag_index PF_BeingLiquidated = 1"
| "position_flag_index PF_Bankrupt = 2"
| "position_flag_index PF_BankruptcyClaim = 3"

interpretation position_flags: flag_byte position_flag_bit position_flag_index
proof
  fix f g :: position_flag
  show "position_flag_bit f = push_bit (position_flag_index f) 1" by (cases f) simp_all
  show "position_flag_index f < 8" by (cases f) simp_all
  show "position_flag_index f = position_flag_index g \<longleftrightarrow> f = g" by (cases f; cases g) simp_all
qed

primrec user_status_index :: "user_status \<Rightarrow> nat" where
  "user_status_index US_BeingLiquidated = 0"
| "user_status_index US_Bankrupt = 1"
| "user_status_index US_ReduceOnly = 2"
| "user_status_index US_AdvancedLp = 3"
| "user_status_index US_VaultOwned = 5"

interpretation status_flags: flag_byte user_status_bit user_status_index
proof
  fix f g :: user_status
  show "user_status_bit f = push_bit (user_status_index f) 1" by (cases f) simp_all
  show "user_status_index f < 8" by (cases f) simp_all
  show "user_status_index f = user_status_index g \<longleftrightarrow> f = g" by (cases f; cases g) simp_all
qed

primrec order_bit_flag_index :: "order_bit_flag \<Rightarrow> nat" where
  "order_bit_flag_index OB_SignedMessage = 0"
| "order_bit_flag_index OB_OracleTriggerMarket = 1"
| "order_bit_flag_index OB_SafeTriggerOrder = 2"
| "order_bit_flag_index OB_NewTriggerReduceOnly = 3"
| "order_bit_flag_index OB_HasBuilder = 4"
| "order_bit_flag_index OB_IsIsolatedPosition = 5"

interpretation order_flags: flag_byte order_bit_flag_bit order_bit_flag_index
proof
  fix f g :: order_bit_flag
  show "order_bit_flag_bit f = push_bit (order_bit_flag_index f) 1" by (cases f) simp_all
  show "order_bit_flag_index f < 8" by (cases f) simp_all
  show "order_bit_flag_index f = order_bit_flag_index g \<longleftrightarrow> f = g" by (cases f; cases g) simp_all
qed

lemma has_flag_set [simp]: "has_flag (set_flag g p) f \<longleftrightarrow> f = g \<or> has_flag p f"
  by (simp add: has_flag_def set_flag_def position_flags.flag_tests)

lemma has_flag_clear [simp]: "has_flag (clear_flag g p) f \<longleftrightarrow> f \<noteq> g \<and> has_flag p f"
  by (simp add: has_flag_def clear_flag_def position_flags.flag_tests)

lemma perp_is_being_liquidated_iff:
  "perp_is_being_liquidated p \<longleftrightarrow> has_flag p PF_BeingLiquidated \<or> has_flag p PF_Bankrupt"
  by (simp only: perp_is_being_liquidated_def has_flag_def position_flags.flag_tests)

end
