(* ===== verification/Spot_Balance.thy ===== *)
theory Spot_Balance
  imports Spot_Interest Transactions User_Data
begin

text \<open>
  \<open>controller/spot_balance.rs\<close> and the \<open>SpotBalance\<close> trait of \<open>state/spot_market.rs\<close> with its
  implementations \<open>PoolBalance\<close>, \<open>SpotPosition\<close> and \<open>PerpPosition\<close> (the deposit of an isolated
  position). A \<open>&mut dyn SpotBalance\<close> argument is a
  record of the trait's methods, \<open>spot_balance_ops\<close>, and the object they work on. The locale
  \<open>spot_balance\<close> states what every implementation promises; what \<open>update_spot_balances\<close> does to the
  market's totals is proved there once and holds for every implementation by interpretation. The
  locale \<open>deposit_balance\<close> extends it for the two implementations that are deposits only.
\<close>

section \<open>The SpotBalance trait\<close>

record 'b spot_balance_ops =
  sb_market_index :: "'b \<Rightarrow> int"
  sb_balance_type :: "'b \<Rightarrow> spot_balance_type"
  sb_balance :: "'b \<Rightarrow> int"
  sb_increase_balance :: "'b \<Rightarrow> int \<Rightarrow> 'b result"
  sb_decrease_balance :: "'b \<Rightarrow> int \<Rightarrow> 'b result"
  sb_update_balance_type :: "'b \<Rightarrow> spot_balance_type \<Rightarrow> 'b result"

definition pool_balance_ops :: "pool_balance spot_balance_ops" where
  "pool_balance_ops =
     \<lparr> sb_market_index = pb_market_index,
       sb_balance_type = (\<lambda>p. Deposit),
       sb_balance = pb_scaled_balance,
       sb_increase_balance = (\<lambda>p delta.
         and_then (safe_add U128 (pb_scaled_balance p) delta) (\<lambda>b.
         Ok (p\<lparr>pb_scaled_balance := b\<rparr>))),
       sb_decrease_balance = (\<lambda>p delta.
         and_then (safe_sub U128 (pb_scaled_balance p) delta) (\<lambda>b.
         Ok (p\<lparr>pb_scaled_balance := b\<rparr>))),
       sb_update_balance_type = (\<lambda>p t. Err CantUpdateSpotBalanceType) \<rparr>"

definition spot_position_ops :: "spot_position spot_balance_ops" where
  "spot_position_ops =
     \<lparr> sb_market_index = sp_market_index,
       sb_balance_type = sp_balance_type,
       sb_balance = sp_scaled_balance,
       sb_increase_balance = (\<lambda>p delta.
         and_then (cast U64 delta) (\<lambda>delta.
         and_then (safe_add U64 (sp_scaled_balance p) delta) (\<lambda>b.
         Ok (p\<lparr>sp_scaled_balance := b\<rparr>)))),
       sb_decrease_balance = (\<lambda>p delta.
         and_then (cast U64 delta) (\<lambda>delta.
         and_then (safe_sub U64 (sp_scaled_balance p) delta) (\<lambda>b.
         Ok (p\<lparr>sp_scaled_balance := b\<rparr>)))),
       sb_update_balance_type = (\<lambda>p t. Ok (p\<lparr>sp_balance_type := t\<rparr>)) \<rparr>"

definition perp_position_ops :: "perp_position spot_balance_ops" where
  "perp_position_ops =
     \<lparr> sb_market_index = (\<lambda>p. QUOTE_SPOT_MARKET_INDEX),
       sb_balance_type = (\<lambda>p. Deposit),
       sb_balance = pp_isolated_position_scaled_balance,
       sb_increase_balance = (\<lambda>p delta.
         and_then (cast U64 delta) (\<lambda>delta.
         and_then (safe_add U64 (pp_isolated_position_scaled_balance p) delta) (\<lambda>b.
         Ok (p\<lparr>pp_isolated_position_scaled_balance := b\<rparr>)))),
       sb_decrease_balance = (\<lambda>p delta.
         and_then (cast U64 delta) (\<lambda>delta.
         and_then (safe_sub U64 (pp_isolated_position_scaled_balance p) delta) (\<lambda>b.
         Ok (p\<lparr>pp_isolated_position_scaled_balance := b\<rparr>)))),
       sb_update_balance_type = (\<lambda>p t. Err CantUpdateSpotBalanceType) \<rparr>"

section \<open>Moving balances\<close>

definition increase_spot_balance :: "int \<Rightarrow> spot_market \<Rightarrow> spot_balance_type \<Rightarrow> spot_market result" where
  "increase_spot_balance delta spot_market balance_type =
     (case balance_type of
        Deposit \<Rightarrow> and_then (safe_add U128 (sm_deposit_balance spot_market) delta) (\<lambda>b.
          Ok (spot_market\<lparr>sm_deposit_balance := b\<rparr>))
      | Borrow \<Rightarrow> and_then (safe_add U128 (sm_borrow_balance spot_market) delta) (\<lambda>b.
          Ok (spot_market\<lparr>sm_borrow_balance := b\<rparr>)))"

definition decrease_spot_balance :: "int \<Rightarrow> spot_market \<Rightarrow> spot_balance_type \<Rightarrow> spot_market result" where
  "decrease_spot_balance delta spot_market balance_type =
     (case balance_type of
        Deposit \<Rightarrow> and_then (safe_sub U128 (sm_deposit_balance spot_market) delta) (\<lambda>b.
          Ok (spot_market\<lparr>sm_deposit_balance := b\<rparr>))
      | Borrow \<Rightarrow> and_then (safe_sub U128 (sm_borrow_balance spot_market) delta) (\<lambda>b.
          Ok (spot_market\<lparr>sm_borrow_balance := b\<rparr>)))"

text \<open>
  \<open>update_spot_balances\<close> in three parts: the block that grows a balance (it occurs twice), the
  block that reduces a balance of the other type and returns the tokens left over, and the whole.
\<close>

definition grow_balance ::
  "'b spot_balance_ops \<Rightarrow> int \<Rightarrow> spot_balance_type \<Rightarrow> spot_market \<Rightarrow> 'b \<Rightarrow> (spot_market \<times> 'b) result" where
  "grow_balance ops token_amount update_direction spot_market spot_balance =
     (let round_up = (update_direction = Borrow) in
      and_then (get_spot_balance token_amount spot_market update_direction round_up) (\<lambda>balance_delta.
      and_then (sb_increase_balance ops spot_balance balance_delta) (\<lambda>spot_balance.
      and_then (increase_spot_balance balance_delta spot_market update_direction) (\<lambda>spot_market.
      Ok (spot_market, spot_balance)))))"

definition reduce_balance ::
  "'b spot_balance_ops \<Rightarrow> int \<Rightarrow> spot_market \<Rightarrow> 'b \<Rightarrow> bool \<Rightarrow> (int \<times> spot_market \<times> 'b) result" where
  "reduce_balance ops token_amount spot_market spot_balance is_leaving_velocity =
     (let balance_type = sb_balance_type ops spot_balance in
      and_then (get_token_amount (sb_balance ops spot_balance) spot_market balance_type)
        (\<lambda>current_token_amount.
      if current_token_amount \<noteq> 0 then
        and_then
          (if current_token_amount > token_amount then
             (let round_up = (is_leaving_velocity \<or> balance_type = Borrow) in
              and_then (get_spot_balance token_amount spot_market balance_type round_up) (\<lambda>balance_delta.
              Ok (token_amount, balance_delta)))
           else Ok (current_token_amount, sb_balance ops spot_balance)) (\<lambda>(token_delta, balance_delta).
        and_then (decrease_spot_balance balance_delta spot_market balance_type) (\<lambda>spot_market.
        and_then (sb_decrease_balance ops spot_balance balance_delta) (\<lambda>spot_balance.
        and_then (safe_sub U128 token_amount token_delta) (\<lambda>token_amount.
        Ok (token_amount, spot_market, spot_balance)))))
      else Ok (token_amount, spot_market, spot_balance)))"

definition update_spot_balances ::
  "'b spot_balance_ops \<Rightarrow> int \<Rightarrow> spot_balance_type \<Rightarrow> spot_market \<Rightarrow> 'b \<Rightarrow> bool
     \<Rightarrow> (spot_market \<times> 'b) result" where
  "update_spot_balances ops token_amount update_direction spot_market spot_balance is_leaving_velocity =
     and_then
       (if update_direction = sb_balance_type ops spot_balance then
          grow_balance ops token_amount update_direction spot_market spot_balance
        else
          and_then (reduce_balance ops token_amount spot_market spot_balance is_leaving_velocity)
            (\<lambda>(token_amount, spot_market, spot_balance).
          if token_amount > 0 then
            and_then (sb_update_balance_type ops spot_balance update_direction) (\<lambda>spot_balance.
            grow_balance ops token_amount update_direction spot_market spot_balance)
          else Ok (spot_market, spot_balance))) (\<lambda>(spot_market, spot_balance).
     if is_leaving_velocity \<and> update_direction = Borrow then
       and_then (get_token_amount (sm_deposit_balance spot_market) spot_market Deposit)
         (\<lambda>deposit_token_amount.
       and_then (get_token_amount (sm_borrow_balance spot_market) spot_market Borrow)
         (\<lambda>borrow_token_amount.
       and_then (validate (deposit_token_amount \<ge> borrow_token_amount) SpotMarketInsufficientDeposits)
         (\<lambda>_.
       Ok (spot_market, spot_balance))))
     else Ok (spot_market, spot_balance))"

definition update_revenue_pool_balances ::
  "int \<Rightarrow> spot_balance_type \<Rightarrow> spot_market \<Rightarrow> bool \<Rightarrow> spot_market result" where
  "update_revenue_pool_balances token_amount update_direction spot_market is_leaving_velocity =
     and_then (update_spot_balances pool_balance_ops token_amount update_direction spot_market
         (sm_revenue_pool spot_market) is_leaving_velocity) (\<lambda>(spot_market, spot_balance).
     Ok (spot_market\<lparr>sm_revenue_pool := spot_balance\<rparr>))"

definition update_protocol_fee_pool_balances ::
  "int \<Rightarrow> spot_balance_type \<Rightarrow> spot_market \<Rightarrow> bool \<Rightarrow> spot_market result" where
  "update_protocol_fee_pool_balances token_amount update_direction spot_market is_leaving_velocity =
     and_then (update_spot_balances pool_balance_ops token_amount update_direction spot_market
         (sm_protocol_fee_pool spot_market) is_leaving_velocity) (\<lambda>(spot_market, spot_balance).
     Ok (spot_market\<lparr>sm_protocol_fee_pool := spot_balance\<rparr>))"

definition transfer_spot_balances ::
  "'a spot_balance_ops \<Rightarrow> 'b spot_balance_ops \<Rightarrow> int \<Rightarrow> spot_market \<Rightarrow> 'a \<Rightarrow> 'b
     \<Rightarrow> (spot_market \<times> 'a \<times> 'b) result" where
  "transfer_spot_balances from_ops to_ops token_amount spot_market from_spot_balance to_spot_balance =
     and_then (validate (sb_market_index from_ops from_spot_balance = sb_market_index to_ops to_spot_balance)
         UnequalMarketIndexForSpotTransfer) (\<lambda>_.
     if token_amount = 0 then Ok (spot_market, from_spot_balance, to_spot_balance)
     else
       and_then
         (if sb_balance_type from_ops from_spot_balance = Deposit then
            validate (sm_deposit_balance spot_market \<ge> sb_balance from_ops from_spot_balance)
              InvalidSpotMarketState
          else Ok ()) (\<lambda>_.
       and_then (update_spot_balances from_ops \<bar>token_amount\<bar>
           (if token_amount < 0 then Deposit else Borrow) spot_market from_spot_balance False)
         (\<lambda>(spot_market, from_spot_balance).
       and_then (update_spot_balances to_ops \<bar>token_amount\<bar>
           (if token_amount < 0 then Borrow else Deposit) spot_market to_spot_balance False)
         (\<lambda>(spot_market, to_spot_balance).
       Ok (spot_market, from_spot_balance, to_spot_balance)))))"

definition transfer_revenue_pool_to_spot_balance ::
  "'b spot_balance_ops \<Rightarrow> int \<Rightarrow> spot_market \<Rightarrow> 'b \<Rightarrow> (spot_market \<times> 'b) result" where
  "transfer_revenue_pool_to_spot_balance ops token_amount spot_market to_spot_balance =
     and_then (validate (sb_market_index ops to_spot_balance = sm_market_index spot_market)
         UnequalMarketIndexForSpotTransfer) (\<lambda>_.
     and_then (update_revenue_pool_balances token_amount Borrow spot_market False) (\<lambda>spot_market.
     update_spot_balances ops token_amount Deposit spot_market to_spot_balance False))"

definition transfer_spot_balance_to_revenue_pool ::
  "'b spot_balance_ops \<Rightarrow> int \<Rightarrow> spot_market \<Rightarrow> 'b \<Rightarrow> (spot_market \<times> 'b) result" where
  "transfer_spot_balance_to_revenue_pool ops token_amount spot_market from_spot_balance =
     and_then (validate (sb_market_index ops from_spot_balance = sm_market_index spot_market)
         UnequalMarketIndexForSpotTransfer) (\<lambda>_.
     and_then (update_spot_balances ops token_amount Borrow spot_market from_spot_balance False)
       (\<lambda>(spot_market, from_spot_balance).
     and_then (update_revenue_pool_balances token_amount Deposit spot_market False) (\<lambda>spot_market.
     Ok (spot_market, from_spot_balance))))"

datatype transfer_direction = FeeToPnlPool | PnlToFeePool

definition execute_transfer_between_pools ::
  "int \<Rightarrow> spot_market \<Rightarrow> pool_balance \<Rightarrow> pool_balance \<Rightarrow> transfer_direction
     \<Rightarrow> (spot_market \<times> pool_balance \<times> pool_balance) result" where
  "execute_transfer_between_pools amount spot_market fee_pool pnl_pool direction =
     and_then
       (case direction of
          FeeToPnlPool \<Rightarrow> get_token_amount (pb_scaled_balance fee_pool) spot_market Deposit
        | PnlToFeePool \<Rightarrow> get_token_amount (pb_scaled_balance pnl_pool) spot_market Deposit)
       (\<lambda>source_token_amount.
     and_then (cast U128 amount) (\<lambda>amount_u128.
     and_then (validate (amount_u128 \<le> source_token_amount) DefaultError) (\<lambda>_.
     and_then (cast I128 amount) (\<lambda>amount_i128.
     and_then
       (case direction of
          FeeToPnlPool \<Rightarrow>
            and_then (transfer_spot_balances pool_balance_ops pool_balance_ops amount_i128 spot_market
                fee_pool pnl_pool) (\<lambda>(spot_market, fee_pool, pnl_pool).
            Ok (spot_market, fee_pool, pnl_pool))
        | PnlToFeePool \<Rightarrow>
            and_then (transfer_spot_balances pool_balance_ops pool_balance_ops amount_i128 spot_market
                pnl_pool fee_pool) (\<lambda>(spot_market, pnl_pool, fee_pool).
            Ok (spot_market, fee_pool, pnl_pool)))
       (\<lambda>(spot_market, fee_pool, pnl_pool).
     and_then (get_token_amount (pb_scaled_balance fee_pool) spot_market Deposit) (\<lambda>_.
     and_then (get_token_amount (pb_scaled_balance pnl_pool) spot_market Deposit) (\<lambda>_.
     Ok (spot_market, fee_pool, pnl_pool))))))))"


lemmas spot_balance_defs [eval_defs] =
  default_spot_position_def pool_balance_ops_def spot_position_ops_def increase_spot_balance_def
  decrease_spot_balance_def grow_balance_def reduce_balance_def update_spot_balances_def
  update_revenue_pool_balances_def update_protocol_fee_pool_balances_def transfer_spot_balances_def
  transfer_revenue_pool_to_spot_balance_def transfer_spot_balance_to_revenue_pool_def
  execute_transfer_between_pools_def

section \<open>The market's totals\<close>

primrec market_balance :: "spot_balance_type \<Rightarrow> spot_market \<Rightarrow> int" where
  "market_balance Deposit m = sm_deposit_balance m"
| "market_balance Borrow m = sm_borrow_balance m"

primrec shift_balance :: "spot_balance_type \<Rightarrow> int \<Rightarrow> spot_market \<Rightarrow> spot_market" where
  "shift_balance Deposit d m = m\<lparr>sm_deposit_balance := sm_deposit_balance m + d\<rparr>"
| "shift_balance Borrow d m = m\<lparr>sm_borrow_balance := sm_borrow_balance m + d\<rparr>"

lemma shift_balance_simps [simp]:
  "sm_deposit_balance (shift_balance t d m) = sm_deposit_balance m + (if t = Deposit then d else 0)"
  "sm_borrow_balance (shift_balance t d m) = sm_borrow_balance m + (if t = Borrow then d else 0)"
  "sm_decimals (shift_balance t d m) = sm_decimals m"
  "cumulative_interest t' (shift_balance t d m) = cumulative_interest t' m"
  "spot_precision (shift_balance t d m) = spot_precision m"
  by (cases t; cases t'; simp add: spot_precision_def)+

lemma conversions_shift_balance [simp]:
  "get_spot_balance tokens (shift_balance t d m) t' r = get_spot_balance tokens m t' r"
  "get_token_amount b (shift_balance t d m) t' = get_token_amount b m t'"
  by (cases t; cases t'; simp add: get_spot_balance_def get_token_amount_def)+

lemma increase_spot_balance_Ok_iff [ok_iff]:
  "increase_spot_balance d m t = Ok m' \<longleftrightarrow> fits U128 (market_balance t m + d) \<and> m' = shift_balance t d m"
  by (cases t) (auto simp: increase_spot_balance_def ok_iff)

lemma decrease_spot_balance_Ok_iff [ok_iff]:
  "decrease_spot_balance d m t = Ok m' \<longleftrightarrow> fits U128 (market_balance t m - d) \<and> m' = shift_balance t (- d) m"
  by (cases t) (auto simp: decrease_spot_balance_def ok_iff)

lemma fits_shift_balance:
  "fits_spot_market m \<Longrightarrow> fits U128 (market_balance t m + d) \<Longrightarrow> fits_spot_market (shift_balance t d m)"
  "fits_spot_market m \<Longrightarrow> fits U128 (market_balance t m - d) \<Longrightarrow> fits_spot_market (shift_balance t (- d) m)"
  by (cases t; simp add: fits_spot_market_def)+

text \<open>Two markets that differ in the totals only.\<close>

definition same_but_totals :: "spot_market \<Rightarrow> spot_market \<Rightarrow> bool" where
  "same_but_totals m m' \<longleftrightarrow>
     m' = m\<lparr>sm_deposit_balance := sm_deposit_balance m', sm_borrow_balance := sm_borrow_balance m'\<rparr>"

lemma same_but_totals_refl [simp]: "same_but_totals m m"
  by (simp add: same_but_totals_def)

lemma same_but_totals_shift [simp]: "same_but_totals m (shift_balance t d m)"
  by (cases t) (simp_all add: same_but_totals_def)

lemma same_but_totals_trans:
  assumes "same_but_totals m m'" "same_but_totals m' m''"
  shows "same_but_totals m m''"
proof -
  have "m'' = m'\<lparr>sm_deposit_balance := sm_deposit_balance m'', sm_borrow_balance := sm_borrow_balance m''\<rparr>"
    using assms(2) by (simp add: same_but_totals_def)
  also have "\<dots> = (m\<lparr>sm_deposit_balance := sm_deposit_balance m', sm_borrow_balance := sm_borrow_balance m'\<rparr>)
      \<lparr>sm_deposit_balance := sm_deposit_balance m'', sm_borrow_balance := sm_borrow_balance m''\<rparr>"
    by (subst assms(1) [unfolded same_but_totals_def]) (rule refl)
  finally show ?thesis by (simp add: same_but_totals_def)
qed

lemma get_spot_balance_fits: "get_spot_balance tokens m t round_up = Ok b \<Longrightarrow> 0 \<le> b"
  unfolding get_spot_balance_def Let_def by (elim ok_elims) (auto simp: ok_iff)

section \<open>What every implementation of the trait promises\<close>

text \<open>The side of a balance that counts towards a total of the market.\<close>

definition side :: "'b spot_balance_ops \<Rightarrow> spot_balance_type \<Rightarrow> 'b \<Rightarrow> int" where
  "side ops t b = (if sb_balance_type ops b = t then sb_balance ops b else 0)"

text \<open>
  What depositors may claim from the vault net of what borrowers owe it, in units of
  \<open>1 / spot_precision\<close> tokens.
\<close>

definition vault_claims :: "spot_market \<Rightarrow> int" where
  "vault_claims m = scaled_value (sm_deposit_balance m) m Deposit - scaled_value (sm_borrow_balance m) m Borrow"

definition index_ok :: "spot_market \<Rightarrow> bool" where
  "index_ok m \<longleftrightarrow> fits U32 (sm_decimals m) \<and> 0 \<le> sm_cumulative_deposit_interest m
     \<and> 0 \<le> sm_cumulative_borrow_interest m"

lemma index_ok_fits: "fits_spot_market m \<Longrightarrow> index_ok m"
  using fits_spot_market_dests [of m] by (simp add: index_ok_def)

locale spot_balance =
  fixes ops :: "'b spot_balance_ops"
  assumes increase_Ok: "sb_increase_balance ops b d = Ok b' \<Longrightarrow>
      sb_balance ops b' = sb_balance ops b + d \<and> sb_balance_type ops b' = sb_balance_type ops b
      \<and> sb_market_index ops b' = sb_market_index ops b"
    and decrease_Ok: "sb_decrease_balance ops b d = Ok b' \<Longrightarrow>
      sb_balance ops b' = sb_balance ops b - d \<and> sb_balance_type ops b' = sb_balance_type ops b
      \<and> sb_market_index ops b' = sb_market_index ops b \<and> 0 \<le> sb_balance ops b'"
    and update_type_Ok: "sb_update_balance_type ops b t = Ok b' \<Longrightarrow>
      sb_balance ops b' = sb_balance ops b \<and> sb_balance_type ops b' = t
      \<and> sb_market_index ops b' = sb_market_index ops b"
begin

lemma grow_balance_Ok:
  assumes "grow_balance ops tokens dir m b = Ok (m', b')" "sb_balance_type ops b = dir"
  obtains delta where "get_spot_balance tokens m dir (dir = Borrow) = Ok delta"
    "sb_balance ops b' = sb_balance ops b + delta" "sb_balance_type ops b' = dir"
    "sb_market_index ops b' = sb_market_index ops b" "m' = shift_balance dir delta m"
    "fits U128 (market_balance dir m + delta)"
proof -
  from assms(1) obtain delta b1 m1 where
    "get_spot_balance tokens m dir (dir = Borrow) = Ok delta"
    "sb_increase_balance ops b delta = Ok b1" "increase_spot_balance delta m dir = Ok m1"
    "Ok (m1, b1) = Ok (m', b')"
    unfolding grow_balance_def Let_def by (elim and_thenE)
  then show thesis using that [of delta] increase_Ok [of b delta b'] assms(2)
    by (simp add: increase_spot_balance_Ok_iff)
qed

lemma reduce_balance_Ok:
  assumes "reduce_balance ops tokens m b leaving = Ok (tokens', m', b')"
  defines "ty \<equiv> sb_balance_type ops b"
  obtains (dust) "get_token_amount (sb_balance ops b) m ty = Ok 0" "tokens' = tokens" "m' = m" "b' = b"
  | (some) current delta where "get_token_amount (sb_balance ops b) m ty = Ok current"
      "tokens < current" "get_spot_balance tokens m ty (leaving \<or> ty = Borrow) = Ok delta"
      "tokens' = 0" "m' = shift_balance ty (- delta) m"
      "sb_balance ops b' = sb_balance ops b - delta" "0 \<le> sb_balance ops b'"
      "sb_balance_type ops b' = ty" "sb_market_index ops b' = sb_market_index ops b"
      "fits U128 (market_balance ty m - delta)"
  | (all) current where "get_token_amount (sb_balance ops b) m ty = Ok current" "current \<noteq> 0"
      "current \<le> tokens" "tokens' = tokens - current"
      "m' = shift_balance ty (- sb_balance ops b) m" "sb_balance ops b' = 0"
      "sb_balance_type ops b' = ty" "sb_market_index ops b' = sb_market_index ops b"
      "fits U128 (market_balance ty m - sb_balance ops b)"
proof -
  from assms(1) obtain current where cur: "get_token_amount (sb_balance ops b) m ty = Ok current"
    and rest: "(if current \<noteq> 0 then
        and_then
          (if current > tokens then
             and_then (get_spot_balance tokens m ty (leaving \<or> ty = Borrow)) (\<lambda>delta. Ok (tokens, delta))
           else Ok (current, sb_balance ops b)) (\<lambda>(token_delta, balance_delta).
        and_then (decrease_spot_balance balance_delta m ty) (\<lambda>m.
        and_then (sb_decrease_balance ops b balance_delta) (\<lambda>b.
        and_then (safe_sub U128 tokens token_delta) (\<lambda>tokens. Ok (tokens, m, b)))))
      else Ok (tokens, m, b)) = Ok (tokens', m', b')"
    unfolding reduce_balance_def Let_def ty_def by (elim and_thenE)
  consider "current = 0" | "current \<noteq> 0" "tokens < current" | "current \<noteq> 0" "current \<le> tokens" by linarith
  then show thesis
  proof cases
    case 1
    then show thesis using rest cur by (intro dust) auto
  next
    case 2
    then obtain delta where "get_spot_balance tokens m ty (leaving \<or> ty = Borrow) = Ok delta"
      "sb_decrease_balance ops b delta = Ok b'" "tokens' = 0" "m' = shift_balance ty (- delta) m"
      "fits U128 (market_balance ty m - delta)"
      using rest by (auto simp: ok_iff)
    then show thesis using some [OF cur 2(2)] decrease_Ok [of b delta b'] by (simp add: ty_def)
  next
    case 3
    then have "sb_decrease_balance ops b (sb_balance ops b) = Ok b'" "tokens' = tokens - current"
      "m' = shift_balance ty (- sb_balance ops b) m" "fits U128 (market_balance ty m - sb_balance ops b)"
      using rest by (auto simp: ok_iff)
    then show thesis using all [OF cur 3] decrease_Ok [of b "sb_balance ops b" b'] by (simp add: ty_def)
  qed
qed

lemma update_spot_balances_Ok:
  assumes "update_spot_balances ops tokens dir m b leaving = Ok (m', b')"
  obtains (grow) "dir = sb_balance_type ops b" "grow_balance ops tokens dir m b = Ok (m', b')"
  | (reduce) rest where "dir \<noteq> sb_balance_type ops b"
      "reduce_balance ops tokens m b leaving = Ok (rest, m', b')" "rest \<le> 0"
  | (flip) rest m1 b1 b2 where "dir \<noteq> sb_balance_type ops b"
      "reduce_balance ops tokens m b leaving = Ok (rest, m1, b1)" "0 < rest"
      "sb_update_balance_type ops b1 dir = Ok b2" "grow_balance ops rest dir m1 b2 = Ok (m', b')"
proof -
  have mid: "(if dir = sb_balance_type ops b then grow_balance ops tokens dir m b
        else and_then (reduce_balance ops tokens m b leaving) (\<lambda>(rest, m, b).
          if rest > 0 then and_then (sb_update_balance_type ops b dir) (\<lambda>b. grow_balance ops rest dir m b)
          else Ok (m, b))) = Ok (m', b')"
    using assms unfolding update_spot_balances_def
    by (elim and_thenE) (auto simp: and_then_Ok_iff split: if_split_asm)
  show thesis
  proof (cases "dir = sb_balance_type ops b")
    case True
    then show thesis using mid by (intro grow) simp_all
  next
    case False
    then obtain rest m1 b1 where red: "reduce_balance ops tokens m b leaving = Ok (rest, m1, b1)"
      and last: "(if rest > 0 then and_then (sb_update_balance_type ops b1 dir) (\<lambda>b. grow_balance ops rest dir m1 b)
          else Ok (m1, b1)) = Ok (m', b')"
      using mid by (auto simp: and_then_Ok_iff)
    show thesis
    proof (cases "0 < rest")
      case True
      then show thesis using last flip [OF False red True] by (auto elim: and_thenE)
    next
      case rest: False
      then show thesis using last red by (intro reduce [OF False]) auto
    qed
  qed
qed

text \<open>Frame: nothing but the two totals and the balance itself changes.\<close>

lemma update_frame:
  assumes "update_spot_balances ops tokens dir m b leaving = Ok (m', b')"
  shows "same_but_totals m m'"
proof -
  have grow: "same_but_totals m1 m2" if "grow_balance ops x d m1 b1 = Ok (m2, b2)" for x d m1 b1 m2 b2
    using that unfolding grow_balance_def Let_def by (elim and_thenE) (auto simp: ok_iff)
  have reduce: "same_but_totals m m2" if "reduce_balance ops x m b1 leaving = Ok (y, m2, b2)" for x b1 y m2 b2
    using that by (cases rule: reduce_balance_Ok) auto
  from assms show ?thesis
    by (cases rule: update_spot_balances_Ok) (auto dest: grow reduce intro: same_but_totals_trans)
qed

text \<open>
  The ledger. The sum of the two totals moves with the balance. The deposit total moves with the
  deposit side of the balance, except when a deposit too small to be worth a token turns into a
  borrow: the total then keeps it.
\<close>

lemma reduce_balance_ledger:
  assumes "reduce_balance ops tokens m b leaving = Ok (tokens', m', b')" "0 \<le> sb_balance ops b"
  shows "sb_balance_type ops b' = sb_balance_type ops b"
    "sb_market_index ops b' = sb_market_index ops b" "0 \<le> sb_balance ops b'"
    "market_balance t m' = market_balance t m
      + (if t = sb_balance_type ops b then sb_balance ops b' - sb_balance ops b else 0)"
  using assms(1) assms(2) by (cases rule: reduce_balance_Ok; cases t; force)+

lemma grow_balance_ledger:
  assumes "grow_balance ops tokens dir m b = Ok (m', b')" "sb_balance_type ops b = dir"
    "0 \<le> sb_balance ops b"
  shows "sb_balance_type ops b' = dir" "sb_market_index ops b' = sb_market_index ops b"
    "0 \<le> sb_balance ops b'"
    "market_balance t m' = market_balance t m
      + (if t = dir then sb_balance ops b' - sb_balance ops b else 0)"
  using assms(1,2) assms(3) get_spot_balance_fits
  by (cases rule: grow_balance_Ok; cases t; force)+

lemma update_ledger:
  assumes "update_spot_balances ops tokens dir m b leaving = Ok (m', b')" "0 \<le> sb_balance ops b"
  shows "0 \<le> sb_balance ops b'" "sb_market_index ops b' = sb_market_index ops b"
    "sm_deposit_balance m' + sm_borrow_balance m' - sb_balance ops b'
      = sm_deposit_balance m + sm_borrow_balance m - sb_balance ops b"
proof -
  have "0 \<le> sb_balance ops b' \<and> sb_market_index ops b' = sb_market_index ops b
    \<and> market_balance Deposit m' + market_balance Borrow m' - sb_balance ops b'
      = market_balance Deposit m + market_balance Borrow m - sb_balance ops b"
    using assms(1)
  proof (cases rule: update_spot_balances_Ok)
    case grow
    note l = grow_balance_ledger [OF grow(2) grow(1) [symmetric] assms(2)]
    show ?thesis using l(1-3) l(4) [of Deposit] l(4) [of Borrow] by (cases dir) simp_all
  next
    case (reduce rest)
    note l = reduce_balance_ledger [OF reduce(2) assms(2)]
    show ?thesis using l(1-3) l(4) [of Deposit] l(4) [of Borrow]
      by (cases "sb_balance_type ops b") simp_all
  next
    case (flip rest m1 b1 b2)
    note l = reduce_balance_ledger [OF flip(2) assms(2)]
    have b2: "sb_balance ops b2 = sb_balance ops b1" "sb_balance_type ops b2 = dir"
      "sb_market_index ops b2 = sb_market_index ops b1" using update_type_Ok [OF flip(4)] by simp_all
    note g = grow_balance_ledger [OF flip(5) b2(2)]
    show ?thesis using flip(1) l(1-3) l(4) [of Deposit] l(4) [of Borrow] b2 g(1-3) g(4) [of Deposit] g(4) [of Borrow]
      by (cases dir; cases "sb_balance_type ops b") simp_all
  qed
  then show "0 \<le> sb_balance ops b'" "sb_market_index ops b' = sb_market_index ops b"
    "sm_deposit_balance m' + sm_borrow_balance m' - sb_balance ops b'
      = sm_deposit_balance m + sm_borrow_balance m - sb_balance ops b" by simp_all
qed

text \<open>Without such a deposit both totals move with the balance.\<close>

lemma update_ledger_exact:
  assumes upd: "update_spot_balances ops tokens dir m b leaving = Ok (m', b')" and b: "0 \<le> sb_balance ops b"
    and no_dust: "get_token_amount (sb_balance ops b) m (sb_balance_type ops b) = Ok 0 \<Longrightarrow>
      dir \<noteq> sb_balance_type ops b \<Longrightarrow> sb_balance ops b = 0"
  shows "market_balance t m' - side ops t b' = market_balance t m - side ops t b"
  using upd
proof (cases rule: update_spot_balances_Ok)
  case grow
  note l = grow_balance_ledger [OF grow(2) grow(1) [symmetric] b]
  show ?thesis using l(1) l(4) [of t] grow(1) by (simp add: side_def)
next
  case (reduce rest)
  note l = reduce_balance_ledger [OF reduce(2) b]
  show ?thesis using l(1) l(4) [of t] by (simp add: side_def)
next
  case (flip rest m1 b1 b2)
  note l = reduce_balance_ledger [OF flip(2) b]
  have b2: "sb_balance ops b2 = sb_balance ops b1" "sb_balance_type ops b2 = dir"
    using update_type_Ok [OF flip(4)] by simp_all
  have "sb_balance ops b1 = 0"
    using flip(2)
  proof (cases rule: reduce_balance_Ok)
    case dust
    then show ?thesis using no_dust flip(1) by simp
  qed (use flip(3) in simp_all)
  then show ?thesis
    using b2 l(1) l(4) [of t] grow_balance_ledger(1) [OF flip(5) b2(2)]
      grow_balance_ledger(4) [OF flip(5) b2(2), of t] flip(1)
    by (auto simp: side_def)
qed

lemma update_ledger_deposits:
  assumes upd: "update_spot_balances ops tokens dir m b leaving = Ok (m', b')" and b: "0 \<le> sb_balance ops b"
    and m: "fits U32 (sm_decimals m)" "0 < sm_cumulative_borrow_interest m"
  shows "sm_deposit_balance m - side ops Deposit b \<le> sm_deposit_balance m' - side ops Deposit b'"
proof (cases "get_token_amount (sb_balance ops b) m (sb_balance_type ops b) = Ok 0
    \<and> dir \<noteq> sb_balance_type ops b \<and> sb_balance_type ops b = Deposit")
  case True
  from upd show ?thesis
  proof (cases rule: update_spot_balances_Ok)
    case (reduce rest)
    then show ?thesis
      using reduce_balance_ledger(1) [OF reduce(2) b] reduce_balance_ledger(4) [OF reduce(2) b, of Deposit]
      by (simp add: side_def)
  next
    case (flip rest m1 b1 b2)
    have dir: "dir = Borrow" using True by (cases dir) auto
    have b2: "sb_balance_type ops b2 = dir" "sb_balance ops b2 = sb_balance ops b1"
      using update_type_Ok [OF flip(4)] by simp_all
    have r: "0 \<le> sb_balance ops b1" "sm_deposit_balance m1 = sm_deposit_balance m + sb_balance ops b1 - sb_balance ops b"
      using True reduce_balance_ledger(3) [OF flip(2) b] reduce_balance_ledger(4) [OF flip(2) b, of Deposit] by simp_all
    then show ?thesis
      using True dir b2 grow_balance_ledger(1) [OF flip(5) b2(1)] grow_balance_ledger(4) [OF flip(5) b2(1), of Deposit]
      by (simp add: side_def)
  qed (use True in auto)
next
  case False
  have "sb_balance ops b = 0"
    if "get_token_amount (sb_balance ops b) m (sb_balance_type ops b) = Ok 0" "dir \<noteq> sb_balance_type ops b"
  proof -
    have "sb_balance_type ops b = Borrow" using False that by (cases "sb_balance_type ops b") simp_all
    then have "sb_balance ops b * sm_cumulative_borrow_interest m \<le> 0"
      using that(1) b m get_token_amount_bounds(2) [of m "sb_balance ops b" Borrow 0]
      by (simp add: scaled_value_def)
    then show ?thesis using b m(2) by (simp add: mult_le_0_iff)
  qed
  from update_ledger_exact [OF upd b this, of Deposit] show ?thesis by simp
qed

text \<open>A property of the balance that the trait's methods keep is kept.\<close>

lemma update_keeps:
  assumes "update_spot_balances ops tokens dir m b leaving = Ok (m', b')" "Q b"
    and inc: "\<And>b d b'. sb_increase_balance ops b d = Ok b' \<Longrightarrow> Q b \<Longrightarrow> Q b'"
    and dec: "\<And>b d b'. sb_decrease_balance ops b d = Ok b' \<Longrightarrow> Q b \<Longrightarrow> Q b'"
    and chg: "\<And>b t b'. sb_update_balance_type ops b t = Ok b' \<Longrightarrow> Q b \<Longrightarrow> Q b'"
  shows "Q b'"
proof -
  have grow: "Q b2" if "grow_balance ops x d m1 b1 = Ok (m2, b2)" "Q b1" for x d m1 b1 m2 b2
    using that unfolding grow_balance_def Let_def by (elim and_thenE) (auto dest: inc)
  have reduce: "Q b2" if "reduce_balance ops x m1 b1 leaving = Ok (y, m2, b2)" "Q b1" for x m1 b1 y m2 b2
    using that unfolding reduce_balance_def Let_def
    by (elim ok_elims) (auto elim!: and_thenE dest: dec)
  from assms(1) show ?thesis
    by (cases rule: update_spot_balances_Ok) (use assms(2) grow reduce chg in blast)+
qed

text \<open>The market stays in the declared types.\<close>

lemma update_fits:
  assumes upd: "update_spot_balances ops tokens dir m b leaving = Ok (m', b')" and m: "fits_spot_market m"
  shows "fits_spot_market m'"
proof -
  have grow: "fits_spot_market m2" if "grow_balance ops x d m1 b1 = Ok (m2, b2)" "fits_spot_market m1" for x d m1 b1 m2 b2
    using that unfolding grow_balance_def Let_def
    by (elim and_thenE) (auto simp: increase_spot_balance_Ok_iff fits_shift_balance)
  have reduce: "fits_spot_market m2" if "reduce_balance ops x m b1 leaving = Ok (y, m2, b2)" for x b1 y m2 b2
    using that m by (cases rule: reduce_balance_Ok) (auto simp: fits_shift_balance)
  from upd show ?thesis
    by (cases rule: update_spot_balances_Ok) (use m grow reduce in blast)+
qed

text \<open>
  The value of the claims on the vault. An amount that enters raises it by at most the amount,
  except that a partial repayment may take one more scaled unit off the debt; an amount that
  leaves lowers it by at least the amount.
\<close>

lemma grow_balance_value:
  assumes "grow_balance ops tokens dir m b = Ok (m', b')" "sb_balance_type ops b = dir"
    and "0 \<le> tokens" "fits U32 (sm_decimals m)" "0 \<le> cumulative_interest dir m"
  shows "dir = Deposit \<Longrightarrow> vault_claims m' \<le> vault_claims m + tokens * spot_precision m"
    "dir = Borrow \<Longrightarrow> vault_claims m' \<le> vault_claims m - tokens * spot_precision m"
proof -
  from assms(1,2) obtain delta where d: "get_spot_balance tokens m dir (dir = Borrow) = Ok delta"
    and m': "m' = shift_balance dir delta m" by (rule grow_balance_Ok)
  note bounds = get_spot_balance_bounds [OF assms(4,3,5) d]
  show "vault_claims m' \<le> vault_claims m + tokens * spot_precision m" if "dir = Deposit"
    using that m' bounds(3) by (simp add: vault_claims_def scaled_value_def algebra_simps)
  show "vault_claims m' \<le> vault_claims m - tokens * spot_precision m" if "dir = Borrow"
    using that m' bounds(5) by (simp add: vault_claims_def scaled_value_def algebra_simps)
qed

lemma reduce_balance_value:
  assumes red: "reduce_balance ops tokens m b leaving = Ok (rest, m', b')" and b: "0 \<le> sb_balance ops b"
    and m: "0 \<le> tokens" "fits U32 (sm_decimals m)" "0 \<le> cumulative_interest (sb_balance_type ops b) m"
  shows "0 \<le> rest" "rest \<le> tokens"
    "sb_balance_type ops b = Borrow \<Longrightarrow> 0 < rest \<Longrightarrow>
       vault_claims m' \<le> vault_claims m + (tokens - rest) * spot_precision m"
    "sb_balance_type ops b = Borrow \<Longrightarrow>
       vault_claims m' \<le> vault_claims m + (tokens - rest) * spot_precision m + sm_cumulative_borrow_interest m"
    "sb_balance_type ops b = Deposit \<Longrightarrow> leaving \<Longrightarrow>
       vault_claims m' \<le> vault_claims m - (tokens - rest) * spot_precision m"
proof -
  let ?P = "spot_precision m" and ?ty = "sb_balance_type ops b"
  have "0 \<le> rest \<and> rest \<le> tokens
    \<and> (?ty = Borrow \<and> 0 < rest \<longrightarrow> vault_claims m' \<le> vault_claims m + (tokens - rest) * ?P)
    \<and> (?ty = Borrow \<longrightarrow> vault_claims m' \<le> vault_claims m + (tokens - rest) * ?P + sm_cumulative_borrow_interest m)
    \<and> (?ty = Deposit \<and> leaving \<longrightarrow> vault_claims m' \<le> vault_claims m - (tokens - rest) * ?P)"
    using red
  proof (cases rule: reduce_balance_Ok)
    case dust
    then show ?thesis using m by auto
  next
    case (some current delta)
    note bounds = get_spot_balance_bounds [OF m(2,1,3) some(3)]
    show ?thesis using some(4,5) m bounds(5,6)
      by (cases ?ty) (auto simp: vault_claims_def scaled_value_def algebra_simps)
  next
    case (all current)
    note bounds = get_token_amount_bounds [OF m(2) b m(3) all(1)]
    have "0 \<le> current" using all(1) b m by (cases ?ty) (auto simp: get_token_amount_Ok_iff div_nonneg ceil_div_nonneg)
    then show ?thesis using all(3,4,5) m bounds
      by (cases ?ty) (auto simp: vault_claims_def scaled_value_def algebra_simps)
  qed
  then show "0 \<le> rest" "rest \<le> tokens"
    "?ty = Borrow \<Longrightarrow> 0 < rest \<Longrightarrow> vault_claims m' \<le> vault_claims m + (tokens - rest) * ?P"
    "?ty = Borrow \<Longrightarrow>
       vault_claims m' \<le> vault_claims m + (tokens - rest) * ?P + sm_cumulative_borrow_interest m"
    "?ty = Deposit \<Longrightarrow> leaving \<Longrightarrow> vault_claims m' \<le> vault_claims m - (tokens - rest) * ?P"
    by blast+
qed

lemma update_value:
  assumes upd: "update_spot_balances ops tokens dir m b leaving = Ok (m', b')"
    and b: "0 \<le> sb_balance ops b" and m: "0 \<le> tokens" "index_ok m"
  shows "dir = Deposit \<Longrightarrow> vault_claims m' \<le> vault_claims m + tokens * spot_precision m
       + (if sb_balance_type ops b = Borrow then sm_cumulative_borrow_interest m else 0)"
    "dir = Borrow \<Longrightarrow> leaving \<Longrightarrow> vault_claims m' \<le> vault_claims m - tokens * spot_precision m"
proof -
  let ?P = "spot_precision m"
  have nn: "fits U32 (sm_decimals m)" "0 \<le> cumulative_interest t m" "0 \<le> sm_cumulative_borrow_interest m" for t
    using m(2) by (cases t; simp add: index_ok_def)+
  have "(dir = Deposit \<longrightarrow> vault_claims m' \<le> vault_claims m + tokens * ?P
       + (if sb_balance_type ops b = Borrow then sm_cumulative_borrow_interest m else 0))
    \<and> (dir = Borrow \<and> leaving \<longrightarrow> vault_claims m' \<le> vault_claims m - tokens * ?P)"
    using upd
  proof (cases rule: update_spot_balances_Ok)
    case grow
    then show ?thesis
      using grow_balance_value [OF grow(2) grow(1) [symmetric] m(1) nn(1,2)] nn(3) by (cases dir) auto
  next
    case (reduce rest)
    note v = reduce_balance_value [OF reduce(2) b m(1) nn(1,2)]
    have "rest = 0" using v(1) reduce(3) by linarith
    then show ?thesis using v(4,5) reduce(1) by (cases dir; cases "sb_balance_type ops b") auto
  next
    case (flip rest m1 b1 b2)
    note v = reduce_balance_value [OF flip(2) b m(1) nn(1,2)]
    have same: "spot_precision m1 = ?P" "sm_decimals m1 = sm_decimals m"
      "cumulative_interest dir m1 = cumulative_interest dir m"
      using flip(2) by (cases rule: reduce_balance_Ok; auto)+
    have "sb_balance_type ops b2 = dir" using update_type_Ok [OF flip(4)] by simp
    note g = grow_balance_value [OF flip(5) this v(1), unfolded same, OF nn(1,2)]
    show ?thesis using v(3,5) g flip(1,3) nn(3)
      by (cases dir; cases "sb_balance_type ops b") (auto simp: algebra_simps)
  qed
  then show "dir = Deposit \<Longrightarrow> vault_claims m' \<le> vault_claims m + tokens * ?P
       + (if sb_balance_type ops b = Borrow then sm_cumulative_borrow_interest m else 0)"
    "dir = Borrow \<Longrightarrow> leaving \<Longrightarrow> vault_claims m' \<le> vault_claims m - tokens * ?P"
    by blast+
qed

end

text \<open>An implementation that only ever is a deposit: its update touches the deposit total alone.\<close>

locale deposit_balance = spot_balance +
  assumes deposit_only: "sb_balance_type ops b = Deposit"
    and fixed_type: "sb_update_balance_type ops b t \<noteq> Ok b'"
begin

lemma update_market_balance:
  assumes upd: "update_spot_balances ops tokens dir m b leaving = Ok (m', b')" and b: "0 \<le> sb_balance ops b"
  shows "market_balance t m' = market_balance t m
      + (if t = Deposit then sb_balance ops b' - sb_balance ops b else 0)"
  using upd
proof (cases rule: update_spot_balances_Ok)
  case grow
  then show ?thesis using grow_balance_ledger(4) [OF grow(2), of t] b by (simp add: deposit_only)
next
  case (reduce rest)
  then show ?thesis using reduce_balance_ledger(4) [OF reduce(2), of t] b by (simp add: deposit_only)
next
  case (flip rest m1 b1 b2)
  then show ?thesis using fixed_type by blast
qed

lemma update_deposits:
  assumes upd: "update_spot_balances ops tokens dir m b leaving = Ok (m', b')" and b: "0 \<le> sb_balance ops b"
  shows "sm_deposit_balance m' - sb_balance ops b' = sm_deposit_balance m - sb_balance ops b"
    "sm_borrow_balance m' = sm_borrow_balance m"
  using update_market_balance [OF assms, of Deposit] update_market_balance [OF assms, of Borrow] by simp_all

end

interpretation position: spot_balance spot_position_ops
  by unfold_locales (auto simp: spot_position_ops_def ok_iff)

interpretation pool: deposit_balance pool_balance_ops
  by unfold_locales (auto simp: pool_balance_ops_def ok_iff)

interpretation isolated: deposit_balance perp_position_ops
  by unfold_locales (auto simp: perp_position_ops_def ok_iff)

lemma pool_update_facts:
  assumes upd: "update_spot_balances pool_balance_ops tokens dir m p leaving = Ok (m', p')"
    and p: "0 \<le> pb_scaled_balance p"
  shows "same_but_totals m m'" "0 \<le> pb_scaled_balance p'"
    "pb_pending_interest_split_dust p' = pb_pending_interest_split_dust p"
    "pb_pending_interest_dust p' = pb_pending_interest_dust p" "pb_market_index p' = pb_market_index p"
    "sm_deposit_balance m' - pb_scaled_balance p' = sm_deposit_balance m - pb_scaled_balance p"
    "sm_borrow_balance m' = sm_borrow_balance m"
proof -
  have keep: "f p' = f p" if "\<And>q b. f (q\<lparr>pb_scaled_balance := b\<rparr>) = f q" for f :: "pool_balance \<Rightarrow> int"
    by (rule pool.update_keeps [OF upd]) (auto simp: pool_balance_ops_def ok_iff that)
  show "same_but_totals m m'" by (rule pool.update_frame [OF upd])
  show "0 \<le> pb_scaled_balance p'" using pool.update_ledger(1) [OF upd] p by (simp add: pool_balance_ops_def)
  show "pb_pending_interest_split_dust p' = pb_pending_interest_split_dust p"
    "pb_pending_interest_dust p' = pb_pending_interest_dust p" "pb_market_index p' = pb_market_index p"
    by (rule keep, simp)+
  show "sm_deposit_balance m' - pb_scaled_balance p' = sm_deposit_balance m - pb_scaled_balance p"
    "sm_borrow_balance m' = sm_borrow_balance m"
    using pool.update_deposits [OF upd] p by (simp_all add: pool_balance_ops_def)
qed

end
