(* ===== verification/Spot_Accrual.thy ===== *)
theory Spot_Accrual
  imports Spot_Balance
begin

text \<open>
  The interest accrual of \<open>controller/spot_balance.rs\<close>: the 24h averages, the clock stamp, the
  commit / drop / defer decision of \<open>update_spot_market_cumulative_interest\<close>, and
  \<open>sanitize_new_price\<close> of \<open>vlp/amm/math/amm.rs\<close>, which the averages use.
\<close>

section \<open>Definitions\<close>

definition get_sanitize_clamp_denominator :: "spot_market \<Rightarrow> int option" where
  "get_sanitize_clamp_denominator spot_market =
     (case sm_asset_tier spot_market of
        Collateral \<Rightarrow> Some 10
      | Protected \<Rightarrow> Some 10
      | Cross \<Rightarrow> Some 5
      | Isolated \<Rightarrow> Some 3
      | Unlisted \<Rightarrow> None)"

definition sanitize_new_price :: "int \<Rightarrow> int \<Rightarrow> int option \<Rightarrow> int result" where
  "sanitize_new_price new_price last_price_twap sanitize_clamp_denominator =
     (if last_price_twap = 0 then Ok new_price
      else
        and_then (safe_sub I64 new_price last_price_twap) (\<lambda>new_price_spread.
        let sanitize_clamp_denominator = (case sanitize_clamp_denominator of
              Some d \<Rightarrow> d
            | None \<Rightarrow> DEFAULT_MAX_TWAP_UPDATE_PRICE_BAND_DENOMINATOR) in
        if sanitize_clamp_denominator = 0 then Ok new_price
        else
          and_then (safe_div I64 last_price_twap sanitize_clamp_denominator) (\<lambda>price_twap_price_band.
          if \<bar>new_price_spread\<bar> > \<bar>price_twap_price_band\<bar> then
            (if new_price > last_price_twap then safe_add I64 last_price_twap price_twap_price_band
             else safe_sub I64 last_price_twap price_twap_price_band)
          else Ok new_price)))"

text \<open>The oracle part of \<open>update_spot_market_twap_stats\<close> (its \<open>if let Some\<close> block).\<close>

definition update_oracle_twaps ::
  "spot_market \<Rightarrow> oracle_price_data \<Rightarrow> int \<Rightarrow> int \<Rightarrow> spot_market result" where
  "update_oracle_twaps spot_market oracle_price_data now since_last =
     (let h = sm_historical_oracle_data spot_market in
      and_then (sanitize_new_price (op_price oracle_price_data) (ho_last_oracle_price_twap h)
          (get_sanitize_clamp_denominator spot_market)) (\<lambda>capped_oracle_update_price.
      and_then (calculate_new_twap capped_oracle_update_price now (ho_last_oracle_price_twap h)
          (ho_last_oracle_price_twap_ts h) ONE_HOUR) (\<lambda>oracle_price_twap.
      and_then (calculate_new_twap capped_oracle_update_price now (ho_last_oracle_price_twap_5min h)
          (ho_last_oracle_price_twap_ts h) FIVE_MINUTE) (\<lambda>oracle_price_twap_5min.
      let h1 = h\<lparr> ho_last_oracle_price := op_price oracle_price_data,
                 ho_last_oracle_conf := op_confidence oracle_price_data,
                 ho_last_oracle_delay := op_delay oracle_price_data \<rparr>;
          h2 = (if oracle_price_twap \<noteq> ho_last_oracle_price_twap h \<or> since_last \<ge> ONE_MINUTE
                then h1\<lparr> ho_last_oracle_price_twap := oracle_price_twap,
                         ho_last_oracle_price_twap_5min := oracle_price_twap_5min,
                         ho_last_oracle_price_twap_ts := now \<rparr>
                else h1) in
      Ok (spot_market\<lparr> sm_historical_oracle_data := h2 \<rparr>)))))"

definition update_spot_market_twap_stats ::
  "spot_market \<Rightarrow> oracle_price_data option \<Rightarrow> int \<Rightarrow> spot_market result" where
  "update_spot_market_twap_stats spot_market oracle_price_data now =
     and_then (cast I64 (sm_last_twap_ts spot_market)) (\<lambda>last_twap_ts.
     and_then (safe_sub I64 now last_twap_ts) (\<lambda>d.
     let since_last = max 0 d in
     and_then (safe_sub I64 SPOT_MARKET_TOKEN_TWAP_WINDOW since_last) (\<lambda>f.
     let from_start = max 1 f in
     and_then (get_token_amount (sm_deposit_balance spot_market) spot_market Deposit)
       (\<lambda>deposit_token_amount.
     and_then (get_token_amount (sm_borrow_balance spot_market) spot_market Borrow)
       (\<lambda>borrow_token_amount.
     and_then (cast I64 deposit_token_amount) (\<lambda>deposits.
     and_then (cast I64 (sm_deposit_token_twap spot_market)) (\<lambda>deposit_twap.
     and_then (calculate_weighted_average deposits deposit_twap since_last from_start None) (\<lambda>t.
     and_then (cast U64 t) (\<lambda>deposit_token_twap.
     let spot_market = spot_market\<lparr> sm_deposit_token_twap := deposit_token_twap \<rparr> in
     and_then (cast I64 borrow_token_amount) (\<lambda>borrows.
     and_then (cast I64 (sm_borrow_token_twap spot_market)) (\<lambda>borrow_twap.
     and_then (calculate_weighted_average borrows borrow_twap since_last from_start None) (\<lambda>t.
     and_then (cast U64 t) (\<lambda>borrow_token_twap.
     let spot_market = spot_market\<lparr> sm_borrow_token_twap := borrow_token_twap \<rparr> in
     and_then (calculate_utilization deposit_token_amount borrow_token_amount) (\<lambda>utilization.
     and_then (cast I64 utilization) (\<lambda>u.
     and_then (cast I64 (sm_utilization_twap spot_market)) (\<lambda>u_twap.
     and_then (calculate_weighted_average u u_twap since_last from_start None) (\<lambda>t.
     and_then (cast U64 t) (\<lambda>utilization_twap.
     let spot_market = spot_market\<lparr> sm_utilization_twap := utilization_twap \<rparr> in
     and_then
       (case oracle_price_data of
          Some oracle_price_data \<Rightarrow> update_oracle_twaps spot_market oracle_price_data now since_last
        | None \<Rightarrow> Ok spot_market) (\<lambda>spot_market.
     and_then (cast U64 now) (\<lambda>now_u64.
     Ok (spot_market\<lparr> sm_last_twap_ts := now_u64 \<rparr>)))))))))))))))))))))"

definition stamp_interest_ts_without_accrual :: "spot_market \<Rightarrow> int \<Rightarrow> spot_market result" where
  "stamp_interest_ts_without_accrual spot_market now =
     and_then (cast U64 now) (\<lambda>now_u64.
     if now_u64 > sm_last_interest_ts spot_market
     then Ok (spot_market\<lparr> sm_last_interest_ts := now_u64 \<rparr>)
     else Ok spot_market)"

text \<open>The COMMIT block of \<open>update_spot_market_cumulative_interest\<close>.\<close>

definition commit_interest :: "spot_market \<Rightarrow> int \<Rightarrow> int \<Rightarrow> int \<Rightarrow> spot_market result" where
  "commit_interest spot_market deposit_interest borrow_interest now =
     and_then (split_deposit_interest spot_market deposit_interest) (\<lambda>split.
     and_then (get_interest_token_amount_with_dust (sm_deposit_balance spot_market) spot_market
         (is_for_insurance_fund split) (pb_pending_interest_dust (sm_revenue_pool spot_market)))
       (\<lambda>(if_token_amount, if_token_dust).
     and_then (get_interest_token_amount_with_dust (sm_deposit_balance spot_market) spot_market
         (is_for_protocol split) (pb_pending_interest_dust (sm_protocol_fee_pool spot_market)))
       (\<lambda>(protocol_token_amount, protocol_token_dust).
     and_then (safe_add U128 (sm_cumulative_deposit_interest spot_market) (is_for_lenders split))
       (\<lambda>cumulative_deposit_interest.
     and_then (safe_add U128 (sm_cumulative_borrow_interest spot_market) borrow_interest)
       (\<lambda>cumulative_borrow_interest.
     and_then (cast U64 now) (\<lambda>now_u64.
     let spot_market = spot_market\<lparr> sm_cumulative_deposit_interest := cumulative_deposit_interest,
           sm_cumulative_borrow_interest := cumulative_borrow_interest,
           sm_last_interest_ts := now_u64 \<rparr> in
     and_then
       (if if_token_amount > 0
        then update_revenue_pool_balances if_token_amount Deposit spot_market False
        else Ok spot_market) (\<lambda>spot_market.
     let spot_market = spot_market\<lparr> sm_revenue_pool := (sm_revenue_pool spot_market)
           \<lparr> pb_pending_interest_split_dust := is_carveout_dust split,
             pb_pending_interest_dust := if_token_dust \<rparr> \<rparr> in
     and_then
       (if protocol_token_amount > 0
        then update_protocol_fee_pool_balances protocol_token_amount Deposit spot_market False
        else Ok spot_market) (\<lambda>spot_market.
     Ok (spot_market\<lparr> sm_protocol_fee_pool := (sm_protocol_fee_pool spot_market)
           \<lparr> pb_pending_interest_split_dust := is_insurance_fund_dust split,
             pb_pending_interest_dust := protocol_token_dust \<rparr> \<rparr>)))))))))"

definition update_spot_market_cumulative_interest ::
  "spot_market \<Rightarrow> oracle_price_data option \<Rightarrow> int \<Rightarrow> bool \<Rightarrow> spot_market result" where
  "update_spot_market_cumulative_interest spot_market oracle_price_data now funding_paused =
     (if funding_paused
         \<or> is_spot_operation_paused (sm_paused_operations spot_market) UpdateCumulativeInterest then
        and_then (stamp_interest_ts_without_accrual spot_market now) (\<lambda>spot_market.
        update_spot_market_twap_stats spot_market oracle_price_data now)
      else
        and_then (calculate_accumulated_interest spot_market now) (\<lambda>acc.
        and_then
          (if ia_deposit_interest acc > 0 \<and> ia_borrow_interest acc > 1 then
             commit_interest spot_market (ia_deposit_interest acc) (ia_borrow_interest acc) now
           else
             and_then
               (if sm_borrow_balance spot_market = 0 then Ok True
                else map_ok (\<lambda>u. u = 0) (calculate_spot_market_utilization spot_market)) (\<lambda>idle.
             if idle then stamp_interest_ts_without_accrual spot_market now
             else Ok spot_market)) (\<lambda>spot_market.
        update_spot_market_twap_stats spot_market oracle_price_data now)))"

lemmas spot_accrual_defs [eval_defs] =
  get_sanitize_clamp_denominator_def sanitize_new_price_def update_oracle_twaps_def
  update_spot_market_twap_stats_def stamp_interest_ts_without_accrual_def commit_interest_def
  update_spot_market_cumulative_interest_def


section \<open>What a commit does to the claims on the vault\<close>

lemma split_deposit_interest_sum:
  assumes "split_deposit_interest m d = Ok s" "0 \<le> d"
  shows "is_for_lenders s + is_for_insurance_fund s + is_for_protocol s = d"
    "0 \<le> is_for_lenders s" "0 \<le> is_for_insurance_fund s" "0 \<le> is_for_protocol s"
proof -
  have "s = \<lparr> is_for_lenders = d, is_for_insurance_fund = 0, is_for_protocol = 0,
        is_carveout_dust = 0, is_insurance_fund_dust = 0 \<rparr>
    \<or> (\<exists>w. safe_sub U128 d w = Ok (is_for_lenders s) \<and> fits U128 (is_for_insurance_fund s)
        \<and> safe_sub U128 w (is_for_insurance_fund s) = Ok (is_for_protocol s))"
    using assms(1) unfolding split_deposit_interest_def Let_def
    by (elim ok_elims; simp split: prod.splits; elim ok_elims; auto simp: safe_div_Ok_iff)
  then show "is_for_lenders s + is_for_insurance_fund s + is_for_protocol s = d"
    "0 \<le> is_for_lenders s" "0 \<le> is_for_insurance_fund s" "0 \<le> is_for_protocol s"
    using assms(2) by (auto simp: safe_sub_Ok_iff)
qed

lemma interest_token_amount_with_dust_Ok:
  assumes "get_interest_token_amount_with_dust b m i k = Ok (tokens, dust)" "fits U32 (sm_decimals m)"
  shows "tokens * spot_precision m + dust = b * i + k" "0 \<le> dust" "0 \<le> tokens"
proof -
  obtain n where "n = b * i + k" "tokens = n sdiv spot_precision m" "fits U128 tokens"
    "dust = n - tokens * spot_precision m" "fits U64 dust"
    using assms(1) unfolding get_interest_token_amount_with_dust_def precision_Ok_iff [OF assms(2)]
    by (elim conjE and_thenE) (auto simp: safe_add_Ok_iff safe_mul_Ok_iff safe_sub_Ok_iff safe_div_Ok_iff cast_Ok_iff)
  then show "tokens * spot_precision m + dust = b * i + k" "0 \<le> dust" "0 \<le> tokens" by auto
qed

text \<open>The remainders of the token conversions that both pools carry.\<close>

definition carried_token_dust :: "spot_market \<Rightarrow> int" where
  "carried_token_dust m = pb_pending_interest_dust (sm_revenue_pool m)
     + pb_pending_interest_dust (sm_protocol_fee_pool m)"


lemma same_but_totals_keeps:
  assumes "same_but_totals m m'"
  shows "sm_revenue_pool m' = sm_revenue_pool m" "sm_protocol_fee_pool m' = sm_protocol_fee_pool m"
    "sm_cumulative_deposit_interest m' = sm_cumulative_deposit_interest m"
    "sm_cumulative_borrow_interest m' = sm_cumulative_borrow_interest m"
    "sm_decimals m' = sm_decimals m" "sm_last_interest_ts m' = sm_last_interest_ts m"
    "spot_precision m' = spot_precision m" "sm_market_index m' = sm_market_index m"
    "sm_insurance_fund m' = sm_insurance_fund m" "sm_protocol_fee_factor m' = sm_protocol_fee_factor m"
    "index_ok m' = index_ok m"
proof -
  note eq = assms [unfolded same_but_totals_def]
  show "sm_revenue_pool m' = sm_revenue_pool m" by (subst eq) simp
  show "sm_protocol_fee_pool m' = sm_protocol_fee_pool m" by (subst eq) simp
  show 1: "sm_cumulative_deposit_interest m' = sm_cumulative_deposit_interest m" by (subst eq) simp
  show 2: "sm_cumulative_borrow_interest m' = sm_cumulative_borrow_interest m" by (subst eq) simp
  show 3: "sm_decimals m' = sm_decimals m" by (subst eq) simp
  show "sm_last_interest_ts m' = sm_last_interest_ts m" by (subst eq) simp
  show "spot_precision m' = spot_precision m" by (simp add: spot_precision_def 3)
  show "sm_market_index m' = sm_market_index m" by (subst eq) simp
  show "sm_insurance_fund m' = sm_insurance_fund m" by (subst eq) simp
  show "sm_protocol_fee_factor m' = sm_protocol_fee_factor m" by (subst eq) simp
  show "index_ok m' = index_ok m" by (simp add: index_ok_def 1 2 3)
qed

text \<open>The fields that a pool update leaves alone.\<close>

definition same_indexes :: "spot_market \<Rightarrow> spot_market \<Rightarrow> bool" where
  "same_indexes m m' \<longleftrightarrow> sm_decimals m' = sm_decimals m
     \<and> sm_cumulative_deposit_interest m' = sm_cumulative_deposit_interest m
     \<and> sm_cumulative_borrow_interest m' = sm_cumulative_borrow_interest m
     \<and> sm_last_interest_ts m' = sm_last_interest_ts m \<and> sm_market_index m' = sm_market_index m
     \<and> sm_insurance_fund m' = sm_insurance_fund m
     \<and> sm_protocol_fee_factor m' = sm_protocol_fee_factor m"

lemma same_indexes_trans: "same_indexes m m' \<Longrightarrow> same_indexes m' m'' \<Longrightarrow> same_indexes m m''"
  by (simp add: same_indexes_def)

lemma same_indexes_index_ok: "same_indexes m m' \<Longrightarrow> index_ok m' = index_ok m"
  "same_indexes m m' \<Longrightarrow> spot_precision m' = spot_precision m"
  by (simp_all add: same_indexes_def index_ok_def spot_precision_def)


lemma update_revenue_pool_balances_Ok:
  assumes "update_revenue_pool_balances tokens dir m leaving = Ok m'"
    and "0 \<le> pb_scaled_balance (sm_revenue_pool m)" "0 \<le> tokens" "index_ok m"
  shows "same_indexes m m'" "sm_protocol_fee_pool m' = sm_protocol_fee_pool m"
    "0 \<le> pb_scaled_balance (sm_revenue_pool m')"
    "pb_pending_interest_dust (sm_revenue_pool m') = pb_pending_interest_dust (sm_revenue_pool m)"
    "sm_deposit_balance m' - pb_scaled_balance (sm_revenue_pool m')
       = sm_deposit_balance m - pb_scaled_balance (sm_revenue_pool m)"
    "sm_borrow_balance m' = sm_borrow_balance m"
    "dir = Deposit \<Longrightarrow> vault_claims m' \<le> vault_claims m + tokens * spot_precision m"
proof -
  obtain m1 p where upd: "update_spot_balances pool_balance_ops tokens dir m (sm_revenue_pool m) leaving = Ok (m1, p)"
    and m': "m' = m1\<lparr>sm_revenue_pool := p\<rparr>"
    using assms(1) unfolding update_revenue_pool_balances_def by (elim and_thenE) auto
  note f = pool_update_facts [OF upd assms(2)]
  note k = same_but_totals_keeps [OF f(1)]
  show "same_indexes m m'" "sm_protocol_fee_pool m' = sm_protocol_fee_pool m"
    "0 \<le> pb_scaled_balance (sm_revenue_pool m')"
    "pb_pending_interest_dust (sm_revenue_pool m') = pb_pending_interest_dust (sm_revenue_pool m)"
    "sm_deposit_balance m' - pb_scaled_balance (sm_revenue_pool m')
       = sm_deposit_balance m - pb_scaled_balance (sm_revenue_pool m)"
    "sm_borrow_balance m' = sm_borrow_balance m"
    using f k by (simp_all add: m' same_indexes_def)
  have "vault_claims m' = vault_claims m1" by (simp add: m' vault_claims_def scaled_value_def)
  then show "dir = Deposit \<Longrightarrow> vault_claims m' \<le> vault_claims m + tokens * spot_precision m"
    using pool.update_value(1) [OF upd] assms(2-4) by (simp add: pool_balance_ops_def)
qed

lemma update_protocol_fee_pool_balances_Ok:
  assumes "update_protocol_fee_pool_balances tokens dir m leaving = Ok m'"
    and "0 \<le> pb_scaled_balance (sm_protocol_fee_pool m)" "0 \<le> tokens" "index_ok m"
  shows "same_indexes m m'" "sm_revenue_pool m' = sm_revenue_pool m"
    "0 \<le> pb_scaled_balance (sm_protocol_fee_pool m')"
    "pb_pending_interest_dust (sm_protocol_fee_pool m') = pb_pending_interest_dust (sm_protocol_fee_pool m)"
    "sm_deposit_balance m' - pb_scaled_balance (sm_protocol_fee_pool m')
       = sm_deposit_balance m - pb_scaled_balance (sm_protocol_fee_pool m)"
    "sm_borrow_balance m' = sm_borrow_balance m"
    "dir = Deposit \<Longrightarrow> vault_claims m' \<le> vault_claims m + tokens * spot_precision m"
proof -
  obtain m1 p where upd: "update_spot_balances pool_balance_ops tokens dir m (sm_protocol_fee_pool m) leaving = Ok (m1, p)"
    and m': "m' = m1\<lparr>sm_protocol_fee_pool := p\<rparr>"
    using assms(1) unfolding update_protocol_fee_pool_balances_def by (elim and_thenE) auto
  note f = pool_update_facts [OF upd assms(2)]
  note k = same_but_totals_keeps [OF f(1)]
  show "same_indexes m m'" "sm_revenue_pool m' = sm_revenue_pool m"
    "0 \<le> pb_scaled_balance (sm_protocol_fee_pool m')"
    "pb_pending_interest_dust (sm_protocol_fee_pool m') = pb_pending_interest_dust (sm_protocol_fee_pool m)"
    "sm_deposit_balance m' - pb_scaled_balance (sm_protocol_fee_pool m')
       = sm_deposit_balance m - pb_scaled_balance (sm_protocol_fee_pool m)"
    "sm_borrow_balance m' = sm_borrow_balance m"
    using f k by (simp_all add: m' same_indexes_def)
  have "vault_claims m' = vault_claims m1" by (simp add: m' vault_claims_def scaled_value_def)
  then show "dir = Deposit \<Longrightarrow> vault_claims m' \<le> vault_claims m + tokens * spot_precision m"
    using pool.update_value(1) [OF upd] assms(2-4) by (simp add: pool_balance_ops_def)
qed

text \<open>The stages of a commit.\<close>

lemma commit_interest_Ok:
  assumes "commit_interest m di bi now = Ok m'"
  obtains s it id pt pd m1 m2 m3 m4 where
    "split_deposit_interest m di = Ok s"
    "get_interest_token_amount_with_dust (sm_deposit_balance m) m (is_for_insurance_fund s)
       (pb_pending_interest_dust (sm_revenue_pool m)) = Ok (it, id)"
    "get_interest_token_amount_with_dust (sm_deposit_balance m) m (is_for_protocol s)
       (pb_pending_interest_dust (sm_protocol_fee_pool m)) = Ok (pt, pd)"
    "m1 = m\<lparr> sm_cumulative_deposit_interest := sm_cumulative_deposit_interest m + is_for_lenders s,
            sm_cumulative_borrow_interest := sm_cumulative_borrow_interest m + bi,
            sm_last_interest_ts := now \<rparr>"
    "(if it > 0 then update_revenue_pool_balances it Deposit m1 False else Ok m1) = Ok m2"
    "m3 = m2\<lparr> sm_revenue_pool := (sm_revenue_pool m2)\<lparr> pb_pending_interest_split_dust := is_carveout_dust s,
             pb_pending_interest_dust := id \<rparr> \<rparr>"
    "(if pt > 0 then update_protocol_fee_pool_balances pt Deposit m3 False else Ok m3) = Ok m4"
    "m' = m4\<lparr> sm_protocol_fee_pool := (sm_protocol_fee_pool m4)
             \<lparr> pb_pending_interest_split_dust := is_insurance_fund_dust s, pb_pending_interest_dust := pd \<rparr> \<rparr>"
    "fits U64 now" "fits U128 (sm_cumulative_deposit_interest m + is_for_lenders s)"
    "fits U128 (sm_cumulative_borrow_interest m + bi)"
  using assms unfolding commit_interest_def Let_def
  by (elim and_thenE case_prod_OkE) (simp add: safe_add_Ok_iff cast_Ok_iff)


lemma commit_interest_value:
  assumes commit: "commit_interest m di bi now = Ok m'"
    and m: "index_ok m" "0 \<le> pb_scaled_balance (sm_revenue_pool m)"
      "0 \<le> pb_scaled_balance (sm_protocol_fee_pool m)" "0 \<le> di" "0 \<le> bi" "0 \<le> sm_deposit_balance m"
  shows "sm_cumulative_deposit_interest m \<le> sm_cumulative_deposit_interest m'"
    "sm_cumulative_borrow_interest m' = sm_cumulative_borrow_interest m + bi"
    "sm_last_interest_ts m' = now" "fits U64 now"
    "sm_decimals m' = sm_decimals m" "sm_market_index m' = sm_market_index m" "index_ok m'"
    "0 \<le> pb_scaled_balance (sm_revenue_pool m')" "0 \<le> pb_scaled_balance (sm_protocol_fee_pool m')"
    "sm_deposit_balance m' - pb_scaled_balance (sm_revenue_pool m') - pb_scaled_balance (sm_protocol_fee_pool m')
       = sm_deposit_balance m - pb_scaled_balance (sm_revenue_pool m) - pb_scaled_balance (sm_protocol_fee_pool m)"
    "sm_borrow_balance m' = sm_borrow_balance m"
    "vault_claims m' + carried_token_dust m'
       \<le> vault_claims m + carried_token_dust m + sm_deposit_balance m * di - sm_borrow_balance m * bi"
proof -
  from commit obtain s it id pt pd m1 m2 m3 m4 where
    split: "split_deposit_interest m di = Ok s"
    and itd: "get_interest_token_amount_with_dust (sm_deposit_balance m) m (is_for_insurance_fund s)
       (pb_pending_interest_dust (sm_revenue_pool m)) = Ok (it, id)"
    and ptd: "get_interest_token_amount_with_dust (sm_deposit_balance m) m (is_for_protocol s)
       (pb_pending_interest_dust (sm_protocol_fee_pool m)) = Ok (pt, pd)"
    and m1: "m1 = m\<lparr> sm_cumulative_deposit_interest := sm_cumulative_deposit_interest m + is_for_lenders s,
            sm_cumulative_borrow_interest := sm_cumulative_borrow_interest m + bi, sm_last_interest_ts := now \<rparr>"
    and u2: "(if it > 0 then update_revenue_pool_balances it Deposit m1 False else Ok m1) = Ok m2"
    and m3: "m3 = m2\<lparr> sm_revenue_pool := (sm_revenue_pool m2)\<lparr> pb_pending_interest_split_dust := is_carveout_dust s,
             pb_pending_interest_dust := id \<rparr> \<rparr>"
    and u4: "(if pt > 0 then update_protocol_fee_pool_balances pt Deposit m3 False else Ok m3) = Ok m4"
    and m': "m' = m4\<lparr> sm_protocol_fee_pool := (sm_protocol_fee_pool m4)
             \<lparr> pb_pending_interest_split_dust := is_insurance_fund_dust s, pb_pending_interest_dust := pd \<rparr> \<rparr>"
    and now: "fits U64 now"
    by (rule commit_interest_Ok) blast
  let ?P = "spot_precision m"
  note s = split_deposit_interest_sum [OF split m(4)]
  have dec: "fits U32 (sm_decimals m)" using m(1) by (simp add: index_ok_def)
  note it = interest_token_amount_with_dust_Ok [OF itd dec] and pt = interest_token_amount_with_dust_Ok [OF ptd dec]
  have ok1: "index_ok m1" "spot_precision m1 = ?P" "0 \<le> pb_scaled_balance (sm_revenue_pool m1)"
    using m(1,2,5) s(2) by (simp_all add: m1 index_ok_def spot_precision_def)
  have v1: "vault_claims m1 = vault_claims m + sm_deposit_balance m * is_for_lenders s - sm_borrow_balance m * bi"
    by (simp add: m1 vault_claims_def scaled_value_def algebra_simps)
  have s2: "same_indexes m1 m2" "sm_protocol_fee_pool m2 = sm_protocol_fee_pool m1"
    "0 \<le> pb_scaled_balance (sm_revenue_pool m2)"
    "sm_deposit_balance m2 - pb_scaled_balance (sm_revenue_pool m2)
       = sm_deposit_balance m1 - pb_scaled_balance (sm_revenue_pool m1)"
    "sm_borrow_balance m2 = sm_borrow_balance m1" "vault_claims m2 \<le> vault_claims m1 + it * ?P"
    using u2 it(3) ok1 update_revenue_pool_balances_Ok [of it Deposit m1 False m2]
    by (auto simp: same_indexes_def split: if_splits)
  have s3: "same_indexes m2 m3" "sm_deposit_balance m3 = sm_deposit_balance m2"
    "sm_borrow_balance m3 = sm_borrow_balance m2" "vault_claims m3 = vault_claims m2"
    "pb_scaled_balance (sm_revenue_pool m3) = pb_scaled_balance (sm_revenue_pool m2)"
    "pb_pending_interest_dust (sm_revenue_pool m3) = id" "sm_protocol_fee_pool m3 = sm_protocol_fee_pool m2"
    by (simp_all add: m3 same_indexes_def vault_claims_def scaled_value_def)
  note i3 = same_indexes_trans [OF s2(1) s3(1)]
  have ok3: "index_ok m3" "spot_precision m3 = ?P" "0 \<le> pb_scaled_balance (sm_protocol_fee_pool m3)"
    using same_indexes_index_ok [OF i3] ok1 m(3) s3(7) s2(2) by (simp_all add: m1)
  have s4: "same_indexes m3 m4" "sm_revenue_pool m4 = sm_revenue_pool m3"
    "0 \<le> pb_scaled_balance (sm_protocol_fee_pool m4)"
    "sm_deposit_balance m4 - pb_scaled_balance (sm_protocol_fee_pool m4)
       = sm_deposit_balance m3 - pb_scaled_balance (sm_protocol_fee_pool m3)"
    "sm_borrow_balance m4 = sm_borrow_balance m3" "vault_claims m4 \<le> vault_claims m3 + pt * ?P"
    using u4 pt(3) ok3 update_protocol_fee_pool_balances_Ok [of pt Deposit m3 False m4]
    by (auto simp: same_indexes_def split: if_splits)
  have s5: "same_indexes m4 m'" "sm_deposit_balance m' = sm_deposit_balance m4"
    "sm_borrow_balance m' = sm_borrow_balance m4" "vault_claims m' = vault_claims m4"
    "pb_scaled_balance (sm_protocol_fee_pool m') = pb_scaled_balance (sm_protocol_fee_pool m4)"
    "pb_pending_interest_dust (sm_protocol_fee_pool m') = pd" "sm_revenue_pool m' = sm_revenue_pool m4"
    by (simp_all add: m' same_indexes_def vault_claims_def scaled_value_def)
  note i5 = same_indexes_trans [OF same_indexes_trans [OF i3 s4(1)] s5(1)]
  show "sm_cumulative_deposit_interest m \<le> sm_cumulative_deposit_interest m'"
    "sm_cumulative_borrow_interest m' = sm_cumulative_borrow_interest m + bi"
    "sm_last_interest_ts m' = now" "fits U64 now"
    "sm_decimals m' = sm_decimals m" "sm_market_index m' = sm_market_index m"
    using i5 s(2) now by (simp_all add: same_indexes_def m1)
  show "index_ok m'" using same_indexes_index_ok(1) [OF i5] ok1 by simp
  show "0 \<le> pb_scaled_balance (sm_revenue_pool m')" "0 \<le> pb_scaled_balance (sm_protocol_fee_pool m')"
    "sm_deposit_balance m' - pb_scaled_balance (sm_revenue_pool m') - pb_scaled_balance (sm_protocol_fee_pool m')
       = sm_deposit_balance m - pb_scaled_balance (sm_revenue_pool m) - pb_scaled_balance (sm_protocol_fee_pool m)"
    "sm_borrow_balance m' = sm_borrow_balance m"
    using s2 s3 s4 s5 by (simp_all add: m1)
  have "vault_claims m' \<le> vault_claims m1 + it * ?P + pt * ?P" using s2(6) s3(4) s4(6) s5(4) by linarith
  moreover have "carried_token_dust m' = id + pd" using s5 s4(2) s3(6) by (simp add: carried_token_dust_def)
  moreover have "sm_deposit_balance m * di = sm_deposit_balance m * is_for_lenders s
      + sm_deposit_balance m * is_for_insurance_fund s + sm_deposit_balance m * is_for_protocol s"
    by (simp add: s(1) [symmetric] algebra_simps)
  ultimately show "vault_claims m' + carried_token_dust m'
       \<le> vault_claims m + carried_token_dust m + sm_deposit_balance m * di - sm_borrow_balance m * bi"
    using it(1) pt(1) v1 by (simp add: carried_token_dust_def)
qed


section \<open>The accrual as a whole\<close>

text \<open>Balances, pools and indexes, which the averages do not touch.\<close>

definition same_ledger :: "spot_market \<Rightarrow> spot_market \<Rightarrow> bool" where
  "same_ledger m m' \<longleftrightarrow> same_indexes m m'
     \<and> sm_deposit_balance m' = sm_deposit_balance m \<and> sm_borrow_balance m' = sm_borrow_balance m
     \<and> sm_revenue_pool m' = sm_revenue_pool m \<and> sm_protocol_fee_pool m' = sm_protocol_fee_pool m"

lemma same_ledger_refl [simp]: "same_ledger m m"
  by (simp add: same_ledger_def same_indexes_def)

lemma same_ledger_claims:
  "same_ledger m m' \<Longrightarrow> vault_claims m' = vault_claims m"
  "same_ledger m m' \<Longrightarrow> carried_token_dust m' = carried_token_dust m"
  by (simp_all add: same_ledger_def same_indexes_def vault_claims_def scaled_value_def carried_token_dust_def)

lemma update_oracle_twaps_ledger:
  "update_oracle_twaps m opd now since = Ok m' \<Longrightarrow> same_ledger m m'"
  unfolding update_oracle_twaps_def Let_def
  by (elim and_thenE) (auto simp: same_ledger_def same_indexes_def)

lemma update_spot_market_twap_stats_ledger:
  assumes "update_spot_market_twap_stats m opd now = Ok m'"
  shows "same_ledger m m'" "fits U64 now" "sm_last_twap_ts m' = now"
proof -
  from assms obtain m1 a b c where
    u: "(case opd of Some p \<Rightarrow> update_oracle_twaps
           (m\<lparr>sm_deposit_token_twap := a, sm_borrow_token_twap := b, sm_utilization_twap := c\<rparr>) p now
           (max 0 (now - sm_last_twap_ts m))
         | None \<Rightarrow> Ok (m\<lparr>sm_deposit_token_twap := a, sm_borrow_token_twap := b, sm_utilization_twap := c\<rparr>))
       = Ok m1"
    and r: "m' = m1\<lparr>sm_last_twap_ts := now\<rparr>" "fits U64 now"
    unfolding update_spot_market_twap_stats_def Let_def
    by (elim and_thenE) (auto simp: cast_Ok_iff safe_sub_Ok_iff)
  have "same_ledger m m1"
    using u by (cases opd) (auto simp: same_ledger_def same_indexes_def dest!: update_oracle_twaps_ledger)
  then show "same_ledger m m'" "fits U64 now" "sm_last_twap_ts m' = now"
    using r by (simp_all add: same_ledger_def same_indexes_def)
qed

lemma stamp_Ok:
  assumes "stamp_interest_ts_without_accrual m now = Ok m'"
  shows "m' = m\<lparr>sm_last_interest_ts := max (sm_last_interest_ts m) now\<rparr>" "fits U64 now"
  using assms by (auto simp: stamp_interest_ts_without_accrual_def ok_iff max_def split: if_splits)

text \<open>The three outcomes of the accrual (a pause drops the interval too).\<close>

lemma accrual_cases:
  assumes "update_spot_market_cumulative_interest m opd now paused = Ok m'"
  obtains (commit) acc m1 where "calculate_accumulated_interest m now = Ok acc"
      "0 < ia_deposit_interest acc" "1 < ia_borrow_interest acc"
      "commit_interest m (ia_deposit_interest acc) (ia_borrow_interest acc) now = Ok m1" "same_ledger m1 m'"
  | (drop) "same_ledger (m\<lparr>sm_last_interest_ts := max (sm_last_interest_ts m) now\<rparr>) m'"
  | (later) "same_ledger m m'" "\<not> paused" "sm_borrow_balance m \<noteq> 0"
proof -
  show thesis
  proof (cases "paused \<or> is_spot_operation_paused (sm_paused_operations m) UpdateCumulativeInterest")
    case True
    then obtain m1 where "stamp_interest_ts_without_accrual m now = Ok m1"
      "update_spot_market_twap_stats m1 opd now = Ok m'"
      using assms unfolding update_spot_market_cumulative_interest_def by (auto elim: and_thenE)
    then show thesis using drop by (auto dest!: stamp_Ok(1) update_spot_market_twap_stats_ledger(1))
  next
    case False
    then obtain acc m1 where acc: "calculate_accumulated_interest m now = Ok acc"
      and step: "(if ia_deposit_interest acc > 0 \<and> ia_borrow_interest acc > 1 then
             commit_interest m (ia_deposit_interest acc) (ia_borrow_interest acc) now
           else and_then (if sm_borrow_balance m = 0 then Ok True
                else map_ok (\<lambda>u. u = 0) (calculate_spot_market_utilization m)) (\<lambda>idle.
             if idle then stamp_interest_ts_without_accrual m now else Ok m)) = Ok m1"
      and tw: "update_spot_market_twap_stats m1 opd now = Ok m'"
      using assms unfolding update_spot_market_cumulative_interest_def by (auto elim!: and_thenE)
    note keep = update_spot_market_twap_stats_ledger(1) [OF tw]
    show thesis
    proof (cases "ia_deposit_interest acc > 0 \<and> ia_borrow_interest acc > 1")
      case True
      then show thesis using commit [OF acc] step keep by simp
    next
      case no_commit: False
      then obtain idle where "(if idle then stamp_interest_ts_without_accrual m now else Ok m) = Ok m1"
        "sm_borrow_balance m = 0 \<Longrightarrow> idle"
        using step by (auto elim!: and_thenE split: if_split_asm)
      then show thesis using drop later keep False
        by (cases idle) (auto dest!: stamp_Ok(1))
    qed
  qed
qed

text \<open>
  Whatever the outcome, the indexes and the clock do not go back, and the net claims on the vault,
  counting the remainders the pools carry, grow by less than one token.
\<close>

lemma accrual_facts:
  assumes acr: "update_spot_market_cumulative_interest m opd now paused = Ok m'"
    and m: "fits_spot_market m"
  shows "sm_cumulative_deposit_interest m \<le> sm_cumulative_deposit_interest m'"
    "sm_cumulative_borrow_interest m \<le> sm_cumulative_borrow_interest m'"
    "sm_last_interest_ts m \<le> sm_last_interest_ts m'"
    "sm_decimals m' = sm_decimals m" "sm_market_index m' = sm_market_index m" "index_ok m'"
    "0 \<le> pb_scaled_balance (sm_revenue_pool m')" "0 \<le> pb_scaled_balance (sm_protocol_fee_pool m')"
    "sm_deposit_balance m' - pb_scaled_balance (sm_revenue_pool m') - pb_scaled_balance (sm_protocol_fee_pool m')
       = sm_deposit_balance m - pb_scaled_balance (sm_revenue_pool m) - pb_scaled_balance (sm_protocol_fee_pool m)"
    "sm_borrow_balance m' = sm_borrow_balance m"
    "vault_claims m' + carried_token_dust m' < vault_claims m + carried_token_dust m + spot_precision m"
proof -
  have pools: "0 \<le> pb_scaled_balance (sm_revenue_pool m)" "0 \<le> pb_scaled_balance (sm_protocol_fee_pool m)"
    using m by (auto simp: fits_spot_market_def fits_pool_balance_def)
  note nn = fits_spot_market_dests [OF m]
  define P where "P m' \<longleftrightarrow> sm_cumulative_deposit_interest m \<le> sm_cumulative_deposit_interest m'
    \<and> sm_cumulative_borrow_interest m \<le> sm_cumulative_borrow_interest m'
    \<and> sm_last_interest_ts m \<le> sm_last_interest_ts m'
    \<and> sm_decimals m' = sm_decimals m \<and> sm_market_index m' = sm_market_index m \<and> index_ok m'
    \<and> 0 \<le> pb_scaled_balance (sm_revenue_pool m') \<and> 0 \<le> pb_scaled_balance (sm_protocol_fee_pool m')
    \<and> sm_deposit_balance m' - pb_scaled_balance (sm_revenue_pool m') - pb_scaled_balance (sm_protocol_fee_pool m')
       = sm_deposit_balance m - pb_scaled_balance (sm_revenue_pool m) - pb_scaled_balance (sm_protocol_fee_pool m)
    \<and> sm_borrow_balance m' = sm_borrow_balance m
    \<and> vault_claims m' + carried_token_dust m' < vault_claims m + carried_token_dust m + spot_precision m" for m'
  have keep: "P m2" if "P m1" "same_ledger m1 m2" for m1 m2
    using that same_ledger_claims [OF that(2)]
    by (auto simp: P_def same_ledger_def same_indexes_def index_ok_def)
  have "P m'"
    using acr
  proof (cases rule: accrual_cases)
    case (commit acc m1)
    note c = commit_interest_value [OF commit(4) index_ok_fits [OF m] pools _ _ nn(2)]
    note cons = accumulated_interest_conserved [OF m commit(1)]
    have "sm_deposit_balance m * ia_deposit_interest acc
        < sm_borrow_balance m * ia_borrow_interest acc + spot_precision m"
      using cons(3) div_less_iff_mul [OF spot_precision_pos(1) [of m]]
        div_mul_le [OF spot_precision_pos(1), of "sm_borrow_balance m * ia_borrow_interest acc" m]
        less_div_mul [OF spot_precision_pos(1), of "sm_deposit_balance m * ia_deposit_interest acc" m]
        mult_right_mono [OF cons(3) spot_precision_pos(2) [of m]] by linarith
    moreover have "sm_last_interest_ts m < now"
      using commit(1,2) by (cases rule: calculate_accumulated_interest_cases) simp_all
    ultimately have "P m1" using c commit(2,3) by (simp add: P_def)
    then show ?thesis using commit(5) by (rule keep)
  next
    case drop
    then show ?thesis
      by (rule keep [rotated]) (use index_ok_fits [OF m] pools in
        \<open>simp add: P_def vault_claims_def scaled_value_def carried_token_dust_def index_ok_def\<close>)
  next
    case later
    have "P m" using index_ok_fits [OF m] pools by (simp add: P_def)
    then show ?thesis using later(1) by (rule keep)
  qed
  then show "sm_cumulative_deposit_interest m \<le> sm_cumulative_deposit_interest m'"
    "sm_cumulative_borrow_interest m \<le> sm_cumulative_borrow_interest m'"
    "sm_last_interest_ts m \<le> sm_last_interest_ts m'"
    "sm_decimals m' = sm_decimals m" "sm_market_index m' = sm_market_index m" "index_ok m'"
    "0 \<le> pb_scaled_balance (sm_revenue_pool m')" "0 \<le> pb_scaled_balance (sm_protocol_fee_pool m')"
    "sm_deposit_balance m' - pb_scaled_balance (sm_revenue_pool m') - pb_scaled_balance (sm_protocol_fee_pool m')
       = sm_deposit_balance m - pb_scaled_balance (sm_revenue_pool m) - pb_scaled_balance (sm_protocol_fee_pool m)"
    "sm_borrow_balance m' = sm_borrow_balance m"
    "vault_claims m' + carried_token_dust m' < vault_claims m + carried_token_dust m + spot_precision m"
    by (simp_all add: P_def)
qed

end
