(* ===== verification/Spot_Bank.thy ===== *)
theory Spot_Bank
  imports Spot_Accrual
begin

text \<open>
  One spot market with all the balances in it: the spot positions of the users, the deposits of
  their isolated perp positions, the pools of the perp markets that settle in its token, and its own
  two pools. The operations are the ones of
  \<open>controller/spot_balance.rs\<close> that change a balance or an index; an instruction is a sequence of
  them. The invariant is the ledger of the market; it holds in every reachable state.
\<close>

section \<open>The transition system\<close>

record bank =
  bk_market :: spot_market
  bk_positions :: "spot_position list"
  bk_isolated :: "perp_position list"
  bk_pools :: "pool_balance list"

datatype bank_op =
    Accrue "oracle_price_data option" int bool
  | UpdatePosition nat int spot_balance_type bool
  | UpdateIsolated nat int spot_balance_type bool
  | UpdatePool nat int spot_balance_type bool
  | UpdateRevenuePool int spot_balance_type bool
  | UpdateProtocolPool int spot_balance_type bool
  | RevenueToPosition nat int
  | PositionToRevenue nat int
  | RevenueToPool nat int
  | PoolToRevenue nat int
  | TransferPositions nat nat int
  | TransferPools nat nat int
  | TransferPoolPosition nat nat int

text \<open>Two mutable references to one balance do not exist in Rust.\<close>

fun bank_step :: "bank \<Rightarrow> bank_op \<Rightarrow> bank result" where
  "bank_step bk (Accrue opd now paused) =
     and_then (update_spot_market_cumulative_interest (bk_market bk) opd now paused) (\<lambda>m.
     Ok (bk\<lparr>bk_market := m\<rparr>))"
| "bank_step bk (UpdatePosition i tokens dir leaving) =
     with_nth i (bk_positions bk) (\<lambda>p.
     and_then (update_spot_balances spot_position_ops tokens dir (bk_market bk) p leaving) (\<lambda>(m, p).
     Ok (bk\<lparr>bk_market := m, bk_positions := (bk_positions bk)[i := p]\<rparr>)))"
| "bank_step bk (UpdateIsolated i tokens dir leaving) =
     with_nth i (bk_isolated bk) (\<lambda>p.
     and_then (update_spot_balances perp_position_ops tokens dir (bk_market bk) p leaving) (\<lambda>(m, p).
     Ok (bk\<lparr>bk_market := m, bk_isolated := (bk_isolated bk)[i := p]\<rparr>)))"
| "bank_step bk (UpdatePool i tokens dir leaving) =
     with_nth i (bk_pools bk) (\<lambda>p.
     and_then (update_spot_balances pool_balance_ops tokens dir (bk_market bk) p leaving) (\<lambda>(m, p).
     Ok (bk\<lparr>bk_market := m, bk_pools := (bk_pools bk)[i := p]\<rparr>)))"
| "bank_step bk (UpdateRevenuePool tokens dir leaving) =
     and_then (update_revenue_pool_balances tokens dir (bk_market bk) leaving) (\<lambda>m.
     Ok (bk\<lparr>bk_market := m\<rparr>))"
| "bank_step bk (UpdateProtocolPool tokens dir leaving) =
     and_then (update_protocol_fee_pool_balances tokens dir (bk_market bk) leaving) (\<lambda>m.
     Ok (bk\<lparr>bk_market := m\<rparr>))"
| "bank_step bk (RevenueToPosition i tokens) =
     with_nth i (bk_positions bk) (\<lambda>p.
     and_then (transfer_revenue_pool_to_spot_balance spot_position_ops tokens (bk_market bk) p) (\<lambda>(m, p).
     Ok (bk\<lparr>bk_market := m, bk_positions := (bk_positions bk)[i := p]\<rparr>)))"
| "bank_step bk (PositionToRevenue i tokens) =
     with_nth i (bk_positions bk) (\<lambda>p.
     and_then (transfer_spot_balance_to_revenue_pool spot_position_ops tokens (bk_market bk) p) (\<lambda>(m, p).
     Ok (bk\<lparr>bk_market := m, bk_positions := (bk_positions bk)[i := p]\<rparr>)))"
| "bank_step bk (RevenueToPool i tokens) =
     with_nth i (bk_pools bk) (\<lambda>p.
     and_then (transfer_revenue_pool_to_spot_balance pool_balance_ops tokens (bk_market bk) p) (\<lambda>(m, p).
     Ok (bk\<lparr>bk_market := m, bk_pools := (bk_pools bk)[i := p]\<rparr>)))"
| "bank_step bk (PoolToRevenue i tokens) =
     with_nth i (bk_pools bk) (\<lambda>p.
     and_then (transfer_spot_balance_to_revenue_pool pool_balance_ops tokens (bk_market bk) p) (\<lambda>(m, p).
     Ok (bk\<lparr>bk_market := m, bk_pools := (bk_pools bk)[i := p]\<rparr>)))"
| "bank_step bk (TransferPositions i j tokens) =
     (if i = j then Panic else
      with_nth i (bk_positions bk) (\<lambda>p.
      with_nth j (bk_positions bk) (\<lambda>q.
      and_then (transfer_spot_balances spot_position_ops spot_position_ops tokens (bk_market bk) p q)
        (\<lambda>(m, p, q).
      Ok (bk\<lparr>bk_market := m, bk_positions := (bk_positions bk)[i := p, j := q]\<rparr>)))))"
| "bank_step bk (TransferPools i j tokens) =
     (if i = j then Panic else
      with_nth i (bk_pools bk) (\<lambda>p.
      with_nth j (bk_pools bk) (\<lambda>q.
      and_then (transfer_spot_balances pool_balance_ops pool_balance_ops tokens (bk_market bk) p q)
        (\<lambda>(m, p, q).
      Ok (bk\<lparr>bk_market := m, bk_pools := (bk_pools bk)[i := p, j := q]\<rparr>)))))"
| "bank_step bk (TransferPoolPosition i j tokens) =
     with_nth i (bk_pools bk) (\<lambda>p.
     with_nth j (bk_positions bk) (\<lambda>q.
     and_then (transfer_spot_balances pool_balance_ops spot_position_ops tokens (bk_market bk) p q)
       (\<lambda>(m, p, q).
     Ok (bk\<lparr>bk_market := m, bk_pools := (bk_pools bk)[i := p],
            bk_positions := (bk_positions bk)[j := q]\<rparr>))))"

section \<open>The ledger invariant\<close>

definition fits_spot_position :: "spot_position \<Rightarrow> bool" where
  "fits_spot_position p \<longleftrightarrow> fits U64 (sp_scaled_balance p)"

definition fits_isolated :: "perp_position \<Rightarrow> bool" where
  "fits_isolated p \<longleftrightarrow> fits U64 (pp_isolated_position_scaled_balance p)"

definition own_pools :: "spot_market \<Rightarrow> int" where
  "own_pools m = pb_scaled_balance (sm_revenue_pool m) + pb_scaled_balance (sm_protocol_fee_pool m)"

text \<open>All the balances of the bank, and those that are deposits.\<close>

definition bank_balances :: "bank \<Rightarrow> int" where
  "bank_balances bk = sum_list (map sp_scaled_balance (bk_positions bk))
     + sum_list (map pp_isolated_position_scaled_balance (bk_isolated bk))
     + sum_list (map pb_scaled_balance (bk_pools bk)) + own_pools (bk_market bk)"

definition bank_deposits :: "bank \<Rightarrow> int" where
  "bank_deposits bk = sum_list (map (side spot_position_ops Deposit) (bk_positions bk))
     + sum_list (map pp_isolated_position_scaled_balance (bk_isolated bk))
     + sum_list (map pb_scaled_balance (bk_pools bk)) + own_pools (bk_market bk)"

definition bank_inv :: "bank \<Rightarrow> bool" where
  "bank_inv bk \<longleftrightarrow> fits_spot_market (bk_market bk) \<and> 0 < sm_cumulative_borrow_interest (bk_market bk)
     \<and> list_all fits_spot_position (bk_positions bk) \<and> list_all fits_isolated (bk_isolated bk) \<and> list_all fits_pool_balance (bk_pools bk)
     \<and> sm_deposit_balance (bk_market bk) + sm_borrow_balance (bk_market bk) = bank_balances bk
     \<and> bank_deposits bk \<le> sm_deposit_balance (bk_market bk)"


lemmas bank_defs = bank_balances_def bank_deposits_def own_pools_def

lemma position_ops_simps [simp]:
  "sb_balance spot_position_ops p = sp_scaled_balance p"
  "sb_balance_type spot_position_ops p = sp_balance_type p"
  "sb_market_index spot_position_ops p = sp_market_index p"
  by (simp_all add: spot_position_ops_def)

lemma pool_ops_simps [simp]:
  "sb_balance pool_balance_ops p = pb_scaled_balance p"
  "sb_balance_type pool_balance_ops p = Deposit"
  "sb_market_index pool_balance_ops p = pb_market_index p"
  by (simp_all add: pool_balance_ops_def)

lemma isolated_ops_simps [simp]:
  "sb_balance perp_position_ops p = pp_isolated_position_scaled_balance p"
  "sb_balance_type perp_position_ops p = Deposit"
  "sb_market_index perp_position_ops p = QUOTE_SPOT_MARKET_INDEX"
  by (simp_all add: perp_position_ops_def)

lemma isolated_update_fits:
  assumes "update_spot_balances perp_position_ops tokens dir m p leaving = Ok (m', p')" "fits_isolated p"
  shows "fits_isolated p'"
  by (rule isolated.update_keeps [where Q = fits_isolated, OF assms])
    (auto simp: perp_position_ops_def fits_isolated_def ok_iff)

lemma pool_update_fits:
  assumes "update_spot_balances pool_balance_ops tokens dir m p leaving = Ok (m', p')" "fits_pool_balance p"
  shows "fits_pool_balance p'"
  by (rule pool.update_keeps [where Q = fits_pool_balance, OF assms])
    (auto simp: pool_balance_ops_def fits_pool_balance_def ok_iff)

lemma position_update_fits:
  assumes "update_spot_balances spot_position_ops tokens dir m p leaving = Ok (m', p')" "fits_spot_position p"
  shows "fits_spot_position p'"
  by (rule position.update_keeps [where Q = fits_spot_position, OF assms])
    (auto simp: spot_position_ops_def fits_spot_position_def ok_iff)

lemma position_step:
  assumes inv: "bank_inv bk" and i: "i < length (bk_positions bk)"
    and upd: "update_spot_balances spot_position_ops tokens dir (bk_market bk) (bk_positions bk ! i) leaving = Ok (m', p')"
  shows "bank_inv (bk\<lparr>bk_market := m', bk_positions := (bk_positions bk)[i := p']\<rparr>)"
proof -
  let ?p = "bk_positions bk ! i" and ?m = "bk_market bk"
  have fp: "fits_spot_position ?p" using inv i by (simp add: bank_inv_def list_all_nth)
  then have p0: "0 \<le> sb_balance spot_position_ops ?p" by (auto simp: fits_spot_position_def)
  have m: "fits_spot_market ?m" "fits U32 (sm_decimals ?m)" "0 < sm_cumulative_borrow_interest ?m"
    using inv by (auto simp: bank_inv_def fits_spot_market_def)
  note k = same_but_totals_keeps [OF position.update_frame [OF upd]]
  note total = position.update_ledger(3) [OF upd p0]
  note deps = position.update_ledger_deposits [OF upd p0 m(2,3)]
  have "fits_spot_market m'" by (rule position.update_fits [OF upd m(1)])
  moreover have "list_all fits_spot_position ((bk_positions bk)[i := p'])"
    using inv position_update_fits [OF upd fp] by (simp add: bank_inv_def list_all_update)
  ultimately show ?thesis
    using inv k total deps i unfolding bank_inv_def bank_defs by (simp add: sum_list_map_update)
qed

lemma pool_step:
  assumes inv: "bank_inv bk" and i: "i < length (bk_pools bk)"
    and upd: "update_spot_balances pool_balance_ops tokens dir (bk_market bk) (bk_pools bk ! i) leaving = Ok (m', p')"
  shows "bank_inv (bk\<lparr>bk_market := m', bk_pools := (bk_pools bk)[i := p']\<rparr>)"
proof -
  let ?p = "bk_pools bk ! i" and ?m = "bk_market bk"
  have fp: "fits_pool_balance ?p" using inv i by (simp add: bank_inv_def list_all_nth)
  then have p0: "0 \<le> pb_scaled_balance ?p" by (auto simp: fits_pool_balance_def)
  note f = pool_update_facts [OF upd p0]
  note k = same_but_totals_keeps [OF f(1)]
  have "fits_spot_market m'" using inv by (intro pool.update_fits [OF upd]) (simp add: bank_inv_def)
  moreover have "list_all fits_pool_balance ((bk_pools bk)[i := p'])"
    using inv pool_update_fits [OF upd fp] by (simp add: bank_inv_def list_all_update)
  ultimately show ?thesis
    using inv k f(6,7) i unfolding bank_inv_def bank_defs by (simp add: sum_list_map_update)
qed

lemma isolated_step:
  assumes inv: "bank_inv bk" and i: "i < length (bk_isolated bk)"
    and upd: "update_spot_balances perp_position_ops tokens dir (bk_market bk) (bk_isolated bk ! i) leaving = Ok (m', p')"
  shows "bank_inv (bk\<lparr>bk_market := m', bk_isolated := (bk_isolated bk)[i := p']\<rparr>)"
proof -
  let ?p = "bk_isolated bk ! i" and ?m = "bk_market bk"
  have fp: "fits_isolated ?p" using inv i by (simp add: bank_inv_def list_all_nth)
  then have p0: "0 \<le> sb_balance perp_position_ops ?p" by (auto simp: fits_isolated_def)
  note f = isolated.update_deposits [OF upd p0]
  note k = same_but_totals_keeps [OF isolated.update_frame [OF upd]]
  have "fits_spot_market m'" using inv by (intro isolated.update_fits [OF upd]) (simp add: bank_inv_def)
  moreover have "list_all fits_isolated ((bk_isolated bk)[i := p'])"
    using inv isolated_update_fits [OF upd fp] by (simp add: bank_inv_def list_all_update)
  ultimately show ?thesis
    using inv k f i unfolding bank_inv_def bank_defs by (simp add: sum_list_map_update)
qed

lemma revenue_step:
  assumes inv: "bank_inv bk" and upd: "update_revenue_pool_balances tokens dir (bk_market bk) leaving = Ok m'"
  shows "bank_inv (bk\<lparr>bk_market := m'\<rparr>)"
proof -
  let ?m = "bk_market bk"
  obtain m1 p where u: "update_spot_balances pool_balance_ops tokens dir ?m (sm_revenue_pool ?m) leaving = Ok (m1, p)"
    and m': "m' = m1\<lparr>sm_revenue_pool := p\<rparr>"
    using upd unfolding update_revenue_pool_balances_def by (elim and_thenE case_prod_OkE) auto
  have fp: "fits_pool_balance (sm_revenue_pool ?m)" using inv by (simp add: bank_inv_def fits_spot_market_def)
  then have p0: "0 \<le> pb_scaled_balance (sm_revenue_pool ?m)" by (auto simp: fits_pool_balance_def)
  note f = pool_update_facts [OF u p0]
  note k = same_but_totals_keeps [OF f(1)]
  have "fits_spot_market m1" using inv by (intro pool.update_fits [OF u]) (simp add: bank_inv_def)
  then have "fits_spot_market m'" using pool_update_fits [OF u fp] by (simp add: m' fits_spot_market_def)
  then show ?thesis using inv k f(6,7) unfolding bank_inv_def bank_defs by (simp add: m')
qed

lemma protocol_step:
  assumes inv: "bank_inv bk" and upd: "update_protocol_fee_pool_balances tokens dir (bk_market bk) leaving = Ok m'"
  shows "bank_inv (bk\<lparr>bk_market := m'\<rparr>)"
proof -
  let ?m = "bk_market bk"
  obtain m1 p where u: "update_spot_balances pool_balance_ops tokens dir ?m (sm_protocol_fee_pool ?m) leaving = Ok (m1, p)"
    and m': "m' = m1\<lparr>sm_protocol_fee_pool := p\<rparr>"
    using upd unfolding update_protocol_fee_pool_balances_def by (elim and_thenE case_prod_OkE) auto
  have fp: "fits_pool_balance (sm_protocol_fee_pool ?m)" using inv by (simp add: bank_inv_def fits_spot_market_def)
  then have p0: "0 \<le> pb_scaled_balance (sm_protocol_fee_pool ?m)" by (auto simp: fits_pool_balance_def)
  note f = pool_update_facts [OF u p0]
  note k = same_but_totals_keeps [OF f(1)]
  have "fits_spot_market m1" using inv by (intro pool.update_fits [OF u]) (simp add: bank_inv_def)
  then have "fits_spot_market m'" using pool_update_fits [OF u fp] by (simp add: m' fits_spot_market_def)
  then show ?thesis using inv k f(6,7) unfolding bank_inv_def bank_defs by (simp add: m')
qed

text \<open>A transfer is at most two updates.\<close>

lemma transfer_spot_balances_Ok:
  assumes "transfer_spot_balances ops1 ops2 tokens m a b = Ok (m'', a', b')"
  obtains "m'' = m" "a' = a" "b' = b"
  | x d d' m' where "update_spot_balances ops1 x d m a False = Ok (m', a')"
      "update_spot_balances ops2 x d' m' b False = Ok (m'', b')"
  using assms unfolding transfer_spot_balances_def
  by (elim and_thenE if_OkE [where b = "tokens = 0"]) (auto elim!: and_thenE)


lemma two_position_steps:
  assumes inv: "bank_inv bk" and ij: "i < length (bk_positions bk)" "j < length (bk_positions bk)" "i \<noteq> j"
    and tr: "transfer_spot_balances spot_position_ops spot_position_ops tokens (bk_market bk)
      (bk_positions bk ! i) (bk_positions bk ! j) = Ok (m'', p, q)"
  shows "bank_inv (bk\<lparr>bk_market := m'', bk_positions := (bk_positions bk)[i := p, j := q]\<rparr>)"
  using tr
proof (cases rule: transfer_spot_balances_Ok)
  case 1
  then show ?thesis using inv by simp
next
  case (2 x d d' m')
  let ?bk = "bk\<lparr>bk_market := m', bk_positions := (bk_positions bk)[i := p]\<rparr>"
  have "bank_inv ?bk" by (rule position_step [OF inv ij(1) 2(1)])
  from position_step [OF this, of j x d' False m'' q] show ?thesis using ij 2(2) by simp
qed

lemma two_pool_steps:
  assumes inv: "bank_inv bk" and ij: "i < length (bk_pools bk)" "j < length (bk_pools bk)" "i \<noteq> j"
    and tr: "transfer_spot_balances pool_balance_ops pool_balance_ops tokens (bk_market bk)
      (bk_pools bk ! i) (bk_pools bk ! j) = Ok (m'', p, q)"
  shows "bank_inv (bk\<lparr>bk_market := m'', bk_pools := (bk_pools bk)[i := p, j := q]\<rparr>)"
  using tr
proof (cases rule: transfer_spot_balances_Ok)
  case 1
  then show ?thesis using inv by simp
next
  case (2 x d d' m')
  let ?bk = "bk\<lparr>bk_market := m', bk_pools := (bk_pools bk)[i := p]\<rparr>"
  have "bank_inv ?bk" by (rule pool_step [OF inv ij(1) 2(1)])
  from pool_step [OF this, of j x d' False m'' q] show ?thesis using ij 2(2) by simp
qed

lemma pool_position_steps:
  assumes inv: "bank_inv bk" and ij: "i < length (bk_pools bk)" "j < length (bk_positions bk)"
    and tr: "transfer_spot_balances pool_balance_ops spot_position_ops tokens (bk_market bk)
      (bk_pools bk ! i) (bk_positions bk ! j) = Ok (m'', p, q)"
  shows "bank_inv (bk\<lparr>bk_market := m'', bk_pools := (bk_pools bk)[i := p],
    bk_positions := (bk_positions bk)[j := q]\<rparr>)"
  using tr
proof (cases rule: transfer_spot_balances_Ok)
  case 1
  then show ?thesis using inv by simp
next
  case (2 x d d' m')
  let ?bk = "bk\<lparr>bk_market := m', bk_pools := (bk_pools bk)[i := p]\<rparr>"
  have "bank_inv ?bk" by (rule pool_step [OF inv ij(1) 2(1)])
  from position_step [OF this, of j x d' False m'' q] show ?thesis using ij 2(2) by (cases bk) simp
qed

section \<open>The accrual keeps the invariant\<close>

lemma split_deposit_interest_dust_fits:
  assumes "split_deposit_interest m d = Ok s"
  shows "fits U32 (is_carveout_dust s)" "fits U32 (is_insurance_fund_dust s)"
proof -
  have "fits U32 (is_carveout_dust s) \<and> fits U32 (is_insurance_fund_dust s)"
    using assms unfolding split_deposit_interest_def Let_def
    by (elim ok_elims) (auto simp: cast_Ok_iff)
  then show "fits U32 (is_carveout_dust s)" "fits U32 (is_insurance_fund_dust s)" by simp_all
qed

lemma interest_token_dust_fits:
  "get_interest_token_amount_with_dust b m i k = Ok (tokens, dust) \<Longrightarrow> fits U64 dust"
  unfolding get_interest_token_amount_with_dust_def by (elim and_thenE) (simp add: cast_Ok_iff)

lemma revenue_fits:
  assumes "update_revenue_pool_balances tokens dir m leaving = Ok m'" and m: "fits_spot_market m"
  shows "fits_spot_market m'"
proof -
  obtain m1 p where u: "update_spot_balances pool_balance_ops tokens dir m (sm_revenue_pool m) leaving = Ok (m1, p)"
    and m': "m' = m1\<lparr>sm_revenue_pool := p\<rparr>"
    using assms(1) unfolding update_revenue_pool_balances_def by (elim and_thenE case_prod_OkE) auto
  have "fits_pool_balance p" using m by (intro pool_update_fits [OF u]) (simp add: fits_spot_market_def)
  then show ?thesis using pool.update_fits [OF u m] by (simp add: m' fits_spot_market_def)
qed

lemma protocol_fits:
  assumes "update_protocol_fee_pool_balances tokens dir m leaving = Ok m'" and m: "fits_spot_market m"
  shows "fits_spot_market m'"
proof -
  obtain m1 p where u: "update_spot_balances pool_balance_ops tokens dir m (sm_protocol_fee_pool m) leaving = Ok (m1, p)"
    and m': "m' = m1\<lparr>sm_protocol_fee_pool := p\<rparr>"
    using assms(1) unfolding update_protocol_fee_pool_balances_def by (elim and_thenE case_prod_OkE) auto
  have "fits_pool_balance p" using m by (intro pool_update_fits [OF u]) (simp add: fits_spot_market_def)
  then show ?thesis using pool.update_fits [OF u m] by (simp add: m' fits_spot_market_def)
qed

lemma commit_interest_fits:
  assumes "commit_interest m di bi now = Ok m'" and m: "fits_spot_market m"
  shows "fits_spot_market m'"
  using assms(1)
proof (rule commit_interest_Ok)
  fix s it id pt pd m1 m2 m3 m4
  assume split: "split_deposit_interest m di = Ok s"
    and it: "get_interest_token_amount_with_dust (sm_deposit_balance m) m (is_for_insurance_fund s)
       (pb_pending_interest_dust (sm_revenue_pool m)) = Ok (it, id)"
    and pt: "get_interest_token_amount_with_dust (sm_deposit_balance m) m (is_for_protocol s)
       (pb_pending_interest_dust (sm_protocol_fee_pool m)) = Ok (pt, pd)"
    and m1: "m1 = m\<lparr> sm_cumulative_deposit_interest := sm_cumulative_deposit_interest m + is_for_lenders s,
            sm_cumulative_borrow_interest := sm_cumulative_borrow_interest m + bi, sm_last_interest_ts := now \<rparr>"
    and u2: "(if it > 0 then update_revenue_pool_balances it Deposit m1 False else Ok m1) = Ok m2"
    and m3: "m3 = m2\<lparr> sm_revenue_pool := (sm_revenue_pool m2)\<lparr> pb_pending_interest_split_dust := is_carveout_dust s,
             pb_pending_interest_dust := id \<rparr> \<rparr>"
    and u4: "(if pt > 0 then update_protocol_fee_pool_balances pt Deposit m3 False else Ok m3) = Ok m4"
    and m': "m' = m4\<lparr> sm_protocol_fee_pool := (sm_protocol_fee_pool m4)
             \<lparr> pb_pending_interest_split_dust := is_insurance_fund_dust s, pb_pending_interest_dust := pd \<rparr> \<rparr>"
    and fits: "fits U64 now" "fits U128 (sm_cumulative_deposit_interest m + is_for_lenders s)"
      "fits U128 (sm_cumulative_borrow_interest m + bi)"
  note d = split_deposit_interest_dust_fits [OF split] interest_token_dust_fits [OF it] interest_token_dust_fits [OF pt]
  have "fits_spot_market m1" using m fits by (simp add: m1 fits_spot_market_def)
  then have "fits_spot_market m2" using u2 by (cases "it > 0") (auto dest: revenue_fits)
  then have "fits_spot_market m3" using d by (simp add: m3 fits_spot_market_def fits_pool_balance_def)
  then have "fits_spot_market m4" using u4 by (cases "pt > 0") (auto dest: protocol_fits)
  then show ?thesis using d by (simp add: m' fits_spot_market_def fits_pool_balance_def)
qed

lemma update_oracle_twaps_only:
  "update_oracle_twaps m p now since = Ok m' \<Longrightarrow> \<exists>h. m' = m\<lparr>sm_historical_oracle_data := h\<rparr>"
  unfolding update_oracle_twaps_def Let_def by (elim and_thenE) blast

lemma twap_stats_fits:
  assumes "update_spot_market_twap_stats m opd now = Ok m'" "fits_spot_market m"
  shows "fits_spot_market m'"
proof -
  from assms(1) obtain m1 a b c where
    u: "(case opd of Some p \<Rightarrow> update_oracle_twaps
           (m\<lparr>sm_deposit_token_twap := a, sm_borrow_token_twap := b, sm_utilization_twap := c\<rparr>) p now
           (max 0 (now - sm_last_twap_ts m))
         | None \<Rightarrow> Ok (m\<lparr>sm_deposit_token_twap := a, sm_borrow_token_twap := b, sm_utilization_twap := c\<rparr>))
       = Ok m1"
    and r: "m' = m1\<lparr>sm_last_twap_ts := now\<rparr>" "fits U64 now" "fits U64 a" "fits U64 b" "fits U64 c"
    unfolding update_spot_market_twap_stats_def Let_def
    by (elim and_thenE) (auto simp: cast_Ok_iff safe_sub_Ok_iff)
  let ?m = "m\<lparr>sm_deposit_token_twap := a, sm_borrow_token_twap := b, sm_utilization_twap := c\<rparr>"
  have fm: "fits_spot_market ?m" using assms(2) r(3-5) by (simp add: fits_spot_market_def)
  have "fits_spot_market m1"
  proof (cases opd)
    case None
    then show ?thesis using u fm by simp
  next
    case (Some p)
    then obtain h where "m1 = ?m\<lparr>sm_historical_oracle_data := h\<rparr>"
      using u update_oracle_twaps_only by fastforce
    then show ?thesis using fm by (simp add: fits_spot_market_def)
  qed
  then show ?thesis using r(1,2) by (simp add: fits_spot_market_def)
qed


lemma accrual_fits:
  assumes "update_spot_market_cumulative_interest m opd now paused = Ok m'" "fits_spot_market m"
  shows "fits_spot_market m'"
proof -
  have stamp: "fits_spot_market m1" if "stamp_interest_ts_without_accrual m now = Ok m1" for m1
    using that assms(2)
    by (auto simp: stamp_interest_ts_without_accrual_def cast_Ok_iff fits_spot_market_def elim!: and_thenE split: if_split_asm)
  obtain m1 where "update_spot_market_twap_stats m1 opd now = Ok m'" "fits_spot_market m1"
    using assms stamp commit_interest_fits unfolding update_spot_market_cumulative_interest_def
    by (elim ok_elims) blast+
  then show ?thesis by (rule twap_stats_fits)
qed

lemma accrue_step:
  assumes inv: "bank_inv bk" and acr: "update_spot_market_cumulative_interest (bk_market bk) opd now paused = Ok m'"
  shows "bank_inv (bk\<lparr>bk_market := m'\<rparr>)"
proof -
  have m: "fits_spot_market (bk_market bk)" using inv by (simp add: bank_inv_def)
  note f = accrual_facts [OF acr m]
  show ?thesis
    using inv accrual_fits [OF acr m] f(2,9,10) unfolding bank_inv_def bank_defs by simp
qed

section \<open>Every operation keeps the ledger\<close>

lemma bank_step_inv: "bank_inv bk \<Longrightarrow> bank_step bk op = Ok bk' \<Longrightarrow> bank_inv bk'"
proof (cases op)
  case (RevenueToPosition i tokens)
  assume inv: "bank_inv bk" and st: "bank_step bk op = Ok bk'"
  then obtain m1 m' p' where i: "i < length (bk_positions bk)"
    and u: "update_revenue_pool_balances tokens Borrow (bk_market bk) False = Ok m1"
      "update_spot_balances spot_position_ops tokens Deposit m1 (bk_positions bk ! i) False = Ok (m', p')"
    and bk': "bk' = bk\<lparr>bk_market := m', bk_positions := (bk_positions bk)[i := p']\<rparr>"
    using RevenueToPosition
    by (auto simp: with_nth_def transfer_revenue_pool_to_spot_balance_def elim!: and_thenE split: if_split_asm)
  from position_step [OF revenue_step [OF inv u(1)], of i tokens Deposit False m' p'] i u(2)
  show ?thesis by (simp add: bk')
next
  case (RevenueToPool i tokens)
  assume inv: "bank_inv bk" and st: "bank_step bk op = Ok bk'"
  then obtain m1 m' p' where i: "i < length (bk_pools bk)"
    and u: "update_revenue_pool_balances tokens Borrow (bk_market bk) False = Ok m1"
      "update_spot_balances pool_balance_ops tokens Deposit m1 (bk_pools bk ! i) False = Ok (m', p')"
    and bk': "bk' = bk\<lparr>bk_market := m', bk_pools := (bk_pools bk)[i := p']\<rparr>"
    using RevenueToPool
    by (auto simp: with_nth_def transfer_revenue_pool_to_spot_balance_def elim!: and_thenE split: if_split_asm)
  from pool_step [OF revenue_step [OF inv u(1)], of i tokens Deposit False m' p'] i u(2)
  show ?thesis by (simp add: bk')
next
  case (PositionToRevenue i tokens)
  assume inv: "bank_inv bk" and st: "bank_step bk op = Ok bk'"
  then obtain m1 m' p' where i: "i < length (bk_positions bk)"
    and u: "update_spot_balances spot_position_ops tokens Borrow (bk_market bk) (bk_positions bk ! i) False = Ok (m1, p')"
      "update_revenue_pool_balances tokens Deposit m1 False = Ok m'"
    and bk': "bk' = bk\<lparr>bk_market := m', bk_positions := (bk_positions bk)[i := p']\<rparr>"
    using PositionToRevenue
    by (auto simp: with_nth_def transfer_spot_balance_to_revenue_pool_def elim!: and_thenE split: if_split_asm)
  from revenue_step [OF position_step [OF inv i u(1)], of tokens Deposit False m'] u(2)
  show ?thesis by (cases bk) (simp add: bk')
next
  case (PoolToRevenue i tokens)
  assume inv: "bank_inv bk" and st: "bank_step bk op = Ok bk'"
  then obtain m1 m' p' where i: "i < length (bk_pools bk)"
    and u: "update_spot_balances pool_balance_ops tokens Borrow (bk_market bk) (bk_pools bk ! i) False = Ok (m1, p')"
      "update_revenue_pool_balances tokens Deposit m1 False = Ok m'"
    and bk': "bk' = bk\<lparr>bk_market := m', bk_pools := (bk_pools bk)[i := p']\<rparr>"
    using PoolToRevenue
    by (auto simp: with_nth_def transfer_spot_balance_to_revenue_pool_def elim!: and_thenE split: if_split_asm)
  from revenue_step [OF pool_step [OF inv i u(1)], of tokens Deposit False m'] u(2)
  show ?thesis by (cases bk) (simp add: bk')
qed (auto simp: with_nth_def elim!: and_thenE split: if_split_asm
    intro: accrue_step position_step isolated_step pool_step revenue_step protocol_step two_position_steps
      two_pool_steps pool_position_steps)

interpretation spot_bank: instruction_set bank_step bank_inv
  by unfold_locales (rule bank_step_inv)


section \<open>Indexes and clock never go back\<close>

definition index_le :: "spot_market \<Rightarrow> spot_market \<Rightarrow> bool" where
  "index_le m m' \<longleftrightarrow> sm_cumulative_deposit_interest m \<le> sm_cumulative_deposit_interest m'
     \<and> sm_cumulative_borrow_interest m \<le> sm_cumulative_borrow_interest m'
     \<and> sm_last_interest_ts m \<le> sm_last_interest_ts m'"

lemma index_le_refl [simp]: "index_le m m"
  by (simp add: index_le_def)

lemma index_le_trans: "index_le m m' \<Longrightarrow> index_le m' m'' \<Longrightarrow> index_le m m''"
  by (simp add: index_le_def)

lemma index_le_same: "same_but_totals m m' \<Longrightarrow> index_le m m'"
  by (simp add: index_le_def same_but_totals_keeps)

lemma index_le_updates:
  "update_spot_balances spot_position_ops tokens dir m p leaving = Ok (m', p') \<Longrightarrow> index_le m m'"
  "update_spot_balances pool_balance_ops tokens dir m q leaving = Ok (m', q') \<Longrightarrow> index_le m m'"
  "update_spot_balances perp_position_ops tokens dir m r leaving = Ok (m', r') \<Longrightarrow> index_le m m'"
  "update_revenue_pool_balances tokens dir m leaving = Ok m' \<Longrightarrow> index_le m m'"
  "update_protocol_fee_pool_balances tokens dir m leaving = Ok m' \<Longrightarrow> index_le m m'"
  unfolding update_revenue_pool_balances_def update_protocol_fee_pool_balances_def
  by (auto simp: index_le_def elim!: and_thenE
      dest!: position.update_frame pool.update_frame isolated.update_frame index_le_same)

lemma transfer_index_le:
  "transfer_spot_balances spot_position_ops spot_position_ops tokens m a b = Ok (m', a', b') \<Longrightarrow> index_le m m'"
  "transfer_spot_balances pool_balance_ops pool_balance_ops tokens m c d = Ok (m', c', d') \<Longrightarrow> index_le m m'"
  "transfer_spot_balances pool_balance_ops spot_position_ops tokens m c b = Ok (m', c', b') \<Longrightarrow> index_le m m'"
  by (erule transfer_spot_balances_Ok; auto intro: index_le_trans dest!: index_le_updates(1,2))+

lemma bank_step_index_le:
  assumes "bank_inv bk" "bank_step bk op = Ok bk'"
  shows "index_le (bk_market bk) (bk_market bk')"
proof (cases op)
  case (Accrue opd now paused)
  then show ?thesis using assms by (auto simp: bank_inv_def index_le_def elim!: and_thenE dest: accrual_facts(1-3))
next
  case (RevenueToPosition i tokens)
  then show ?thesis using assms(2)
    by (auto simp: with_nth_def transfer_revenue_pool_to_spot_balance_def elim!: and_thenE split: if_split_asm
        dest!: index_le_updates intro: index_le_trans)
next
  case (RevenueToPool i tokens)
  then show ?thesis using assms(2)
    by (auto simp: with_nth_def transfer_revenue_pool_to_spot_balance_def elim!: and_thenE split: if_split_asm
        dest!: index_le_updates intro: index_le_trans)
next
  case (PositionToRevenue i tokens)
  then show ?thesis using assms(2)
    by (auto simp: with_nth_def transfer_spot_balance_to_revenue_pool_def elim!: and_thenE split: if_split_asm
        dest!: index_le_updates intro: index_le_trans)
next
  case (PoolToRevenue i tokens)
  then show ?thesis using assms(2)
    by (auto simp: with_nth_def transfer_spot_balance_to_revenue_pool_def elim!: and_thenE split: if_split_asm
        dest!: index_le_updates intro: index_le_trans)
qed (use assms(2) in \<open>auto simp: with_nth_def elim!: and_thenE split: if_split_asm
    dest!: index_le_updates transfer_index_le\<close>)

interpretation spot_bank_index: monotone_instructions bank_step bank_inv
  "\<lambda>bk bk'. index_le (bk_market bk) (bk_market bk')"
  by unfold_locales (auto intro: index_le_trans bank_step_index_le)

end
