(* ===== verification/User_State.thy ===== *)
theory User_State
  imports User_Data Spot_Balance_Math Transactions
begin

text \<open>
  The methods of \<open>User\<close> in \<open>state/user.rs\<close> with \<open>get_position_index\<close> and \<open>add_new_position\<close> of
  \<open>controller/position.rs\<close>: finding and allocating position slots, the liquidation and bankruptcy
  states of an account, its counters. A method that returns a mutable reference into an array returns
  the index of the element. The liquidation methods are also the instructions of a transition
  system, \<open>liquidation_step\<close>; its invariant is that an account, and each of its isolated positions,
  is never both being liquidated and bankrupt, and that a running episode has an id.
\<close>

unbundle bit_operations_syntax

section \<open>Status bits\<close>

definition has_status :: "user \<Rightarrow> user_status \<Rightarrow> bool" where
  "has_status u s \<longleftrightarrow> us_status u AND user_status_bit s > 0"

definition add_user_status :: "user_status \<Rightarrow> user \<Rightarrow> user" where
  "add_user_status s u = u\<lparr>us_status := us_status u OR user_status_bit s\<rparr>"

definition remove_user_status :: "user_status \<Rightarrow> user \<Rightarrow> user" where
  "remove_user_status s u = u\<lparr>us_status := us_status u AND NOT (user_status_bit s)\<rparr>"

definition is_cross_margin_being_liquidated :: "user \<Rightarrow> bool" where
  "is_cross_margin_being_liquidated u \<longleftrightarrow>
     us_status u AND (user_status_bit US_BeingLiquidated OR user_status_bit US_Bankrupt) > 0"

definition is_cross_margin_bankrupt :: "user \<Rightarrow> bool" where
  "is_cross_margin_bankrupt u = has_status u US_Bankrupt"

definition is_reduce_only :: "user \<Rightarrow> bool" where
  "is_reduce_only u = has_status u US_ReduceOnly"

definition is_advanced_lp :: "user \<Rightarrow> bool" where
  "is_advanced_lp u = has_status u US_AdvancedLp"

definition is_vault_owned :: "user \<Rightarrow> bool" where
  "is_vault_owned u = has_status u US_VaultOwned"

definition has_isolated_margin_being_liquidated :: "user \<Rightarrow> bool" where
  "has_isolated_margin_being_liquidated u =
     list_ex (\<lambda>p. is_isolated p \<and> perp_is_being_liquidated p) (us_perp_positions u)"

definition has_isolated_margin_bankrupt :: "user \<Rightarrow> bool" where
  "has_isolated_margin_bankrupt u =
     list_ex (\<lambda>p. is_isolated p \<and> perp_is_bankrupt p) (us_perp_positions u)"

definition is_being_liquidated :: "user \<Rightarrow> bool" where
  "is_being_liquidated u \<longleftrightarrow>
     is_cross_margin_being_liquidated u \<or> has_isolated_margin_being_liquidated u"

definition is_bankrupt :: "user \<Rightarrow> bool" where
  "is_bankrupt u \<longleftrightarrow> is_cross_margin_bankrupt u \<or> has_isolated_margin_bankrupt u"

definition update_reduce_only_status :: "user \<Rightarrow> bool \<Rightarrow> user result" where
  "update_reduce_only_status u reduce_only =
     Ok (if reduce_only then add_user_status US_ReduceOnly u else remove_user_status US_ReduceOnly u)"

definition update_advanced_lp_status :: "user \<Rightarrow> bool \<Rightarrow> user result" where
  "update_advanced_lp_status u advanced_lp =
     Ok (if advanced_lp then add_user_status US_AdvancedLp u else remove_user_status US_AdvancedLp u)"

section \<open>The equity floor\<close>

definition is_below_equity_floor :: "user \<Rightarrow> int \<Rightarrow> bool" where
  "is_below_equity_floor u net_equity \<longleftrightarrow> us_equity_floor u > 0 \<and> net_equity < us_equity_floor u"

definition buffered_equity_floor :: "user \<Rightarrow> int" where
  "buffered_equity_floor u = saturating_add U128 (us_equity_floor u) (us_equity_floor_buffer u)"

definition is_below_buffered_equity_floor :: "user \<Rightarrow> int \<Rightarrow> bool" where
  "is_below_buffered_equity_floor u net_equity \<longleftrightarrow>
     us_equity_floor u > 0 \<and> net_equity < buffered_equity_floor u"

section \<open>Spot position slots\<close>

definition get_spot_position_index :: "user \<Rightarrow> int \<Rightarrow> nat result" where
  "get_spot_position_index u market_index =
     (if market_index = 0 then
        with_nth 0 (us_spot_positions u) (\<lambda>p.
        and_then (validate (sp_market_index p = 0) DefaultError) (\<lambda>_. Ok 0))
      else ok_or (position_of (\<lambda>p. sp_market_index p = market_index) (us_spot_positions u))
        CouldNotFindSpotPosition)"

definition get_spot_position :: "user \<Rightarrow> int \<Rightarrow> spot_position result" where
  "get_spot_position u market_index =
     and_then (get_spot_position_index u market_index) (\<lambda>i. with_nth i (us_spot_positions u) Ok)"

text \<open>\<open>unreachable!\<close> is a panic.\<close>

definition get_quote_spot_position :: "user \<Rightarrow> spot_position result" where
  "get_quote_spot_position u =
     (case get_spot_position u QUOTE_SPOT_MARKET_INDEX of Ok p \<Rightarrow> Ok p | _ \<Rightarrow> Panic)"

definition add_spot_position :: "user \<Rightarrow> int \<Rightarrow> spot_balance_type \<Rightarrow> (user \<times> nat) result" where
  "add_spot_position u market_index balance_type =
     and_then (ok_or (position_of (\<lambda>(i, p). i \<noteq> 0 \<and> spot_is_available p)
         (enumerate 0 (us_spot_positions u))) NoSpotPositionAvailable) (\<lambda>i.
     let new_spot_position =
       default_spot_position\<lparr>sp_market_index := market_index, sp_balance_type := balance_type\<rparr> in
     Ok (u\<lparr>us_spot_positions := (us_spot_positions u)[i := new_spot_position]\<rparr>, i))"

definition force_get_spot_position_index :: "user \<Rightarrow> int \<Rightarrow> (user \<times> nat) result" where
  "force_get_spot_position_index u market_index =
     (case get_spot_position_index u market_index of
        Ok i \<Rightarrow> Ok (u, i)
      | Err _ \<Rightarrow> add_spot_position u market_index Deposit
      | Panic \<Rightarrow> Panic)"

section \<open>Perp position slots\<close>

definition get_position_index :: "perp_position list \<Rightarrow> int \<Rightarrow> nat result" where
  "get_position_index user_positions market_index =
     ok_or (position_of (\<lambda>p. is_for p market_index) user_positions) UserHasNoPositionInMarket"

definition add_new_position :: "perp_position list \<Rightarrow> int \<Rightarrow> (perp_position list \<times> nat) result" where
  "add_new_position user_positions market_index =
     and_then (ok_or (position_of perp_is_available user_positions) MaxNumberOfPositions) (\<lambda>i.
     let old_position = user_positions ! i;
         max_margin_ratio =
           (if pp_market_index old_position = market_index then pp_max_margin_ratio old_position else 0)
     in Ok (user_positions[i := default_perp_position
          \<lparr>pp_market_index := market_index, pp_max_margin_ratio := max_margin_ratio\<rparr>], i))"

definition get_perp_position :: "user \<Rightarrow> int \<Rightarrow> perp_position result" where
  "get_perp_position u market_index =
     and_then (get_position_index (us_perp_positions u) market_index) (\<lambda>i.
     with_nth i (us_perp_positions u) Ok)"

definition force_get_perp_position :: "user \<Rightarrow> int \<Rightarrow> (user \<times> nat) result" where
  "force_get_perp_position u market_index =
     (case get_position_index (us_perp_positions u) market_index of
        Ok i \<Rightarrow> Ok (u, i)
      | Err _ \<Rightarrow> and_then (add_new_position (us_perp_positions u) market_index) (\<lambda>(ps, i).
          Ok (u\<lparr>us_perp_positions := ps\<rparr>, i))
      | Panic \<Rightarrow> Panic)"

definition modify_perp :: "nat \<Rightarrow> (perp_position \<Rightarrow> perp_position) \<Rightarrow> user \<Rightarrow> user" where
  "modify_perp i f u = u\<lparr>us_perp_positions := (us_perp_positions u)[i := f (us_perp_positions u ! i)]\<rparr>"

definition force_get_isolated_perp_position :: "user \<Rightarrow> int \<Rightarrow> (user \<times> nat) result" where
  "force_get_isolated_perp_position u perp_market_index =
     (case get_position_index (us_perp_positions u) perp_market_index of
        Ok i \<Rightarrow> with_nth i (us_perp_positions u) (\<lambda>p.
          and_then (validate (is_isolated p) InvalidPerpPosition) (\<lambda>_. Ok (u, i)))
      | Err _ \<Rightarrow> and_then (add_new_position (us_perp_positions u) perp_market_index) (\<lambda>(ps, i).
          Ok (modify_perp i (\<lambda>p. p\<lparr>pp_position_flag := position_flag_bit PF_IsolatedPosition\<rparr>)
            (u\<lparr>us_perp_positions := ps\<rparr>), i))
      | Panic \<Rightarrow> Panic)"

definition get_isolated_perp_position :: "user \<Rightarrow> int \<Rightarrow> perp_position result" where
  "get_isolated_perp_position u perp_market_index =
     and_then (get_position_index (us_perp_positions u) perp_market_index) (\<lambda>i.
     with_nth i (us_perp_positions u) (\<lambda>p.
     and_then (validate (is_isolated p) InvalidPerpPosition) (\<lambda>_. Ok p)))"

definition update_perp_position_max_margin_ratio :: "user \<Rightarrow> int \<Rightarrow> int \<Rightarrow> user result" where
  "update_perp_position_max_margin_ratio u market_index margin_ratio =
     and_then (force_get_perp_position u market_index) (\<lambda>(u, i).
     Ok (modify_perp i (\<lambda>p. p\<lparr>pp_max_margin_ratio := margin_ratio\<rparr>) u))"

section \<open>Orders\<close>

definition order_is_available :: "order \<Rightarrow> bool" where
  "order_is_available od \<longleftrightarrow> od_status od \<noteq> Open"

definition get_order_index :: "user \<Rightarrow> int \<Rightarrow> nat result" where
  "get_order_index u order_id =
     ok_or (position_of (\<lambda>od. od_order_id od = order_id \<and> od_status od = Open) (us_orders u))
       OrderDoesNotExist"

definition get_order_index_by_user_order_id :: "user \<Rightarrow> int \<Rightarrow> nat result" where
  "get_order_index_by_user_order_id u user_order_id =
     ok_or (position_of (\<lambda>od. od_user_order_id od = user_order_id \<and> od_status od = Open) (us_orders u))
       OrderDoesNotExist"

definition get_order :: "user \<Rightarrow> int \<Rightarrow> order option" where
  "get_order u order_id = List.find (\<lambda>od. od_order_id od = order_id \<and> od_status od = Open) (us_orders u)"

definition get_last_order_id :: "user \<Rightarrow> int result" where
  "get_last_order_id u =
     (if us_next_order_id u = 1 then Ok (ty_max U32) else plain_sub U32 (us_next_order_id u) 1)"

definition has_room_for_new_order :: "user \<Rightarrow> bool" where
  "has_room_for_new_order u = list_ex order_is_available (us_orders u)"

definition increment_open_auctions :: "user \<Rightarrow> user" where
  "increment_open_auctions u =
     (let n = saturating_add U8 (us_open_auctions u) 1 in
      u\<lparr>us_open_auctions := n, us_has_open_auction := n > 0\<rparr>)"

definition increment_open_orders :: "user \<Rightarrow> bool \<Rightarrow> user" where
  "increment_open_orders u is_auction =
     (let n = saturating_add U8 (us_open_orders u) 1;
          u = u\<lparr>us_open_orders := n, us_has_open_order := n > 0\<rparr>
      in if is_auction then increment_open_auctions u else u)"

definition decrement_open_orders :: "user \<Rightarrow> bool \<Rightarrow> user" where
  "decrement_open_orders u is_auction =
     (let n = saturating_sub U8 (us_open_orders u) 1;
          u = u\<lparr>us_open_orders := n, us_has_open_order := n > 0\<rparr>
      in if is_auction then
           (let k = saturating_sub U8 (us_open_auctions u) 1 in
            u\<lparr>us_open_auctions := k, us_has_open_auction := k > 0\<rparr>)
         else u)"

section \<open>Totals\<close>

definition get_isolated_token_amount :: "perp_position \<Rightarrow> spot_market \<Rightarrow> int result" where
  "get_isolated_token_amount p spot_market =
     get_token_amount (pp_isolated_position_scaled_balance p) spot_market Deposit"

definition spot_position_token_amount :: "spot_position \<Rightarrow> spot_market \<Rightarrow> int result" where
  "spot_position_token_amount p spot_market =
     and_then (cast U128 (sp_scaled_balance p)) (\<lambda>b.
     get_token_amount b spot_market (sp_balance_type p))"

definition spot_position_signed_token_amount :: "spot_position \<Rightarrow> spot_market \<Rightarrow> int result" where
  "spot_position_signed_token_amount p spot_market =
     and_then (cast U128 (sp_scaled_balance p)) (\<lambda>b.
     and_then (get_token_amount b spot_market (sp_balance_type p)) (\<lambda>t.
     get_signed_token_amount t (sp_balance_type p)))"

definition get_total_token_amount :: "user \<Rightarrow> spot_market \<Rightarrow> int result" where
  "get_total_token_amount u spot_market =
     and_then
       (case get_spot_position u (sm_market_index spot_market) of
          Ok p \<Rightarrow> spot_position_signed_token_amount p spot_market
        | Err _ \<Rightarrow> Ok 0
        | Panic \<Rightarrow> Panic) (\<lambda>spot_token_amount.
     if sm_market_index spot_market \<noteq> QUOTE_SPOT_MARKET_INDEX then Ok spot_token_amount
     else
       and_then (try_fold (\<lambda>total p.
           if is_isolated p then
             and_then (get_isolated_token_amount p spot_market) (\<lambda>t. safe_add U128 total t)
           else Ok total) 0 (us_perp_positions u)) (\<lambda>perp_token_amount.
       and_then (cast I128 perp_token_amount) (\<lambda>perp_token_amount.
       safe_add I128 spot_token_amount perp_token_amount)))"

definition increment_total_deposits :: "user \<Rightarrow> int \<Rightarrow> int \<Rightarrow> int \<Rightarrow> user result" where
  "increment_total_deposits u amount price precision =
     and_then (cast U128 amount) (\<lambda>amount.
     and_then (cast U128 price) (\<lambda>price.
     and_then (safe_mul U128 amount price) (\<lambda>v.
     and_then (safe_div U128 v precision) (\<lambda>v.
     and_then (cast U64 v) (\<lambda>value.
     Ok (u\<lparr>us_total_deposits := saturating_add U64 (us_total_deposits u) value\<rparr>))))))"

definition increment_total_withdraws :: "user \<Rightarrow> int \<Rightarrow> int \<Rightarrow> int \<Rightarrow> user result" where
  "increment_total_withdraws u amount price precision =
     and_then (cast U128 amount) (\<lambda>amount.
     and_then (cast U128 price) (\<lambda>price.
     and_then (safe_mul U128 amount price) (\<lambda>v.
     and_then (safe_div U128 v precision) (\<lambda>v.
     and_then (cast U64 v) (\<lambda>value.
     Ok (u\<lparr>us_total_withdraws := saturating_add U64 (us_total_withdraws u) value\<rparr>))))))"

definition increment_total_socialized_loss :: "user \<Rightarrow> int \<Rightarrow> user result" where
  "increment_total_socialized_loss u value =
     Ok (u\<lparr>us_total_social_loss := saturating_add U64 (us_total_social_loss u) value\<rparr>)"

definition update_cumulative_spot_fees :: "user \<Rightarrow> int \<Rightarrow> user result" where
  "update_cumulative_spot_fees u amount =
     and_then (ok_or (checked_add I64 (us_cumulative_spot_fees u) amount) MathError) (\<lambda>v.
     Ok (u\<lparr>us_cumulative_spot_fees := v\<rparr>))"

definition update_cumulative_perp_funding :: "user \<Rightarrow> int \<Rightarrow> user result" where
  "update_cumulative_perp_funding u amount =
     and_then (ok_or (checked_add I64 (us_cumulative_perp_funding u) amount) MathError) (\<lambda>v.
     Ok (u\<lparr>us_cumulative_perp_funding := v\<rparr>))"

section \<open>Liquidation and bankruptcy\<close>

text \<open>\<open>get_then_update_id!\<close> on the \<open>u16\<close> counter: the id after the last one is 1.\<close>

definition next_id :: "int_ty \<Rightarrow> int \<Rightarrow> int" where
  "next_id t current_id = (case checked_add t current_id 1 of Some n \<Rightarrow> n | None \<Rightarrow> 1)"

definition take_liquidation_id :: "user \<Rightarrow> user" where
  "take_liquidation_id u = u\<lparr>us_next_liquidation_id := next_id U16 (us_next_liquidation_id u)\<rparr>"

definition enter_cross_margin_liquidation :: "user \<Rightarrow> int \<Rightarrow> (user \<times> int) result" where
  "enter_cross_margin_liquidation u slot =
     (if is_cross_margin_being_liquidated u then
        and_then (safe_sub U16 (us_next_liquidation_id u) 1) (\<lambda>id. Ok (u, id))
      else
        (let u = add_user_status US_BeingLiquidated u;
             u = u\<lparr>us_liquidation_margin_freed := 0, us_last_active_slot := slot\<rparr>
         in if has_isolated_margin_being_liquidated u then
              and_then (safe_sub U16 (us_next_liquidation_id u) 1) (\<lambda>id. Ok (u, id))
            else Ok (take_liquidation_id u, us_next_liquidation_id u)))"

definition exit_cross_margin_liquidation :: "user \<Rightarrow> user" where
  "exit_cross_margin_liquidation u =
     (remove_user_status US_Bankrupt (remove_user_status US_BeingLiquidated u))
       \<lparr>us_liquidation_margin_freed := 0\<rparr>"

definition enter_cross_margin_bankruptcy :: "user \<Rightarrow> user" where
  "enter_cross_margin_bankruptcy u =
     (let u = (if \<not> is_being_liquidated u then take_liquidation_id u else u) in
      add_user_status US_Bankrupt (remove_user_status US_BeingLiquidated u))"

definition exit_cross_margin_bankruptcy :: "user \<Rightarrow> user" where
  "exit_cross_margin_bankruptcy u =
     (remove_user_status US_Bankrupt (remove_user_status US_BeingLiquidated u))
       \<lparr>us_liquidation_margin_freed := 0\<rparr>"

definition is_isolated_margin_being_liquidated :: "user \<Rightarrow> int \<Rightarrow> bool result" where
  "is_isolated_margin_being_liquidated u perp_market_index =
     (case get_isolated_perp_position u perp_market_index of
        Ok p \<Rightarrow> Ok (perp_is_being_liquidated p)
      | Err _ \<Rightarrow> Ok False
      | Panic \<Rightarrow> Panic)"

definition enter_isolated_margin_liquidation :: "user \<Rightarrow> int \<Rightarrow> int \<Rightarrow> (user \<times> int) result" where
  "enter_isolated_margin_liquidation u perp_market_index slot =
     and_then (is_isolated_margin_being_liquidated u perp_market_index) (\<lambda>already.
     if already then and_then (safe_sub U16 (us_next_liquidation_id u) 1) (\<lambda>id. Ok (u, id))
     else
       and_then
         (if is_cross_margin_being_liquidated u \<or> has_isolated_margin_being_liquidated u then
            and_then (safe_sub U16 (us_next_liquidation_id u) 1) (\<lambda>id. Ok (u, id))
          else Ok (take_liquidation_id (u\<lparr>us_last_active_slot := slot\<rparr>), us_next_liquidation_id u))
         (\<lambda>(u, liquidation_id).
       and_then (force_get_isolated_perp_position u perp_market_index) (\<lambda>(u, i).
       Ok (modify_perp i (set_flag PF_BeingLiquidated) u, liquidation_id))))"

definition exit_isolated_margin_liquidation :: "user \<Rightarrow> int \<Rightarrow> user result" where
  "exit_isolated_margin_liquidation u perp_market_index =
     and_then (force_get_isolated_perp_position u perp_market_index) (\<lambda>(u, i).
     Ok (modify_perp i (clear_flag PF_Bankrupt \<circ> clear_flag PF_BeingLiquidated) u))"

definition enter_isolated_margin_bankruptcy :: "user \<Rightarrow> int \<Rightarrow> user result" where
  "enter_isolated_margin_bankruptcy u perp_market_index =
     (let u = (if \<not> is_being_liquidated u then take_liquidation_id u else u) in
      and_then (force_get_isolated_perp_position u perp_market_index) (\<lambda>(u, i).
      Ok (modify_perp i (set_flag PF_Bankrupt \<circ> clear_flag PF_BeingLiquidated) u)))"

definition exit_isolated_margin_bankruptcy :: "user \<Rightarrow> int \<Rightarrow> user result" where
  "exit_isolated_margin_bankruptcy u perp_market_index =
     and_then (force_get_isolated_perp_position u perp_market_index) (\<lambda>(u, i).
     Ok (modify_perp i (clear_flag PF_Bankrupt \<circ> clear_flag PF_BeingLiquidated) u))"

definition is_isolated_margin_bankrupt :: "user \<Rightarrow> int \<Rightarrow> bool result" where
  "is_isolated_margin_bankrupt u perp_market_index =
     and_then (get_isolated_perp_position u perp_market_index) (\<lambda>p.
     Ok (pp_position_flag p AND position_flag_bit PF_Bankrupt \<noteq> 0))"

definition increment_margin_freed :: "user \<Rightarrow> int \<Rightarrow> user result" where
  "increment_margin_freed u margin_free =
     and_then (safe_add U64 (us_liquidation_margin_freed u) margin_free) (\<lambda>v.
     Ok (u\<lparr>us_liquidation_margin_freed := v\<rparr>))"

definition update_last_active_slot :: "user \<Rightarrow> int \<Rightarrow> user" where
  "update_last_active_slot u slot =
     (if \<not> is_being_liquidated u then u\<lparr>us_last_active_slot := slot\<rparr> else u)\<lparr>us_idle := False\<rparr>"

datatype liquidation_op =
    EnterCross int
  | ExitCross
  | EnterCrossBankruptcy
  | ExitCrossBankruptcy
  | EnterIsolated int int
  | ExitIsolated int
  | EnterIsolatedBankruptcy int
  | ExitIsolatedBankruptcy int
  | FreeMargin int
  | Touch int

primrec liquidation_step :: "user \<Rightarrow> liquidation_op \<Rightarrow> user result" where
  "liquidation_step u (EnterCross slot) = map_ok fst (enter_cross_margin_liquidation u slot)"
| "liquidation_step u ExitCross = Ok (exit_cross_margin_liquidation u)"
| "liquidation_step u EnterCrossBankruptcy = Ok (enter_cross_margin_bankruptcy u)"
| "liquidation_step u ExitCrossBankruptcy = Ok (exit_cross_margin_bankruptcy u)"
| "liquidation_step u (EnterIsolated mi slot) = map_ok fst (enter_isolated_margin_liquidation u mi slot)"
| "liquidation_step u (ExitIsolated mi) = exit_isolated_margin_liquidation u mi"
| "liquidation_step u (EnterIsolatedBankruptcy mi) = enter_isolated_margin_bankruptcy u mi"
| "liquidation_step u (ExitIsolatedBankruptcy mi) = exit_isolated_margin_bankruptcy u mi"
| "liquidation_step u (FreeMargin amount) = increment_margin_freed u amount"
| "liquidation_step u (Touch slot) = Ok (update_last_active_slot u slot)"

lemmas user_state_defs [eval_defs] =
  has_status_def add_user_status_def remove_user_status_def is_cross_margin_being_liquidated_def
  is_cross_margin_bankrupt_def has_isolated_margin_being_liquidated_def
  has_isolated_margin_bankrupt_def is_being_liquidated_def is_bankrupt_def
  get_position_index_def add_new_position_def force_get_isolated_perp_position_def
  get_isolated_perp_position_def modify_perp_def next_id_def take_liquidation_id_def
  enter_cross_margin_liquidation_def enter_isolated_margin_liquidation_def
  is_isolated_margin_being_liquidated_def

section \<open>Slots\<close>

text \<open>Allocating a slot overwrites only a slot that holds nothing.\<close>

lemma position_of_enumerate:
  "position_of (\<lambda>(i, p). P i p) (enumerate 0 xs) = Some i \<Longrightarrow> i < length xs \<and> P i (xs ! i)"
  by (auto dest!: position_of_Some simp: nth_enumerate_eq)

lemma add_spot_position_Ok:
  assumes "add_spot_position u mi t = Ok (u', i)"
  shows "0 < i" "i < length (us_spot_positions u)" "spot_is_available (us_spot_positions u ! i)"
    "u' = u\<lparr>us_spot_positions := (us_spot_positions u)[i := default_spot_position
       \<lparr>sp_market_index := mi, sp_balance_type := t\<rparr>]\<rparr>"
  using assms unfolding add_spot_position_def Let_def
  by (auto simp: ok_iff dest!: position_of_enumerate)

lemma get_spot_position_index_Ok:
  assumes "get_spot_position_index u mi = Ok i"
  shows "i < length (us_spot_positions u)" "sp_market_index (us_spot_positions u ! i) = mi"
  using assms unfolding get_spot_position_index_def
  by (auto simp: ok_iff split: if_split_asm dest!: position_of_Some)

lemma get_spot_position_index_Err:
  assumes "get_spot_position_index u mi = Err e" "mi \<noteq> 0" "p \<in> set (us_spot_positions u)"
  shows "sp_market_index p \<noteq> mi"
  using assms unfolding get_spot_position_index_def ok_or_def
  by (auto simp: position_of_None_iff split: option.split_asm)

lemma force_get_spot_position_Ok:
  assumes "force_get_spot_position_index u mi = Ok (u', i)"
  shows "length (us_spot_positions u') = length (us_spot_positions u)"
    "i < length (us_spot_positions u)" "sp_market_index (us_spot_positions u' ! i) = mi"
    "\<And>j. j < length (us_spot_positions u) \<Longrightarrow> \<not> spot_is_available (us_spot_positions u ! j) \<Longrightarrow>
       us_spot_positions u' ! j = us_spot_positions u ! j"
    "us_perp_positions u' = us_perp_positions u" "us_orders u' = us_orders u"
proof -
  have "length (us_spot_positions u') = length (us_spot_positions u)
    \<and> i < length (us_spot_positions u) \<and> sp_market_index (us_spot_positions u' ! i) = mi
    \<and> us_perp_positions u' = us_perp_positions u \<and> us_orders u' = us_orders u
    \<and> (\<forall>j < length (us_spot_positions u). \<not> spot_is_available (us_spot_positions u ! j) \<longrightarrow>
         us_spot_positions u' ! j = us_spot_positions u ! j)"
  proof (cases "get_spot_position_index u mi")
    case (Ok k)
    then show ?thesis using assms get_spot_position_index_Ok [OF Ok]
      by (simp add: force_get_spot_position_index_def)
  next
    case (Err e)
    then have add: "add_spot_position u mi Deposit = Ok (u', i)"
      using assms by (simp add: force_get_spot_position_index_def)
    show ?thesis using add_spot_position_Ok(1-3) [OF add] unfolding add_spot_position_Ok(4) [OF add]
      by (auto simp: nth_list_update)
  next
    case Panic
    then show ?thesis using assms by (simp add: force_get_spot_position_index_def)
  qed
  then show "length (us_spot_positions u') = length (us_spot_positions u)"
    "i < length (us_spot_positions u)" "sp_market_index (us_spot_positions u' ! i) = mi"
    "\<And>j. j < length (us_spot_positions u) \<Longrightarrow> \<not> spot_is_available (us_spot_positions u ! j) \<Longrightarrow>
       us_spot_positions u' ! j = us_spot_positions u ! j"
    "us_perp_positions u' = us_perp_positions u" "us_orders u' = us_orders u"
    by simp_all
qed

text \<open>No two slots are for the same market other than the quote market, whose slot is the first.\<close>

definition spot_slots_ok :: "user \<Rightarrow> bool" where
  "spot_slots_ok u \<longleftrightarrow> length (us_spot_positions u) = 8
     \<and> sp_market_index (us_spot_positions u ! 0) = 0
     \<and> (\<forall>i < 8. \<forall>j < 8. sp_market_index (us_spot_positions u ! i) = sp_market_index (us_spot_positions u ! j)
          \<longrightarrow> sp_market_index (us_spot_positions u ! i) \<noteq> 0 \<longrightarrow> i = j)"

lemma force_get_spot_position_slots:
  assumes "force_get_spot_position_index u mi = Ok (u', i)" and u: "spot_slots_ok u"
  shows "spot_slots_ok u'"
proof (cases "get_spot_position_index u mi")
  case (Ok j)
  then show ?thesis using assms by (simp add: force_get_spot_position_index_def)
next
  case (Err e)
  then have add: "add_spot_position u mi Deposit = Ok (u', i)"
    using assms(1) by (simp add: force_get_spot_position_index_def)
  have mi: "mi \<noteq> 0" using Err u by (auto simp: get_spot_position_index_def spot_slots_ok_def validate_def)
  have "sp_market_index (us_spot_positions u ! j) \<noteq> mi" if "j < 8" for j
    using get_spot_position_index_Err [OF Err mi] that u by (simp add: spot_slots_ok_def)
  then show ?thesis using add_spot_position_Ok [OF add] u
    by (auto simp: spot_slots_ok_def nth_list_update)
next
  case Panic
  then show ?thesis using assms by (simp add: force_get_spot_position_index_def)
qed

lemma get_position_index_Ok:
  "get_position_index ps mi = Ok i \<Longrightarrow> i < length ps \<and> is_for (ps ! i) mi"
  by (auto simp: get_position_index_def ok_iff dest!: position_of_Some)

lemma add_new_position_Ok:
  assumes "add_new_position ps mi = Ok (ps', i)"
  shows "i < length ps" "perp_is_available (ps ! i)" "length ps' = length ps"
    "\<exists>ratio. ps' = ps[i := default_perp_position\<lparr>pp_market_index := mi, pp_max_margin_ratio := ratio\<rparr>]"
  using assms unfolding add_new_position_def Let_def by (auto simp: ok_iff dest!: position_of_Some)

text \<open>
  What \<open>force_get_isolated_perp_position\<close> returns: a slot that holds an isolated position; all
  positions in use are kept, and so is everything else of the account.
\<close>

lemma force_get_isolated_Ok:
  assumes "force_get_isolated_perp_position u mi = Ok (u', i)"
  obtains (found) "u' = u" "i < length (us_perp_positions u)" "is_isolated (us_perp_positions u ! i)"
      "get_position_index (us_perp_positions u) mi = Ok i"
  | (fresh) ratio where "i < length (us_perp_positions u)" "perp_is_available (us_perp_positions u ! i)"
      "u' = u\<lparr>us_perp_positions := (us_perp_positions u)[i := default_perp_position
         \<lparr>pp_market_index := mi, pp_max_margin_ratio := ratio,
          pp_position_flag := position_flag_bit PF_IsolatedPosition\<rparr>]\<rparr>"
proof (cases "get_position_index (us_perp_positions u) mi")
  case (Ok j)
  then show ?thesis using assms that(1) get_position_index_Ok [OF Ok]
    by (auto simp: force_get_isolated_perp_position_def ok_iff)
next
  case (Err e)
  then obtain ps where add: "add_new_position (us_perp_positions u) mi = Ok (ps, i)"
    and u': "u' = modify_perp i (\<lambda>p. p\<lparr>pp_position_flag := position_flag_bit PF_IsolatedPosition\<rparr>)
      (u\<lparr>us_perp_positions := ps\<rparr>)"
    using assms by (auto simp: force_get_isolated_perp_position_def ok_iff)
  note a = add_new_position_Ok [OF add]
  then obtain ratio where "ps = (us_perp_positions u)[i := default_perp_position
      \<lparr>pp_market_index := mi, pp_max_margin_ratio := ratio\<rparr>]" by blast
  then show ?thesis using that(2) [of ratio] a(1,2) u' by (simp add: modify_perp_def)
next
  case Panic
  then show ?thesis using assms by (simp add: force_get_isolated_perp_position_def)
qed

section \<open>The liquidation states\<close>

lemma has_status_updates [simp]:
  "has_status (add_user_status s u) t \<longleftrightarrow> t = s \<or> has_status u t"
  "has_status (remove_user_status s u) t \<longleftrightarrow> t \<noteq> s \<and> has_status u t"
  by (simp_all add: has_status_def add_user_status_def remove_user_status_def status_flags.flag_tests)

lemma has_status_others [simp]:
  "has_status (u\<lparr>us_liquidation_margin_freed := a\<rparr>) t = has_status u t"
  "has_status (u\<lparr>us_last_active_slot := b\<rparr>) t = has_status u t"
  "has_status (u\<lparr>us_next_liquidation_id := c\<rparr>) t = has_status u t"
  "has_status (u\<lparr>us_perp_positions := d\<rparr>) t = has_status u t"
  "has_status (u\<lparr>us_idle := e\<rparr>) t = has_status u t"
  "has_status (take_liquidation_id u) t = has_status u t"
  by (simp_all add: has_status_def take_liquidation_id_def)

lemma status_others [simp]:
  "us_perp_positions (add_user_status s u) = us_perp_positions u"
  "us_perp_positions (remove_user_status s u) = us_perp_positions u"
  "us_perp_positions (take_liquidation_id u) = us_perp_positions u"
  "us_next_liquidation_id (add_user_status s u) = us_next_liquidation_id u"
  "us_next_liquidation_id (remove_user_status s u) = us_next_liquidation_id u"
  by (simp_all add: add_user_status_def remove_user_status_def take_liquidation_id_def)

lemma is_cross_margin_being_liquidated_iff:
  "is_cross_margin_being_liquidated u \<longleftrightarrow> has_status u US_BeingLiquidated \<or> has_status u US_Bankrupt"
  by (simp only: is_cross_margin_being_liquidated_def has_status_def status_flags.flag_tests)

lemma next_id_U16: "fits U16 n \<Longrightarrow> fits U16 (next_id U16 n) \<and> 1 \<le> next_id U16 n"
  by (auto simp: next_id_def checked_add_def fits_def)

definition flags_exclusive :: "perp_position \<Rightarrow> bool" where
  "flags_exclusive p \<longleftrightarrow> \<not> (has_flag p PF_BeingLiquidated \<and> has_flag p PF_Bankrupt)"

definition liquidation_inv :: "user \<Rightarrow> bool" where
  "liquidation_inv u \<longleftrightarrow> \<not> (has_status u US_BeingLiquidated \<and> has_status u US_Bankrupt)
     \<and> list_all flags_exclusive (us_perp_positions u)
     \<and> fits U16 (us_next_liquidation_id u)
     \<and> (is_being_liquidated u \<longrightarrow> 1 \<le> us_next_liquidation_id u)"

lemma liquidation_invI:
  assumes "\<not> (has_status u US_BeingLiquidated \<and> has_status u US_Bankrupt)"
    "list_all flags_exclusive (us_perp_positions u)" "fits U16 (us_next_liquidation_id u)"
    "is_being_liquidated u \<Longrightarrow> 1 \<le> us_next_liquidation_id u"
  shows "liquidation_inv u"
  using assms by (simp add: liquidation_inv_def)

text \<open>An operation on the flags of one isolated position, after the id has been settled.\<close>

lemma isolated_flags_inv:
  assumes get: "force_get_isolated_perp_position u mi = Ok (u', i)"
    and inv: "\<not> (has_status u US_BeingLiquidated \<and> has_status u US_Bankrupt)"
      "list_all flags_exclusive (us_perp_positions u)" "fits U16 (us_next_liquidation_id u)"
    and id: "1 \<le> us_next_liquidation_id u"
    and f: "flags_exclusive (us_perp_positions u' ! i) \<Longrightarrow> flags_exclusive (f (us_perp_positions u' ! i))"
  shows "liquidation_inv (modify_perp i f u')"
  using get
proof (cases rule: force_get_isolated_Ok)
  case found
  then show ?thesis using inv id f list_all_nth [OF inv(2) found(2)]
    by (intro liquidation_invI) (simp_all add: modify_perp_def list_all_update)
next
  case (fresh ratio)
  let ?p = "default_perp_position\<lparr>pp_market_index := mi, pp_max_margin_ratio := ratio,
          pp_position_flag := position_flag_bit PF_IsolatedPosition\<rparr>"
  have "flags_exclusive ?p" by (simp add: flags_exclusive_def has_flag_def)
  then show ?thesis using f inv id fresh
    by (intro liquidation_invI) (simp_all add: modify_perp_def list_all_update)
qed

lemma enter_cross_inv:
  assumes inv: "liquidation_inv u" and st: "enter_cross_margin_liquidation u slot = Ok (u', lid)"
  shows "liquidation_inv u'"
proof (cases "is_cross_margin_being_liquidated u")
  case True
  then show ?thesis using assms by (simp add: enter_cross_margin_liquidation_def ok_iff)
next
  case False
  then show ?thesis using assms next_id_U16 [of "us_next_liquidation_id u"]
    by (auto simp: enter_cross_margin_liquidation_def ok_iff liquidation_inv_def Let_def
        is_cross_margin_being_liquidated_iff is_being_liquidated_def take_liquidation_id_def
        has_isolated_margin_being_liquidated_def split: if_split_asm)
qed

text \<open>The id an isolated episode starts with: the running one, or a new one.\<close>

lemma settled_id:
  assumes "liquidation_inv u" "w = (if is_being_liquidated u then u else take_liquidation_id (u\<lparr>us_last_active_slot := s\<rparr>))"
  shows "\<not> (has_status w US_BeingLiquidated \<and> has_status w US_Bankrupt)"
    "list_all flags_exclusive (us_perp_positions w)" "fits U16 (us_next_liquidation_id w)"
    "1 \<le> us_next_liquidation_id w"
  using assms next_id_U16 [of "us_next_liquidation_id u"]
  by (auto simp: liquidation_inv_def take_liquidation_id_def)

lemma enter_isolated_Ok:
  assumes st: "enter_isolated_margin_liquidation u mi slot = Ok (u', lid)"
  obtains "u' = u" "lid = us_next_liquidation_id u - 1" "fits U16 lid"
  | u1 i where
      "force_get_isolated_perp_position
         (if is_being_liquidated u then u else take_liquidation_id (u\<lparr>us_last_active_slot := slot\<rparr>)) mi = Ok (u1, i)"
      "u' = modify_perp i (set_flag PF_BeingLiquidated) u1"
      "lid = (if is_being_liquidated u then us_next_liquidation_id u - 1 else us_next_liquidation_id u)"
      "is_isolated_margin_being_liquidated u mi = Ok False"
  using st unfolding enter_isolated_margin_liquidation_def is_being_liquidated_def [symmetric]
  by (auto simp: safe_sub_Ok_iff elim!: and_thenE split: if_split_asm)

lemma isolated_already:
  assumes "is_isolated_margin_being_liquidated u mi = Ok False"
    "get_position_index (us_perp_positions u) mi = Ok i" "is_isolated (us_perp_positions u ! i)"
  shows "\<not> perp_is_being_liquidated (us_perp_positions u ! i)"
  using assms get_position_index_Ok [OF assms(2)]
  by (auto simp: is_isolated_margin_being_liquidated_def get_isolated_perp_position_def validate_def)

lemma modify_exclusive:
  "flags_exclusive p \<Longrightarrow> flags_exclusive ((clear_flag PF_Bankrupt \<circ> clear_flag PF_BeingLiquidated) p)"
  "flags_exclusive p \<Longrightarrow> flags_exclusive ((set_flag PF_Bankrupt \<circ> clear_flag PF_BeingLiquidated) p)"
  by (simp_all add: flags_exclusive_def)

lemma enter_isolated_inv:
  assumes inv: "liquidation_inv u" and st: "enter_isolated_margin_liquidation u mi slot = Ok (u', lid)"
  shows "liquidation_inv u'"
  using st
proof (cases rule: enter_isolated_Ok)
  case 1
  then show ?thesis using inv by simp
next
  case (2 u1 i)
  define w where "w = (if is_being_liquidated u then u else take_liquidation_id (u\<lparr>us_last_active_slot := slot\<rparr>))"
  have w: "us_perp_positions w = us_perp_positions u" by (simp add: w_def)
  have get: "force_get_isolated_perp_position w mi = Ok (u1, i)" using 2(1) by (simp add: w_def)
  have "\<not> perp_is_being_liquidated (us_perp_positions u1 ! i)"
    using get
  proof (cases rule: force_get_isolated_Ok)
    case found
    then show ?thesis using isolated_already [OF 2(4)] w by simp
  next
    case (fresh ratio)
    then show ?thesis by (simp add: perp_is_being_liquidated_iff has_flag_def)
  qed
  then have "flags_exclusive (set_flag PF_BeingLiquidated (us_perp_positions u1 ! i))"
    by (simp add: flags_exclusive_def perp_is_being_liquidated_iff)
  then show ?thesis unfolding 2(2) by (intro isolated_flags_inv [OF get] settled_id [OF inv w_def])
qed

lemma list_ex_update: "list_ex P (xs[i := y]) \<Longrightarrow> \<not> P y \<Longrightarrow> list_ex P xs"
  by (auto simp: list_ex_iff dest!: set_update_subset_insert [THEN subsetD])

lemma exit_isolated_inv:
  assumes get: "force_get_isolated_perp_position u mi = Ok (u1, i)" and inv: "liquidation_inv u"
  shows "liquidation_inv (modify_perp i (clear_flag PF_Bankrupt \<circ> clear_flag PF_BeingLiquidated) u1)"
proof -
  let ?f = "clear_flag PF_Bankrupt \<circ> clear_flag PF_BeingLiquidated"
  have idle: "\<not> perp_is_being_liquidated (?f p)" "flags_exclusive (?f p)" for p
    by (simp_all add: perp_is_being_liquidated_iff flags_exclusive_def)
  obtain p where "us_perp_positions (modify_perp i ?f u1) = (us_perp_positions u)[i := ?f p]"
    and keep: "has_status (modify_perp i ?f u1) s = has_status u s"
      "us_next_liquidation_id (modify_perp i ?f u1) = us_next_liquidation_id u" for s
    using get by (cases rule: force_get_isolated_Ok) (auto simp: modify_perp_def)
  note ps = this(1)
  have "has_isolated_margin_being_liquidated u" if "has_isolated_margin_being_liquidated (modify_perp i ?f u1)"
    using that idle(1) [of p] unfolding has_isolated_margin_being_liquidated_def ps
    by (auto intro: list_ex_update)
  then show ?thesis using inv idle(2) [of p] unfolding liquidation_inv_def is_being_liquidated_def
    by (auto simp: keep ps is_cross_margin_being_liquidated_iff intro!: list_all_update)
qed

lemma liquidation_step_inv:
  assumes inv: "liquidation_inv u" and st: "liquidation_step u op = Ok u'"
  shows "liquidation_inv u'"
proof (cases op)
  case (EnterCross slot)
  then show ?thesis using st enter_cross_inv [OF inv] by (auto simp: ok_iff)
next
  case (EnterIsolated mi slot)
  then show ?thesis using st enter_isolated_inv [OF inv] by (auto simp: ok_iff)
next
  case EnterCrossBankruptcy
  then show ?thesis using assms next_id_U16 [of "us_next_liquidation_id u"]
    by (auto simp: enter_cross_margin_bankruptcy_def liquidation_inv_def Let_def is_being_liquidated_def
        take_liquidation_id_def is_cross_margin_being_liquidated_iff has_isolated_margin_being_liquidated_def)
next
  case (EnterIsolatedBankruptcy mi)
  let ?w = "if \<not> is_being_liquidated u then take_liquidation_id u else u"
  obtain u1 i where get: "force_get_isolated_perp_position ?w mi = Ok (u1, i)"
    and u': "u' = modify_perp i (set_flag PF_Bankrupt \<circ> clear_flag PF_BeingLiquidated) u1"
    using st EnterIsolatedBankruptcy by (auto simp: enter_isolated_margin_bankruptcy_def Let_def elim!: and_thenE)
  have w: "?w = (if is_being_liquidated u then u else take_liquidation_id (u\<lparr>us_last_active_slot := us_last_active_slot u\<rparr>))"
    by simp
  show ?thesis unfolding u' by (intro isolated_flags_inv [OF get] settled_id [OF inv w] modify_exclusive)
next
  case (Touch slot)
  then show ?thesis using assms
    by (cases "is_being_liquidated u") (auto simp: update_last_active_slot_def liquidation_inv_def
      is_being_liquidated_def is_cross_margin_being_liquidated_iff has_isolated_margin_being_liquidated_def)
next
  case (ExitIsolated mi)
  then show ?thesis using st exit_isolated_inv [OF _ inv]
    by (auto simp: exit_isolated_margin_liquidation_def elim!: and_thenE)
next
  case (ExitIsolatedBankruptcy mi)
  then show ?thesis using st exit_isolated_inv [OF _ inv]
    by (auto simp: exit_isolated_margin_bankruptcy_def elim!: and_thenE)
qed (use assms in \<open>auto simp: liquidation_inv_def exit_cross_margin_liquidation_def
    exit_cross_margin_bankruptcy_def increment_margin_freed_def update_last_active_slot_def ok_iff
    is_being_liquidated_def is_cross_margin_being_liquidated_iff has_isolated_margin_being_liquidated_def\<close>)

interpretation liquidation: instruction_set liquidation_step liquidation_inv
  by unfold_locales (rule liquidation_step_inv)

text \<open>While an episode runs, entering again returns its id and takes no new one.\<close>

lemma enter_cross_running:
  assumes "liquidation_inv u" "is_being_liquidated u"
  shows "\<exists>u'. enter_cross_margin_liquidation u slot = Ok (u', us_next_liquidation_id u - 1)
    \<and> us_next_liquidation_id u' = us_next_liquidation_id u"
proof -
  have "safe_sub U16 (us_next_liquidation_id u) 1 = Ok (us_next_liquidation_id u - 1)"
    using assms by (auto simp: safe_sub_Ok_iff liquidation_inv_def fits_def)
  then show ?thesis using assms(2)
    by (auto simp: enter_cross_margin_liquidation_def Let_def is_being_liquidated_def
        has_isolated_margin_being_liquidated_def)
qed

lemma enter_cross_fresh:
  assumes "\<not> is_being_liquidated u"
  shows "\<exists>u'. enter_cross_margin_liquidation u slot = Ok (u', us_next_liquidation_id u)
    \<and> us_next_liquidation_id u' = next_id U16 (us_next_liquidation_id u) \<and> is_being_liquidated u'"
  using assms
  by (auto simp: enter_cross_margin_liquidation_def Let_def is_being_liquidated_def take_liquidation_id_def
      is_cross_margin_being_liquidated_iff has_isolated_margin_being_liquidated_def)

end
