(* ===== verification/Slot_Clock.thy ===== *)
theory Slot_Clock
  imports Safe_Math
begin

text \<open>
  \<open>math/time.rs\<close>: wall-clock durations and the slot clock. \<open>Millis\<close> and \<open>SlotDuration\<close> are
  newtypes over \<open>u64\<close>, here \<open>int\<close>. \<open>elapsed\<close> integrates the slot length over an interval that may
  cross changes of the slot length; the specification it is proved equal to is the sum of the slot
  lengths of the slots of the interval. \<open>slot_at_or_after_duration\<close> is proved to return the first
  slot that is at least the duration away.
\<close>

abbreviation (input) STORED_UNIT_MS :: int where "STORED_UNIT_MS \<equiv> 400"

section \<open>Millis, SlotDuration and their storage codec\<close>

definition from_stored_units :: "int \<Rightarrow> int" where
  "from_stored_units units = saturating_mul U64 units STORED_UNIT_MS"

definition from_secs :: "int \<Rightarrow> int" where
  "from_secs secs = saturating_mul U64 secs 1000"

definition from_slots :: "int \<Rightarrow> int \<Rightarrow> int" where
  "from_slots slots d = saturating_mul U64 slots d"

definition to_slots :: "int \<Rightarrow> int \<Rightarrow> int" where
  "to_slots ms d = (case safe_div U64 ms (max d 1) of Ok n \<Rightarrow> n | _ \<Rightarrow> 0)"

definition to_slots_ceil :: "int \<Rightarrow> int \<Rightarrow> int" where
  "to_slots_ceil ms d = (case safe_div_ceil U64 ms (max d 1) of Ok n \<Rightarrow> n | _ \<Rightarrow> 0)"

definition div_periods :: "int \<Rightarrow> int \<Rightarrow> int" where
  "div_periods ms period = (case safe_div U64 ms (max period 1) of Ok n \<Rightarrow> n | _ \<Rightarrow> 0)"

definition from_state_ms :: "int \<Rightarrow> int" where
  "from_state_ms raw = (if raw = 0 then STORED_UNIT_MS else raw)"

text \<open>\<open>StoredSlotDuration<T, SLOT_MS>\<close>: the integer type and the quantum are arguments.\<close>

definition stored_try_from_millis :: "int_ty \<Rightarrow> int \<Rightarrow> int \<Rightarrow> int option" where
  "stored_try_from_millis t slot_ms duration =
     (if slot_ms = 0 \<or> duration mod slot_ms \<noteq> 0 then None
      else if fits t (duration div slot_ms) then Some (duration div slot_ms) else None)"

definition stored_to_millis :: "int \<Rightarrow> int \<Rightarrow> int result" where
  "stored_to_millis slot_ms units =
     (if slot_ms > 0 then Ok (saturating_mul U64 (if fits U64 units then units else 0) slot_ms)
      else Panic)"

datatype delay_override = Never | Unset | Fixed int

definition decode_positive :: "int \<Rightarrow> int result" where
  "decode_positive raw = stored_to_millis STORED_UNIT_MS raw"

definition from_immediate :: "int \<Rightarrow> delay_override result" where
  "from_immediate raw =
     (if raw = 0 then Ok Never else if raw < 0 then Ok Unset else map_ok Fixed (decode_positive raw))"

definition from_low_risk :: "int \<Rightarrow> delay_override result" where
  "from_low_risk raw =
     (if raw = 0 then Ok Unset else if raw < 0 then Ok (Fixed 0) else map_ok Fixed (decode_positive raw))"

section \<open>The slot clock\<close>

definition SLOT_DURATION_TRANSITION_MS :: "int list" where
  "SLOT_DURATION_TRANSITION_MS = [350, 300, 250, 200]"

definition slot_duration_transition_index :: "int \<Rightarrow> nat option" where
  "slot_duration_transition_index slot_duration_ms =
     position_of (\<lambda>ms. ms = slot_duration_ms) SLOT_DURATION_TRANSITION_MS"

definition active_slot_duration_ms :: "int \<Rightarrow> int \<Rightarrow> int \<Rightarrow> int \<Rightarrow> int" where
  "active_slot_duration_ms base_ms pending_ms effective_slot now_slot =
     (if pending_ms \<noteq> 0 \<and> now_slot \<ge> effective_slot then pending_ms else base_ms)"

record slot_clock =
  sc_transition_slots :: "int list"
  sc_legacy_base_ms :: int
  sc_legacy_pending_ms :: int
  sc_legacy_effective_slot :: int

definition baseline_clock :: slot_clock where
  "baseline_clock = \<lparr> sc_transition_slots = [0, 0, 0, 0], sc_legacy_base_ms = 0,
     sc_legacy_pending_ms = 0, sc_legacy_effective_slot = 0 \<rparr>"

definition has_transition_history :: "slot_clock \<Rightarrow> bool" where
  "has_transition_history c = list_ex (\<lambda>slot. slot \<noteq> 0) (sc_transition_slots c)"

text \<open>The \<open>while\<close> loop of \<open>slot_duration_at\<close>, over the pairs of transition slot and new length.\<close>

fun transition_loop :: "int \<Rightarrow> (int \<times> int) list \<Rightarrow> int \<Rightarrow> int" where
  "transition_loop slot [] duration_ms = duration_ms"
| "transition_loop slot ((transition_slot, ms) # rest) duration_ms =
     transition_loop slot rest
       (if transition_slot \<noteq> 0 \<and> slot \<ge> transition_slot then ms else duration_ms)"

definition slot_duration_at :: "slot_clock \<Rightarrow> int \<Rightarrow> int" where
  "slot_duration_at c slot =
     (if \<not> has_transition_history c then
        from_state_ms (active_slot_duration_ms (sc_legacy_base_ms c) (sc_legacy_pending_ms c)
          (sc_legacy_effective_slot c) slot)
      else
        from_state_ms (transition_loop slot
          (zip (sc_transition_slots c) SLOT_DURATION_TRANSITION_MS) STORED_UNIT_MS))"

fun elapsed_loop :: "slot_clock \<Rightarrow> int \<Rightarrow> int list \<Rightarrow> int \<Rightarrow> int \<Rightarrow> int \<Rightarrow> int" where
  "elapsed_loop c end_slot [] cursor elapsed_ms duration =
     saturating_add U64 elapsed_ms (saturating_mul U64 (saturating_sub U64 end_slot cursor) duration)"
| "elapsed_loop c end_slot (transition_slot # rest) cursor elapsed_ms duration =
     (if transition_slot = 0 \<or> transition_slot \<le> cursor \<or> transition_slot > end_slot then
        elapsed_loop c end_slot rest cursor elapsed_ms duration
      else
        elapsed_loop c end_slot rest transition_slot
          (saturating_add U64 elapsed_ms
             (saturating_mul U64 (saturating_sub U64 transition_slot cursor) duration))
          (slot_duration_at c transition_slot))"

definition elapsed :: "slot_clock \<Rightarrow> int \<Rightarrow> int \<Rightarrow> int" where
  "elapsed c start_slot end_slot =
     (if end_slot \<le> start_slot then 0
      else if \<not> has_transition_history c then
        from_slots (saturating_sub U64 end_slot start_slot) (slot_duration_at c end_slot)
      else elapsed_loop c end_slot (sc_transition_slots c) start_slot 0 (slot_duration_at c start_slot))"

definition elapsed_slot_delta :: "slot_clock \<Rightarrow> int \<Rightarrow> int \<Rightarrow> int" where
  "elapsed_slot_delta c slot_delta end_slot =
     elapsed c (saturating_sub U64 end_slot slot_delta) end_slot"

fun after_duration_loop :: "slot_clock \<Rightarrow> int list \<Rightarrow> int \<Rightarrow> int \<Rightarrow> int \<Rightarrow> int" where
  "after_duration_loop c [] cursor remaining_ms current_duration =
     saturating_add U64 cursor (to_slots_ceil remaining_ms current_duration)"
| "after_duration_loop c (transition_slot # rest) cursor remaining_ms current_duration =
     (if transition_slot = 0 \<or> transition_slot \<le> cursor then
        after_duration_loop c rest cursor remaining_ms current_duration
      else
        (let slots_in_regime = saturating_sub U64 transition_slot cursor;
             regime_ms = saturating_mul U64 slots_in_regime current_duration
         in if remaining_ms \<le> regime_ms then
              saturating_add U64 cursor (to_slots_ceil remaining_ms current_duration)
            else after_duration_loop c rest transition_slot (saturating_sub U64 remaining_ms regime_ms)
              (slot_duration_at c transition_slot)))"

definition slot_at_or_after_duration :: "slot_clock \<Rightarrow> int \<Rightarrow> int \<Rightarrow> int" where
  "slot_at_or_after_duration c start_slot duration =
     (if duration = 0 then start_slot
      else after_duration_loop c (sc_transition_slots c) start_slot duration (slot_duration_at c start_slot))"

section \<open>The slot length is constant between transitions\<close>

text \<open>The archive: four slots, the ones that are set in increasing order.\<close>

definition clock_wf :: "slot_clock \<Rightarrow> bool" where
  "clock_wf c \<longleftrightarrow> length (sc_transition_slots c) = 4
     \<and> sorted_wrt (<) (filter (\<lambda>s. s \<noteq> 0) (sc_transition_slots c))
     \<and> list_all (fits U64) (sc_transition_slots c)"

lemma transition_loop_cong:
  "(\<And>t ms. (t, ms) \<in> set xs \<Longrightarrow> t \<noteq> 0 \<Longrightarrow> k \<ge> t \<longleftrightarrow> k' \<ge> t) \<Longrightarrow>
   transition_loop k xs d = transition_loop k' xs d"
proof (induction xs arbitrary: d)
  case (Cons x xs)
  obtain t ms where x: "x = (t, ms)" by (cases x)
  have "(t \<noteq> 0 \<and> k \<ge> t) \<longleftrightarrow> (t \<noteq> 0 \<and> k' \<ge> t)" using Cons.prems [of t ms] x by auto
  moreover have "transition_loop k xs d = transition_loop k' xs d" for d
    by (rule Cons.IH) (use Cons.prems in auto)
  ultimately show ?case using x by simp
qed simp

lemma slot_duration_at_const:
  assumes "has_transition_history c" "k \<le> k'"
    and "\<And>t. t \<in> set (sc_transition_slots c) \<Longrightarrow> t \<noteq> 0 \<Longrightarrow> t \<le> k \<or> k' < t"
  shows "slot_duration_at c k' = slot_duration_at c k"
proof -
  have "transition_loop k' xs d = transition_loop k xs d"
    if "xs = zip (sc_transition_slots c) SLOT_DURATION_TRANSITION_MS" for xs d
  proof (rule transition_loop_cong)
    fix t ms
    assume "(t, ms) \<in> set xs" "t \<noteq> 0"
    then have "t \<le> k \<or> k' < t" using assms(3) that by (auto dest: set_zip_leftD)
    then show "t \<le> k' \<longleftrightarrow> t \<le> k" using assms(2) by linarith
  qed
  then show ?thesis using assms(1) by (simp add: slot_duration_at_def)
qed

lemma transition_loop_range:
  "d \<in> S \<Longrightarrow> snd ` set xs \<subseteq> S \<Longrightarrow> transition_loop k xs d \<in> S"
  by (induction xs arbitrary: d) auto

lemma slot_duration_at_range:
  assumes "has_transition_history c"
  shows "slot_duration_at c k \<in> {200, 250, 300, 350, 400}"
proof -
  have "transition_loop k (zip (sc_transition_slots c) SLOT_DURATION_TRANSITION_MS) 400
      \<in> {200, 250, 300, 350, 400}"
    by (rule transition_loop_range) (auto simp: SLOT_DURATION_TRANSITION_MS_def dest: set_zip_rightD)
  then show ?thesis using assms by (auto simp: slot_duration_at_def from_state_ms_def)
qed

lemma slot_duration_at_bounds:
  assumes "has_transition_history c"
  shows "200 \<le> slot_duration_at c k" "slot_duration_at c k \<le> 400"
  using slot_duration_at_range [OF assms, of k] by auto

section \<open>Elapsed time is the sum of the slot lengths\<close>

definition wall_clock :: "slot_clock \<Rightarrow> int \<Rightarrow> int \<Rightarrow> int" where
  "wall_clock c s e = (\<Sum>k \<in> {s..<e}. slot_duration_at c k)"

lemma wall_clock_empty [simp]: "e \<le> s \<Longrightarrow> wall_clock c s e = 0"
  by (simp add: wall_clock_def)

lemma wall_clock_split: "s \<le> t \<Longrightarrow> t \<le> e \<Longrightarrow> wall_clock c s e = wall_clock c s t + wall_clock c t e"
proof -
  assume "s \<le> t" "t \<le> e"
  then have "{s..<e} = {s..<t} \<union> {t..<e}" by auto
  then show ?thesis unfolding wall_clock_def by (simp add: sum.union_disjoint)
qed

lemma wall_clock_const:
  assumes "\<And>k. s \<le> k \<Longrightarrow> k < e \<Longrightarrow> slot_duration_at c k = d" "s \<le> e"
  shows "wall_clock c s e = (e - s) * d"
proof -
  have "wall_clock c s e = (\<Sum>k \<in> {s..<e}. d)"
    unfolding wall_clock_def by (rule sum.cong) (use assms in auto)
  then show ?thesis using assms(2) by simp
qed

lemma wall_clock_nonneg: "has_transition_history c \<Longrightarrow> 0 \<le> wall_clock c s e"
proof -
  assume c: "has_transition_history c"
  have "0 \<le> slot_duration_at c k" for k using slot_duration_at_bounds(1) [OF c, of k] by simp
  then show ?thesis unfolding wall_clock_def by (simp add: sum_nonneg)
qed

text \<open>Up to the next transition that is still ahead the length is the one at the cursor.\<close>

lemma regime_const:
  assumes c: "has_transition_history c" and k: "cursor \<le> k" "k < t"
    and seen: "\<And>x. x \<in> set (sc_transition_slots c) \<Longrightarrow> x \<noteq> 0 \<Longrightarrow> x \<le> cursor \<or> t \<le> x"
  shows "slot_duration_at c k = slot_duration_at c cursor"
proof (rule slot_duration_at_const [OF c k(1)])
  show "x \<le> cursor \<or> k < x" if "x \<in> set (sc_transition_slots c)" "x \<noteq> 0" for x
    using seen [OF that] k by linarith
qed

lemma regime_wall_clock:
  assumes "has_transition_history c" "cursor \<le> t"
    and "\<And>x. x \<in> set (sc_transition_slots c) \<Longrightarrow> x \<noteq> 0 \<Longrightarrow> x \<le> cursor \<or> t \<le> x"
  shows "wall_clock c cursor t = (t - cursor) * slot_duration_at c cursor"
proof (rule wall_clock_const)
  show "slot_duration_at c k = slot_duration_at c cursor" if "cursor \<le> k" "k < t" for k
    by (rule regime_const [OF assms(1) that assms(3)])
qed (rule assms(2))

lemma saturating_exact:
  "fits U64 (a + b) \<Longrightarrow> saturating_add U64 a b = a + b"
  "fits U64 (a - b) \<Longrightarrow> saturating_sub U64 a b = a - b"
  "fits U64 (a * b) \<Longrightarrow> saturating_mul U64 a b = a * b"
  by (auto simp: saturating_add_def saturating_sub_def saturating_mul_def fits_def)

lemma elapsed_loop_eq:
  assumes c: "has_transition_history c"
    and seen: "\<And>x. x \<in> set (sc_transition_slots c) \<Longrightarrow> x \<noteq> 0 \<Longrightarrow> x \<le> cursor \<or> e < x \<or> x \<in> set ts"
    and sorted: "sorted_wrt (<) (filter (\<lambda>s. s \<noteq> 0) ts)"
    and ivl: "0 \<le> cursor" "cursor \<le> e" "fits U64 e" "0 \<le> ms" "fits U64 (ms + wall_clock c cursor e)"
  shows "elapsed_loop c e ts cursor ms (slot_duration_at c cursor) = ms + wall_clock c cursor e"
  using seen sorted ivl
proof (induction ts arbitrary: cursor ms)
  case Nil
  have w: "wall_clock c cursor e = (e - cursor) * slot_duration_at c cursor"
  proof (rule regime_wall_clock [OF c])
    show "x \<le> cursor \<or> e \<le> x" if "x \<in> set (sc_transition_slots c)" "x \<noteq> 0" for x
      using Nil.prems(1) [OF that] by auto
  qed (rule Nil.prems)
  have "0 \<le> wall_clock c cursor e" by (rule wall_clock_nonneg [OF c])
  then have "fits U64 (wall_clock c cursor e)" "fits U64 (e - cursor)"
    using Nil.prems by (auto simp: fits_def)
  then show ?case using Nil.prems w by (simp add: saturating_exact)
next
  case (Cons t ts)
  show ?case
  proof (cases "t = 0 \<or> t \<le> cursor \<or> t > e")
    case True
    have "elapsed_loop c e ts cursor ms (slot_duration_at c cursor) = ms + wall_clock c cursor e"
    proof (rule Cons.IH)
      show "x \<le> cursor \<or> e < x \<or> x \<in> set ts"
        if "x \<in> set (sc_transition_slots c)" "x \<noteq> 0" for x
        using Cons.prems(1) [OF that] True that by auto
      show "sorted_wrt (<) (filter (\<lambda>s. s \<noteq> 0) ts)" using Cons.prems(2) by (simp split: if_split_asm)
    qed (use Cons.prems in simp_all)
    then show ?thesis using True by simp
  next
    case False
    then have t: "t \<noteq> 0" "cursor < t" "t \<le> e" by auto
    have ahead: "t < x" if "x \<in> set ts" "x \<noteq> 0" for x using Cons.prems(2) t that by auto
    have reg: "wall_clock c cursor t = (t - cursor) * slot_duration_at c cursor"
    proof (rule regime_wall_clock [OF c])
      show "x \<le> cursor \<or> t \<le> x" if x: "x \<in> set (sc_transition_slots c)" "x \<noteq> 0" for x
        using Cons.prems(1) [OF x] ahead [of x] x(2) t(3) by auto
    qed (use t in simp)
    have split: "wall_clock c cursor e = wall_clock c cursor t + wall_clock c t e"
      by (rule wall_clock_split) (use t in auto)
    have nn: "0 \<le> wall_clock c cursor t" "0 \<le> wall_clock c t e" by (rule wall_clock_nonneg [OF c])+
    have fits: "fits U64 (t - cursor)" "fits U64 ((t - cursor) * slot_duration_at c cursor)"
      "fits U64 (ms + wall_clock c cursor t)" "fits U64 ((ms + wall_clock c cursor t) + wall_clock c t e)"
      using Cons.prems t nn reg split by (auto simp: fits_def)
    have "elapsed_loop c e ts t (ms + wall_clock c cursor t) (slot_duration_at c t)
        = ms + wall_clock c cursor t + wall_clock c t e"
    proof (rule Cons.IH)
      show "x \<le> t \<or> e < x \<or> x \<in> set ts"
        if "x \<in> set (sc_transition_slots c)" "x \<noteq> 0" for x
        using Cons.prems(1) [OF that] t by auto
      show "sorted_wrt (<) (filter (\<lambda>s. s \<noteq> 0) ts)" using Cons.prems(2) t by simp
      show "0 \<le> ms + wall_clock c cursor t" using nn Cons.prems(6) by simp
    qed (use Cons.prems t fits in simp_all)
    then show ?thesis using False fits reg split by (simp add: saturating_exact)
  qed
qed

lemma elapsed_eq:
  assumes "clock_wf c" "has_transition_history c" "0 \<le> s" "fits U64 e" "fits U64 (wall_clock c s e)"
  shows "elapsed c s e = wall_clock c s e"
proof (cases "e \<le> s")
  case True
  then show ?thesis by (simp add: elapsed_def)
next
  case False
  then have "elapsed_loop c e (sc_transition_slots c) s 0 (slot_duration_at c s) = 0 + wall_clock c s e"
    by (intro elapsed_loop_eq) (use assms in \<open>auto simp: clock_wf_def\<close>)
  then show ?thesis using assms False by (simp add: elapsed_def)
qed

section \<open>The first slot after a duration\<close>

lemma to_slots_ceil_eq:
  assumes "0 < ms" "fits U64 ms" "1 \<le> d"
  shows "to_slots_ceil ms d = ceil_div ms d" "1 \<le> ceil_div ms d" "ceil_div ms d \<le> ms"
    "ms \<le> ceil_div ms d * d" "(ceil_div ms d - 1) * d < ms"
proof -
  have d: "0 < d" "max d 1 = d" using assms by auto
  have "ms \<le> ms * d" using assms by (simp add: mult_le_cancel_left1)
  then show le: "ceil_div ms d \<le> ms" using ceil_div_le_iff [OF d(1), of ms ms] by simp
  show ge: "1 \<le> ceil_div ms d" using less_ceil_div_iff [OF d(1), of 0 ms] assms(1) by simp
  show "ms \<le> ceil_div ms d * d" using ceil_div_le_iff [OF d(1), of ms "ceil_div ms d"] by simp
  show "(ceil_div ms d - 1) * d < ms" using less_ceil_div_iff [OF d(1), of "ceil_div ms d - 1" ms] by simp
  have "fits U64 (ceil_div ms d)" using le ge assms(2) by (auto simp: fits_def)
  then show "to_slots_ceil ms d = ceil_div ms d"
    using assms d by (simp add: to_slots_ceil_def safe_div_ceil_nonneg)
qed

definition first_after :: "slot_clock \<Rightarrow> int \<Rightarrow> int \<Rightarrow> int \<Rightarrow> bool" where
  "first_after c s ms r \<longleftrightarrow> s < r \<and> ms \<le> wall_clock c s r \<and> wall_clock c s (r - 1) < ms"

text \<open>Inside a regime the division gives the slot.\<close>

lemma first_after_regime:
  assumes c: "has_transition_history c" and ms: "0 < ms" "fits U64 ms" "0 \<le> cursor" "fits U64 (cursor + ms)"
    and seen: "\<And>x. x \<in> set (sc_transition_slots c) \<Longrightarrow> x \<noteq> 0 \<Longrightarrow>
      x \<le> cursor \<or> cursor + ceil_div ms (slot_duration_at c cursor) \<le> x"
  shows "first_after c cursor ms
    (saturating_add U64 cursor (to_slots_ceil ms (slot_duration_at c cursor)))"
proof -
  let ?d = "slot_duration_at c cursor"
  note b = slot_duration_at_bounds [OF c, of cursor]
  note q = to_slots_ceil_eq [OF ms(1,2), of ?d]
  have q': "to_slots_ceil ms ?d = ceil_div ms ?d" "1 \<le> ceil_div ms ?d" "ceil_div ms ?d \<le> ms"
    "ms \<le> ceil_div ms ?d * ?d" "(ceil_div ms ?d - 1) * ?d < ms" using q b by auto
  have r: "saturating_add U64 cursor (to_slots_ceil ms ?d) = cursor + ceil_div ms ?d"
    unfolding q'(1) by (rule saturating_exact) (use ms q' in \<open>auto simp: fits_def\<close>)
  have w: "wall_clock c cursor t = (t - cursor) * ?d" if "cursor \<le> t" "t \<le> cursor + ceil_div ms ?d" for t
  proof (rule regime_wall_clock [OF c that(1)])
    show "x \<le> cursor \<or> t \<le> x" if "x \<in> set (sc_transition_slots c)" "x \<noteq> 0" for x
      using seen [OF that] \<open>t \<le> cursor + ceil_div ms ?d\<close> by linarith
  qed
  show ?thesis unfolding r first_after_def using q' w [of "cursor + ceil_div ms ?d"]
      w [of "cursor + ceil_div ms ?d - 1"] by simp
qed

lemma after_duration_loop_first:
  assumes c: "has_transition_history c"
    and seen: "\<And>x. x \<in> set (sc_transition_slots c) \<Longrightarrow> x \<noteq> 0 \<Longrightarrow> x \<le> cursor \<or> x \<in> set ts"
    and sorted: "sorted_wrt (<) (filter (\<lambda>s. s \<noteq> 0) ts)" and ts: "list_all (fits U64) ts"
    and ms: "0 < ms" "fits U64 ms" "0 \<le> cursor" "fits U64 (cursor + ms)"
  shows "first_after c cursor ms (after_duration_loop c ts cursor ms (slot_duration_at c cursor))"
  using seen sorted ts ms
proof (induction ts arbitrary: cursor ms)
  case Nil
  then show ?case using first_after_regime [OF c Nil(4-7)] by auto
next
  case (Cons t ts)
  let ?d = "slot_duration_at c cursor"
  note d = slot_duration_at_bounds [OF c, of cursor]
  have sorted': "sorted_wrt (<) (filter (\<lambda>s. s \<noteq> 0) ts)" using Cons.prems(2) by (simp split: if_split_asm)
  show ?case
  proof (cases "t = 0 \<or> t \<le> cursor")
    case True
    have "first_after c cursor ms (after_duration_loop c ts cursor ms ?d)"
    proof (rule Cons.IH [OF _ sorted'])
      show "x \<le> cursor \<or> x \<in> set ts" if "x \<in> set (sc_transition_slots c)" "x \<noteq> 0" for x
        using Cons.prems(1) [OF that] True that by auto
    qed (use Cons.prems in simp_all)
    then show ?thesis using True by auto
  next
    case False
    then have t: "t \<noteq> 0" "cursor < t" by auto
    have ahead: "x \<le> cursor \<or> t \<le> x" if x: "x \<in> set (sc_transition_slots c)" "x \<noteq> 0" for x
      using Cons.prems(1) [OF x] Cons.prems(2) t x(2) by auto
    have reg: "wall_clock c cursor t = (t - cursor) * ?d"
      by (rule regime_wall_clock [OF c _ ahead]) (use t in auto)
    have sub: "saturating_sub U64 t cursor = t - cursor"
      by (rule saturating_exact) (use Cons.prems t in \<open>auto simp: fits_def\<close>)
    show ?thesis
    proof (cases "ms \<le> (t - cursor) * ?d")
      case True
      then have "ms \<le> saturating_mul U64 (t - cursor) ?d"
        using Cons.prems(4,5) by (auto simp: saturating_mul_def fits_def)
      moreover have "ceil_div ms ?d \<le> t - cursor" using True d ceil_div_le_iff [of ?d ms "t - cursor"] by simp
      then have "first_after c cursor ms (saturating_add U64 cursor (to_slots_ceil ms ?d))"
        by (intro first_after_regime [OF c Cons.prems(4-7)]) (use ahead in force)
      ultimately show ?thesis using t sub by (simp add: Let_def)
    next
      case False
      have sp: "0 \<le> (t - cursor) * ?d" "t - cursor \<le> (t - cursor) * ?d"
        using t d by (simp_all add: mult_le_cancel_left1)
      have mul: "saturating_mul U64 (t - cursor) ?d = (t - cursor) * ?d"
        "saturating_sub U64 ms ((t - cursor) * ?d) = ms - (t - cursor) * ?d"
        by (rule saturating_exact; use False sp Cons.prems(4,5) in \<open>simp add: fits_def\<close>)+
      let ?ms = "ms - (t - cursor) * ?d"
      have "first_after c t ?ms (after_duration_loop c ts t ?ms (slot_duration_at c t))"
      proof (rule Cons.IH [OF _ sorted'])
        show "x \<le> t \<or> x \<in> set ts" if "x \<in> set (sc_transition_slots c)" "x \<noteq> 0" for x
          using Cons.prems(1) [OF that] t by auto
        show "fits U64 ?ms" "fits U64 (t + ?ms)" "0 \<le> t" "0 < ?ms"
          using False sp t Cons.prems(4-7) unfolding fits_def by (simp_all only: ty_min.simps ty_max.simps) linarith+
      qed (use Cons.prems(3) in simp)
      then have f: "t < r" "?ms \<le> wall_clock c t r" "wall_clock c t (r - 1) < ?ms"
        if "r = after_duration_loop c ts t ?ms (slot_duration_at c t)" for r
        using that by (auto simp: first_after_def)
      have w: "wall_clock c cursor r = (t - cursor) * ?d + wall_clock c t r" if "t \<le> r" for r
        using wall_clock_split [of cursor t r c] t that reg by simp
      show ?thesis using t sub mul False f [OF refl] w
        by (simp add: Let_def first_after_def)
    qed
  qed
qed

lemma slot_at_or_after_duration_first:
  assumes "clock_wf c" "has_transition_history c" "0 \<le> s" "0 < ms" "fits U64 ms" "fits U64 (s + ms)"
  shows "first_after c s ms (slot_at_or_after_duration c s ms)"
  using assms after_duration_loop_first [of c s "sc_transition_slots c" ms]
  by (simp add: slot_at_or_after_duration_def clock_wf_def)

end
