(* ===== verification/Order_Math.thy ===== *)
theory Order_Math
  imports User_Data Slot_Clock
begin

text \<open>
  The order arithmetic of \<open>math/orders.rs\<close> and \<open>math/matching.rs\<close> that needs neither the AMM nor
  the margin engine, and the methods of \<open>Order\<close> in \<open>state/user.rs\<close>: rounding to steps and ticks,
  the unfilled size of an order, quote amounts and fill prices, price bands, matching.
\<close>

unbundle bit_operations_syntax

section \<open>Steps and ticks\<close>

definition standardize_base_asset_amount_with_remainder_i128 :: "int \<Rightarrow> int \<Rightarrow> (int \<times> int) result" where
  "standardize_base_asset_amount_with_remainder_i128 base_asset_amount step_size =
     and_then (ok_or (checked_rem_euclid U128 \<bar>base_asset_amount\<bar> step_size) MathError) (\<lambda>rem.
     and_then (cast I128 rem) (\<lambda>rem.
     and_then (safe_mul I128 rem (sgn base_asset_amount)) (\<lambda>remainder.
     and_then (safe_sub I128 base_asset_amount remainder) (\<lambda>standardized_base_asset_amount.
     Ok (standardized_base_asset_amount, remainder)))))"

definition standardize_base_asset_amount :: "int \<Rightarrow> int \<Rightarrow> int result" where
  "standardize_base_asset_amount base_asset_amount step_size =
     and_then (ok_or (checked_rem_euclid U64 base_asset_amount step_size) MathError) (\<lambda>remainder.
     safe_sub U64 base_asset_amount remainder)"

definition standardize_base_asset_amount_ceil :: "int \<Rightarrow> int \<Rightarrow> int result" where
  "standardize_base_asset_amount_ceil base_asset_amount step_size =
     and_then (ok_or (checked_rem_euclid U64 base_asset_amount step_size) MathError) (\<lambda>remainder.
     if remainder = 0 then Ok base_asset_amount
     else and_then (safe_add U64 base_asset_amount step_size) (\<lambda>v. safe_sub U64 v remainder))"

definition is_multiple_of_step_size :: "int \<Rightarrow> int \<Rightarrow> bool result" where
  "is_multiple_of_step_size base_asset_amount step_size =
     and_then (ok_or (checked_rem_euclid U64 base_asset_amount step_size) MathError) (\<lambda>remainder.
     Ok (remainder = 0))"

definition standardize_price :: "int \<Rightarrow> int \<Rightarrow> position_direction \<Rightarrow> int result" where
  "standardize_price price tick_size direction =
     (if price = 0 then Ok 0
      else
        and_then (ok_or (checked_rem_euclid U64 price tick_size) MathError) (\<lambda>remainder.
        if remainder = 0 then Ok price
        else case direction of
            Long \<Rightarrow> safe_sub U64 price remainder
          | Short \<Rightarrow> and_then (safe_add U64 price tick_size) (\<lambda>v. safe_sub U64 v remainder)))"

definition standardize_price_i64 :: "int \<Rightarrow> int \<Rightarrow> position_direction \<Rightarrow> int result" where
  "standardize_price_i64 price tick_size direction =
     (if price = 0 then Ok 0
      else
        and_then (ok_or (checked_rem_euclid I64 price tick_size) MathError) (\<lambda>remainder.
        if remainder = 0 then Ok price
        else case direction of
            Long \<Rightarrow> safe_sub I64 price remainder
          | Short \<Rightarrow> and_then (safe_add I64 price tick_size) (\<lambda>v. safe_sub I64 v remainder)))"

section \<open>The methods of Order\<close>

definition is_bit_flag_set :: "order \<Rightarrow> order_bit_flag \<Rightarrow> bool" where
  "is_bit_flag_set od flag \<longleftrightarrow> od_bit_flags od AND order_bit_flag_bit flag \<noteq> 0"

definition add_bit_flag :: "order_bit_flag \<Rightarrow> order \<Rightarrow> order" where
  "add_bit_flag flag od = od\<lparr>od_bit_flags := od_bit_flags od OR order_bit_flag_bit flag\<rparr>"

definition set_order_bit_flag :: "8 word \<Rightarrow> bool \<Rightarrow> order_bit_flag \<Rightarrow> 8 word" where
  "set_order_bit_flag flags v flag =
     (if v then flags OR order_bit_flag_bit flag else flags AND NOT (order_bit_flag_bit flag))"

definition seconds_til_expiry :: "order \<Rightarrow> int \<Rightarrow> int result" where
  "seconds_til_expiry od now = and_then (plain_sub I64 (od_max_ts od) now) (\<lambda>d. Ok (max d 0))"

definition has_oracle_price_offset :: "order \<Rightarrow> bool" where
  "has_oracle_price_offset od \<longleftrightarrow> od_oracle_price_offset od \<noteq> 0"

definition has_auction :: "order \<Rightarrow> bool" where
  "has_auction od \<longleftrightarrow> od_auction_duration od \<noteq> 0"

definition get_base_asset_amount_unfilled :: "order \<Rightarrow> int option \<Rightarrow> int result" where
  "get_base_asset_amount_unfilled od existing_position =
     and_then (safe_sub U64 (od_base_asset_amount od) (od_base_asset_amount_filled od))
       (\<lambda>base_asset_amount_unfilled.
     case existing_position of
       None \<Rightarrow> Ok base_asset_amount_unfilled
     | Some existing_position \<Rightarrow>
         if \<not> od_reduce_only od then Ok base_asset_amount_unfilled
         else if existing_position = 0 then Ok 0
         else case od_direction od of
             Long \<Rightarrow> if existing_position > 0 then Ok 0
               else Ok (min base_asset_amount_unfilled \<bar>existing_position\<bar>)
           | Short \<Rightarrow> if existing_position < 0 then Ok 0
               else Ok (min base_asset_amount_unfilled \<bar>existing_position\<bar>))"

definition get_standardized_base_asset_amount_unfilled :: "order \<Rightarrow> int option \<Rightarrow> int \<Rightarrow> int result" where
  "get_standardized_base_asset_amount_unfilled od existing_position step_size =
     and_then (get_base_asset_amount_unfilled od existing_position) (\<lambda>b.
     standardize_base_asset_amount b step_size)"

definition must_be_triggered :: "order \<Rightarrow> bool" where
  "must_be_triggered od \<longleftrightarrow> od_order_type od = TriggerMarket \<or> od_order_type od = TriggerLimit"

definition triggered :: "order \<Rightarrow> bool" where
  "triggered od \<longleftrightarrow>
     od_trigger_condition od = TriggeredAbove \<or> od_trigger_condition od = TriggeredBelow"

definition is_jit_maker :: "order \<Rightarrow> bool" where
  "is_jit_maker od \<longleftrightarrow> od_post_only od \<and> od_immediate_or_cancel od"

definition is_open_order_for_market :: "order \<Rightarrow> int \<Rightarrow> market_type \<Rightarrow> bool" where
  "is_open_order_for_market od market_index market_type \<longleftrightarrow>
     od_market_index od = market_index \<and> od_status od = Open \<and> od_market_type od = market_type"

definition get_spot_position_update_direction :: "order \<Rightarrow> asset_type \<Rightarrow> spot_balance_type" where
  "get_spot_position_update_direction od asset_type =
     (case (od_direction od, asset_type) of
        (Long, Base) \<Rightarrow> Deposit
      | (Long, Quote) \<Rightarrow> Borrow
      | (Short, Base) \<Rightarrow> Borrow
      | (Short, Quote) \<Rightarrow> Deposit)"

definition is_market_order :: "order \<Rightarrow> bool" where
  "is_market_order od \<longleftrightarrow>
     od_order_type od = Market \<or> od_order_type od = TriggerMarket \<or> od_order_type od = Oracle"

definition is_limit_order :: "order \<Rightarrow> bool" where
  "is_limit_order od \<longleftrightarrow> od_order_type od = Limit \<or> od_order_type od = TriggerLimit"

definition update_open_bids_and_asks :: "order \<Rightarrow> bool" where
  "update_open_bids_and_asks od \<longleftrightarrow> \<not> must_be_triggered od
     \<or> (triggered od \<and> \<not> (od_reduce_only od \<and> is_bit_flag_set od OB_NewTriggerReduceOnly))"

definition is_low_risk_for_amm :: "order \<Rightarrow> int \<Rightarrow> int \<Rightarrow> bool \<Rightarrow> bool \<Rightarrow> bool result" where
  "is_low_risk_for_amm od mm_oracle_delay clock_slot is_liquidation user_can_skip_auction_duration =
     (if od_market_type od = Spot then Ok False
      else
        and_then (cast I64 clock_slot) (\<lambda>clock_slot.
        and_then (safe_sub I64 clock_slot mm_oracle_delay) (\<lambda>clock_minus_delay.
        and_then (cast I64 (od_slot od)) (\<lambda>slot.
        let order_older_than_oracle_delay =
          (if user_can_skip_auction_duration then clock_minus_delay \<ge> slot else clock_minus_delay > slot)
        in Ok (order_older_than_oracle_delay \<or> is_liquidation \<or> is_bit_flag_set od OB_SafeTriggerOrder)))))"

section \<open>Quote amounts and fill prices\<close>

definition calculate_quote_asset_amount_for_maker_order ::
  "int \<Rightarrow> int \<Rightarrow> int \<Rightarrow> position_direction \<Rightarrow> int result" where
  "calculate_quote_asset_amount_for_maker_order base_asset_amount fill_price base_decimals
     position_direction =
     and_then (plain_pow U128 10 base_decimals) (\<lambda>precision_decrease.
     and_then (cast U128 fill_price) (\<lambda>fill_price.
     and_then (cast U128 base_asset_amount) (\<lambda>base_asset_amount.
     and_then (safe_mul U128 fill_price base_asset_amount) (\<lambda>v.
     and_then
       (case position_direction of
          Long \<Rightarrow> safe_div U128 v precision_decrease
        | Short \<Rightarrow> safe_div_ceil U128 v precision_decrease) (\<lambda>v.
     cast U64 v)))))"

definition calculate_fill_price :: "int \<Rightarrow> int \<Rightarrow> int \<Rightarrow> int result" where
  "calculate_fill_price quote_asset_amount base_asset_amount base_precision =
     and_then (cast U128 quote_asset_amount) (\<lambda>q.
     and_then (safe_mul U128 q base_precision) (\<lambda>v.
     and_then (cast U128 base_asset_amount) (\<lambda>b.
     and_then (safe_div U128 v b) (\<lambda>v.
     cast U64 v))))"

definition validate_fill_price ::
  "int \<Rightarrow> int \<Rightarrow> int \<Rightarrow> position_direction \<Rightarrow> int \<Rightarrow> bool \<Rightarrow> unit result" where
  "validate_fill_price quote_asset_amount base_asset_amount base_precision order_direction
     order_limit_price is_taker =
     (let rounded_quote_asset_amount =
        (if is_taker then
           (case order_direction of
              Long \<Rightarrow> saturating_sub U64 quote_asset_amount 1
            | Short \<Rightarrow> saturating_add U64 quote_asset_amount 1)
         else quote_asset_amount)
      in and_then (calculate_fill_price rounded_quote_asset_amount base_asset_amount base_precision)
        (\<lambda>fill_price.
      if order_direction = Long \<and> fill_price > order_limit_price then Err InvalidOrderFillPrice
      else if order_direction = Short \<and> fill_price < order_limit_price then Err InvalidOrderFillPrice
      else Ok ()))"

record position_delta =
  pd_quote_asset_amount :: int
  pd_base_asset_amount :: int

definition get_position_delta_for_fill ::
  "int \<Rightarrow> int \<Rightarrow> position_direction \<Rightarrow> position_delta result" where
  "get_position_delta_for_fill base_asset_amount quote_asset_amount direction =
     and_then (cast I64 quote_asset_amount) (\<lambda>q.
     and_then (case direction of Long \<Rightarrow> plain_neg I64 q | Short \<Rightarrow> Ok q) (\<lambda>q.
     and_then (cast I64 base_asset_amount) (\<lambda>b.
     and_then (case direction of Long \<Rightarrow> Ok b | Short \<Rightarrow> plain_neg I64 b) (\<lambda>b.
     Ok \<lparr> pd_quote_asset_amount = q, pd_base_asset_amount = b \<rparr>))))"

section \<open>Expiry, triggers, risk\<close>

definition should_expire_order :: "user \<Rightarrow> nat \<Rightarrow> int \<Rightarrow> bool result" where
  "should_expire_order u user_order_index now =
     with_nth user_order_index (us_orders u) (\<lambda>od.
     if od_status od \<noteq> Open \<or> od_max_ts od = 0 \<or> must_be_triggered od then Ok False
     else Ok (now > od_max_ts od))"

definition should_cancel_reduce_only_order :: "order \<Rightarrow> int \<Rightarrow> int \<Rightarrow> bool result" where
  "should_cancel_reduce_only_order od existing_base_asset_amount step_size =
     (if od_status od = Open \<and> od_reduce_only od then
        and_then (get_base_asset_amount_unfilled od (Some existing_base_asset_amount)) (\<lambda>b.
        Ok (b < step_size))
      else Ok False)"

definition order_satisfies_trigger_condition :: "order \<Rightarrow> int \<Rightarrow> bool result" where
  "order_satisfies_trigger_condition od oracle_price =
     (case od_trigger_condition od of
        Above \<Rightarrow> Ok (oracle_price > od_trigger_price od)
      | Below \<Rightarrow> Ok (oracle_price < od_trigger_price od)
      | _ \<Rightarrow> Err InvalidTriggerOrderCondition)"

definition is_new_order_risk_increasing :: "order \<Rightarrow> int \<Rightarrow> int \<Rightarrow> int \<Rightarrow> bool result" where
  "is_new_order_risk_increasing od position_base_asset_amount position_bids position_asks =
     (if od_reduce_only od then Ok False
      else case od_direction od of
          Long \<Rightarrow>
            if position_base_asset_amount \<ge> 0 then Ok True
            else
              and_then (cast I64 (od_base_asset_amount od)) (\<lambda>b.
              and_then (safe_add I64 position_bids b) (\<lambda>bids.
              and_then (plain_abs I64 position_base_asset_amount) (\<lambda>size.
              Ok (bids > size))))
        | Short \<Rightarrow>
            if position_base_asset_amount \<le> 0 then Ok True
            else
              and_then (cast I64 (od_base_asset_amount od)) (\<lambda>b.
              and_then (safe_sub I64 position_asks b) (\<lambda>asks.
              and_then (plain_abs I64 asks) (\<lambda>asks.
              Ok (asks > position_base_asset_amount)))))"

definition is_order_position_reducing :: "position_direction \<Rightarrow> int \<Rightarrow> int \<Rightarrow> bool result" where
  "is_order_position_reducing order_direction order_base_asset_amount position_base_asset_amount =
     Ok (case order_direction of
           Long \<Rightarrow> position_base_asset_amount < 0 \<and> order_base_asset_amount \<le> \<bar>position_base_asset_amount\<bar>
         | Short \<Rightarrow> position_base_asset_amount > 0 \<and> order_base_asset_amount \<le> \<bar>position_base_asset_amount\<bar>)"

section \<open>Price bands\<close>

definition limit_price_breaches_maker_oracle_price_bands ::
  "int \<Rightarrow> position_direction \<Rightarrow> int \<Rightarrow> int \<Rightarrow> bool result" where
  "limit_price_breaches_maker_oracle_price_bands order_limit_price order_direction oracle_price
     margin_ratio_initial =
     (let oracle_price = \<bar>oracle_price\<bar> in
      if (case order_direction of Long \<Rightarrow> order_limit_price \<le> oracle_price
            | Short \<Rightarrow> order_limit_price \<ge> oracle_price) then Ok False
      else
        and_then
          (case order_direction of
             Long \<Rightarrow> safe_sub U64 order_limit_price oracle_price
           | Short \<Rightarrow> safe_sub U64 oracle_price order_limit_price) (\<lambda>diff.
        and_then (cast U128 diff) (\<lambda>diff.
        and_then (safe_mul U128 diff MARGIN_PRECISION) (\<lambda>v.
        and_then (cast U128 oracle_price) (\<lambda>oracle_price.
        and_then (safe_div U128 v oracle_price) (\<lambda>percent_diff.
        and_then (cast U128 margin_ratio_initial) (\<lambda>max_percent_diff.
        Ok (percent_diff \<ge> max_percent_diff))))))))"

definition percent_diff_abs :: "int \<Rightarrow> int \<Rightarrow> int \<Rightarrow> int result" where
  "percent_diff_abs fill_price reference precision =
     and_then (cast I64 fill_price) (\<lambda>f.
     and_then (safe_sub I64 f reference) (\<lambda>d.
     and_then (cast I128 d) (\<lambda>d.
     and_then (safe_mul I128 d precision) (\<lambda>v.
     and_then (cast I128 reference) (\<lambda>r.
     and_then (safe_div I128 v r) (\<lambda>q.
     Ok \<bar>q\<bar>))))))"

definition validate_fill_price_within_price_bands ::
  "int \<Rightarrow> int \<Rightarrow> int \<Rightarrow> int \<Rightarrow> int \<Rightarrow> position_direction option \<Rightarrow> unit result" where
  "validate_fill_price_within_price_bands fill_price oracle_price oracle_twap_5min margin_ratio_initial
     oracle_twap_5min_percent_divergence direction =
     and_then
       (case direction of
          None \<Rightarrow> Ok False
        | Some direction \<Rightarrow>
            and_then (cast U64 oracle_price) (\<lambda>oracle.
            if (if direction = Long then fill_price < oracle else fill_price > oracle) then
              and_then (cast U64 oracle_twap_5min) (\<lambda>twap.
              Ok (if direction = Long then fill_price < twap else fill_price > twap))
            else Ok False)) (\<lambda>favourable.
     if favourable then Ok ()
     else
       and_then (cast U128 margin_ratio_initial) (\<lambda>max_oracle_diff.
       and_then (cast U128 oracle_twap_5min_percent_divergence) (\<lambda>max_oracle_twap_diff.
       and_then (percent_diff_abs fill_price oracle_price MARGIN_PRECISION) (\<lambda>percent_diff.
       and_then (percent_diff_abs fill_price oracle_twap_5min PERCENTAGE_PRECISION) (\<lambda>percent_diff_twap.
       and_then (validate (percent_diff < max_oracle_diff) PriceBandsBreached) (\<lambda>_.
       and_then (validate (percent_diff_twap < max_oracle_twap_diff) PriceBandsBreached) (\<lambda>_.
       Ok ())))))))"

definition is_oracle_too_divergent_with_twap_5min :: "int \<Rightarrow> int \<Rightarrow> int \<Rightarrow> bool result" where
  "is_oracle_too_divergent_with_twap_5min oracle_price oracle_twap_5min max_divergence =
     and_then (safe_sub I64 oracle_price oracle_twap_5min) (\<lambda>d.
     and_then (plain_abs I64 d) (\<lambda>d.
     and_then (cast I64 PERCENTAGE_PRECISION) (\<lambda>p.
     and_then (safe_mul I64 d p) (\<lambda>v.
     and_then (plain_abs I64 oracle_twap_5min) (\<lambda>twap.
     and_then (safe_div I64 v twap) (\<lambda>percent_diff.
     Ok (percent_diff \<ge> max_divergence)))))))"

section \<open>Matching\<close>

definition are_orders_same_market_but_different_sides :: "order \<Rightarrow> order \<Rightarrow> bool" where
  "are_orders_same_market_but_different_sides maker_order taker_order \<longleftrightarrow>
     od_market_index maker_order = od_market_index taker_order
     \<and> od_market_type maker_order = od_market_type taker_order
     \<and> od_direction maker_order \<noteq> od_direction taker_order"

definition do_orders_cross :: "position_direction \<Rightarrow> int \<Rightarrow> int \<Rightarrow> bool" where
  "do_orders_cross maker_direction maker_price taker_price =
     (case maker_direction of Long \<Rightarrow> taker_price \<le> maker_price | Short \<Rightarrow> taker_price \<ge> maker_price)"

definition calculate_fill_for_matched_orders ::
  "int \<Rightarrow> int \<Rightarrow> int \<Rightarrow> int \<Rightarrow> position_direction \<Rightarrow> (int \<times> int) result" where
  "calculate_fill_for_matched_orders maker_base_asset_amount maker_price taker_base_asset_amount
     base_decimals maker_direction =
     (let base_asset_amount = min maker_base_asset_amount taker_base_asset_amount in
      and_then (calculate_quote_asset_amount_for_maker_order base_asset_amount maker_price base_decimals
        maker_direction) (\<lambda>quote_asset_amount.
      Ok (base_asset_amount, quote_asset_amount)))"

definition calculate_filler_multiplier_for_matched_orders ::
  "int \<Rightarrow> position_direction \<Rightarrow> int \<Rightarrow> int result" where
  "calculate_filler_multiplier_for_matched_orders maker_price maker_direction oracle_price =
     and_then (cast I64 maker_price) (\<lambda>maker_price.
     and_then (safe_sub I64 oracle_price maker_price) (\<lambda>d.
     and_then (cast I128 d) (\<lambda>d.
     and_then (safe_mul I128 d BID_ASK_SPREAD_PRECISION) (\<lambda>v.
     and_then (cast I128 oracle_price) (\<lambda>oracle.
     and_then (safe_div I128 v oracle) (\<lambda>v.
     and_then (cast I64 v) (\<lambda>price_pct_diff.
     and_then
       (case maker_direction of
          Long \<Rightarrow> and_then (plain_neg I64 price_pct_diff) (\<lambda>n. safe_add I64 n (TEN_BPS * 2))
        | Short \<Rightarrow> safe_add I64 price_pct_diff (TEN_BPS * 2)) (\<lambda>multiplier.
     cast U64 (max TEN_BPS (min (TEN_BPS * 100) multiplier))))))))))"

section \<open>The posted slot and the levels of a book\<close>

definition slots_since_order_posted :: "int \<Rightarrow> int \<Rightarrow> int" where
  "slots_since_order_posted slot posted_slot_tail = (slot mod 256 - posted_slot_tail) mod 256"

definition get_posted_slot_from_clock_slot :: "int \<Rightarrow> int" where
  "get_posted_slot_from_clock_slot slot = slot mod 256"

record level =
  lv_price :: int
  lv_base_asset_amount :: int

definition filter_bids_asks_by_oracle_divergence ::
  "level list \<Rightarrow> level list \<Rightarrow> int \<Rightarrow> int \<Rightarrow> (level list \<times> level list) result" where
  "filter_bids_asks_by_oracle_divergence bids asks oracle_price max_divergence_percent =
     (let oracle_abs = max \<bar>oracle_price\<bar> 1 in
      and_then (cast U128 oracle_abs) (\<lambda>oracle.
      and_then (plain_sub U64 100 max_divergence_percent) (\<lambda>lo.
      and_then (cast U128 (min lo 100)) (\<lambda>lo.
      and_then (safe_mul U128 oracle lo) (\<lambda>v.
      and_then (safe_div U128 v 100) (\<lambda>v.
      and_then (cast U64 v) (\<lambda>min_price.
      and_then (plain_add U64 100 max_divergence_percent) (\<lambda>hi.
      and_then (cast U128 hi) (\<lambda>hi.
      and_then (safe_mul U128 oracle hi) (\<lambda>v.
      and_then (safe_div U128 v 100) (\<lambda>v.
      and_then (cast U64 v) (\<lambda>max_price.
      let in_band = (\<lambda>l. lv_price l \<ge> min_price \<and> lv_price l \<le> max_price) in
      Ok (filter in_band bids, filter in_band asks)))))))))))))"

text \<open>The \<open>for\<close> loop breaks when the depth is used up.\<close>

fun estimate_side_loop :: "level list \<Rightarrow> int \<Rightarrow> int \<Rightarrow> int \<Rightarrow> (int \<times> int \<times> int) result" where
  "estimate_side_loop [] depth_remaining cumulative_base cumulative_quote =
     Ok (depth_remaining, cumulative_base, cumulative_quote)"
| "estimate_side_loop (l # rest) depth_remaining cumulative_base cumulative_quote =
     (let base_delta = min (lv_base_asset_amount l) depth_remaining in
      and_then (cast U128 (lv_price l)) (\<lambda>price.
      and_then (cast U128 base_delta) (\<lambda>b.
      and_then (safe_mul U128 price b) (\<lambda>quote_delta.
      and_then (safe_add U64 cumulative_base base_delta) (\<lambda>cumulative_base.
      and_then (safe_sub U64 depth_remaining base_delta) (\<lambda>depth_remaining.
      and_then (safe_add U128 cumulative_quote quote_delta) (\<lambda>cumulative_quote.
      if depth_remaining = 0 then Ok (depth_remaining, cumulative_base, cumulative_quote)
      else estimate_side_loop rest depth_remaining cumulative_base cumulative_quote)))))))"

definition estimate_price_from_side :: "level list \<Rightarrow> int \<Rightarrow> int option result" where
  "estimate_price_from_side levels depth =
     and_then (estimate_side_loop levels depth 0 0) (\<lambda>(depth_remaining, cumulative_base, cumulative_quote).
     if depth_remaining = 0 then
       and_then (cast U128 cumulative_base) (\<lambda>b.
       and_then (safe_div U128 cumulative_quote b) (\<lambda>v.
       and_then (cast U64 v) (\<lambda>price. Ok (Some price))))
     else Ok None)"

definition calculate_existing_position_fields_for_order_action ::
  "int \<Rightarrow> (int \<times> int) option \<Rightarrow> (int option \<times> int option) result" where
  "calculate_existing_position_fields_for_order_action base_asset_amount_filled existing_position_params =
     (case existing_position_params of
        None \<Rightarrow> Ok (None, None)
      | Some (quote_entry_amount, base_asset_amount) \<Rightarrow>
          if base_asset_amount = 0 then Ok (None, None)
          else if base_asset_amount_filled > base_asset_amount
          then Ok (Some quote_entry_amount, Some base_asset_amount)
          else
            and_then (cast U128 quote_entry_amount) (\<lambda>q.
            and_then (cast U128 base_asset_amount_filled) (\<lambda>f.
            and_then (safe_mul U128 q f) (\<lambda>v.
            and_then (cast U128 base_asset_amount) (\<lambda>b.
            and_then (safe_div U128 v b) (\<lambda>v.
            and_then (cast U64 v) (\<lambda>v.
            Ok (Some v, None))))))))"

section \<open>Rounding to steps and ticks\<close>

lemma standardize_base_asset_amount_eq:
  assumes "fits U64 b" "0 < step"
  shows "standardize_base_asset_amount b step = Ok (b - b mod step)"
proof -
  have b: "0 \<le> b" using assms(1) by auto
  have "0 \<le> b mod step" "b mod step \<le> b" using assms(2) b by (simp_all add: zmod_le_nonneg_dividend)
  then have "fits U64 (b - b mod step)" using assms(1) by (auto simp: fits_def)
  moreover have "checked_rem_euclid U64 b step = Some (b mod step)"
    using assms b by (simp add: checked_rem_euclid_iff)
  ultimately show ?thesis
    by (simp add: standardize_base_asset_amount_def ok_or_def safe_sub_Ok_iff)
qed

lemma standardize_base_asset_amount_zero_step:
  "standardize_base_asset_amount b 0 = Err MathError"
  by (simp add: standardize_base_asset_amount_def checked_rem_euclid_def ok_or_def)

text \<open>The rounding directions: a bid never pays more, an ask never asks less, both within a tick.\<close>

definition tick_rounded :: "position_direction \<Rightarrow> int \<Rightarrow> int \<Rightarrow> int \<Rightarrow> bool" where
  "tick_rounded direction tick price r \<longleftrightarrow> r mod tick = 0
     \<and> (case direction of Long \<Rightarrow> r \<le> price \<and> price < r + tick | Short \<Rightarrow> price \<le> r \<and> r < price + tick)"

lemma up_to_multiple:
  fixes p k :: int
  assumes "0 < k"
  shows "(p + k - p mod k) mod k = 0" "(p - p mod k) mod k = 0"
proof -
  have "p + k - p mod k = (p div k + 1) * k" using div_mult_mod_eq [of p k] by (simp add: algebra_simps)
  then show "(p + k - p mod k) mod k = 0" by simp
  show "(p - p mod k) mod k = 0" by (simp add: minus_mod_eq_div_mult)
qed

lemma standardize_price_Ok:
  assumes "standardize_price price tick direction = Ok r" "fits U64 price" "0 < tick"
  shows "tick_rounded direction tick price r"
proof (cases "price = 0")
  case True
  then show ?thesis using assms by (auto simp: standardize_price_def tick_rounded_def split: position_direction.split)
next
  case False
  have p: "0 \<le> price" using assms(2) by auto
  have rem: "ok_or (checked_rem_euclid U64 price tick) MathError = Ok (price mod tick)"
    using assms p by (simp add: ok_iff)
  have m: "0 \<le> price mod tick" "price mod tick < tick" using assms(3) by simp_all
  show ?thesis
  proof (cases "price mod tick = 0")
    case True
    then show ?thesis using assms False rem m
      by (auto simp: standardize_price_def tick_rounded_def split: position_direction.split)
  next
    case nz: False
    then show ?thesis using assms(1) False rem m up_to_multiple [OF assms(3), of price]
      by (cases direction) (auto simp: standardize_price_def tick_rounded_def ok_iff)
  qed
qed

lemma standardize_price_Ok_iff:
  assumes "fits U64 price" "0 < tick" "fits U64 (price + tick)"
  shows "\<exists>r. standardize_price price tick direction = Ok r"
proof -
  have p: "0 \<le> price" using assms(1) by auto
  have rem: "ok_or (checked_rem_euclid U64 price tick) MathError = Ok (price mod tick)"
    using assms p by (simp add: ok_iff)
  have m: "0 \<le> price mod tick" "price mod tick < tick" "price mod tick \<le> price"
    using assms(2) p by (simp_all add: zmod_le_nonneg_dividend)
  have "fits U64 (price - price mod tick)" "fits U64 (price + tick - price mod tick)"
    using m p assms by (simp_all only: fits_def ty_min.simps ty_max.simps) linarith+
  then show ?thesis using rem assms(3)
    by (cases direction) (auto simp: standardize_price_def ok_iff)
qed

text \<open>Rounding is monotone, so it keeps the order of prices.\<close>

lemma standardize_price_mono:
  assumes "standardize_price p tick d = Ok r" "standardize_price q tick d = Ok s" "p \<le> q"
    and "fits U64 p" "fits U64 q" "0 < tick"
  shows "r \<le> s"
proof -
  have r: "tick_rounded d tick p r" and s: "tick_rounded d tick q s"
    using standardize_price_Ok assms by blast+
  obtain i j where ij: "r = tick * i" "s = tick * j"
    using r s by (auto simp: tick_rounded_def dvd_def mod_eq_0_iff_dvd)
  have "r < s + tick" using r s assms(3) by (cases d) (auto simp: tick_rounded_def)
  then have "tick * i < tick * (j + 1)" using ij by (simp add: algebra_simps)
  then have "i \<le> j" using assms(6) by (simp add: mult_less_cancel_left)
  then show ?thesis using ij assms(6) by simp
qed

section \<open>Reduce-only orders\<close>

lemma reduce_only_unfilled:
  assumes "get_base_asset_amount_unfilled od (Some existing) = Ok b" "od_reduce_only od"
    and "0 \<le> od_base_asset_amount_filled od" "fits U64 (od_base_asset_amount od)"
  shows "0 \<le> b \<and> (b = 0 \<or> b \<le> \<bar>existing\<bar> \<and> od_direction od = (if existing < 0 then Long else Short))"
  using assms by (auto simp: get_base_asset_amount_unfilled_def ok_iff
      split: if_split_asm position_direction.split_asm)

section \<open>A matched fill is a valid fill for both sides\<close>

lemma maker_quote_bounds:
  assumes "calculate_quote_asset_amount_for_maker_order b p dec d = Ok q" "0 \<le> b" "0 \<le> p"
  defines "P \<equiv> 10 ^ nat dec"
  shows "fits U64 q"
    and "d = Long \<Longrightarrow> q * P \<le> p * b \<and> p * b < (q + 1) * P"
    and "d = Short \<Longrightarrow> p * b \<le> q * P \<and> (q - 1) * P < p * b"
proof -
  have P: "0 < P" by (simp add: P_def)
  have pb: "0 \<le> p * b" using assms by simp
  have "(case d of Long \<Rightarrow> q = p * b div P | Short \<Rightarrow> q = ceil_div (p * b) P) \<and> fits U64 q"
    using assms(1) pb P unfolding calculate_quote_asset_amount_for_maker_order_def P_def
    by (cases d) (auto simp: ok_iff safe_div_ceil_Ok_iff)
  moreover have "q * P \<le> p * b \<and> p * b < (q + 1) * P" if "q = p * b div P"
    using that P div_mul_le [of P "p * b"] less_div_mul [of P "p * b"] by (simp add: algebra_simps)
  moreover have "p * b \<le> q * P \<and> (q - 1) * P < p * b" if "q = ceil_div (p * b) P"
    using that P ceil_div_le_iff [of P "p * b" q] less_ceil_div_iff [of P "q - 1" "p * b"] by simp
  ultimately show "fits U64 q" "d = Long \<Longrightarrow> q * P \<le> p * b \<and> p * b < (q + 1) * P"
    "d = Short \<Longrightarrow> p * b \<le> q * P \<and> (q - 1) * P < p * b" by auto
qed

lemma calculate_fill_price_eq:
  assumes "0 \<le> q" "0 < b" "0 \<le> P" "fits U128 q" "fits U128 (q * P)" "fits U128 b" "fits U64 (q * P div b)"
  shows "calculate_fill_price q b P = Ok (q * P div b)"
proof -
  have "fits U128 (q * P div b)" using assms(7) by (auto simp: fits_def)
  then show ?thesis using assms by (simp add: calculate_fill_price_def ok_iff)
qed

lemma div_between:
  fixes x b lo hi :: int
  assumes "0 < b"
  shows "lo * b \<le> x \<Longrightarrow> lo \<le> x div b" "x < (hi + 1) * b \<Longrightarrow> x div b \<le> hi"
  using le_div_iff_mul [OF assms, of lo x] div_less_iff_mul [OF assms, of x "hi + 1"] by auto

lemma product_fits_U128: "fits U64 a \<Longrightarrow> fits U64 b \<Longrightarrow> 0 \<le> x \<Longrightarrow> x \<le> a * b + ty_max U64 \<Longrightarrow> fits U128 x"
proof -
  assume a: "fits U64 a" "fits U64 b" and x: "0 \<le> x" "x \<le> a * b + ty_max U64"
  have "a * b \<le> ty_max U64 * ty_max U64" using a by (intro mult_mono) (auto simp: fits_def)
  then show ?thesis using x by (simp add: fits_def)
qed

text \<open>
  The fill price a side is validated with, \<open>r * P div b\<close> for its rounded quote \<open>r\<close>, lies within
  \<open>[p, p + P]\<close> or below \<open>p\<close> when \<open>r * P\<close> lies on that side of \<open>p * b\<close>.
\<close>

lemma fill_price_side:
  assumes b: "0 < b" "fits U64 b" and p: "fits U64 p" "0 \<le> P" "fits U64 (p + P)" and r: "fits U64 r"
  shows "r * P \<le> p * b \<Longrightarrow> \<exists>f. calculate_fill_price r b P = Ok f \<and> f \<le> p"
    and "p * b \<le> r * P \<Longrightarrow> r * P \<le> p * b + P \<Longrightarrow> \<exists>f. calculate_fill_price r b P = Ok f \<and> p \<le> f"
proof -
  have nn: "0 \<le> r" "0 \<le> p" "0 \<le> r * P" using r p by auto
  have P: "P \<le> ty_max U64" using p nn by (auto simp: fits_def)
  have fit: "fits U128 r" "fits U128 b" using r b by (auto simp: fits_def)
  show "\<exists>f. calculate_fill_price r b P = Ok f \<and> f \<le> p" if le: "r * P \<le> p * b"
  proof -
    have "r * P < (p + 1) * b" using le b by (simp add: algebra_simps)
    then have f: "r * P div b \<le> p" by (rule div_between(2) [OF b(1)])
    have "0 \<le> r * P div b" using nn b by (simp add: pos_imp_zdiv_nonneg_iff)
    then have "fits U64 (r * P div b)" using f p(1) by (auto simp: fits_def)
    moreover have "fits U128 (r * P)" by (rule product_fits_U128 [OF p(1) b(2)]) (use nn le in auto)
    ultimately show ?thesis using calculate_fill_price_eq [of r b P] nn b p fit f by auto
  qed
  show "\<exists>f. calculate_fill_price r b P = Ok f \<and> p \<le> f" if ge: "p * b \<le> r * P" "r * P \<le> p * b + P"
  proof -
    have f: "p \<le> r * P div b" by (rule div_between(1) [OF b(1) ge(1)])
    have "P \<le> P * b" using b p by (simp add: mult_le_cancel_left1)
    then have "r * P < (p + P + 1) * b" using ge b by (simp add: algebra_simps)
    then have g: "r * P div b \<le> p + P" by (rule div_between(2) [OF b(1)])
    then have "fits U64 (r * P div b)" using f nn p(3) by (auto simp: fits_def)
    moreover have "fits U128 (r * P)" by (rule product_fits_U128 [OF p(1) b(2)]) (use nn ge P in auto)
    ultimately show ?thesis using calculate_fill_price_eq [of r b P] nn b p fit f by auto
  qed
qed

lemma matched_fill_valid:
  assumes calc: "calculate_fill_for_matched_orders mb p tb dec d = Ok (b, q)"
    and sizes: "0 < mb" "0 < tb" "fits U64 mb" "fits U64 tb"
    and p: "fits U64 p" "fits U64 (p + 10 ^ nat dec)" and q: "q < ty_max U64"
    and cross: "do_orders_cross d p tp"
  shows "validate_fill_price q b (10 ^ nat dec) d p False = Ok ()"
    and "validate_fill_price q b (10 ^ nat dec) (opposite d) tp True = Ok ()"
proof -
  let ?P = "10 ^ nat dec :: int"
  have b: "b = min mb tb" and quote: "calculate_quote_asset_amount_for_maker_order b p dec d = Ok q"
    using calc by (auto simp: calculate_fill_for_matched_orders_def Let_def ok_iff)
  have b0: "0 < b" "fits U64 b" using sizes b by (auto simp: min_def)
  have p0: "0 \<le> p" using p by auto
  note m = maker_quote_bounds [OF quote less_imp_le [OF b0(1)] p0]
  have q0: "0 \<le> q" using m(1) by auto
  note side = fill_price_side [OF b0 p(1) zero_le_power p(2)]
  have "validate_fill_price q b ?P d p False = Ok () \<and> validate_fill_price q b ?P (opposite d) tp True = Ok ()"
  proof (cases d)
    case Long
    have up: "saturating_add U64 q 1 = q + 1" "fits U64 (q + 1)"
      using q q0 by (auto simp: saturating_add_def fits_def)
    obtain f g where "calculate_fill_price q b ?P = Ok f" "f \<le> p"
      "calculate_fill_price (q + 1) b ?P = Ok g" "p \<le> g"
      using side(1) [of q] side(2) [of "q + 1"] m(1) m(2) [OF Long] up(2) by (auto simp: algebra_simps)
    then show ?thesis using Long cross up by (simp add: validate_fill_price_def do_orders_cross_def)
  next
    case Short
    note s = m(3) [OF Short]
    obtain f where f: "calculate_fill_price q b ?P = Ok f" "p \<le> f"
      using side(2) [of q] m(1) s by (auto simp: algebra_simps)
    have r: "fits U64 (saturating_sub U64 q 1)" "saturating_sub U64 q 1 * ?P \<le> p * b"
      using s q0 m(1) p0 b0 by (auto simp: saturating_sub_def fits_def max_def)
    obtain g where "calculate_fill_price (saturating_sub U64 q 1) b ?P = Ok g" "g \<le> p"
      using side(1) [OF _ r] by auto
    then show ?thesis using Short cross f by (simp add: validate_fill_price_def do_orders_cross_def)
  qed
  then show "validate_fill_price q b ?P d p False = Ok ()"
    "validate_fill_price q b ?P (opposite d) tp True = Ok ()" by simp_all
qed

section \<open>The depth price of a book side\<close>

lemma estimate_side_loop_inv:
  assumes "estimate_side_loop levels dr cb cq = Ok (dr', cb', cq')"
    and "\<And>l. l \<in> set levels \<Longrightarrow> lo \<le> lv_price l \<and> lv_price l \<le> hi \<and> 0 \<le> lv_base_asset_amount l"
    and "0 \<le> dr" "lo * cb \<le> cq" "cq \<le> hi * cb"
  shows "cb' + dr' = cb + dr \<and> 0 \<le> dr' \<and> lo * cb' \<le> cq' \<and> cq' \<le> hi * cb'"
  using assms
proof (induction levels dr cb cq rule: estimate_side_loop.induct)
  case (1 dr cb cq)
  then show ?case by simp
next
  case (2 l rest dr cb cq)
  define bd where "bd = min (lv_base_asset_amount l) dr"
  have bd: "0 \<le> bd" "bd \<le> dr" using 2(3) [of l] 2(4) by (auto simp: bd_def)
  have l: "lo * bd \<le> lv_price l * bd" "lv_price l * bd \<le> hi * bd"
    using 2(3) [of l] bd by (auto intro: mult_right_mono)
  have acc: "lo * (cb + bd) \<le> cq + lv_price l * bd" "cq + lv_price l * bd \<le> hi * (cb + bd)"
    using l 2(5,6) by (simp_all add: algebra_simps)
  have st: "if dr - bd = 0 then Ok (dr - bd, cb + bd, cq + lv_price l * bd) = Ok (dr', cb', cq')
    else estimate_side_loop rest (dr - bd) (cb + bd) (cq + lv_price l * bd) = Ok (dr', cb', cq')"
    using 2(2) by (auto simp: Let_def ok_iff bd_def [symmetric] split: if_split_asm)
  show ?case
  proof (cases "dr - bd = 0")
    case True
    then show ?thesis using st acc by auto
  next
    case False
    have "cast U128 (lv_price l) = Ok (lv_price l)" "cast U128 bd = Ok bd"
      "safe_mul U128 (lv_price l) bd = Ok (lv_price l * bd)" "safe_add U64 cb bd = Ok (cb + bd)"
      "safe_sub U64 dr bd = Ok (dr - bd)" "safe_add U128 cq (lv_price l * bd) = Ok (cq + lv_price l * bd)"
      using 2(2) by (auto simp: Let_def ok_iff bd_def [symmetric])
    from 2(1) [OF bd_def this False] show ?thesis using False st acc bd 2(3) by auto
  qed
qed

lemma estimate_price_from_side_bounds:
  assumes "estimate_price_from_side levels depth = Ok (Some price)" "0 < depth"
    and "\<And>l. l \<in> set levels \<Longrightarrow> lo \<le> lv_price l \<and> lv_price l \<le> hi \<and> 0 \<le> lv_base_asset_amount l"
    and "0 \<le> lo"
  shows "lo \<le> price \<and> price \<le> hi"
proof -
  obtain cb cq where loop: "estimate_side_loop levels depth 0 0 = Ok (0, cb, cq)"
    and price: "cb \<noteq> 0" "price = cq sdiv cb"
    using assms(1) by (auto simp: estimate_price_from_side_def ok_iff split: prod.split_asm if_split_asm)
  have i: "cb = depth" "lo * cb \<le> cq" "cq \<le> hi * cb"
    using estimate_side_loop_inv [OF loop assms(3)] assms(2) by auto
  have "0 \<le> cq" using i assms(2,4) by (metis mult_nonneg_nonneg order_less_imp_le order_trans)
  then have "price = cq div cb" using price i assms(2) by simp
  moreover have "0 < cb" "cq < (hi + 1) * cb" using i assms(2) by (simp_all add: algebra_simps)
  ultimately show ?thesis using div_between(1) [of cb lo cq] div_between(2) [of cb cq hi] i(2) by simp
qed

section \<open>The posted slot\<close>

lemma slots_since_order_posted_mod:
  "slots_since_order_posted slot (get_posted_slot_from_clock_slot posted) = (slot - posted) mod 256"
  by (simp add: slots_since_order_posted_def get_posted_slot_from_clock_slot_def mod_diff_eq)

end
