(* ===== verification/Auctions.thy ===== *)
theory Auctions
  imports Order_Math
begin

text \<open>
  \<open>math/auction.rs\<close> (all but the trigger-order parameters, which need the perp market) and the
  methods of \<open>Order\<close> that read the slot clock: auction progress and prices, the limit price of an
  order, resting orders, and which of two orders is the maker.
\<close>

section \<open>Auction prices\<close>

definition calculate_auction_prices ::
  "oracle_price_data \<Rightarrow> position_direction \<Rightarrow> int \<Rightarrow> (int \<times> int) result" where
  "calculate_auction_prices oracle_price_data direction limit_price =
     (let oracle_price = op_price oracle_price_data;
          fraction = (\<lambda>p. plain_div I64 p AUCTION_DERIVE_PRICE_FRACTION)
      in
      and_then (cast I64 limit_price) (\<lambda>limit_price.
      if limit_price > 0 then
        (case direction of
           Long \<Rightarrow>
             if limit_price < oracle_price then
               and_then (fraction limit_price) (\<lambda>f.
               and_then (safe_sub I64 limit_price f) (\<lambda>limit_derive_start_price.
               and_then (fraction oracle_price) (\<lambda>f.
               and_then (safe_sub I64 oracle_price f) (\<lambda>oracle_derive_start_price.
               Ok (min limit_derive_start_price oracle_derive_start_price, limit_price)))))
             else
               and_then (fraction oracle_price) (\<lambda>f.
               and_then (safe_add I64 oracle_price f) (\<lambda>oracle_derive_end_price.
               Ok (oracle_price, min limit_price oracle_derive_end_price)))
         | Short \<Rightarrow>
             if limit_price > oracle_price then
               and_then (fraction limit_price) (\<lambda>f.
               and_then (safe_add I64 limit_price f) (\<lambda>limit_derive_start_price.
               and_then (fraction oracle_price) (\<lambda>f.
               and_then (safe_add I64 oracle_price f) (\<lambda>oracle_derive_start_price.
               Ok (max limit_derive_start_price oracle_derive_start_price, limit_price)))))
             else
               and_then (fraction oracle_price) (\<lambda>f.
               and_then (safe_sub I64 oracle_price f) (\<lambda>oracle_derive_end_price.
               Ok (oracle_price, max limit_price oracle_derive_end_price))))
      else
        and_then (fraction oracle_price) (\<lambda>f.
        and_then
          (case direction of Long \<Rightarrow> safe_add I64 oracle_price f | Short \<Rightarrow> safe_sub I64 oracle_price f)
          (\<lambda>auction_end_price.
        Ok (oracle_price, auction_end_price)))))"

definition auction_progress :: "order \<Rightarrow> int \<Rightarrow> slot_clock \<Rightarrow> int \<times> int" where
  "auction_progress od slot slot_clock =
     (let duration_ms = from_stored_units (od_auction_duration od);
          elapsed_ms = elapsed slot_clock (od_slot od) slot
      in (min elapsed_ms duration_ms, duration_ms))"

definition auction_progress_at_fraction :: "order \<Rightarrow> int \<Rightarrow> (int \<times> int) result" where
  "auction_progress_at_fraction od fraction_pct =
     (let duration_ms = from_stored_units (od_auction_duration od) in
      and_then (safe_mul U64 duration_ms (min fraction_pct 100)) (\<lambda>v.
      and_then (safe_div U64 v 100) (\<lambda>elapsed_ms.
      Ok (elapsed_ms, duration_ms))))"

text \<open>The interpolation the two auction kinds share, at the integer type of each.\<close>

definition interpolate :: "int_ty \<Rightarrow> position_direction \<Rightarrow> int \<Rightarrow> int \<Rightarrow> int \<times> int \<Rightarrow> int result" where
  "interpolate t direction start_price end_price progress =
     (case progress of (delta_numerator, delta_denominator) \<Rightarrow>
      and_then
        (case direction of
           Long \<Rightarrow> safe_sub t end_price start_price
         | Short \<Rightarrow> safe_sub t start_price end_price) (\<lambda>range.
      and_then (cast t delta_numerator) (\<lambda>n.
      and_then (safe_mul t range n) (\<lambda>v.
      and_then (cast t delta_denominator) (\<lambda>d.
      and_then (safe_div t v d) (\<lambda>price_delta.
      case direction of
        Long \<Rightarrow> safe_add t start_price price_delta
      | Short \<Rightarrow> safe_sub t start_price price_delta))))))"

definition calculate_auction_price_for_fixed_auction :: "order \<Rightarrow> int \<times> int \<Rightarrow> int \<Rightarrow> int result" where
  "calculate_auction_price_for_fixed_auction od progress tick_size =
     and_then (cast U64 (od_auction_start_price od)) (\<lambda>auction_start_price.
     and_then (cast U64 (od_auction_end_price od)) (\<lambda>auction_end_price.
     if snd progress = 0 then standardize_price auction_end_price tick_size (od_direction od)
     else
       and_then (interpolate U64 (od_direction od) auction_start_price auction_end_price progress) (\<lambda>price.
       standardize_price price tick_size (od_direction od))))"

definition oracle_plus_offset :: "int \<Rightarrow> int \<Rightarrow> int \<Rightarrow> position_direction \<Rightarrow> int result" where
  "oracle_plus_offset oracle_price offset tick_size direction =
     and_then (safe_add I64 oracle_price offset) (\<lambda>v.
     and_then (cast I64 tick_size) (\<lambda>t.
     and_then (cast U64 (max v t)) (\<lambda>price.
     standardize_price price tick_size direction)))"

definition calculate_auction_price_for_oracle_offset_auction ::
  "order \<Rightarrow> int \<times> int \<Rightarrow> int \<Rightarrow> int option \<Rightarrow> int result" where
  "calculate_auction_price_for_oracle_offset_auction od progress tick_size valid_oracle_price =
     and_then (ok_or valid_oracle_price OracleNotFound) (\<lambda>oracle_price.
     if snd progress = 0
     then oracle_plus_offset oracle_price (od_auction_end_price od) tick_size (od_direction od)
     else
       and_then (interpolate I64 (od_direction od) (od_auction_start_price od) (od_auction_end_price od)
           progress) (\<lambda>price_offset.
       oracle_plus_offset oracle_price price_offset tick_size (od_direction od)))"

definition calculate_auction_price_with_progress ::
  "order \<Rightarrow> int \<times> int \<Rightarrow> int \<Rightarrow> int option \<Rightarrow> int result" where
  "calculate_auction_price_with_progress od progress tick_size valid_oracle_price =
     (case od_order_type od of
        TriggerMarket \<Rightarrow>
          if is_bit_flag_set od OB_OracleTriggerMarket
          then calculate_auction_price_for_oracle_offset_auction od progress tick_size valid_oracle_price
          else calculate_auction_price_for_fixed_auction od progress tick_size
      | Market \<Rightarrow> calculate_auction_price_for_fixed_auction od progress tick_size
      | TriggerLimit \<Rightarrow> calculate_auction_price_for_fixed_auction od progress tick_size
      | Limit \<Rightarrow>
          if has_oracle_price_offset od
          then calculate_auction_price_for_oracle_offset_auction od progress tick_size valid_oracle_price
          else calculate_auction_price_for_fixed_auction od progress tick_size
      | Oracle \<Rightarrow>
          calculate_auction_price_for_oracle_offset_auction od progress tick_size valid_oracle_price)"

definition calculate_auction_price ::
  "order \<Rightarrow> int \<Rightarrow> int \<Rightarrow> int option \<Rightarrow> slot_clock \<Rightarrow> int result" where
  "calculate_auction_price od slot tick_size valid_oracle_price slot_clock =
     calculate_auction_price_with_progress od (auction_progress od slot slot_clock) tick_size
       valid_oracle_price"

definition is_auction_complete :: "int \<Rightarrow> int \<Rightarrow> int \<Rightarrow> slot_clock \<Rightarrow> bool result" where
  "is_auction_complete order_slot auction_duration slot slot_clock =
     (if auction_duration = 0 then Ok True
      else Ok (elapsed slot_clock order_slot slot > from_stored_units auction_duration))"

section \<open>Limit prices and resting orders\<close>

definition order_is_auction_complete :: "order \<Rightarrow> int \<Rightarrow> slot_clock \<Rightarrow> bool result" where
  "order_is_auction_complete od slot slot_clock =
     is_auction_complete (od_slot od) (od_auction_duration od) slot slot_clock"

definition has_auction_price :: "order \<Rightarrow> int \<Rightarrow> int \<Rightarrow> int \<Rightarrow> slot_clock \<Rightarrow> bool result" where
  "has_auction_price od order_slot auction_duration slot slot_clock =
     and_then (is_auction_complete order_slot auction_duration slot slot_clock) (\<lambda>auction_complete.
     let has_auction_prices = od_auction_start_price od \<noteq> 0 \<or> od_auction_end_price od \<noteq> 0 in
     Ok (\<not> auction_complete \<and> has_auction_prices))"

definition get_limit_price ::
  "order \<Rightarrow> int option \<Rightarrow> int option \<Rightarrow> int \<Rightarrow> int \<Rightarrow> slot_clock \<Rightarrow> int option result" where
  "get_limit_price od valid_oracle_price fallback_price slot tick_size slot_clock =
     and_then (has_auction_price od (od_slot od) (od_auction_duration od) slot slot_clock) (\<lambda>in_auction.
     if in_auction then
       map_ok Some (calculate_auction_price od slot tick_size valid_oracle_price slot_clock)
     else if has_oracle_price_offset od then
       and_then (ok_or valid_oracle_price OracleNotFound) (\<lambda>oracle_price.
       and_then (cast I64 (od_oracle_price_offset od)) (\<lambda>offset.
       map_ok Some (oracle_plus_offset oracle_price offset tick_size (od_direction od))))
     else if od_price od = 0 then
       (case fallback_price of
          Some price \<Rightarrow> map_ok Some (standardize_price price tick_size (od_direction od))
        | None \<Rightarrow> Ok None)
     else Ok (Some (od_price od)))"

definition force_get_limit_price ::
  "order \<Rightarrow> int option \<Rightarrow> int option \<Rightarrow> int \<Rightarrow> int \<Rightarrow> slot_clock \<Rightarrow> int result" where
  "force_get_limit_price od valid_oracle_price fallback_price slot tick_size slot_clock =
     and_then (get_limit_price od valid_oracle_price fallback_price slot tick_size slot_clock) (\<lambda>p.
     ok_or p UnableToGetLimitPrice)"

definition has_limit_price :: "order \<Rightarrow> int \<Rightarrow> slot_clock \<Rightarrow> bool result" where
  "has_limit_price od slot slot_clock =
     (if od_price od > 0 \<or> has_oracle_price_offset od then Ok True
      else and_then (order_is_auction_complete od slot slot_clock) (\<lambda>complete. Ok (\<not> complete)))"

definition is_resting_limit_order :: "order \<Rightarrow> int \<Rightarrow> slot_clock \<Rightarrow> bool result" where
  "is_resting_limit_order od slot slot_clock =
     (if \<not> is_limit_order od then Ok False
      else if od_post_only od then Ok True
      else order_is_auction_complete od slot slot_clock)"

definition order_breaches_maker_oracle_price_bands ::
  "order \<Rightarrow> int \<Rightarrow> int \<Rightarrow> int \<Rightarrow> int \<Rightarrow> slot_clock \<Rightarrow> bool result" where
  "order_breaches_maker_oracle_price_bands od oracle_price slot tick_size margin_ratio_initial slot_clock =
     and_then (force_get_limit_price od (Some oracle_price) None slot tick_size slot_clock)
       (\<lambda>order_limit_price.
     limit_price_breaches_maker_oracle_price_bands order_limit_price (od_direction od) oracle_price
       margin_ratio_initial)"

definition is_maker_for_taker :: "order \<Rightarrow> order \<Rightarrow> int \<Rightarrow> slot_clock \<Rightarrow> bool result" where
  "is_maker_for_taker maker_order taker_order slot slot_clock =
     and_then
       (if od_post_only taker_order then Ok True
        else and_then (is_resting_limit_order maker_order slot slot_clock) (\<lambda>r. Ok (\<not> r))) (\<lambda>refuse.
     if refuse then Ok False
     else
       and_then (is_resting_limit_order taker_order slot slot_clock) (\<lambda>taker_resting.
       if \<not> taker_resting \<or> od_post_only maker_order then Ok True
       else
         (let anchor_slot = min (od_slot maker_order) (od_slot taker_order) in
          and_then (safe_add U64 (elapsed slot_clock anchor_slot (od_slot maker_order))
              (from_stored_units (od_auction_duration maker_order))) (\<lambda>maker_end_ms.
          and_then (safe_add U64 (elapsed slot_clock anchor_slot (od_slot taker_order))
              (from_stored_units (od_auction_duration taker_order))) (\<lambda>taker_end_ms.
          Ok (maker_end_ms \<le> taker_end_ms))))))"

section \<open>The auction moves from its start to its end\<close>

text \<open>Which price is the more aggressive one: higher for a bid, lower for an ask.\<close>

definition no_worse :: "position_direction \<Rightarrow> int \<Rightarrow> int \<Rightarrow> bool" where
  "no_worse direction a b = (case direction of Long \<Rightarrow> a \<le> b | Short \<Rightarrow> b \<le> a)"

lemma interpolate_Ok:
  assumes "interpolate t d s e (n, m) = Ok r" "0 \<le> n" "0 < m" "no_worse d s e"
  shows "r = (case d of Long \<Rightarrow> s + (e - s) * n div m | Short \<Rightarrow> s - (s - e) * n div m)" "fits t r"
proof -
  have "0 \<le> (e - s) * n" if "d = Long" using that assms by (simp add: no_worse_def)
  moreover have "0 \<le> (s - e) * n" if "d = Short" using that assms by (simp add: no_worse_def)
  ultimately show "r = (case d of Long \<Rightarrow> s + (e - s) * n div m | Short \<Rightarrow> s - (s - e) * n div m)" "fits t r"
    using assms(1,3) by (cases d; auto simp: interpolate_def ok_iff)+
qed

lemma interpolate_mono:
  assumes "interpolate t d s e (n, m) = Ok r" "interpolate t d s e (n', m) = Ok r'"
    and "0 \<le> n" "n \<le> n'" "n' \<le> m" "0 < m" "no_worse d s e"
  shows "no_worse d s r" "no_worse d r r'" "no_worse d r' e"
proof -
  have part: "0 \<le> x * n div m" "x * n div m \<le> x * n' div m" "x * n' div m \<le> x" if "0 \<le> x" for x
  proof -
    show "0 \<le> x * n div m" using that assms by (simp add: pos_imp_zdiv_nonneg_iff)
    show "x * n div m \<le> x * n' div m" using that assms by (simp add: mult_left_mono zdiv_mono1)
    have "x * n' \<le> x * m" using that assms by (simp add: mult_left_mono)
    then show "x * n' div m \<le> x" using assms by (metis nonzero_mult_div_cancel_right less_irrefl zdiv_mono1)
  qed
  note r = interpolate_Ok(1) [OF assms(1,3,6,7)] and r' = interpolate_Ok(1) [OF assms(2) _ assms(6,7)]
  have n': "0 \<le> n'" using assms by simp
  show "no_worse d s r" "no_worse d r r'" "no_worse d r' e"
    using part [of "e - s"] part [of "s - e"] r r' [OF n'] assms(7)
    by (cases d; simp add: no_worse_def)+
qed

lemma standardize_no_worse:
  assumes "standardize_price p tick d = Ok r" "standardize_price q tick d = Ok s" "no_worse d p q"
    and "fits U64 p" "fits U64 q" "0 < tick"
  shows "no_worse d r s"
  using assms standardize_price_mono [of p tick d r q s] standardize_price_mono [of q tick d s p r]
  by (cases d) (auto simp: no_worse_def)

lemma fixed_auction_mono:
  assumes p: "calculate_auction_price_for_fixed_auction od (n, m) tick = Ok p"
    and q: "calculate_auction_price_for_fixed_auction od (n', m) tick = Ok q"
    and prog: "0 \<le> n" "n \<le> n'" "n' \<le> m" and tick: "0 < tick"
    and dir: "no_worse (od_direction od) (od_auction_start_price od) (od_auction_end_price od)"
  shows "no_worse (od_direction od) p q"
proof (cases "m = 0")
  case True
  then show ?thesis using p q by (auto simp: calculate_auction_price_for_fixed_auction_def ok_iff no_worse_def
      split: position_direction.split)
next
  case False
  let ?d = "od_direction od" and ?s = "od_auction_start_price od" and ?e = "od_auction_end_price od"
  obtain a b where a: "interpolate U64 ?d ?s ?e (n, m) = Ok a" "standardize_price a tick ?d = Ok p"
    and b: "interpolate U64 ?d ?s ?e (n', m) = Ok b" "standardize_price b tick ?d = Ok q"
    using p q False by (auto simp: calculate_auction_price_for_fixed_auction_def ok_iff)
  have m: "0 < m" "0 \<le> n'" using False prog by auto
  note i = interpolate_mono [OF a(1) b(1) prog m(1) dir]
  show ?thesis
    by (rule standardize_no_worse [OF a(2) b(2) i(2)])
      (use interpolate_Ok(2) [OF a(1) prog(1) m(1) dir] interpolate_Ok(2) [OF b(1) m(2,1) dir] tick in auto)
qed

lemma fixed_auction_within:
  assumes p: "calculate_auction_price_for_fixed_auction od (n, m) tick = Ok p"
    and prog: "0 \<le> n" "n \<le> m" and tick: "0 < tick"
    and dir: "no_worse (od_direction od) (od_auction_start_price od) (od_auction_end_price od)"
  shows "p mod tick = 0 \<and> (case od_direction od of
     Long \<Rightarrow> od_auction_start_price od < p + tick \<and> p \<le> od_auction_end_price od
   | Short \<Rightarrow> od_auction_end_price od \<le> p \<and> p < od_auction_start_price od + tick)"
proof -
  let ?d = "od_direction od" and ?s = "od_auction_start_price od" and ?e = "od_auction_end_price od"
  obtain a where a: "standardize_price a tick ?d = Ok p" "no_worse ?d ?s a" "no_worse ?d a ?e" "fits U64 a"
  proof (cases "m = 0")
    case True
    then show ?thesis using p dir that [of ?e]
      by (auto simp: calculate_auction_price_for_fixed_auction_def ok_iff no_worse_def
          split: position_direction.split_asm)
  next
    case False
    then obtain a where i: "interpolate U64 ?d ?s ?e (n, m) = Ok a" "standardize_price a tick ?d = Ok p"
      using p by (auto simp: calculate_auction_price_for_fixed_auction_def ok_iff)
    have m: "0 < m" using False prog by auto
    show ?thesis
      using that [of a] i interpolate_mono [OF i(1) i(1) prog(1) order_refl prog(2) m dir]
        interpolate_Ok(2) [OF i(1) prog(1) m dir] by simp
  qed
  show ?thesis using standardize_price_Ok [OF a(1,4) tick] a(2,3)
    by (cases ?d) (auto simp: tick_rounded_def no_worse_def)
qed

text \<open>Progress is monotone in the slot.\<close>

lemma wall_clock_mono:
  assumes "has_transition_history c" "a \<le> b"
  shows "wall_clock c s a \<le> wall_clock c s b"
proof (cases "a \<le> s")
  case True
  then show ?thesis using wall_clock_nonneg [OF assms(1)] by simp
next
  case False
  then show ?thesis using wall_clock_split [of s a b c] wall_clock_nonneg [OF assms(1), of a b] assms(2) by simp
qed

lemma auction_progress_mono:
  assumes c: "clock_wf c" "has_transition_history c" and s: "0 \<le> od_slot od" "a \<le> b" "fits U64 a" "fits U64 b"
    and fit: "fits U64 (wall_clock c (od_slot od) b)"
  obtains n n' m where "auction_progress od a c = (n, m)" "auction_progress od b c = (n', m)"
    "0 \<le> od_auction_duration od \<Longrightarrow> 0 \<le> n" "n \<le> n'" "n' \<le> m"
proof -
  have mono: "wall_clock c (od_slot od) a \<le> wall_clock c (od_slot od) b"
    by (rule wall_clock_mono [OF c(2) s(2)])
  have nn: "0 \<le> wall_clock c (od_slot od) a" by (rule wall_clock_nonneg [OF c(2)])
  have "fits U64 (wall_clock c (od_slot od) a)" using mono nn fit by (auto simp: fits_def)
  then have e: "elapsed c (od_slot od) a = wall_clock c (od_slot od) a"
    "elapsed c (od_slot od) b = wall_clock c (od_slot od) b"
    using elapsed_eq [OF c] s fit by auto
  have "0 \<le> od_auction_duration od \<Longrightarrow> 0 \<le> from_stored_units (od_auction_duration od)"
    by (simp add: from_stored_units_def saturating_mul_def)
  then show ?thesis using that [OF _ _] mono nn
    by (simp add: auction_progress_def Let_def e)
qed

text \<open>An auction on an offset of the oracle price, at an oracle price that stays.\<close>

lemma oracle_plus_offset_mono:
  assumes "oracle_plus_offset oracle x tick d = Ok p" "oracle_plus_offset oracle y tick d = Ok q"
    and "no_worse d x y" "0 < tick"
  shows "no_worse d p q"
proof -
  let ?v = "\<lambda>x. max (oracle + x) tick"
  have "standardize_price (?v x) tick d = Ok p" "standardize_price (?v y) tick d = Ok q"
    "fits U64 (?v x)" "fits U64 (?v y)"
    using assms(1,2) by (auto simp: oracle_plus_offset_def ok_iff)
  moreover have "no_worse d (?v x) (?v y)" using assms(3) by (cases d) (auto simp: no_worse_def)
  ultimately show ?thesis using standardize_no_worse assms(4) by blast
qed

lemma offset_auction_mono:
  assumes p: "calculate_auction_price_for_oracle_offset_auction od (n, m) tick oracle = Ok p"
    and q: "calculate_auction_price_for_oracle_offset_auction od (n', m) tick oracle = Ok q"
    and prog: "0 \<le> n" "n \<le> n'" "n' \<le> m" and tick: "0 < tick"
    and dir: "no_worse (od_direction od) (od_auction_start_price od) (od_auction_end_price od)"
  shows "no_worse (od_direction od) p q"
proof (cases "m = 0")
  case True
  then show ?thesis using p q by (auto simp: calculate_auction_price_for_oracle_offset_auction_def ok_iff
      no_worse_def split: position_direction.split)
next
  case False
  let ?d = "od_direction od" and ?s = "od_auction_start_price od" and ?e = "od_auction_end_price od"
  obtain v a b where a: "interpolate I64 ?d ?s ?e (n, m) = Ok a" "oracle_plus_offset v a tick ?d = Ok p"
    and b: "interpolate I64 ?d ?s ?e (n', m) = Ok b" "oracle_plus_offset v b tick ?d = Ok q"
    using p q False by (auto simp: calculate_auction_price_for_oracle_offset_auction_def ok_iff)
  have m: "0 < m" using False prog by auto
  show ?thesis
    by (rule oracle_plus_offset_mono [OF a(2) b(2) interpolate_mono(2) [OF a(1) b(1) prog m dir] tick])
qed

lemma auction_price_mono:
  assumes "calculate_auction_price_with_progress od (n, m) tick oracle = Ok p"
    and "calculate_auction_price_with_progress od (n', m) tick oracle = Ok q"
    and "0 \<le> n" "n \<le> n'" "n' \<le> m" "0 < tick"
    and "no_worse (od_direction od) (od_auction_start_price od) (od_auction_end_price od)"
  shows "no_worse (od_direction od) p q"
  using assms(1,2) fixed_auction_mono [OF _ _ assms(3-7)] offset_auction_mono [OF _ _ assms(3-7)]
  by (cases "od_order_type od") (auto simp: calculate_auction_price_with_progress_def split: if_split_asm)

end
