(* ===== verification/Perp_Market_State.thy ===== *)
theory Perp_Market_State
  imports User_Data
begin

text \<open>
  The perp market account of \<open>state/perp_market.rs\<close> with the records it embeds: \<open>FeeLedger\<close>,
  \<open>InsuranceClaim\<close>, \<open>MarketStats\<close>, the \<open>AMM\<close> of \<open>vlp/amm/state.rs\<close> and the \<open>HedgeConfig\<close> of
  \<open>vlp/hedge/state.rs\<close>. One field per field of the struct, padding left out. The tiers of contracts
  and assets are ordered as the derived \<open>Ord\<close> of the source orders them: by position in the enum.
\<close>

datatype contract_type = Perpetual | DeprecatedFuture | DeprecatedPrediction

datatype contract_tier = CT_A | CT_B | CT_C | CT_Speculative | CT_HighlySpeculative | CT_Isolated

datatype lp_status = Uncollateralized | LpActive | Decommissioning

datatype market_config_flag = DisableFormulaicKUpdate

section \<open>The order of the tiers\<close>

primrec contract_tier_rank :: "contract_tier \<Rightarrow> nat" where
  "contract_tier_rank CT_A = 0"
| "contract_tier_rank CT_B = 1"
| "contract_tier_rank CT_C = 2"
| "contract_tier_rank CT_Speculative = 3"
| "contract_tier_rank CT_HighlySpeculative = 4"
| "contract_tier_rank CT_Isolated = 5"

primrec asset_tier_rank :: "asset_tier \<Rightarrow> nat" where
  "asset_tier_rank Collateral = 0"
| "asset_tier_rank Protected = 1"
| "asset_tier_rank Cross = 2"
| "asset_tier_rank Isolated = 3"
| "asset_tier_rank Unlisted = 4"

lemma contract_tier_rank_inject: "contract_tier_rank a = contract_tier_rank b \<longleftrightarrow> a = b"
  by (cases a; cases b) simp_all

lemma asset_tier_rank_inject: "asset_tier_rank a = asset_tier_rank b \<longleftrightarrow> a = b"
  by (cases a; cases b) simp_all

instantiation contract_tier :: linorder
begin

definition less_eq_contract_tier :: "contract_tier \<Rightarrow> contract_tier \<Rightarrow> bool" where
  "less_eq_contract_tier a b \<longleftrightarrow> contract_tier_rank a \<le> contract_tier_rank b"

definition less_contract_tier :: "contract_tier \<Rightarrow> contract_tier \<Rightarrow> bool" where
  "less_contract_tier a b \<longleftrightarrow> contract_tier_rank a < contract_tier_rank b"

instance
  by standard (auto simp: less_eq_contract_tier_def less_contract_tier_def
      simp flip: contract_tier_rank_inject)

end

instantiation asset_tier :: linorder
begin

definition less_eq_asset_tier :: "asset_tier \<Rightarrow> asset_tier \<Rightarrow> bool" where
  "less_eq_asset_tier a b \<longleftrightarrow> asset_tier_rank a \<le> asset_tier_rank b"

definition less_asset_tier :: "asset_tier \<Rightarrow> asset_tier \<Rightarrow> bool" where
  "less_asset_tier a b \<longleftrightarrow> asset_tier_rank a < asset_tier_rank b"

instance
  by standard (auto simp: less_eq_asset_tier_def less_asset_tier_def simp flip: asset_tier_rank_inject)

end

section \<open>The account\<close>

record fee_ledger =
  fl_total_exchange_fee :: int
  fl_total_liquidation_fee :: int
  fl_pending_protocol_fee :: int
  fl_pending_if_fee :: int
  fl_amm_protocol_fees_received :: int
  fl_pending_amm_provision :: int

definition default_fee_ledger :: fee_ledger where
  "default_fee_ledger =
     \<lparr> fl_total_exchange_fee = 0, fl_total_liquidation_fee = 0, fl_pending_protocol_fee = 0,
       fl_pending_if_fee = 0, fl_amm_protocol_fees_received = 0, fl_pending_amm_provision = 0 \<rparr>"

record insurance_claim =
  ic_revenue_withdraw_since_last_settle :: int
  ic_max_revenue_withdraw_per_period :: int
  ic_quote_max_insurance :: int
  ic_quote_settled_insurance :: int
  ic_last_revenue_withdraw_ts :: int

definition default_insurance_claim :: insurance_claim where
  "default_insurance_claim =
     \<lparr> ic_revenue_withdraw_since_last_settle = 0, ic_max_revenue_withdraw_per_period = 0,
       ic_quote_max_insurance = 0, ic_quote_settled_insurance = 0,
       ic_last_revenue_withdraw_ts = 0 \<rparr>"

record market_stats =
  ms_last_mark_price_twap :: int
  ms_last_mark_price_twap_5min :: int
  ms_last_mark_price_twap_ts :: int
  ms_last_bid_price_twap :: int
  ms_last_ask_price_twap :: int
  ms_mark_std :: int
  ms_oracle_std :: int
  ms_last_oracle_conf_pct :: int
  ms_volume_24h :: int
  ms_long_intensity_volume :: int
  ms_short_intensity_volume :: int
  ms_last_trade_ts :: int
  ms_last_24h_avg_funding_rate :: int
  ms_funding_period :: int
  ms_min_order_size :: int
  ms_mm_oracle_price :: int
  ms_mm_oracle_slot :: int
  ms_mm_oracle_sequence_id :: int
  ms_last_oracle_normalised_price :: int
  ms_last_reference_price_offset :: int
  ms_last_oracle_valid :: bool
  ms_last_funding_oracle_twap :: int
  ms_historical_oracle_data :: historical_oracle_data

definition default_market_stats :: market_stats where
  "default_market_stats =
     \<lparr> ms_last_mark_price_twap = 0, ms_last_mark_price_twap_5min = 0,
       ms_last_mark_price_twap_ts = 0, ms_last_bid_price_twap = 0, ms_last_ask_price_twap = 0,
       ms_mark_std = 0, ms_oracle_std = 0, ms_last_oracle_conf_pct = 0, ms_volume_24h = 0,
       ms_long_intensity_volume = 0, ms_short_intensity_volume = 0, ms_last_trade_ts = 0,
       ms_last_24h_avg_funding_rate = 0, ms_funding_period = 0, ms_min_order_size = 1,
       ms_mm_oracle_price = 0, ms_mm_oracle_slot = 0, ms_mm_oracle_sequence_id = 0,
       ms_last_oracle_normalised_price = 0, ms_last_reference_price_offset = 0,
       ms_last_oracle_valid = False, ms_last_funding_oracle_twap = 0,
       ms_historical_oracle_data = default_historical_oracle_data \<rparr>"

record amm =
  am_fee_pool :: pool_balance
  am_base_asset_reserve :: int
  am_quote_asset_reserve :: int
  am_concentration_coef :: int
  am_min_base_asset_reserve :: int
  am_max_base_asset_reserve :: int
  am_sqrt_k :: int
  am_peg_multiplier :: int
  am_terminal_quote_asset_reserve :: int
  am_base_asset_amount_with_amm :: int
  am_total_fee :: int
  am_total_mm_fee :: int
  am_total_fee_minus_distributions :: int
  am_total_fee_withdrawn :: int
  am_ask_base_asset_reserve :: int
  am_ask_quote_asset_reserve :: int
  am_bid_base_asset_reserve :: int
  am_bid_quote_asset_reserve :: int
  am_last_update_slot :: int
  am_net_revenue_since_last_funding :: int
  am_last_cumulative_funding_rate_long :: int
  am_last_cumulative_funding_rate_short :: int
  am_last_oracle_reserve_price_spread_pct :: int
  am_last_spread_update_slot :: int
  am_base_spread :: int
  am_max_spread :: int
  am_long_spread :: int
  am_short_spread :: int
  am_reference_price_offset :: int
  am_max_fill_reserve_fraction :: int
  am_max_slippage_ratio :: int
  am_curve_update_intensity :: int
  am_amm_jit_intensity :: int
  am_amm_spread_adjustment :: int
  am_amm_inventory_spread_adjustment :: int
  am_reference_price_offset_deadband_pct :: int
  am_funding_bias_sensitivity :: int

definition default_amm :: amm where
  "default_amm =
     \<lparr> am_fee_pool = default_pool_balance, am_base_asset_reserve = 0,
       am_quote_asset_reserve = 0, am_concentration_coef = 0, am_min_base_asset_reserve = 0,
       am_max_base_asset_reserve = 0, am_sqrt_k = 0, am_peg_multiplier = 0,
       am_terminal_quote_asset_reserve = 0, am_base_asset_amount_with_amm = 0,
       am_total_fee = 0, am_total_mm_fee = 0, am_total_fee_minus_distributions = 0,
       am_total_fee_withdrawn = 0, am_ask_base_asset_reserve = 0,
       am_ask_quote_asset_reserve = 0, am_bid_base_asset_reserve = 0,
       am_bid_quote_asset_reserve = 0, am_last_update_slot = 0,
       am_net_revenue_since_last_funding = 0, am_last_cumulative_funding_rate_long = 0,
       am_last_cumulative_funding_rate_short = 0, am_last_oracle_reserve_price_spread_pct = 0,
       am_last_spread_update_slot = 0, am_base_spread = 0, am_max_spread = 0,
       am_long_spread = 0, am_short_spread = 0, am_reference_price_offset = 0,
       am_max_fill_reserve_fraction = 0, am_max_slippage_ratio = 0,
       am_curve_update_intensity = 0, am_amm_jit_intensity = 0, am_amm_spread_adjustment = 0,
       am_amm_inventory_spread_adjustment = 0, am_reference_price_offset_deadband_pct = 0,
       am_funding_bias_sensitivity = 0 \<rparr>"

record hedge_config =
  hc_pool_id :: int
  hc_status :: int
  hc_paused_operations :: "8 word"
  hc_exchange_fee_exclusion_scalar :: int
  hc_fee_transfer_scalar :: int

definition default_hedge_config :: hedge_config where
  "default_hedge_config =
     \<lparr> hc_pool_id = 0, hc_status = 0, hc_paused_operations = 0,
       hc_exchange_fee_exclusion_scalar = 0, hc_fee_transfer_scalar = 0 \<rparr>"

record perp_market =
  pm_pubkey :: pubkey
  pm_base_asset_amount_long :: int
  pm_base_asset_amount_short :: int
  pm_quote_asset_amount :: int
  pm_quote_entry_amount_long :: int
  pm_quote_entry_amount_short :: int
  pm_quote_break_even_amount_long :: int
  pm_quote_break_even_amount_short :: int
  pm_max_open_interest :: int
  pm_total_social_loss :: int
  pm_cumulative_funding_rate_long :: int
  pm_cumulative_funding_rate_short :: int
  pm_fee_ledger :: fee_ledger
  pm_oracle :: pubkey
  pm_pnl_pool :: pool_balance
  pm_protocol_fee_pool :: pool_balance
  pm_protocol_liquidation_fee :: int
  pm_taker_fee_addon_tenth_bps :: int
  pm_fee_pool_buffer_target :: int
  pm_name :: "nat list"
  pm_insurance_claim :: insurance_claim
  pm_last_funding_rate :: int
  pm_last_funding_rate_long :: int
  pm_last_funding_rate_short :: int
  pm_last_funding_rate_ts :: int
  pm_net_unsettled_funding_pnl :: int
  pm_funding_clamp_threshold :: int
  pm_funding_ramp_slope :: int
  pm_order_step_size :: int
  pm_order_tick_size :: int
  pm_unrealized_pnl_max_imbalance :: int
  pm_expiry_ts :: int
  pm_expiry_price :: int
  pm_next_fill_record_id :: int
  pm_next_funding_rate_record_id :: int
  pm_imf_factor :: int
  pm_unrealized_pnl_imf_factor :: int
  pm_liquidator_fee :: int
  pm_if_liquidation_fee :: int
  pm_margin_ratio_initial :: int
  pm_margin_ratio_maintenance :: int
  pm_unrealized_pnl_initial_asset_weight :: int
  pm_unrealized_pnl_maintenance_asset_weight :: int
  pm_number_of_users_with_base :: int
  pm_number_of_users :: int
  pm_market_index :: int
  pm_status :: market_status
  pm_contract_type :: contract_type
  pm_contract_tier :: contract_tier
  pm_paused_operations :: "8 word"
  pm_quote_spot_market_index :: int
  pm_fee_adjustment :: int
  pm_pending_bankruptcy_claims :: int
  pm_last_fill_price :: int
  pm_pool_id :: int
  pm_market_config :: "8 word"
  pm_oracle_source :: oracle_source
  pm_oracle_slot_delay_override :: int
  pm_oracle_low_risk_slot_delay_override :: int
  pm_bankruptcy_if_floor_pct :: int
  pm_market_stats :: market_stats
  pm_pending_revenue_share :: int
  pm_amm :: amm
  pm_hedge_config :: hedge_config

definition default_perp_market :: perp_market where
  "default_perp_market =
     \<lparr> pm_pubkey = 0, pm_base_asset_amount_long = 0, pm_base_asset_amount_short = 0,
       pm_quote_asset_amount = 0, pm_quote_entry_amount_long = 0,
       pm_quote_entry_amount_short = 0, pm_quote_break_even_amount_long = 0,
       pm_quote_break_even_amount_short = 0, pm_max_open_interest = 0,
       pm_total_social_loss = 0, pm_cumulative_funding_rate_long = 0,
       pm_cumulative_funding_rate_short = 0, pm_fee_ledger = default_fee_ledger,
       pm_oracle = 0, pm_pnl_pool = default_pool_balance,
       pm_protocol_fee_pool = default_pool_balance, pm_protocol_liquidation_fee = 0,
       pm_taker_fee_addon_tenth_bps = 0, pm_fee_pool_buffer_target = 0,
       pm_name = replicate 32 0, pm_insurance_claim = default_insurance_claim,
       pm_last_funding_rate = 0, pm_last_funding_rate_long = 0,
       pm_last_funding_rate_short = 0, pm_last_funding_rate_ts = 0,
       pm_net_unsettled_funding_pnl = 0, pm_funding_clamp_threshold = 5,
       pm_funding_ramp_slope = 1000000, pm_order_step_size = 0, pm_order_tick_size = 0,
       pm_unrealized_pnl_max_imbalance = 0, pm_expiry_ts = 0, pm_expiry_price = 0,
       pm_next_fill_record_id = 0, pm_next_funding_rate_record_id = 0, pm_imf_factor = 0,
       pm_unrealized_pnl_imf_factor = 0, pm_liquidator_fee = 0, pm_if_liquidation_fee = 0,
       pm_margin_ratio_initial = 0, pm_margin_ratio_maintenance = 0,
       pm_unrealized_pnl_initial_asset_weight = 0,
       pm_unrealized_pnl_maintenance_asset_weight = 0, pm_number_of_users_with_base = 0,
       pm_number_of_users = 0, pm_market_index = 0, pm_status = Initialized,
       pm_contract_type = Perpetual, pm_contract_tier = CT_HighlySpeculative,
       pm_paused_operations = 0, pm_quote_spot_market_index = 0, pm_fee_adjustment = 0,
       pm_pending_bankruptcy_claims = 0, pm_last_fill_price = 0, pm_pool_id = 0,
       pm_market_config = 0, pm_oracle_source = Pyth, pm_oracle_slot_delay_override = - 1,
       pm_oracle_low_risk_slot_delay_override = 0, pm_bankruptcy_if_floor_pct = 0,
       pm_market_stats = default_market_stats, pm_pending_revenue_share = 0,
       pm_amm = default_amm, pm_hedge_config = default_hedge_config \<rparr>"

end
