(* ===== verification/Perp_Position.thy ===== *)
theory Perp_Position
  imports Perp_Market_State Order_Math Transactions
begin

text \<open>
  Positions in a perp market: \<open>math/position.rs\<close>, \<open>controller/position.rs\<close>, the valuation methods of
  \<open>PerpPosition\<close> in \<open>state/user.rs\<close>, and the booking of bankruptcy claims of
  \<open>controller/liquidation.rs\<close>. A \<open>perp_book\<close> is a market with every position in it; its operations
  are the ones that write a position's base or quote amount. Its invariant says that the market's
  totals are the sums over the positions and that its counters count them.
\<close>

section \<open>Valuation\<close>

definition calculate_base_asset_value_with_oracle_price :: "int \<Rightarrow> int \<Rightarrow> int result" where
  "calculate_base_asset_value_with_oracle_price base_asset_amount oracle_price =
     (if base_asset_amount = 0 then Ok 0
      else
        (let oracle_price = (if oracle_price > 0 then \<bar>oracle_price\<bar> else 0) in
         and_then (cast U128 oracle_price) (\<lambda>p.
         and_then (safe_mul U128 \<bar>base_asset_amount\<bar> p) (\<lambda>v.
         safe_div U128 v PRICE_TIMES_AMM_TO_QUOTE_PRECISION_RATIO))))"

definition calculate_perp_liability_value :: "int \<Rightarrow> int \<Rightarrow> int result" where
  "calculate_perp_liability_value base_asset_amount oracle_price =
     calculate_base_asset_value_with_oracle_price base_asset_amount oracle_price"

definition calculate_base_asset_value_and_pnl_with_price ::
  "perp_position \<Rightarrow> int \<Rightarrow> bool \<Rightarrow> (int \<times> int) result" where
  "calculate_base_asset_value_and_pnl_with_price p price allow_negative_price =
     (if pp_base_asset_amount p = 0 then
        and_then (cast I128 (pp_quote_asset_amount p)) (\<lambda>q. Ok (0, q))
      else
        and_then
          (if price > 0 then plain_abs I64 price else if allow_negative_price then Ok price else Ok 0)
          (\<lambda>oracle_price.
        and_then (cast I128 (pp_base_asset_amount p)) (\<lambda>b.
        and_then (cast I128 oracle_price) (\<lambda>o1.
        and_then (safe_mul I128 b o1) (\<lambda>v.
        and_then (safe_div I128 v AMM_RESERVE_PRECISION) (\<lambda>base_asset_value.
        and_then (cast I128 (pp_quote_asset_amount p)) (\<lambda>q.
        and_then (safe_add I128 base_asset_value q) (\<lambda>pnl.
        Ok (\<bar>base_asset_value\<bar>, pnl)))))))))"

definition calculate_base_asset_value_and_pnl_with_oracle_price ::
  "perp_position \<Rightarrow> int \<Rightarrow> (int \<times> int) result" where
  "calculate_base_asset_value_and_pnl_with_oracle_price p oracle_price =
     calculate_base_asset_value_and_pnl_with_price p oracle_price False"

definition calculate_base_asset_value_and_pnl_with_expiry_price ::
  "perp_position \<Rightarrow> int \<Rightarrow> (int \<times> int) result" where
  "calculate_base_asset_value_and_pnl_with_expiry_price p expiry_price =
     calculate_base_asset_value_and_pnl_with_price p expiry_price True"

definition calculate_base_asset_value_with_expiry_price :: "perp_position \<Rightarrow> int \<Rightarrow> int result" where
  "calculate_base_asset_value_with_expiry_price p expiry_price =
     (if pp_base_asset_amount p = 0 then Ok 0
      else
        and_then (cast I128 (pp_base_asset_amount p)) (\<lambda>b.
        and_then (cast I128 expiry_price) (\<lambda>e.
        and_then (safe_mul I128 b e) (\<lambda>v.
        and_then (safe_div I128 v PRICE_TIMES_AMM_TO_QUOTE_PRECISION_RATIO) (\<lambda>v.
        cast I64 v)))))"

datatype swap_direction = Add | Remove

definition swap_direction_to_close_position :: "int \<Rightarrow> swap_direction" where
  "swap_direction_to_close_position base_asset_amount = (if base_asset_amount \<ge> 0 then Add else Remove)"

definition worst_case_liability_value :: "perp_position \<Rightarrow> int \<Rightarrow> (int \<times> int) result" where
  "worst_case_liability_value p oracle_price =
     and_then (safe_add I64 (pp_base_asset_amount p) (pp_open_bids p)) (\<lambda>b.
     and_then (cast I128 b) (\<lambda>base_asset_amount_all_bids_fill.
     and_then (safe_add I64 (pp_base_asset_amount p) (pp_open_asks p)) (\<lambda>a.
     and_then (cast I128 a) (\<lambda>base_asset_amount_all_asks_fill.
     and_then (calculate_perp_liability_value base_asset_amount_all_bids_fill oracle_price)
       (\<lambda>liability_value_all_bids_fill.
     and_then (calculate_perp_liability_value base_asset_amount_all_asks_fill oracle_price)
       (\<lambda>liability_value_all_asks_fill.
     if liability_value_all_asks_fill \<ge> liability_value_all_bids_fill
     then Ok (base_asset_amount_all_asks_fill, liability_value_all_asks_fill)
     else Ok (base_asset_amount_all_bids_fill, liability_value_all_bids_fill)))))))"

definition worst_case_base_asset_amount :: "perp_position \<Rightarrow> int \<Rightarrow> int result" where
  "worst_case_base_asset_amount p oracle_price = map_ok fst (worst_case_liability_value p oracle_price)"

definition get_unrealized_pnl :: "perp_position \<Rightarrow> int \<Rightarrow> int result" where
  "get_unrealized_pnl p oracle_price =
     map_ok snd (calculate_base_asset_value_and_pnl_with_oracle_price p oracle_price)"

definition get_base_asset_amount :: "perp_position \<Rightarrow> int result" where
  "get_base_asset_amount p = cast I128 (pp_base_asset_amount p)"

definition get_base_asset_amount_abs :: "perp_position \<Rightarrow> int result" where
  "get_base_asset_amount_abs p = and_then (get_base_asset_amount p) (\<lambda>b. plain_abs I128 b)"

definition get_claimable_pnl :: "perp_position \<Rightarrow> int \<Rightarrow> int \<Rightarrow> int result" where
  "get_claimable_pnl p oracle_price pnl_pool_excess =
     and_then (calculate_base_asset_value_and_pnl_with_oracle_price p oracle_price) (\<lambda>(_, unrealized_pnl).
     if unrealized_pnl > 0 then
       and_then (cast I128 (pp_quote_asset_amount p)) (\<lambda>q.
       and_then (cast I128 (pp_quote_entry_amount p)) (\<lambda>e.
       and_then (safe_sub I128 q e) (\<lambda>delta.
       and_then (safe_add I128 (max delta 0) (max pnl_pool_excess 0)) (\<lambda>max_positive_pnl.
       Ok (min unrealized_pnl max_positive_pnl)))))
     else Ok unrealized_pnl)"

definition perp_margin_requirement_for_open_orders :: "perp_position \<Rightarrow> int result" where
  "perp_margin_requirement_for_open_orders p = safe_mul U128 (pp_open_orders p) OPEN_ORDER_MARGIN_REQUIREMENT"

section \<open>What a fill does to a position\<close>

datatype position_update_type = PU_Open | PU_Increase | PU_Reduce | PU_Close | PU_Flip

definition get_position_update_type ::
  "perp_position \<Rightarrow> position_delta \<Rightarrow> position_update_type result" where
  "get_position_update_type p delta =
     (if pp_base_asset_amount p = 0 then Ok PU_Open
      else
        (let position_base = pp_base_asset_amount p; delta_base = pd_base_asset_amount delta in
         if sgn position_base = sgn delta_base then Ok PU_Increase
         else
           and_then (plain_abs I64 position_base) (\<lambda>pb.
           and_then (plain_abs I64 delta_base) (\<lambda>db.
           if pb > db then Ok PU_Reduce else if pb = db then Ok PU_Close else Ok PU_Flip))))"

definition get_new_position_amounts :: "perp_position \<Rightarrow> position_delta \<Rightarrow> (int \<times> int) result" where
  "get_new_position_amounts p delta =
     and_then (safe_add I64 (pp_quote_asset_amount p) (pd_quote_asset_amount delta)) (\<lambda>new_quote_asset_amount.
     and_then (safe_add I64 (pp_base_asset_amount p) (pd_base_asset_amount delta)) (\<lambda>new_base_asset_amount.
     Ok (new_base_asset_amount, new_quote_asset_amount)))"

definition get_delta_base_abs :: "position_delta \<Rightarrow> int result" where
  "get_delta_base_abs delta = and_then (plain_abs I64 (pd_base_asset_amount delta)) (\<lambda>b. cast I128 b)"

text \<open>The part of an amount that a share \<open>part\<close> of \<open>whole\<close> takes with it; truncated.\<close>

definition pro_rata_i64 :: "int \<Rightarrow> int \<Rightarrow> int \<Rightarrow> int result" where
  "pro_rata_i64 amount part whole =
     and_then (cast I128 amount) (\<lambda>a.
     and_then (safe_mul I128 a part) (\<lambda>v.
     and_then (safe_div I128 v whole) (\<lambda>v.
     cast I64 v)))"

text \<open>New entry amount, new break-even amount and realized pnl.\<close>

definition entry_amounts_after ::
  "perp_position \<Rightarrow> position_delta \<Rightarrow> position_update_type \<Rightarrow> (int \<times> int \<times> int) result" where
  "entry_amounts_after p delta update_type =
     (if update_type = PU_Open \<or> update_type = PU_Increase then
        and_then (safe_add I64 (pp_quote_entry_amount p) (pd_quote_asset_amount delta)) (\<lambda>new_quote_entry_amount.
        and_then (safe_add I64 (pp_quote_break_even_amount p) (pd_quote_asset_amount delta))
          (\<lambda>new_quote_break_even_amount.
        Ok (new_quote_entry_amount, new_quote_break_even_amount, 0)))
      else if update_type = PU_Reduce \<or> update_type = PU_Close then
        and_then (get_base_asset_amount_abs p) (\<lambda>current_base.
        and_then (get_delta_base_abs delta) (\<lambda>delta_base.
        and_then (pro_rata_i64 (pp_quote_entry_amount p) delta_base current_base) (\<lambda>x.
        and_then (safe_sub I64 (pp_quote_entry_amount p) x) (\<lambda>new_quote_entry_amount.
        and_then (pro_rata_i64 (pp_quote_break_even_amount p) delta_base current_base) (\<lambda>x.
        and_then (safe_sub I64 (pp_quote_break_even_amount p) x) (\<lambda>new_quote_break_even_amount.
        and_then (safe_sub I64 (pp_quote_entry_amount p) new_quote_entry_amount) (\<lambda>x.
        and_then (safe_add I64 x (pd_quote_asset_amount delta)) (\<lambda>pnl.
        Ok (new_quote_entry_amount, new_quote_break_even_amount, pnl)))))))))
      else
        and_then (get_base_asset_amount_abs p) (\<lambda>current_base.
        and_then (get_delta_base_abs delta) (\<lambda>delta_base.
        and_then (pro_rata_i64 (pd_quote_asset_amount delta) current_base delta_base) (\<lambda>x.
        and_then (safe_sub I64 (pd_quote_asset_amount delta) x) (\<lambda>new_quote_break_even_amount.
        and_then (safe_sub I64 (pd_quote_asset_amount delta) new_quote_break_even_amount) (\<lambda>x.
        and_then (safe_add I64 (pp_quote_entry_amount p) x) (\<lambda>pnl.
        Ok (new_quote_break_even_amount, new_quote_break_even_amount, pnl))))))))"

section \<open>What a fill does to the market\<close>

text \<open>The six totals are three amounts on two sides.\<close>

definition bump_base ::
  "(int \<Rightarrow> int \<Rightarrow> int result) \<Rightarrow> position_direction \<Rightarrow> int \<Rightarrow> perp_market \<Rightarrow> perp_market result" where
  "bump_base f d x m =
     (case d of
        Long \<Rightarrow> map_ok (\<lambda>v. m\<lparr>pm_base_asset_amount_long := v\<rparr>) (f (pm_base_asset_amount_long m) x)
      | Short \<Rightarrow> map_ok (\<lambda>v. m\<lparr>pm_base_asset_amount_short := v\<rparr>) (f (pm_base_asset_amount_short m) x))"

definition bump_entry ::
  "(int \<Rightarrow> int \<Rightarrow> int result) \<Rightarrow> position_direction \<Rightarrow> int \<Rightarrow> perp_market \<Rightarrow> perp_market result" where
  "bump_entry f d x m =
     (case d of
        Long \<Rightarrow> map_ok (\<lambda>v. m\<lparr>pm_quote_entry_amount_long := v\<rparr>) (f (pm_quote_entry_amount_long m) x)
      | Short \<Rightarrow> map_ok (\<lambda>v. m\<lparr>pm_quote_entry_amount_short := v\<rparr>) (f (pm_quote_entry_amount_short m) x))"

definition bump_break_even ::
  "(int \<Rightarrow> int \<Rightarrow> int result) \<Rightarrow> position_direction \<Rightarrow> int \<Rightarrow> perp_market \<Rightarrow> perp_market result" where
  "bump_break_even f d x m =
     (case d of
        Long \<Rightarrow> map_ok (\<lambda>v. m\<lparr>pm_quote_break_even_amount_long := v\<rparr>) (f (pm_quote_break_even_amount_long m) x)
      | Short \<Rightarrow> map_ok (\<lambda>v. m\<lparr>pm_quote_break_even_amount_short := v\<rparr>) (f (pm_quote_break_even_amount_short m) x))"

definition update_market_users ::
  "perp_position \<Rightarrow> position_update_type \<Rightarrow> int \<Rightarrow> int \<Rightarrow> perp_market \<Rightarrow> perp_market result" where
  "update_market_users p update_type new_base new_quote m =
     (if update_type = PU_Open then
        and_then
          (if pp_quote_asset_amount p = 0 \<and> pp_base_asset_amount p = 0
           then map_ok (\<lambda>n. m\<lparr>pm_number_of_users := n\<rparr>) (safe_add U32 (pm_number_of_users m) 1)
           else Ok m) (\<lambda>m.
        map_ok (\<lambda>n. m\<lparr>pm_number_of_users_with_base := n\<rparr>) (safe_add U32 (pm_number_of_users_with_base m) 1))
      else if update_type = PU_Close then
        (let m = (if new_base = 0 \<and> new_quote = 0
                  then m\<lparr>pm_number_of_users := saturating_sub U32 (pm_number_of_users m) 1\<rparr> else m) in
         Ok (m\<lparr>pm_number_of_users_with_base := saturating_sub U32 (pm_number_of_users_with_base m) 1\<rparr>))
      else Ok m)"

definition update_market_totals ::
  "perp_position \<Rightarrow> position_delta \<Rightarrow> position_update_type \<Rightarrow> int \<Rightarrow> int \<Rightarrow> int \<Rightarrow> perp_market
     \<Rightarrow> perp_market result" where
  "update_market_totals p delta update_type new_base new_entry new_break_even m =
     (if update_type = PU_Open \<or> update_type = PU_Increase then
        (let d = (if new_base > 0 then Long else Short) in
         and_then (bump_base (safe_add I128) d (pd_base_asset_amount delta) m) (\<lambda>m.
         and_then (bump_entry (safe_add I128) d (pd_quote_asset_amount delta) m) (\<lambda>m.
         bump_break_even (safe_add I128) d (pd_quote_asset_amount delta) m)))
      else if update_type = PU_Reduce \<or> update_type = PU_Close then
        (let d = (if pp_base_asset_amount p > 0 then Long else Short) in
         and_then (bump_base (safe_add I128) d (pd_base_asset_amount delta) m) (\<lambda>m.
         and_then (safe_sub I64 (pp_quote_entry_amount p) new_entry) (\<lambda>x.
         and_then (bump_entry (safe_sub I128) d x m) (\<lambda>m.
         and_then (safe_sub I64 (pp_quote_break_even_amount p) new_break_even) (\<lambda>x.
         bump_break_even (safe_sub I128) d x m)))))
      else
        (let new_side = (if new_base > 0 then Long else Short);
             old_side = (if new_base > 0 then Short else Long) in
         and_then (bump_base (safe_sub I128) old_side (pp_base_asset_amount p) m) (\<lambda>m.
         and_then (bump_base (safe_add I128) new_side new_base m) (\<lambda>m.
         and_then (bump_entry (safe_sub I128) old_side (pp_quote_entry_amount p) m) (\<lambda>m.
         and_then (bump_entry (safe_add I128) new_side new_entry m) (\<lambda>m.
         and_then (bump_break_even (safe_sub I128) old_side (pp_quote_break_even_amount p) m) (\<lambda>m.
         bump_break_even (safe_add I128) new_side new_break_even m)))))))"

text \<open>A position that holds base must have settled its funding first.\<close>

definition validate_position_funding :: "perp_position \<Rightarrow> perp_market \<Rightarrow> unit result" where
  "validate_position_funding p m =
     (case get_direction p of
        Long \<Rightarrow>
          if pp_base_asset_amount p \<noteq> 0 then
            and_then (cast I128 (pp_last_cumulative_funding_rate p)) (\<lambda>r.
            validate (r = pm_cumulative_funding_rate_long m) InvalidPositionLastFundingRate)
          else Ok ()
      | Short \<Rightarrow>
          and_then (cast I64 (pm_cumulative_funding_rate_short m)) (\<lambda>r.
          validate (pp_last_cumulative_funding_rate p = r) InvalidPositionLastFundingRate))"

definition new_position_funding ::
  "perp_position \<Rightarrow> position_update_type \<Rightarrow> int \<Rightarrow> perp_market \<Rightarrow> perp_position result" where
  "new_position_funding p update_type new_base m =
     (if update_type = PU_Close then Ok (p\<lparr>pp_last_cumulative_funding_rate := 0\<rparr>)
      else if update_type = PU_Open \<or> update_type = PU_Increase \<or> update_type = PU_Flip then
        map_ok (\<lambda>r. p\<lparr>pp_last_cumulative_funding_rate := r\<rparr>)
          (cast I64 (if new_base > 0 then pm_cumulative_funding_rate_long m
                     else pm_cumulative_funding_rate_short m))
      else Ok p)"

definition increment_pending_bankruptcy_claims :: "perp_market \<Rightarrow> perp_market" where
  "increment_pending_bankruptcy_claims m =
     m\<lparr>pm_pending_bankruptcy_claims := saturating_add U16 (pm_pending_bankruptcy_claims m) 1\<rparr>"

definition decrement_pending_bankruptcy_claims :: "perp_market \<Rightarrow> perp_market" where
  "decrement_pending_bankruptcy_claims m =
     m\<lparr>pm_pending_bankruptcy_claims := saturating_sub U16 (pm_pending_bankruptcy_claims m) 1\<rparr>"

definition release_bankruptcy_claim_if_settled ::
  "perp_position \<Rightarrow> perp_market \<Rightarrow> perp_position \<times> perp_market" where
  "release_bankruptcy_claim_if_settled p m =
     (if has_bankruptcy_claim p \<and> pp_quote_asset_amount p \<ge> 0
      then (clear_bankruptcy_claim p, decrement_pending_bankruptcy_claims m) else (p, m))"

definition update_quote_asset_amount ::
  "perp_position \<Rightarrow> perp_market \<Rightarrow> int \<Rightarrow> (perp_position \<times> perp_market) result" where
  "update_quote_asset_amount p m delta =
     (if delta = 0 then Ok (p, m)
      else
        and_then
          (if pp_quote_asset_amount p = 0 \<and> pp_base_asset_amount p = 0
           then map_ok (\<lambda>n. m\<lparr>pm_number_of_users := n\<rparr>) (safe_add U32 (pm_number_of_users m) 1)
           else Ok m) (\<lambda>m.
        and_then (safe_add I64 (pp_quote_asset_amount p) delta) (\<lambda>q.
        let p = p\<lparr>pp_quote_asset_amount := q\<rparr> in
        and_then (cast I128 delta) (\<lambda>d.
        and_then (safe_add I128 (pm_quote_asset_amount m) d) (\<lambda>q.
        let m = m\<lparr>pm_quote_asset_amount := q\<rparr>;
            m = (if pp_quote_asset_amount p = 0 \<and> pp_base_asset_amount p = 0
                 then m\<lparr>pm_number_of_users := saturating_sub U32 (pm_number_of_users m) 1\<rparr> else m) in
        Ok (release_bankruptcy_claim_if_settled p m))))))"

definition update_quote_break_even_amount ::
  "perp_position \<Rightarrow> perp_market \<Rightarrow> int \<Rightarrow> (perp_position \<times> perp_market) result" where
  "update_quote_break_even_amount p m delta =
     (if delta = 0 \<or> pp_base_asset_amount p = 0 then Ok (p, m)
      else
        and_then (safe_add I64 (pp_quote_break_even_amount p) delta) (\<lambda>b.
        and_then (bump_break_even (safe_add I128) (get_direction p) delta m) (\<lambda>m.
        Ok (p\<lparr>pp_quote_break_even_amount := b\<rparr>, m))))"

definition update_quote_asset_and_break_even_amount ::
  "perp_position \<Rightarrow> perp_market \<Rightarrow> int \<Rightarrow> (perp_position \<times> perp_market) result" where
  "update_quote_asset_and_break_even_amount p m delta =
     and_then (update_quote_asset_amount p m delta) (\<lambda>(p, m).
     update_quote_break_even_amount p m delta)"

definition update_position_and_market ::
  "perp_position \<Rightarrow> perp_market \<Rightarrow> position_delta \<Rightarrow> (perp_position \<times> perp_market \<times> int) result" where
  "update_position_and_market p m delta =
     (if pd_base_asset_amount delta = 0 then
        and_then (update_quote_asset_amount p m (pd_quote_asset_amount delta)) (\<lambda>(p, m).
        Ok (p, m, pd_quote_asset_amount delta))
      else
        and_then (get_position_update_type p delta) (\<lambda>update_type.
        and_then (get_new_position_amounts p delta) (\<lambda>(new_base, new_quote).
        and_then (entry_amounts_after p delta update_type) (\<lambda>(new_entry, new_break_even, pnl).
        and_then (update_market_users p update_type new_base new_quote m) (\<lambda>m.
        and_then (safe_add I128 (pm_quote_asset_amount m) (pd_quote_asset_amount delta)) (\<lambda>q.
        and_then (update_market_totals p delta update_type new_base new_entry new_break_even
            (m\<lparr>pm_quote_asset_amount := q\<rparr>)) (\<lambda>m.
        and_then (validate_position_funding p m) (\<lambda>_.
        and_then (new_position_funding p update_type new_base m) (\<lambda>p.
        and_then (is_multiple_of_step_size \<bar>pp_base_asset_amount p\<bar> (pm_order_step_size m)) (\<lambda>multiple.
        and_then (validate multiple InvalidPerpPositionDetected) (\<lambda>_.
        let p = p\<lparr>pp_base_asset_amount := new_base, pp_quote_asset_amount := new_quote,
                  pp_quote_entry_amount := new_entry, pp_quote_break_even_amount := new_break_even\<rparr> in
        let released = release_bankruptcy_claim_if_settled p m in
        Ok (fst released, snd released, pnl))))))))))))"

definition calculate_quote_asset_amount_surplus ::
  "position_direction \<Rightarrow> int \<Rightarrow> int \<Rightarrow> int \<Rightarrow> (int \<times> int) result" where
  "calculate_quote_asset_amount_surplus position_direction quote_asset_swapped base_asset_amount fill_price =
     and_then (calculate_quote_asset_amount_for_maker_order base_asset_amount fill_price PERP_DECIMALS
         position_direction) (\<lambda>quote_asset_amount.
     and_then
       (case position_direction of
          Long \<Rightarrow>
            and_then (cast I64 quote_asset_amount) (\<lambda>q.
            and_then (cast I64 quote_asset_swapped) (\<lambda>s. safe_sub I64 q s))
        | Short \<Rightarrow>
            and_then (cast I64 quote_asset_swapped) (\<lambda>s.
            and_then (cast I64 quote_asset_amount) (\<lambda>q. safe_sub I64 s q))) (\<lambda>surplus.
     Ok (quote_asset_amount, surplus)))"

section \<open>Settled pnl and open orders\<close>

definition update_position_settled_pnl :: "perp_position \<Rightarrow> int \<Rightarrow> perp_position result" where
  "update_position_settled_pnl p delta =
     map_ok (\<lambda>x. p\<lparr>pp_settled_pnl := x\<rparr>) (safe_add I64 (pp_settled_pnl p) delta)"

definition update_user_settled_pnl :: "user \<Rightarrow> int \<Rightarrow> user result" where
  "update_user_settled_pnl u delta =
     map_ok (\<lambda>x. u\<lparr>us_settled_perp_pnl := x\<rparr>) (safe_add I64 (us_settled_perp_pnl u) delta)"

definition update_settled_pnl :: "user \<Rightarrow> nat \<Rightarrow> int \<Rightarrow> user result" where
  "update_settled_pnl u position_index delta =
     and_then (update_user_settled_pnl u delta) (\<lambda>u.
     with_nth position_index (us_perp_positions u) (\<lambda>p.
     and_then (update_position_settled_pnl p delta) (\<lambda>p.
     Ok (u\<lparr>us_perp_positions := (us_perp_positions u)[position_index := p]\<rparr>))))"

definition increase_open_bids_and_asks ::
  "perp_position \<Rightarrow> position_direction \<Rightarrow> int \<Rightarrow> bool \<Rightarrow> perp_position result" where
  "increase_open_bids_and_asks p direction base_asset_amount_unfilled update =
     (if \<not> update then Ok p
      else
        and_then (cast I64 base_asset_amount_unfilled) (\<lambda>b.
        case direction of
          Long \<Rightarrow> map_ok (\<lambda>x. p\<lparr>pp_open_bids := x\<rparr>) (safe_add I64 (pp_open_bids p) b)
        | Short \<Rightarrow> map_ok (\<lambda>x. p\<lparr>pp_open_asks := x\<rparr>) (safe_sub I64 (pp_open_asks p) b)))"

definition decrease_open_bids_and_asks ::
  "perp_position \<Rightarrow> position_direction \<Rightarrow> int \<Rightarrow> bool \<Rightarrow> perp_position result" where
  "decrease_open_bids_and_asks p direction base_asset_amount_unfilled update =
     (if \<not> update then Ok p
      else
        and_then (cast I64 base_asset_amount_unfilled) (\<lambda>b.
        case direction of
          Long \<Rightarrow> map_ok (\<lambda>x. p\<lparr>pp_open_bids := max x 0\<rparr>) (safe_sub I64 (pp_open_bids p) b)
        | Short \<Rightarrow> map_ok (\<lambda>x. p\<lparr>pp_open_asks := min x 0\<rparr>) (safe_add I64 (pp_open_asks p) b)))"

text \<open>The booking of a settled debt; the market lookup of the source is the market given here.\<close>

definition flag_perp_bankruptcy_claim ::
  "perp_position \<Rightarrow> perp_market \<Rightarrow> perp_position \<times> perp_market" where
  "flag_perp_bankruptcy_claim p m =
     (if has_bankruptcy_claim p \<or> pp_base_asset_amount p \<noteq> 0 \<or> pp_quote_asset_amount p \<ge> 0 then (p, m)
      else (set_bankruptcy_claim p, increment_pending_bankruptcy_claims m))"

section \<open>The ledger of a perp market\<close>

text \<open>
  The totals a market keeps of its positions, and the share of one position in each. The claims are
  the bankrupt debts booked against the market.
\<close>

datatype market_total =
    T_base position_direction | T_entry position_direction | T_break_even position_direction
  | T_quote | T_users | T_with_base | T_claims

fun total_of :: "market_total \<Rightarrow> perp_market \<Rightarrow> int" where
  "total_of (T_base Long) m = pm_base_asset_amount_long m"
| "total_of (T_base Short) m = pm_base_asset_amount_short m"
| "total_of (T_entry Long) m = pm_quote_entry_amount_long m"
| "total_of (T_entry Short) m = pm_quote_entry_amount_short m"
| "total_of (T_break_even Long) m = pm_quote_break_even_amount_long m"
| "total_of (T_break_even Short) m = pm_quote_break_even_amount_short m"
| "total_of T_quote m = pm_quote_asset_amount m"
| "total_of T_users m = pm_number_of_users m"
| "total_of T_with_base m = pm_number_of_users_with_base m"
| "total_of T_claims m = pm_pending_bankruptcy_claims m"

definition on_side :: "position_direction \<Rightarrow> perp_position \<Rightarrow> bool" where
  "on_side d p = (case d of Long \<Rightarrow> pp_base_asset_amount p > 0 | Short \<Rightarrow> pp_base_asset_amount p < 0)"

fun share_of :: "market_total \<Rightarrow> perp_position \<Rightarrow> int" where
  "share_of (T_base d) p = (if on_side d p then pp_base_asset_amount p else 0)"
| "share_of (T_entry d) p = (if on_side d p then pp_quote_entry_amount p else 0)"
| "share_of (T_break_even d) p = (if on_side d p then pp_quote_break_even_amount p else 0)"
| "share_of T_quote p = pp_quote_asset_amount p"
| "share_of T_users p = of_bool (pp_base_asset_amount p \<noteq> 0 \<or> pp_quote_asset_amount p \<noteq> 0)"
| "share_of T_with_base p = of_bool (pp_base_asset_amount p \<noteq> 0)"
| "share_of T_claims p = of_bool (has_bankruptcy_claim p)"

text \<open>A closed position has no entry amounts left; a booked claim is a debt.\<close>

definition position_inv :: "perp_position \<Rightarrow> bool" where
  "position_inv p \<longleftrightarrow>
     (pp_base_asset_amount p = 0 \<longrightarrow> pp_quote_entry_amount p = 0 \<and> pp_quote_break_even_amount p = 0)
     \<and> (has_bankruptcy_claim p \<longrightarrow> pp_quote_asset_amount p < 0)"

record perp_book =
  bo_market :: perp_market
  bo_positions :: "perp_position list"

datatype book_op =
    Trade nat position_delta
  | AddQuote nat int
  | AddQuoteAndBreakEven nat int
  | BookClaim nat
  | Recycle nat perp_position
  | OpenOrder nat position_direction int bool
  | CloseOrder nat position_direction int bool

definition book_put :: "perp_book \<Rightarrow> nat \<Rightarrow> perp_position \<times> perp_market \<Rightarrow> perp_book" where
  "book_put bo i pm = bo\<lparr>bo_market := snd pm, bo_positions := (bo_positions bo)[i := fst pm]\<rparr>"

text \<open>
  \<open>Recycle\<close> is the reuse of a slot by \<open>add_new_position\<close>: an available position is replaced by a
  fresh one (of this market or, seen from this market, of none).
\<close>

primrec book_step :: "perp_book \<Rightarrow> book_op \<Rightarrow> perp_book result" where
  "book_step bo (Trade i delta) =
     with_nth i (bo_positions bo) (\<lambda>p.
     and_then (update_position_and_market p (bo_market bo) delta) (\<lambda>(p, m, pnl). Ok (book_put bo i (p, m))))"
| "book_step bo (AddQuote i delta) =
     with_nth i (bo_positions bo) (\<lambda>p.
     map_ok (book_put bo i) (update_quote_asset_amount p (bo_market bo) delta))"
| "book_step bo (AddQuoteAndBreakEven i delta) =
     with_nth i (bo_positions bo) (\<lambda>p.
     map_ok (book_put bo i) (update_quote_asset_and_break_even_amount p (bo_market bo) delta))"
| "book_step bo (BookClaim i) =
     with_nth i (bo_positions bo) (\<lambda>p.
     Ok (book_put bo i (flag_perp_bankruptcy_claim p (bo_market bo))))"
| "book_step bo (Recycle i fresh) =
     with_nth i (bo_positions bo) (\<lambda>p.
     and_then (validate (perp_is_available p) MaxNumberOfPositions) (\<lambda>_.
     Ok (book_put bo i (default_perp_position\<lparr>pp_market_index := pp_market_index fresh,
       pp_max_margin_ratio := pp_max_margin_ratio fresh\<rparr>, bo_market bo))))"
| "book_step bo (OpenOrder i d b update) =
     with_nth i (bo_positions bo) (\<lambda>p.
     map_ok (\<lambda>p. book_put bo i (p, bo_market bo)) (increase_open_bids_and_asks p d b update))"
| "book_step bo (CloseOrder i d b update) =
     with_nth i (bo_positions bo) (\<lambda>p.
     map_ok (\<lambda>p. book_put bo i (p, bo_market bo)) (decrease_open_bids_and_asks p d b update))"

definition all_totals :: "market_total list" where
  "all_totals = [T_base Long, T_base Short, T_entry Long, T_entry Short, T_break_even Long,
     T_break_even Short, T_quote, T_users, T_with_base, T_claims]"

lemma all_totals [simp]: "k \<in> set all_totals"
proof -
  have "d = Long \<or> d = Short" for d by (cases d) simp_all
  then show ?thesis by (cases k) (auto simp: all_totals_def)
qed

definition book_inv :: "perp_book \<Rightarrow> bool" where
  "book_inv bo \<longleftrightarrow> list_all position_inv (bo_positions bo) \<and> length (bo_positions bo) \<le> 65535
     \<and> list_all (\<lambda>k. total_of k (bo_market bo) = sum_list (map (share_of k) (bo_positions bo))) all_totals"

lemma book_inv_total: "book_inv bo \<Longrightarrow> total_of k (bo_market bo) = sum_list (map (share_of k) (bo_positions bo))"
  using all_totals by (auto simp: book_inv_def list_all_iff)

text \<open>What one position's update does to the totals.\<close>

definition moves :: "perp_position \<Rightarrow> perp_market \<Rightarrow> perp_position \<Rightarrow> perp_market \<Rightarrow> bool" where
  "moves p m p' m' \<longleftrightarrow> position_inv p' \<and> (\<forall>k. total_of k m' - share_of k p' = total_of k m - share_of k p)"

text \<open>The counters count this position among others.\<close>

definition counted :: "perp_position \<Rightarrow> perp_market \<Rightarrow> bool" where
  "counted p m \<longleftrightarrow> (\<forall>k \<in> {T_users, T_with_base, T_claims}. share_of k p \<le> total_of k m \<and> total_of k m \<le> 65535)"

lemma on_side_simps [simp]:
  "on_side Long p \<longleftrightarrow> pp_base_asset_amount p > 0" "on_side Short p \<longleftrightarrow> pp_base_asset_amount p < 0"
  by (simp_all add: on_side_def)

lemma total_of_quote [simp]:
  "total_of k (m\<lparr>pm_quote_asset_amount := q\<rparr>) = (if k = T_quote then q else total_of k m)"
  "total_of k (m\<lparr>pm_number_of_users := n\<rparr>) = (if k = T_users then n else total_of k m)"
  "total_of k (m\<lparr>pm_number_of_users_with_base := n\<rparr>) = (if k = T_with_base then n else total_of k m)"
  "total_of k (m\<lparr>pm_pending_bankruptcy_claims := n\<rparr>) = (if k = T_claims then n else total_of k m)"
  by (cases "(k, m)" rule: total_of.cases; simp)+

lemma bump_totals:
  "bump_base (safe_add I128) d x m = Ok m' \<Longrightarrow> total_of k m' = total_of k m + (if k = T_base d then x else 0)"
  "bump_base (safe_sub I128) d x m = Ok m' \<Longrightarrow> total_of k m' = total_of k m - (if k = T_base d then x else 0)"
  "bump_entry (safe_add I128) d x m = Ok m' \<Longrightarrow> total_of k m' = total_of k m + (if k = T_entry d then x else 0)"
  "bump_entry (safe_sub I128) d x m = Ok m' \<Longrightarrow> total_of k m' = total_of k m - (if k = T_entry d then x else 0)"
  "bump_break_even (safe_add I128) d x m = Ok m' \<Longrightarrow>
     total_of k m' = total_of k m + (if k = T_break_even d then x else 0)"
  "bump_break_even (safe_sub I128) d x m = Ok m' \<Longrightarrow>
     total_of k m' = total_of k m - (if k = T_break_even d then x else 0)"
  by (cases "(k, m)" rule: total_of.cases; cases d;
      auto simp: bump_base_def bump_entry_def bump_break_even_def ok_iff)+

lemma update_market_totals_Ok:
  assumes "update_market_totals p delta ty new_base new_entry new_be m = Ok m'"
  shows "total_of k m' = total_of k m +
    (if ty = PU_Open \<or> ty = PU_Increase then
       (let d = (if new_base > 0 then Long else Short) in
        (if k = T_base d then pd_base_asset_amount delta else 0)
        + (if k = T_entry d then pd_quote_asset_amount delta else 0)
        + (if k = T_break_even d then pd_quote_asset_amount delta else 0))
     else if ty = PU_Reduce \<or> ty = PU_Close then
       (let d = (if pp_base_asset_amount p > 0 then Long else Short) in
        (if k = T_base d then pd_base_asset_amount delta else 0)
        - (if k = T_entry d then pp_quote_entry_amount p - new_entry else 0)
        - (if k = T_break_even d then pp_quote_break_even_amount p - new_be else 0))
     else
       (let n = (if new_base > 0 then Long else Short); old = (if new_base > 0 then Short else Long) in
        (if k = T_base n then new_base else 0) - (if k = T_base old then pp_base_asset_amount p else 0)
        + (if k = T_entry n then new_entry else 0) - (if k = T_entry old then pp_quote_entry_amount p else 0)
        + (if k = T_break_even n then new_be else 0)
        - (if k = T_break_even old then pp_quote_break_even_amount p else 0)))"
  using assms
  by (auto simp: update_market_totals_def Let_def ok_iff split: if_split_asm dest!: bump_totals [where k = k])

lemma flag_amounts [simp]:
  "pp_base_asset_amount (set_flag f p) = pp_base_asset_amount p"
  "pp_quote_asset_amount (set_flag f p) = pp_quote_asset_amount p"
  "pp_quote_entry_amount (set_flag f p) = pp_quote_entry_amount p"
  "pp_quote_break_even_amount (set_flag f p) = pp_quote_break_even_amount p"
  "pp_base_asset_amount (clear_flag f p) = pp_base_asset_amount p"
  "pp_quote_asset_amount (clear_flag f p) = pp_quote_asset_amount p"
  "pp_quote_entry_amount (clear_flag f p) = pp_quote_entry_amount p"
  "pp_quote_break_even_amount (clear_flag f p) = pp_quote_break_even_amount p"
  by (simp_all add: set_flag_def clear_flag_def)

lemmas claim_flag_defs = has_bankruptcy_claim_def set_bankruptcy_claim_def clear_bankruptcy_claim_def

lemma share_of_claim:
  "share_of k (set_bankruptcy_claim p) = (if k = T_claims then 1 else share_of k p)"
  "share_of k (clear_bankruptcy_claim p) = (if k = T_claims then 0 else share_of k p)"
  by (cases k; simp add: claim_flag_defs on_side_def split: position_direction.split)+

lemma release_moves:
  assumes "release_bankruptcy_claim_if_settled p m = (p', m')"
    and "has_bankruptcy_claim p \<Longrightarrow> 1 \<le> pm_pending_bankruptcy_claims m" "pm_pending_bankruptcy_claims m \<le> 65535"
    and "pp_base_asset_amount p = 0 \<Longrightarrow> pp_quote_entry_amount p = 0 \<and> pp_quote_break_even_amount p = 0"
  shows "moves p m p' m'"
proof (cases "has_bankruptcy_claim p \<and> pp_quote_asset_amount p \<ge> 0")
  case True
  then have "p' = clear_bankruptcy_claim p"
    "m' = m\<lparr>pm_pending_bankruptcy_claims := pm_pending_bankruptcy_claims m - 1\<rparr>"
    using assms by (auto simp: release_bankruptcy_claim_if_settled_def decrement_pending_bankruptcy_claims_def
        saturating_sub_def min_def)
  then show ?thesis using True assms(4)
    by (simp add: moves_def share_of_claim position_inv_def) (simp add: claim_flag_defs)
next
  case False
  then show ?thesis using assms by (auto simp: release_bankruptcy_claim_if_settled_def moves_def position_inv_def)
qed

lemma get_position_update_type_Ok:
  assumes "get_position_update_type p delta = Ok ty" "pd_base_asset_amount delta \<noteq> 0"
  shows "case ty of PU_Open \<Rightarrow> pp_base_asset_amount p = 0
     | PU_Increase \<Rightarrow> 0 < pp_base_asset_amount p \<and> 0 < pd_base_asset_amount delta
         \<or> pp_base_asset_amount p < 0 \<and> pd_base_asset_amount delta < 0
     | PU_Reduce \<Rightarrow> 0 < pp_base_asset_amount p \<and> pd_base_asset_amount delta < 0
           \<and> 0 < pp_base_asset_amount p + pd_base_asset_amount delta
         \<or> pp_base_asset_amount p < 0 \<and> 0 < pd_base_asset_amount delta
           \<and> pp_base_asset_amount p + pd_base_asset_amount delta < 0
     | PU_Close \<Rightarrow> pp_base_asset_amount p \<noteq> 0 \<and> pd_base_asset_amount delta = - pp_base_asset_amount p
     | PU_Flip \<Rightarrow> 0 < pp_base_asset_amount p \<and> pp_base_asset_amount p + pd_base_asset_amount delta < 0
         \<or> pp_base_asset_amount p < 0 \<and> 0 < pp_base_asset_amount p + pd_base_asset_amount delta"
proof -
  have aux: "case (if b = 0 then PU_Open else if sgn b = sgn d then PU_Increase
      else if \<bar>b\<bar> > \<bar>d\<bar> then PU_Reduce else if \<bar>b\<bar> = \<bar>d\<bar> then PU_Close else PU_Flip) of
       PU_Open \<Rightarrow> b = 0 | PU_Increase \<Rightarrow> 0 < b \<and> 0 < d \<or> b < 0 \<and> d < 0
     | PU_Reduce \<Rightarrow> 0 < b \<and> d < 0 \<and> 0 < b + d \<or> b < 0 \<and> 0 < d \<and> b + d < 0
     | PU_Close \<Rightarrow> b \<noteq> 0 \<and> d = - b
     | PU_Flip \<Rightarrow> 0 < b \<and> b + d < 0 \<or> b < 0 \<and> 0 < b + d" if "d \<noteq> 0" for b d :: int
    using that by (cases "b > 0"; cases "b = 0"; cases "d > 0") (auto simp: sgn_if)
  have "ty = (if pp_base_asset_amount p = 0 then PU_Open
      else if sgn (pp_base_asset_amount p) = sgn (pd_base_asset_amount delta) then PU_Increase
      else if \<bar>pp_base_asset_amount p\<bar> > \<bar>pd_base_asset_amount delta\<bar> then PU_Reduce
      else if \<bar>pp_base_asset_amount p\<bar> = \<bar>pd_base_asset_amount delta\<bar> then PU_Close else PU_Flip)"
    using assms(1) by (simp add: get_position_update_type_def ok_iff Let_def split: if_split_asm)
  then show ?thesis using aux [OF assms(2)] by (simp only:)
qed

lemma pro_rata_all: "pro_rata_i64 a b b = Ok x \<Longrightarrow> 0 < b \<Longrightarrow> x = a"
  by (simp add: pro_rata_i64_def ok_iff mult_sdiv_cancel)

lemma entry_amounts_close:
  assumes "entry_amounts_after p delta PU_Close = Ok (e, be, pnl)"
    and "pp_base_asset_amount p \<noteq> 0" "pd_base_asset_amount delta = - pp_base_asset_amount p"
  shows "e = 0" "be = 0"
proof -
  obtain x y where "pro_rata_i64 (pp_quote_entry_amount p) \<bar>pp_base_asset_amount p\<bar> \<bar>pp_base_asset_amount p\<bar> = Ok x"
    "pro_rata_i64 (pp_quote_break_even_amount p) \<bar>pp_base_asset_amount p\<bar> \<bar>pp_base_asset_amount p\<bar> = Ok y"
    "e = pp_quote_entry_amount p - x" "be = pp_quote_break_even_amount p - y"
    using assms(1,3) by (auto simp: entry_amounts_after_def ok_iff get_base_asset_amount_abs_def
        get_base_asset_amount_def get_delta_base_abs_def)
  then show "e = 0" "be = 0" using assms(2) pro_rata_all by force+
qed

lemma entry_amounts_open:
  assumes "entry_amounts_after p delta ty = Ok (e, be, pnl)" "ty = PU_Open \<or> ty = PU_Increase"
  shows "e = pp_quote_entry_amount p + pd_quote_asset_amount delta"
    "be = pp_quote_break_even_amount p + pd_quote_asset_amount delta" "pnl = 0"
  using assms by (elim disjE; simp add: entry_amounts_after_def ok_iff)+

lemma movesI:
  assumes "position_inv p'" "\<And>k. total_of k m' - share_of k p' = total_of k m - share_of k p"
  shows "moves p m p' m'"
  using assms by (simp add: moves_def)

lemma moves_trans: "moves p m p1 m1 \<Longrightarrow> moves p1 m1 p2 m2 \<Longrightarrow> moves p m p2 m2"
  by (simp add: moves_def)

lemma share_of_put:
  "share_of k (p\<lparr>pp_last_cumulative_funding_rate := r\<rparr>) = share_of k p"
  "share_of k (p\<lparr>pp_open_bids := r\<rparr>) = share_of k p"
  "share_of k (p\<lparr>pp_open_asks := r\<rparr>) = share_of k p"
  by (cases k; simp add: has_bankruptcy_claim_def has_flag_def on_side_def split: position_direction.split)+

lemma update_market_users_Ok:
  assumes "update_market_users p ty nb nq m = Ok m'" "counted p m" "ty = PU_Close \<Longrightarrow> pp_base_asset_amount p \<noteq> 0"
  shows "total_of k m' = total_of k m +
    (if k = T_users then
       (if ty = PU_Open \<and> pp_quote_asset_amount p = 0 \<and> pp_base_asset_amount p = 0 then 1
        else if ty = PU_Close \<and> nb = 0 \<and> nq = 0 then - 1 else 0)
     else if k = T_with_base then (if ty = PU_Open then 1 else if ty = PU_Close then - 1 else 0) else 0)"
proof -
  have le: "1 \<le> pm_number_of_users m" "1 \<le> pm_number_of_users_with_base m"
    "pm_number_of_users m \<le> 65535" "pm_number_of_users_with_base m \<le> 65535" if "ty = PU_Close"
    using assms(2) assms(3) [OF that] by (auto simp: counted_def)
  show ?thesis using assms(1) le
    by (cases ty) (auto simp: update_market_users_def ok_iff Let_def saturating_sub_def min_def split: if_split_asm)
qed

lemma fill_moves:
  assumes ty: "get_position_update_type p delta = Ok ty" "pd_base_asset_amount delta \<noteq> 0"
    and ent: "entry_amounts_after p delta ty = Ok (ne, nbe, pnl)"
    and usr: "update_market_users p ty nb nq m = Ok m1"
    and tot: "update_market_totals p delta ty nb ne nbe
      (m1\<lparr>pm_quote_asset_amount := pm_quote_asset_amount m1 + pd_quote_asset_amount delta\<rparr>) = Ok m2"
    and new: "nb = pp_base_asset_amount p + pd_base_asset_amount delta"
      "nq = pp_quote_asset_amount p + pd_quote_asset_amount delta"
    and p: "position_inv p" "counted p m"
    and p2: "p2 = p\<lparr>pp_last_cumulative_funding_rate := r, pp_base_asset_amount := nb, pp_quote_asset_amount := nq,
      pp_quote_entry_amount := ne, pp_quote_break_even_amount := nbe\<rparr>"
  shows "total_of k m2 - share_of k p2 = total_of k m - share_of k p"
    "nb = 0 \<Longrightarrow> ne = 0 \<and> nbe = 0"
proof -
  note t = get_position_update_type_Ok [OF ty]
  have cl: "ty = PU_Close \<Longrightarrow> pp_base_asset_amount p \<noteq> 0" using t by auto
  note u = update_market_users_Ok [OF usr p(2) cl]
  note tt = update_market_totals_Ok [OF tot]
  have c: "has_bankruptcy_claim p2 = has_bankruptcy_claim p"
    by (simp add: p2 has_bankruptcy_claim_def has_flag_def)
  have open0: "pp_quote_entry_amount p = 0 \<and> pp_quote_break_even_amount p = 0" if "ty = PU_Open"
    using that t p(1) by (simp add: position_inv_def)
  have amounts: "ne = pp_quote_entry_amount p + pd_quote_asset_amount delta"
    "nbe = pp_quote_break_even_amount p + pd_quote_asset_amount delta" if "ty = PU_Open \<or> ty = PU_Increase"
    using entry_amounts_open [OF ent that] by auto
  have close: "ne = 0" "nbe = 0" if "ty = PU_Close"
    using that entry_amounts_close [of p delta ne nbe pnl] t ent by auto
  show "nb = 0 \<Longrightarrow> ne = 0 \<and> nbe = 0" using t ty(2) close new by (cases ty) auto
  show "total_of k m2 - share_of k p2 = total_of k m - share_of k p"
  proof (cases k)
    case T_claims
    then show ?thesis using tt [of k] u [of k] c by (simp add: Let_def split: if_split_asm)
  next
    case T_quote
    then show ?thesis using tt [of k] u [of k] new by (simp add: Let_def p2)
  next
    case T_users
    then show ?thesis using tt [of k] u [of k] new t ty(2) by (cases ty) (auto simp: Let_def p2)
  next
    case T_with_base
    then show ?thesis using tt [of k] u [of k] new t ty(2) by (cases ty) (auto simp: Let_def p2)
  next
    case (T_base d)
    then show ?thesis using tt [of k] u [of k] new t ty(2) by (cases ty; cases d) (auto simp: Let_def p2)
  next
    case (T_entry d)
    then show ?thesis using tt [of k] u [of k] new t ty(2) amounts(1) open0 close(1)
      by (cases ty; cases d) (auto simp: Let_def p2)
  next
    case (T_break_even d)
    then show ?thesis using tt [of k] u [of k] new t ty(2) amounts(2) open0 close(2)
      by (cases ty; cases d) (auto simp: Let_def p2)
  qed
qed

lemma counted_claim: "counted p m \<Longrightarrow> has_bankruptcy_claim p \<Longrightarrow> 1 \<le> pm_pending_bankruptcy_claims m"
  "counted p m \<Longrightarrow> pm_pending_bankruptcy_claims m \<le> 65535"
  by (auto simp: counted_def)

lemma update_quote_asset_amount_moves:
  assumes upd: "update_quote_asset_amount p m delta = Ok (p', m')" and p: "position_inv p" "counted p m"
  shows "moves p m p' m'"
proof (cases "delta = 0")
  case True
  then show ?thesis using assms by (simp add: update_quote_asset_amount_def moves_def)
next
  case False
  let ?z = "\<lambda>q. q = 0 \<and> pp_base_asset_amount p = 0" and ?q = "pp_quote_asset_amount p + delta"
  define p1 where "p1 = p\<lparr>pp_quote_asset_amount := ?q\<rparr>"
  define m0 where "m0 = (if ?z (pp_quote_asset_amount p) then m\<lparr>pm_number_of_users := pm_number_of_users m + 1\<rparr> else m)"
  define m1 where "m1 = m0\<lparr>pm_quote_asset_amount := pm_quote_asset_amount m + delta\<rparr>"
  define m2 where "m2 = (if ?z ?q then m1\<lparr>pm_number_of_users := pm_number_of_users m - 1\<rparr> else m1)"
  have z: "\<not> (?z (pp_quote_asset_amount p) \<and> ?z ?q)" using False by auto
  have sat: "saturating_sub U32 (pm_number_of_users m) 1 = pm_number_of_users m - 1" if "?z ?q"
    using that z p(2) by (auto simp: counted_def saturating_sub_def min_def)
  have rel: "release_bankruptcy_claim_if_settled p1 m2 = (p', m')"
  proof (cases "?z ?q")
    case True
    then show ?thesis using upd False z sat
      by (simp add: update_quote_asset_amount_def ok_iff Let_def p1_def m0_def m1_def m2_def)
  next
    case Fq: False
    then show ?thesis using upd False
      by (cases "?z (pp_quote_asset_amount p)")
        (auto simp: update_quote_asset_amount_def ok_iff Let_def p1_def m0_def m1_def m2_def split: if_split_asm)
  qed
  have c: "has_bankruptcy_claim p1 = has_bankruptcy_claim p"
    by (simp add: p1_def has_bankruptcy_claim_def has_flag_def)
  have "total_of k m2 - share_of k p1 = total_of k m - share_of k p" for k
  proof (cases k)
    case T_claims
    then show ?thesis using c by (simp add: m2_def m1_def m0_def)
  qed (use False in \<open>auto simp: m2_def m1_def m0_def p1_def on_side_def split: position_direction.split\<close>)
  moreover have "moves p1 m2 p' m'"
    by (rule release_moves [OF rel])
      (use p c counted_claim [OF p(2)] in \<open>auto simp: m2_def m1_def m0_def p1_def position_inv_def\<close>)
  ultimately show ?thesis by (simp add: moves_def)
qed

lemma update_quote_break_even_amount_moves:
  assumes upd: "update_quote_break_even_amount p m delta = Ok (p', m')" and p: "position_inv p"
  shows "moves p m p' m'"
proof (cases "delta = 0 \<or> pp_base_asset_amount p = 0")
  case True
  then show ?thesis using assms by (simp add: update_quote_break_even_amount_def moves_def)
next
  case False
  then have p': "p' = p\<lparr>pp_quote_break_even_amount := pp_quote_break_even_amount p + delta\<rparr>"
    and b: "bump_break_even (safe_add I128) (get_direction p) delta m = Ok m'"
    using upd by (auto simp: update_quote_break_even_amount_def ok_iff)
  have c: "has_bankruptcy_claim p' = has_bankruptcy_claim p"
    by (simp add: p' has_bankruptcy_claim_def has_flag_def)
  show ?thesis
  proof (rule movesI)
    show "position_inv p'" using p c False by (simp add: position_inv_def p')
    show "total_of k m' - share_of k p' = total_of k m - share_of k p" for k
      using bump_totals(5) [OF b, of k] c False
      by (cases k) (auto simp: p' get_direction_def on_side_def split: position_direction.splits)
  qed
qed

lemma new_position_funding_Ok:
  "new_position_funding p ty nb m = Ok p' \<Longrightarrow> \<exists>r. p' = p\<lparr>pp_last_cumulative_funding_rate := r\<rparr>
     \<and> (fits I64 (pp_last_cumulative_funding_rate p) \<longrightarrow> fits I64 r)"
  by (cases p) (auto simp: new_position_funding_def ok_iff fits_def split: if_split_asm)

lemma fill_Ok:
  assumes "update_position_and_market p m delta = Ok (p', m', pnl)" "pd_base_asset_amount delta \<noteq> 0"
  obtains ty ne nbe m1 m2 r where "get_position_update_type p delta = Ok ty"
    "entry_amounts_after p delta ty = Ok (ne, nbe, pnl)"
    "update_market_users p ty (pp_base_asset_amount p + pd_base_asset_amount delta)
      (pp_quote_asset_amount p + pd_quote_asset_amount delta) m = Ok m1"
    "update_market_totals p delta ty (pp_base_asset_amount p + pd_base_asset_amount delta) ne nbe
      (m1\<lparr>pm_quote_asset_amount := pm_quote_asset_amount m1 + pd_quote_asset_amount delta\<rparr>) = Ok m2"
    "release_bankruptcy_claim_if_settled (p\<lparr>pp_last_cumulative_funding_rate := r,
      pp_base_asset_amount := pp_base_asset_amount p + pd_base_asset_amount delta,
      pp_quote_asset_amount := pp_quote_asset_amount p + pd_quote_asset_amount delta,
      pp_quote_entry_amount := ne, pp_quote_break_even_amount := nbe\<rparr>) m2 = (p', m')"
    "fits I64 (pp_last_cumulative_funding_rate p) \<longrightarrow> fits I64 r"
    "list_all (fits I64) [pp_base_asset_amount p + pd_base_asset_amount delta,
      pp_quote_asset_amount p + pd_quote_asset_amount delta]"
    "fits I128 (pm_quote_asset_amount m1 + pd_quote_asset_amount delta)"
  using assms
  by (auto simp: update_position_and_market_def get_new_position_amounts_def ok_iff Let_def
      dest!: new_position_funding_Ok)

lemma update_position_and_market_moves:
  assumes upd: "update_position_and_market p m delta = Ok (p', m', pnl)" and p: "position_inv p" "counted p m"
  shows "moves p m p' m'"
proof (cases "pd_base_asset_amount delta = 0")
  case True
  then show ?thesis using upd update_quote_asset_amount_moves p
    by (auto simp: update_position_and_market_def ok_iff)
next
  case False
  obtain ty ne nbe m1 m2 r where ty: "get_position_update_type p delta = Ok ty"
    and ent: "entry_amounts_after p delta ty = Ok (ne, nbe, pnl)"
    and usr: "update_market_users p ty (pp_base_asset_amount p + pd_base_asset_amount delta)
      (pp_quote_asset_amount p + pd_quote_asset_amount delta) m = Ok m1"
    and tot: "update_market_totals p delta ty (pp_base_asset_amount p + pd_base_asset_amount delta) ne nbe
      (m1\<lparr>pm_quote_asset_amount := pm_quote_asset_amount m1 + pd_quote_asset_amount delta\<rparr>) = Ok m2"
    and rel: "release_bankruptcy_claim_if_settled (p\<lparr>pp_last_cumulative_funding_rate := r,
      pp_base_asset_amount := pp_base_asset_amount p + pd_base_asset_amount delta,
      pp_quote_asset_amount := pp_quote_asset_amount p + pd_quote_asset_amount delta,
      pp_quote_entry_amount := ne, pp_quote_break_even_amount := nbe\<rparr>) m2 = (p', m')"
    using fill_Ok [OF upd False] by metis
  let ?p2 = "p\<lparr>pp_last_cumulative_funding_rate := r,
      pp_base_asset_amount := pp_base_asset_amount p + pd_base_asset_amount delta,
      pp_quote_asset_amount := pp_quote_asset_amount p + pd_quote_asset_amount delta,
      pp_quote_entry_amount := ne, pp_quote_break_even_amount := nbe\<rparr>"
  note fm1 = fill_moves(1) [OF ty False ent usr tot refl refl p refl, where r = r]
    and fm2 = fill_moves(2) [OF ty False ent usr tot refl refl p refl]
  have c: "has_bankruptcy_claim ?p2 = has_bankruptcy_claim p"
    by (simp add: has_bankruptcy_claim_def has_flag_def)
  have "pm_pending_bankruptcy_claims m2 = pm_pending_bankruptcy_claims m"
    using fm1 [of T_claims] c by simp
  then have "moves ?p2 m2 p' m'"
    by (intro release_moves [OF rel]) (use counted_claim [OF p(2)] c fm2 in auto)
  then show ?thesis using fm1 by (simp add: moves_def)
qed

text \<open>The pnl a fill reports is exactly what it realizes.\<close>

lemma entry_amounts_pnl:
  assumes "entry_amounts_after p delta ty = Ok (ne, nbe, pnl)"
  shows "pnl = pp_quote_entry_amount p + pd_quote_asset_amount delta - ne"
  using assms by (cases ty; simp add: entry_amounts_after_def ok_iff; force)

lemma release_amounts:
  assumes "release_bankruptcy_claim_if_settled p m = (p', m')"
  shows "pp_quote_asset_amount p' = pp_quote_asset_amount p \<and> pp_quote_entry_amount p' = pp_quote_entry_amount p
    \<and> pp_base_asset_amount p' = pp_base_asset_amount p"
  using assms by (auto simp: release_bankruptcy_claim_if_settled_def clear_bankruptcy_claim_def split: if_split_asm)

lemma update_quote_asset_amount_amounts:
  assumes "update_quote_asset_amount p m d = Ok (p', m')"
  shows "pp_quote_asset_amount p' = pp_quote_asset_amount p + d \<and> pp_quote_entry_amount p' = pp_quote_entry_amount p
    \<and> pp_base_asset_amount p' = pp_base_asset_amount p"
proof (cases "d = 0")
  case False
  then obtain n where "release_bankruptcy_claim_if_settled
      (p\<lparr>pp_quote_asset_amount := pp_quote_asset_amount p + d\<rparr>) n = (p', m')"
    using assms by (auto simp: update_quote_asset_amount_def ok_iff Let_def split: if_split_asm)
  from release_amounts [OF this] show ?thesis by simp
qed (use assms in \<open>simp add: update_quote_asset_amount_def\<close>)

lemma update_position_and_market_pnl:
  assumes upd: "update_position_and_market p m delta = Ok (p', m', pnl)"
  shows "pp_quote_asset_amount p' - pp_quote_entry_amount p'
      = pp_quote_asset_amount p - pp_quote_entry_amount p + pnl
    \<and> pp_base_asset_amount p' = pp_base_asset_amount p + pd_base_asset_amount delta
    \<and> pp_quote_asset_amount p' = pp_quote_asset_amount p + pd_quote_asset_amount delta"
proof (cases "pd_base_asset_amount delta = 0")
  case True
  then show ?thesis using upd by (auto simp: update_position_and_market_def ok_iff
      dest!: update_quote_asset_amount_amounts)
next
  case False
  show ?thesis
    by (rule fill_Ok [OF upd False]) (auto dest!: release_amounts entry_amounts_pnl)
qed

lemma flag_claim_moves:
  assumes "position_inv p" "pm_pending_bankruptcy_claims m < 65535 \<or> has_bankruptcy_claim p"
    and "flag_perp_bankruptcy_claim p m = (p', m')" "0 \<le> pm_pending_bankruptcy_claims m"
  shows "moves p m p' m'"
proof (cases "has_bankruptcy_claim p \<or> pp_base_asset_amount p \<noteq> 0 \<or> pp_quote_asset_amount p \<ge> 0")
  case True
  then show ?thesis using assms by (auto simp: flag_perp_bankruptcy_claim_def moves_def split: if_split_asm)
next
  case False
  then have "p' = set_bankruptcy_claim p"
    "m' = m\<lparr>pm_pending_bankruptcy_claims := pm_pending_bankruptcy_claims m + 1\<rparr>"
    using assms by (auto simp: flag_perp_bankruptcy_claim_def increment_pending_bankruptcy_claims_def
        saturating_add_def min_def)
  then show ?thesis using False assms(1)
    by (simp add: moves_def share_of_claim position_inv_def) (simp add: claim_flag_defs)
qed

lemma open_orders_moves:
  "increase_open_bids_and_asks p d b u = Ok p' \<Longrightarrow> position_inv p \<Longrightarrow> moves p m p' m"
  "decrease_open_bids_and_asks p d b u = Ok p' \<Longrightarrow> position_inv p \<Longrightarrow> moves p m p' m"
  by (auto simp: increase_open_bids_and_asks_def decrease_open_bids_and_asks_def ok_iff moves_def share_of_put
      position_inv_def has_bankruptcy_claim_def has_flag_def split: if_split_asm position_direction.split_asm)

lemma recycle_moves:
  assumes "perp_is_available p" "position_inv p"
  shows "moves p m (default_perp_position\<lparr>pp_market_index := i, pp_max_margin_ratio := r\<rparr>) m"
proof (rule movesI)
  show "position_inv (default_perp_position\<lparr>pp_market_index := i, pp_max_margin_ratio := r\<rparr>)"
    by (simp add: position_inv_def default_perp_position_def has_bankruptcy_claim_def has_flag_def)
  have "share_of k p = 0" "share_of k (default_perp_position\<lparr>pp_market_index := i, pp_max_margin_ratio := r\<rparr>) = 0" for k
    using assms by (cases k; auto simp: perp_is_available_def is_open_position_def has_unsettled_pnl_def position_inv_def
        on_side_def default_perp_position_def has_bankruptcy_claim_def has_flag_def split: position_direction.splits)+
  then show "total_of k m - share_of k (default_perp_position\<lparr>pp_market_index := i, pp_max_margin_ratio := r\<rparr>)
    = total_of k m - share_of k p" for k by simp
qed

lemma counter_bounds:
  assumes "book_inv bo" "p \<in> set (bo_positions bo)"
  shows "counted p (bo_market bo)"
proof -
  have share: "share_of k q = of_bool (share_of k q = 1)" if "k \<in> {T_users, T_with_base, T_claims}" for k q
    using that by auto
  have "share_of k p \<le> total_of k (bo_market bo) \<and> total_of k (bo_market bo) \<le> 65535"
    if k: "k \<in> {T_users, T_with_base, T_claims}" for k
  proof -
    have s: "map (share_of k) (bo_positions bo) = map (\<lambda>q. of_bool (share_of k q = 1)) (bo_positions bo)"
      using share [OF k] by simp
    have "share_of k p \<le> sum_list (map (share_of k) (bo_positions bo))"
      by (rule member_le_sum_list_int) (use assms(2) k in auto)
    then show ?thesis
      using book_inv_total [OF assms(1), of k] sum_of_bools(2) [of "\<lambda>q. share_of k q = 1" "bo_positions bo"] s assms(1)
      by (auto simp: book_inv_def)
  qed
  then show ?thesis by (simp add: counted_def)
qed

lemma book_put_inv:
  assumes inv: "book_inv bo" and i: "i < length (bo_positions bo)"
    and mv: "moves (bo_positions bo ! i) (bo_market bo) p' m'"
  shows "book_inv (book_put bo i (p', m'))"
proof -
  have "total_of k m' = sum_list (map (share_of k) ((bo_positions bo)[i := p']))" for k
    using mv book_inv_total [OF inv, of k] i by (simp add: moves_def sum_list_map_update algebra_simps)
  then show ?thesis using inv i mv
    by (simp add: book_inv_def book_put_def moves_def list_all_update list_all_iff [of _ all_totals])
qed

lemma claims_sum: "map (share_of T_claims) ps = map (\<lambda>p. of_bool (has_bankruptcy_claim p)) ps"
  by simp

lemma claims_room:
  assumes inv: "book_inv bo" and p: "p \<in> set (bo_positions bo)" "\<not> has_bankruptcy_claim p"
  shows "pm_pending_bankruptcy_claims (bo_market bo) < 65535"
proof -
  have "(\<Sum>x \<leftarrow> xs. of_bool (P x) :: int) < int (length xs)" if "p \<in> set xs" "\<not> P p" for xs and P :: "perp_position \<Rightarrow> bool"
    using that sum_of_bools(2) [of P] by (induction xs) (auto simp: le_less_trans order.strict_trans1, smt (verit) sum_of_bools(2))
  from this [of "bo_positions bo" has_bankruptcy_claim] show ?thesis
    using p inv book_inv_total [OF inv, of T_claims] unfolding claims_sum by (simp add: book_inv_def)
qed

lemma book_step_inv:
  assumes inv: "book_inv bo" and st: "book_step bo op = Ok bo'"
  shows "book_inv bo'"
proof -
  let ?p = "\<lambda>i. bo_positions bo ! i" and ?m = "bo_market bo"
  have p: "position_inv (?p i)" "counted (?p i) ?m" if "i < length (bo_positions bo)" for i
    using that inv counter_bounds [OF inv] by (auto simp: book_inv_def list_all_length)
  note put = book_put_inv [OF inv]
  show ?thesis
  proof (cases op)
    case (Trade i delta)
    then show ?thesis using st p put update_position_and_market_moves by (auto simp: ok_iff)
  next
    case (AddQuote i delta)
    then show ?thesis using st p put update_quote_asset_amount_moves by (auto simp: ok_iff)
  next
    case (AddQuoteAndBreakEven i delta)
    then obtain p1 m1 p2 m2 where i: "i < length (bo_positions bo)"
      and "update_quote_asset_amount (?p i) ?m delta = Ok (p1, m1)"
      and "update_quote_break_even_amount p1 m1 delta = Ok (p2, m2)" and bo': "bo' = book_put bo i (p2, m2)"
      using st by (auto simp: ok_iff update_quote_asset_and_break_even_amount_def)
    then have "moves (?p i) ?m p1 m1" "moves p1 m1 p2 m2"
      using update_quote_asset_amount_moves p [OF i] update_quote_break_even_amount_moves
      by (auto simp: moves_def)
    then show ?thesis using put [OF i moves_trans] bo' by simp
  next
    case (BookClaim i)
    then have i: "i < length (bo_positions bo)" and "bo' = book_put bo i (flag_perp_bankruptcy_claim (?p i) ?m)"
      using st by (auto simp: ok_iff)
    moreover have "0 \<le> pm_pending_bankruptcy_claims ?m"
      using book_inv_total [OF inv, of T_claims] sum_of_bools(1) unfolding claims_sum by simp
    moreover have "pm_pending_bankruptcy_claims ?m < 65535 \<or> has_bankruptcy_claim (?p i)"
      using claims_room [OF inv nth_mem [OF i]] by blast
    ultimately show ?thesis
      using put [OF i] flag_claim_moves p [OF i] by (metis surj_pair)
  next
    case (Recycle i fresh)
    then show ?thesis using st p put recycle_moves by (auto simp: ok_iff)
  next
    case (OpenOrder i d b u)
    then show ?thesis using st p put open_orders_moves(1) by (auto simp: ok_iff)
  next
    case (CloseOrder i d b u)
    then show ?thesis using st p put open_orders_moves(2) by (auto simp: ok_iff)
  qed
qed

interpretation book: instruction_set book_step book_inv
  by unfold_locales (rule book_step_inv)

section \<open>Ranges\<close>

text \<open>
  The machine type of every total and of the amounts of a position. The model computes on integers,
  so that an operation keeps them in range is a fact about the checks of the code.
\<close>

fun total_ty :: "market_total \<Rightarrow> int_ty" where
  "total_ty T_users = U32" | "total_ty T_with_base = U32" | "total_ty T_claims = U16"
| "total_ty (T_base d) = I128" | "total_ty (T_entry d) = I128" | "total_ty (T_break_even d) = I128"
| "total_ty T_quote = I128"

definition fits_totals :: "perp_market \<Rightarrow> bool" where
  "fits_totals m \<longleftrightarrow> list_all (\<lambda>k. fits (total_ty k) (total_of k m)) all_totals"

definition fits_perp_position :: "perp_position \<Rightarrow> bool" where
  "fits_perp_position p \<longleftrightarrow> list_all (fits I64)
     [pp_last_cumulative_funding_rate p, pp_base_asset_amount p, pp_quote_asset_amount p,
      pp_quote_break_even_amount p, pp_quote_entry_amount p, pp_open_bids p, pp_open_asks p]"

definition book_typed :: "perp_book \<Rightarrow> bool" where
  "book_typed bo \<longleftrightarrow> fits_totals (bo_market bo) \<and> list_all fits_perp_position (bo_positions bo)"

lemma fits_totals_iff: "fits_totals m \<longleftrightarrow> (\<forall>k. fits (total_ty k) (total_of k m))"
  using all_totals by (auto simp: fits_totals_def list_all_iff)

lemma bump_fits:
  assumes "f = safe_add I128 \<or> f = safe_sub I128" "fits_totals m"
  shows "bump_base f d x m = Ok m' \<Longrightarrow> fits_totals m'"
    "bump_entry f d x m = Ok m' \<Longrightarrow> fits_totals m'"
    "bump_break_even f d x m = Ok m' \<Longrightarrow> fits_totals m'"
  using assms by (cases d; force simp: bump_base_def bump_entry_def bump_break_even_def ok_iff fits_totals_def all_totals_def)+

lemma update_market_totals_fits:
  "update_market_totals p delta ty nb ne nbe m = Ok m' \<Longrightarrow> fits_totals m \<Longrightarrow> fits_totals m'"
  by (auto simp: update_market_totals_def Let_def ok_iff split: if_split_asm elim!: bump_fits [rotated 2])

lemma update_market_users_fits:
  "update_market_users p ty nb nq m = Ok m' \<Longrightarrow> fits_totals m \<Longrightarrow> fits_totals m'"
  by (auto simp: update_market_users_def Let_def ok_iff fits_totals_iff split: if_split_asm)

lemma entry_amounts_fits:
  "entry_amounts_after p delta ty = Ok (ne, nbe, pnl) \<Longrightarrow> fits I64 ne \<and> fits I64 nbe"
  by (auto simp: entry_amounts_after_def ok_iff split: if_split_asm)

lemma fits_flag [simp]:
  "fits_perp_position (set_flag f p) = fits_perp_position p"
  "fits_perp_position (clear_flag f p) = fits_perp_position p"
  by (simp_all add: fits_perp_position_def set_flag_def clear_flag_def)

lemma release_fits:
  assumes "release_bankruptcy_claim_if_settled p m = (p', m')" "fits_perp_position p" "fits_totals m"
  shows "fits_perp_position p' \<and> fits_totals m'"
  using assms by (auto simp: release_bankruptcy_claim_if_settled_def clear_bankruptcy_claim_def
      decrement_pending_bankruptcy_claims_def fits_totals_iff split: if_split_asm)

lemma update_quote_asset_amount_fits:
  assumes "update_quote_asset_amount p m d = Ok (p', m')" "fits_perp_position p" "fits_totals m"
  shows "fits_perp_position p' \<and> fits_totals m'"
proof (cases "d = 0")
  case False
  then obtain q n where "release_bankruptcy_claim_if_settled (p\<lparr>pp_quote_asset_amount := q\<rparr>) n = (p', m')"
    "fits I64 q" "fits_totals n"
    using assms by (auto simp: update_quote_asset_amount_def ok_iff Let_def fits_totals_iff split: if_split_asm)
  then show ?thesis using release_fits assms(2) by (auto simp: fits_perp_position_def)
qed (use assms in \<open>simp add: update_quote_asset_amount_def\<close>)

lemma update_quote_break_even_amount_fits:
  assumes "update_quote_break_even_amount p m d = Ok (p', m')" "fits_perp_position p" "fits_totals m"
  shows "fits_perp_position p' \<and> fits_totals m'"
  using assms by (auto simp: update_quote_break_even_amount_def ok_iff fits_perp_position_def
      split: if_split_asm elim!: bump_fits(3) [rotated 2])

lemma update_position_and_market_fits:
  assumes upd: "update_position_and_market p m delta = Ok (p', m', pnl)" and "fits_perp_position p" "fits_totals m"
  shows "fits_perp_position p' \<and> fits_totals m'"
proof (cases "pd_base_asset_amount delta = 0")
  case True
  then show ?thesis using assms update_quote_asset_amount_fits
    by (auto simp: update_position_and_market_def ok_iff)
next
  case False
  show ?thesis
  proof (rule fill_Ok [OF upd False])
    fix ty ne nbe m1 m2 r
    assume ent: "entry_amounts_after p delta ty = Ok (ne, nbe, pnl)"
      and usr: "update_market_users p ty (pp_base_asset_amount p + pd_base_asset_amount delta)
        (pp_quote_asset_amount p + pd_quote_asset_amount delta) m = Ok m1"
      and tot: "update_market_totals p delta ty (pp_base_asset_amount p + pd_base_asset_amount delta) ne nbe
        (m1\<lparr>pm_quote_asset_amount := pm_quote_asset_amount m1 + pd_quote_asset_amount delta\<rparr>) = Ok m2"
      and rel: "release_bankruptcy_claim_if_settled (p\<lparr>pp_last_cumulative_funding_rate := r,
        pp_base_asset_amount := pp_base_asset_amount p + pd_base_asset_amount delta,
        pp_quote_asset_amount := pp_quote_asset_amount p + pd_quote_asset_amount delta,
        pp_quote_entry_amount := ne, pp_quote_break_even_amount := nbe\<rparr>) m2 = (p', m')"
      and r: "fits I64 (pp_last_cumulative_funding_rate p) \<longrightarrow> fits I64 r"
      and am: "list_all (fits I64) [pp_base_asset_amount p + pd_base_asset_amount delta,
        pp_quote_asset_amount p + pd_quote_asset_amount delta]"
      and q: "fits I128 (pm_quote_asset_amount m1 + pd_quote_asset_amount delta)"
    have "fits_totals m2"
      using update_market_totals_fits [OF tot] update_market_users_fits [OF usr assms(3)] q
      by (auto simp: fits_totals_iff)
    then show ?thesis
      using release_fits [OF rel] entry_amounts_fits [OF ent] r am assms(2)
      by (auto simp: fits_perp_position_def)
  qed
qed

lemma open_orders_fits:
  "increase_open_bids_and_asks p d b u = Ok p' \<Longrightarrow> fits_perp_position p \<Longrightarrow> fits_perp_position p'"
  "decrease_open_bids_and_asks p d b u = Ok p' \<Longrightarrow> fits_perp_position p \<Longrightarrow> fits_perp_position p'"
  by (auto simp: increase_open_bids_and_asks_def decrease_open_bids_and_asks_def ok_iff fits_perp_position_def
      fits_def max_def min_def split: if_split_asm position_direction.split_asm)

lemma flag_claim_fits:
  assumes "flag_perp_bankruptcy_claim p m = (p', m')" "fits_perp_position p" "fits_totals m"
  shows "fits_perp_position p' \<and> fits_totals m'"
  using assms by (auto simp: flag_perp_bankruptcy_claim_def set_bankruptcy_claim_def
      increment_pending_bankruptcy_claims_def fits_totals_iff split: if_split_asm)

lemma book_put_typed:
  "book_typed bo \<Longrightarrow> fits_perp_position p \<and> fits_totals m \<Longrightarrow> book_typed (book_put bo i (p, m))"
  by (auto simp: book_typed_def book_put_def list_all_iff dest: set_update_subset_insert [THEN subsetD])

lemma default_perp_position_fits:
  "fits_perp_position (default_perp_position\<lparr>pp_market_index := i, pp_max_margin_ratio := r\<rparr>)"
  by (simp add: fits_perp_position_def default_perp_position_def fits_def)

lemma book_step_typed:
  assumes typed: "book_typed bo" and st: "book_step bo op = Ok bo'"
  shows "book_typed bo'"
proof -
  have p: "fits_totals (bo_market bo)"
    "i < length (bo_positions bo) \<Longrightarrow> fits_perp_position (bo_positions bo ! i)" for i
    using typed by (auto simp: book_typed_def list_all_length)
  note put = book_put_typed [OF typed]
  show ?thesis
  proof (cases op)
    case (AddQuoteAndBreakEven i delta)
    then show ?thesis using st p put update_quote_asset_amount_fits update_quote_break_even_amount_fits
      by (auto simp: ok_iff update_quote_asset_and_break_even_amount_def)
  next
    case (BookClaim i)
    then show ?thesis using st p put flag_claim_fits by (auto simp: ok_iff) (metis surj_pair)
  qed (use st p put update_position_and_market_fits update_quote_asset_amount_fits open_orders_fits
      default_perp_position_fits in \<open>auto simp: ok_iff\<close>)
qed

interpretation book_types: instruction_set book_step book_typed
  by unfold_locales (rule book_step_typed)

end
