(* ===== verification/Oracle.thy ===== *)
theory Oracle
  imports Perp_Market_State Slot_Clock Spot_Balance_Math
begin

text \<open>
  Oracle prices: \<open>state/oracle.rs\<close> and \<open>math/oracle.rs\<close>. The bytes of an oracle account are outside
  the model: an \<open>oracle_account\<close> holds what the loaders of the Pyth client and of Anchor return on
  them. Everything after that is here: scaling to the price precision, the classification of a price
  by \<open>oracle_validity\<close>, the table of which action accepts which class, the choice between the
  market maker's oracle and the exchange's. The log mode of the source selects log lines only and is
  left out, as are the market type and index it prints.
\<close>

section \<open>Sources and accounts\<close>

definition from_u8 :: "int \<Rightarrow> oracle_source option" where
  "from_u8 v =
     (if v = 0 then Some Pyth else if v = 2 then Some QuoteAsset else if v = 3 then Some Pyth1K
      else if v = 4 then Some Pyth1M else if v = 5 then Some PythStableCoin
      else if v = 6 then Some Prelaunch else if v = 12 then Some PythLazer
      else if v = 13 then Some PythLazer1K else if v = 14 then Some PythLazer1M
      else if v = 15 then Some PythLazerStableCoin else None)"

definition oracle_source_try_from :: "int \<Rightarrow> oracle_source result" where
  "oracle_source_try_from v = ok_or (from_u8 v) InvalidOracle"

primrec oracle_source_to_u8 :: "oracle_source \<Rightarrow> int" where
  "oracle_source_to_u8 Pyth = 0"
| "oracle_source_to_u8 DeprecatedSwitchboard = 1"
| "oracle_source_to_u8 QuoteAsset = 2"
| "oracle_source_to_u8 Pyth1K = 3"
| "oracle_source_to_u8 Pyth1M = 4"
| "oracle_source_to_u8 PythStableCoin = 5"
| "oracle_source_to_u8 Prelaunch = 6"
| "oracle_source_to_u8 PythPull = 7"
| "oracle_source_to_u8 Pyth1KPull = 8"
| "oracle_source_to_u8 Pyth1MPull = 9"
| "oracle_source_to_u8 PythStableCoinPull = 10"
| "oracle_source_to_u8 DeprecatedSwitchboardOnDemand = 11"
| "oracle_source_to_u8 PythLazer = 12"
| "oracle_source_to_u8 PythLazer1K = 13"
| "oracle_source_to_u8 PythLazer1M = 14"
| "oracle_source_to_u8 PythLazerStableCoin = 15"

definition is_pyth_push_oracle :: "oracle_source \<Rightarrow> bool" where
  "is_pyth_push_oracle s \<longleftrightarrow> s \<in> {Pyth, Pyth1K, Pyth1M, PythStableCoin}"

definition is_pyth_lazer_oracle :: "oracle_source \<Rightarrow> bool" where
  "is_pyth_lazer_oracle s \<longleftrightarrow> s \<in> {PythLazer, PythLazer1K, PythLazer1M, PythLazerStableCoin}"

definition get_pyth_multiple :: "oracle_source \<Rightarrow> int result" where
  "get_pyth_multiple s =
     (if s \<in> {Pyth, PythLazer, PythStableCoin, PythLazerStableCoin} then Ok 1
      else if s \<in> {Pyth1K, PythLazer1K} then Ok 1000
      else if s \<in> {Pyth1M, PythLazer1M} then Ok 1000000
      else Panic)"

record pyth_lazer_oracle =
  lz_price :: int
  lz_publish_time :: int
  lz_posted_slot :: int
  lz_exponent :: int
  lz_conf :: int

text \<open>The fields of the Pyth client's price account the program reads.\<close>

record pyth_push_price =
  py_price :: int
  py_conf :: int
  py_expo :: int
  py_valid_slot :: int
  py_num :: int
  py_num_qt :: int

record prelaunch_oracle =
  pl_price :: int
  pl_max_price :: int
  pl_confidence :: int
  pl_last_update_slot :: int
  pl_amm_last_update_slot :: int
  pl_perp_market_index :: int

record oracle_account =
  oa_empty :: bool
  oa_push :: "pyth_push_price result"
  oa_lazer :: "pyth_lazer_oracle option"
  oa_prelaunch :: "prelaunch_oracle option"

text \<open>The scaling of a Pyth price and confidence to the price precision.\<close>

definition scale_pyth_price ::
  "int \<Rightarrow> int \<Rightarrow> int \<Rightarrow> int \<Rightarrow> (int \<times> int) result" where
  "scale_pyth_price oracle_precision multiple oracle_price oracle_conf =
     (if oracle_precision \<le> multiple then Err InvalidOracle
      else
        and_then (safe_div U128 oracle_precision multiple) (\<lambda>oracle_precision.
        and_then
          (if oracle_precision > PRICE_PRECISION
           then map_ok (\<lambda>d. (1, d)) (safe_div U128 oracle_precision PRICE_PRECISION)
           else map_ok (\<lambda>m. (m, 1)) (safe_div U128 PRICE_PRECISION oracle_precision))
          (\<lambda>(oracle_scale_mult, oracle_scale_div).
        and_then (cast I128 oracle_price) (\<lambda>p.
        and_then (cast I128 oracle_scale_mult) (\<lambda>sm.
        and_then (safe_mul I128 p sm) (\<lambda>p.
        and_then (cast I128 oracle_scale_div) (\<lambda>sd.
        and_then (safe_div I128 p sd) (\<lambda>p.
        and_then (cast I64 p) (\<lambda>oracle_price_scaled.
        and_then (cast U128 oracle_conf) (\<lambda>c.
        and_then (safe_mul U128 c oracle_scale_mult) (\<lambda>c.
        and_then (safe_div U128 c oracle_scale_div) (\<lambda>c.
        and_then (cast U64 c) (\<lambda>oracle_conf_scaled.
        Ok (oracle_price_scaled, oracle_conf_scaled))))))))))))))"

text \<open>\<open>mainnet_beta\<close> is the build feature of that name.\<close>

definition get_pyth_price ::
  "bool \<Rightarrow> oracle_account \<Rightarrow> int \<Rightarrow> oracle_source \<Rightarrow> oracle_price_data result" where
  "get_pyth_price mainnet_beta price_oracle clock_slot oracle_source =
     and_then (get_pyth_multiple oracle_source) (\<lambda>multiple.
     if oa_empty price_oracle then Err UnableToLoadOracle
     else
       and_then
         (if is_pyth_push_oracle oracle_source then
            and_then (oa_push price_oracle) (\<lambda>d.
            and_then (plain_pow U128 10 \<bar>py_expo d\<bar>) (\<lambda>oracle_precision.
            Ok (py_price d, py_conf d,
                (if mainnet_beta then py_num_qt d \<ge> min (py_num d) 3 else True),
                oracle_precision, py_valid_slot d, None)))
          else if is_pyth_lazer_oracle oracle_source then
            and_then (ok_or (oa_lazer price_oracle) UnableToLoadOracle) (\<lambda>d.
            and_then (plain_pow U128 10 \<bar>lz_exponent d\<bar>) (\<lambda>oracle_precision.
            and_then (cast U64 (lz_publish_time d)) (\<lambda>sequence_id.
            Ok (lz_price d, lz_conf d, True, oracle_precision, lz_posted_slot d, Some sequence_id))))
          else Err InvalidOracle)
         (\<lambda>(oracle_price, oracle_conf, sufficient, oracle_precision, published_slot, sequence_id).
       and_then (scale_pyth_price oracle_precision multiple oracle_price oracle_conf) (\<lambda>(price, conf).
       and_then (cast I64 clock_slot) (\<lambda>s.
       and_then (cast I64 published_slot) (\<lambda>p.
       and_then (safe_sub I64 s p) (\<lambda>oracle_delay.
       Ok \<lparr> op_price = price, op_confidence = conf, op_delay = oracle_delay,
            op_has_sufficient_number_of_data_points = sufficient, op_sequence_id = sequence_id \<rparr>))))))"

definition get_pyth_stable_coin_price ::
  "bool \<Rightarrow> oracle_account \<Rightarrow> int \<Rightarrow> oracle_source \<Rightarrow> oracle_price_data result" where
  "get_pyth_stable_coin_price mainnet_beta price_oracle clock_slot oracle_source =
     and_then (get_pyth_price mainnet_beta price_oracle clock_slot oracle_source) (\<lambda>d.
     and_then (safe_sub I64 (op_price d) PRICE_PRECISION) (\<lambda>diff.
     and_then (plain_abs I64 diff) (\<lambda>diff.
     and_then (cast I64 (op_confidence d)) (\<lambda>confidence.
     Ok (if diff \<le> min 500 confidence then d\<lparr>op_price := PRICE_PRECISION\<rparr> else d)))))"

definition get_prelaunch_price :: "oracle_account \<Rightarrow> int \<Rightarrow> oracle_price_data result" where
  "get_prelaunch_price price_oracle slot =
     and_then (ok_or (oa_prelaunch price_oracle) UnableToLoadOracle) (\<lambda>d.
     and_then (cast I64 (saturating_sub U64 slot (pl_amm_last_update_slot d))) (\<lambda>delay.
     Ok \<lparr> op_price = pl_price d, op_confidence = pl_confidence d, op_delay = delay,
          op_has_sufficient_number_of_data_points = True, op_sequence_id = None \<rparr>))"

definition get_oracle_price ::
  "bool \<Rightarrow> oracle_source \<Rightarrow> oracle_account \<Rightarrow> int \<Rightarrow> oracle_price_data result" where
  "get_oracle_price mainnet_beta oracle_source price_oracle clock_slot =
     (if oracle_source \<in> {Pyth, Pyth1K, Pyth1M, PythLazer, PythLazer1K, PythLazer1M}
      then get_pyth_price mainnet_beta price_oracle clock_slot oracle_source
      else if oracle_source \<in> {PythStableCoin, PythLazerStableCoin}
      then get_pyth_stable_coin_price mainnet_beta price_oracle clock_slot oracle_source
      else if oracle_source = QuoteAsset
      then Ok \<lparr> op_price = PRICE_PRECISION, op_confidence = 1, op_delay = 0,
                op_has_sufficient_number_of_data_points = True, op_sequence_id = None \<rparr>
      else if oracle_source = Prelaunch then get_prelaunch_price price_oracle clock_slot
      else Err InvalidOracle)"

section \<open>Historical prices\<close>

definition default_quote_oracle :: historical_oracle_data where
  "default_quote_oracle =
     \<lparr> ho_last_oracle_price = PRICE_PRECISION, ho_last_oracle_conf = 0, ho_last_oracle_delay = 0,
       ho_last_oracle_price_twap = PRICE_PRECISION, ho_last_oracle_price_twap_5min = PRICE_PRECISION,
       ho_last_oracle_price_twap_ts = 0 \<rparr>"

definition default_price :: "int \<Rightarrow> historical_oracle_data" where
  "default_price price =
     \<lparr> ho_last_oracle_price = price, ho_last_oracle_conf = 0, ho_last_oracle_delay = 10,
       ho_last_oracle_price_twap = price, ho_last_oracle_price_twap_5min = price,
       ho_last_oracle_price_twap_ts = 0 \<rparr>"

definition default_with_current_oracle :: "oracle_price_data \<Rightarrow> int \<Rightarrow> historical_oracle_data" where
  "default_with_current_oracle d now =
     \<lparr> ho_last_oracle_price = op_price d, ho_last_oracle_conf = op_confidence d,
       ho_last_oracle_delay = op_delay d, ho_last_oracle_price_twap = op_price d,
       ho_last_oracle_price_twap_5min = op_price d, ho_last_oracle_price_twap_ts = now \<rparr>"

definition twap_5min_spread_pct :: "historical_oracle_data \<Rightarrow> int \<Rightarrow> int result" where
  "twap_5min_spread_pct h other_price =
     and_then (cast I64 other_price) (\<lambda>p.
     and_then (safe_sub I64 p (ho_last_oracle_price_twap_5min h)) (\<lambda>price_spread.
     and_then (cast I128 price_spread) (\<lambda>s.
     and_then (safe_mul I128 s BID_ASK_SPREAD_PRECISION) (\<lambda>v.
     and_then (cast I128 other_price) (\<lambda>o1.
     and_then (safe_div I128 v o1) (\<lambda>v.
     cast I64 v))))))"

definition index_default_quote_oracle :: historical_index_data where
  "index_default_quote_oracle =
     \<lparr> hi_last_index_bid_price = PRICE_PRECISION, hi_last_index_ask_price = PRICE_PRECISION,
       hi_last_index_price_twap = PRICE_PRECISION, hi_last_index_price_twap_5min = PRICE_PRECISION,
       hi_last_index_price_twap_ts = 0 \<rparr>"

definition index_default_with_current_oracle :: "oracle_price_data \<Rightarrow> historical_index_data result" where
  "index_default_with_current_oracle d =
     and_then (case cast U64 (op_price d) of Ok p \<Rightarrow> Ok p | _ \<Rightarrow> Err FailedUnwrap) (\<lambda>price.
     Ok \<lparr> hi_last_index_bid_price = price, hi_last_index_ask_price = price,
          hi_last_index_price_twap = price, hi_last_index_price_twap_5min = price,
          hi_last_index_price_twap_ts = 0 \<rparr>)"

definition new_strict_oracle_price :: "int \<Rightarrow> int \<Rightarrow> bool \<Rightarrow> strict_oracle_price" where
  "new_strict_oracle_price price twap_5min enabled =
     \<lparr> so_current = price, so_twap_5min = (if enabled then Some twap_5min else None) \<rparr>"

definition strict_validate :: "strict_oracle_price \<Rightarrow> unit result" where
  "strict_validate p =
     and_then (validate (so_current p > 0) InvalidOracle) (\<lambda>_.
     case so_twap_5min p of
       Some twap \<Rightarrow> validate (twap > 0) InvalidOracle
     | None \<Rightarrow> Ok ())"

definition prelaunch_update :: "prelaunch_oracle \<Rightarrow> perp_market \<Rightarrow> int \<Rightarrow> prelaunch_oracle result" where
  "prelaunch_update po m slot =
     (let stats = pm_market_stats m in
      and_then (cast I64 (ms_last_mark_price_twap stats)) (\<lambda>last_twap.
      let new_price = (if pl_max_price po \<le> last_twap then pl_max_price po else last_twap) in
      and_then (cast I64 (ms_last_ask_price_twap stats)) (\<lambda>ask.
      and_then (cast I64 (ms_last_bid_price_twap stats)) (\<lambda>bid.
      and_then (safe_sub I64 ask bid) (\<lambda>spread.
      Ok (po\<lparr>pl_price := new_price, pl_confidence := max \<bar>spread\<bar> (ms_mark_std stats),
             pl_amm_last_update_slot := am_last_update_slot (pm_amm m), pl_last_update_slot := slot\<rparr>))))))"

definition prelaunch_validate :: "prelaunch_oracle \<Rightarrow> unit result" where
  "prelaunch_validate po =
     and_then (validate (pl_price po \<noteq> 0) InvalidOracle) (\<lambda>_.
     and_then (validate (pl_max_price po \<noteq> 0) InvalidOracle) (\<lambda>_.
     validate (pl_price po \<le> pl_max_price po) InvalidOracle))"

section \<open>Validity\<close>

record validity_guard_rails =
  gr_slots_before_stale_for_amm :: int
  gr_slots_before_stale_for_margin :: int
  gr_confidence_interval_max_size :: int
  gr_too_volatile_ratio :: int

record price_divergence_guard_rails =
  gd_mark_oracle_percent_divergence :: int
  gd_oracle_twap_5min_percent_divergence :: int

record oracle_guard_rails =
  og_price_divergence :: price_divergence_guard_rails
  og_validity :: validity_guard_rails

definition default_price_divergence_guard_rails :: price_divergence_guard_rails where
  "default_price_divergence_guard_rails =
     \<lparr> gd_mark_oracle_percent_divergence = PERCENTAGE_PRECISION div 10,
       gd_oracle_twap_5min_percent_divergence = PERCENTAGE_PRECISION div 2 \<rparr>"

definition default_oracle_guard_rails :: oracle_guard_rails where
  "default_oracle_guard_rails =
     \<lparr> og_price_divergence = default_price_divergence_guard_rails,
       og_validity =
         \<lparr> gr_slots_before_stale_for_amm = 10, gr_slots_before_stale_for_margin = 120,
           gr_confidence_interval_max_size = 20000, gr_too_volatile_ratio = 5 \<rparr> \<rparr>"

definition max_oracle_twap_5min_percent_divergence :: "oracle_guard_rails \<Rightarrow> int" where
  "max_oracle_twap_5min_percent_divergence g =
     max (gd_oracle_twap_5min_percent_divergence (og_price_divergence g)) (PERCENTAGE_PRECISION div 2)"

definition stale_for_amm_ms :: "validity_guard_rails \<Rightarrow> int result" where
  "stale_for_amm_ms g = stored_to_millis STORED_UNIT_MS (gr_slots_before_stale_for_amm g)"

definition stale_for_margin_ms :: "validity_guard_rails \<Rightarrow> int result" where
  "stale_for_margin_ms g = stored_to_millis STORED_UNIT_MS (gr_slots_before_stale_for_margin g)"

definition is_mark_oracle_too_divergent :: "int \<Rightarrow> price_divergence_guard_rails \<Rightarrow> bool" where
  "is_mark_oracle_too_divergent price_spread_pct g \<longleftrightarrow>
     \<bar>price_spread_pct\<bar> > max (gd_mark_oracle_percent_divergence g) (PERCENTAGE_PRECISION div 10)"

datatype oracle_validity_class =
    NonPositive | TooVolatile | TooUncertain | StaleForMargin | InsufficientDataPoints
  | StaleForAMM bool bool | Valid

fun get_error_code :: "oracle_validity_class \<Rightarrow> error_code result" where
  "get_error_code NonPositive = Ok OracleNonPositive"
| "get_error_code TooVolatile = Ok OracleTooVolatile"
| "get_error_code TooUncertain = Ok OracleTooUncertain"
| "get_error_code StaleForMargin = Ok OracleStaleForMargin"
| "get_error_code InsufficientDataPoints = Ok OracleInsufficientDataPoints"
| "get_error_code (StaleForAMM immediate low_risk) = Ok OracleStaleForAMM"
| "get_error_code Valid = Panic"

definition oracle_validity_try_from :: "int \<Rightarrow> oracle_validity_class result" where
  "oracle_validity_try_from v =
     (if v = 0 then Ok NonPositive else if v = 1 then Ok TooVolatile else if v = 2 then Ok TooUncertain
      else if v = 3 then Ok StaleForMargin else if v = 4 then Ok InsufficientDataPoints
      else if v = 5 then Ok (StaleForAMM True True) else if v = 6 then Ok (StaleForAMM True False)
      else if v = 7 then Ok Valid else Panic)"

fun oracle_validity_to_u8 :: "oracle_validity_class \<Rightarrow> int result" where
  "oracle_validity_to_u8 NonPositive = Ok 0"
| "oracle_validity_to_u8 TooVolatile = Ok 1"
| "oracle_validity_to_u8 TooUncertain = Ok 2"
| "oracle_validity_to_u8 StaleForMargin = Ok 3"
| "oracle_validity_to_u8 InsufficientDataPoints = Ok 4"
| "oracle_validity_to_u8 (StaleForAMM True True) = Ok 5"
| "oracle_validity_to_u8 (StaleForAMM True False) = Ok 6"
| "oracle_validity_to_u8 (StaleForAMM False False) = Ok 7"
| "oracle_validity_to_u8 (StaleForAMM False True) = Panic"
| "oracle_validity_to_u8 Valid = Ok 7"

datatype velocity_action =
    UpdateFunding | SettlePnl | TriggerOrder | FillOrderMatch | FillOrderAmmLowRisk
  | FillOrderAmmImmediate | Liquidate | MarginCalc | UpdateTwap | UpdateAMMCurve | OracleOrderPrice
  | UseMMOraclePrice | UpdateAmmCache | UpdateLpPoolAum | LpPoolSwap | WithdrawFeePool

definition is_stale_for_amm :: "oracle_validity_class \<Rightarrow> bool" where
  "is_stale_for_amm v = (case v of StaleForAMM _ _ \<Rightarrow> True | _ \<Rightarrow> False)"

definition is_low_risk_fresh :: "oracle_validity_class \<Rightarrow> bool" where
  "is_low_risk_fresh v = (case v of Valid \<Rightarrow> True | StaleForAMM _ low_risk \<Rightarrow> \<not> low_risk | _ \<Rightarrow> False)"

definition is_oracle_valid_for_action :: "oracle_validity_class \<Rightarrow> velocity_action option \<Rightarrow> bool" where
  "is_oracle_valid_for_action v action =
     (case action of
        None \<Rightarrow> v = Valid
      | Some a \<Rightarrow>
         (case a of
            FillOrderAmmImmediate \<Rightarrow> v = Valid
          | FillOrderAmmLowRisk \<Rightarrow> is_low_risk_fresh v
          | UpdateFunding \<Rightarrow> v \<in> {Valid, InsufficientDataPoints, StaleForMargin} \<or> is_stale_for_amm v
          | OracleOrderPrice \<Rightarrow> v \<in> {Valid, InsufficientDataPoints} \<or> is_stale_for_amm v
          | MarginCalc \<Rightarrow> v \<notin> {NonPositive, TooVolatile, TooUncertain, StaleForMargin}
          | TriggerOrder \<Rightarrow> v \<notin> {NonPositive, TooVolatile}
          | SettlePnl \<Rightarrow> v \<in> {Valid, InsufficientDataPoints, StaleForMargin} \<or> is_stale_for_amm v
          | FillOrderMatch \<Rightarrow> v \<notin> {NonPositive, TooVolatile, TooUncertain, StaleForMargin}
          | UpdateAmmCache \<Rightarrow> v \<notin> {NonPositive, TooVolatile, TooUncertain}
          | UpdateLpPoolAum \<Rightarrow> v \<notin> {NonPositive, TooVolatile, TooUncertain}
          | LpPoolSwap \<Rightarrow> v \<notin> {NonPositive, TooVolatile, TooUncertain}
          | Liquidate \<Rightarrow> v \<notin> {NonPositive, TooVolatile}
          | UpdateTwap \<Rightarrow> v \<noteq> NonPositive
          | UpdateAMMCurve \<Rightarrow> v \<noteq> NonPositive
          | WithdrawFeePool \<Rightarrow> is_low_risk_fresh v
          | UseMMOraclePrice \<Rightarrow> v \<notin> {NonPositive, TooVolatile}))"

definition is_stale_for_amm_immediate :: "int \<Rightarrow> int \<Rightarrow> bool \<Rightarrow> int \<Rightarrow> slot_clock \<Rightarrow> bool result" where
  "is_stale_for_amm_immediate oracle_age slot_override mm_sourced current_slot slot_clock =
     and_then (from_immediate slot_override) (\<lambda>d.
     case d of
       Never \<Rightarrow> Ok True
     | Unset \<Rightarrow>
         Ok (oracle_age >
           (if mm_sourced then
              elapsed_slot_delta slot_clock
                (to_slots_ceil MM_ORACLE_MIN_WRITE_GAP (slot_duration_at slot_clock current_slot)) current_slot
            else 0))
     | Fixed threshold \<Rightarrow> Ok (oracle_age > threshold))"

definition is_stale_for_amm_low_risk :: "int \<Rightarrow> int \<Rightarrow> validity_guard_rails \<Rightarrow> bool result" where
  "is_stale_for_amm_low_risk oracle_age low_risk_override rails =
     and_then (from_low_risk low_risk_override) (\<lambda>d.
     case d of
       Fixed threshold \<Rightarrow> Ok (oracle_age > threshold)
     | _ \<Rightarrow> map_ok (\<lambda>t. oracle_age > t) (stale_for_amm_ms rails))"

definition is_stale_for_margin :: "int \<Rightarrow> oracle_source \<Rightarrow> validity_guard_rails \<Rightarrow> bool result" where
  "is_stale_for_margin oracle_age source rails =
     map_ok (\<lambda>t. oracle_age > (if source = PythLazerStableCoin then saturating_mul U64 t 3 else t))
       (stale_for_margin_ms rails)"

definition oracle_validity ::
  "int \<Rightarrow> oracle_price_data \<Rightarrow> validity_guard_rails \<Rightarrow> int \<Rightarrow> oracle_source \<Rightarrow> int \<Rightarrow> bool \<Rightarrow> int
     \<Rightarrow> int \<Rightarrow> slot_clock \<Rightarrow> oracle_validity_class result" where
  "oracle_validity last_oracle_twap d rails max_confidence_interval_multiplier source
       immediate_override mm_sourced low_risk_override current_slot slot_clock =
     (let oracle_price = op_price d;
          oracle_age = elapsed_slot_delta slot_clock (max (op_delay d) 0) current_slot in
      and_then (safe_div I64 (max oracle_price last_oracle_twap) (max (min last_oracle_twap oracle_price) 1)) (\<lambda>r.
      and_then (safe_mul U64 (op_confidence d) BID_ASK_SPREAD_PRECISION) (\<lambda>c.
      and_then (cast U64 oracle_price) (\<lambda>p.
      and_then (safe_div U64 c p) (\<lambda>conf_pct_of_price.
      and_then (safe_mul U64 (gr_confidence_interval_max_size rails) max_confidence_interval_multiplier) (\<lambda>max_conf.
      and_then (is_stale_for_amm_immediate oracle_age immediate_override mm_sourced current_slot slot_clock) (\<lambda>immediate.
      and_then (is_stale_for_amm_low_risk oracle_age low_risk_override rails) (\<lambda>low_risk.
      and_then (is_stale_for_margin oracle_age source rails) (\<lambda>margin.
      Ok (if oracle_price \<le> 0 then NonPositive
          else if r > gr_too_volatile_ratio rails then TooVolatile
          else if conf_pct_of_price > max_conf then TooUncertain
          else if margin then StaleForMargin
          else if \<not> op_has_sufficient_number_of_data_points d then InsufficientDataPoints
          else if immediate \<or> low_risk then StaleForAMM immediate low_risk
          else Valid))))))))))"

section \<open>The market maker's oracle\<close>

record mm_oracle_price_data =
  mo_mm_oracle_price :: int
  mo_mm_oracle_delay :: int
  mo_mm_oracle_sequence_id :: int
  mo_mm_oracle_validity :: oracle_validity_class
  mo_mm_exchange_diff_bps :: int
  mo_exchange_oracle_price_data :: oracle_price_data
  mo_safe_oracle_price_data :: oracle_price_data
  mo_safe_price_is_mm_sourced :: bool

abbreviation (input) MM_EXCHANGE_FALLBACK_THRESHOLD :: int where
  "MM_EXCHANGE_FALLBACK_THRESHOLD \<equiv> 10000"

definition exchange_oracle_is_more_recent :: "int \<Rightarrow> int \<Rightarrow> oracle_price_data \<Rightarrow> bool result" where
  "exchange_oracle_is_more_recent mm_oracle_delay mm_oracle_sequence_id d =
     (case op_sequence_id d of
        Some exchange_seq_id \<Rightarrow>
          and_then (safe_div U64 exchange_seq_id 10000) (\<lambda>t.
          Ok (if \<bar>exchange_seq_id - mm_oracle_sequence_id\<bar> < t \<and> exchange_seq_id \<noteq> 0 \<and> mm_oracle_sequence_id \<noteq> 0
              then exchange_seq_id > mm_oracle_sequence_id
              else mm_oracle_delay > op_delay d))
      | None \<Rightarrow> Ok (mm_oracle_delay > op_delay d))"

definition new_mm_oracle_price_data ::
  "int \<Rightarrow> int \<Rightarrow> int \<Rightarrow> oracle_validity_class \<Rightarrow> oracle_price_data \<Rightarrow> mm_oracle_price_data result" where
  "new_mm_oracle_price_data mm_oracle_price mm_oracle_delay mm_oracle_sequence_id mm_oracle_validity d =
     and_then (safe_sub I64 mm_oracle_price (op_price d)) (\<lambda>price_diff.
     and_then (plain_abs I64 price_diff) (\<lambda>a.
     and_then (cast U128 a) (\<lambda>a.
     and_then (safe_mul U128 a PERCENTAGE_PRECISION) (\<lambda>v.
     and_then (plain_abs I64 (op_price d)) (\<lambda>p.
     and_then (cast U128 (max p 1)) (\<lambda>p.
     and_then (safe_div U128 v p) (\<lambda>price_diff_bps.
     and_then (exchange_oracle_is_more_recent mm_oracle_delay mm_oracle_sequence_id d) (\<lambda>exchange_recent.
     and_then
       (if exchange_recent \<or> mm_oracle_price = 0
           \<or> \<not> is_oracle_valid_for_action mm_oracle_validity (Some UseMMOraclePrice)
           \<or> price_diff_bps > MM_EXCHANGE_FALLBACK_THRESHOLD
        then Ok (d, False)
        else
          and_then (safe_add U64 (op_confidence d) \<bar>mm_oracle_price - op_price d\<bar>) (\<lambda>adjusted_confidence.
          Ok (\<lparr> op_price = mm_oracle_price, op_confidence = adjusted_confidence, op_delay = mm_oracle_delay,
                op_has_sufficient_number_of_data_points = True, op_sequence_id = Some mm_oracle_sequence_id \<rparr>, True)))
       (\<lambda>(safe_oracle_price_data, safe_price_is_mm_sourced).
     Ok \<lparr> mo_mm_oracle_price = mm_oracle_price, mo_mm_oracle_delay = mm_oracle_delay,
          mo_mm_oracle_sequence_id = mm_oracle_sequence_id, mo_mm_oracle_validity = mm_oracle_validity,
          mo_mm_exchange_diff_bps = price_diff_bps, mo_exchange_oracle_price_data = d,
          mo_safe_oracle_price_data = safe_oracle_price_data,
          mo_safe_price_is_mm_sourced = safe_price_is_mm_sourced \<rparr>)))))))))"

definition mm_get_price :: "mm_oracle_price_data \<Rightarrow> int" where
  "mm_get_price d = op_price (mo_safe_oracle_price_data d)"

definition mm_get_delay :: "mm_oracle_price_data \<Rightarrow> int" where
  "mm_get_delay d = op_delay (mo_safe_oracle_price_data d)"

definition mm_get_confidence :: "mm_oracle_price_data \<Rightarrow> int" where
  "mm_get_confidence d = op_confidence (mo_safe_oracle_price_data d)"

definition is_mm_exchange_diff_bps_high :: "mm_oracle_price_data \<Rightarrow> bool" where
  "is_mm_exchange_diff_bps_high d \<longleftrightarrow> mo_mm_exchange_diff_bps d > MM_EXCHANGE_FALLBACK_THRESHOLD"

definition is_mm_oracle_as_recent :: "mm_oracle_price_data \<Rightarrow> bool" where
  "is_mm_oracle_as_recent d \<longleftrightarrow> mo_mm_oracle_delay d \<le> op_delay (mo_safe_oracle_price_data d)"

definition mm_is_enabled :: "mm_oracle_price_data \<Rightarrow> bool" where
  "mm_is_enabled d \<longleftrightarrow> mo_mm_oracle_price d \<noteq> 0 \<and> mo_mm_oracle_delay d \<ge> 0"

section \<open>What the classification promises\<close>

text \<open>A price that is not positive is an arithmetic error, never the class \<open>NonPositive\<close>.\<close>

lemma nonpositive_price_fails:
  assumes "op_price d \<le> 0"
  shows "\<exists>e \<in> {MathError, CastingFailure}. oracle_validity twap d g mult src imm mm low slot c = Err e"
proof -
  have "cast U64 (op_price d) = Err CastingFailure \<or> op_price d = 0"
    using assms by (auto simp: cast_def fits_def)
  then show ?thesis
    by (auto simp: oracle_validity_def Let_def safe_div_def safe_mul_def cast_def checked_div_def checked_mul_def
        split: option.splits)
qed

text \<open>
  The classes in the order the source lists them, from the worst to the best; two prices stale for
  the AMM are compared by the windows they have left.
\<close>

fun severity_rank :: "oracle_validity_class \<Rightarrow> nat" where
  "severity_rank NonPositive = 0" | "severity_rank TooVolatile = 1" | "severity_rank TooUncertain = 2"
| "severity_rank StaleForMargin = 3" | "severity_rank InsufficientDataPoints = 4"
| "severity_rank (StaleForAMM i l) = 5" | "severity_rank Valid = 6"

fun stale_windows :: "oracle_validity_class \<Rightarrow> bool set" where
  "stale_windows (StaleForAMM i l) = (if i then {True} else {}) \<union> (if l then {False} else {})"
| "stale_windows v = {}"

lemma rank_windows_eq:
  "severity_rank v = severity_rank w \<Longrightarrow> stale_windows v = stale_windows w \<Longrightarrow> v = w"
  by (cases v; cases w) (auto split: if_split_asm)

instantiation oracle_validity_class :: order
begin

definition less_eq_oracle_validity_class :: "oracle_validity_class \<Rightarrow> oracle_validity_class \<Rightarrow> bool" where
  "v \<le> w \<longleftrightarrow> severity_rank v < severity_rank w
     \<or> severity_rank v = severity_rank w \<and> stale_windows w \<subseteq> stale_windows v"

definition less_oracle_validity_class :: "oracle_validity_class \<Rightarrow> oracle_validity_class \<Rightarrow> bool" where
  "v < w \<longleftrightarrow> v \<le> w \<and> \<not> w \<le> (v :: oracle_validity_class)"

instance
proof
  show "v \<le> w \<Longrightarrow> w \<le> v \<Longrightarrow> v = w" for v w :: oracle_validity_class
    by (rule rank_windows_eq) (auto simp: less_eq_oracle_validity_class_def)
qed (auto simp: less_eq_oracle_validity_class_def less_oracle_validity_class_def)

end

text \<open>The worst class an action accepts.\<close>

fun worst_accepted :: "velocity_action option \<Rightarrow> oracle_validity_class" where
  "worst_accepted None = Valid"
| "worst_accepted (Some FillOrderAmmImmediate) = Valid"
| "worst_accepted (Some FillOrderAmmLowRisk) = StaleForAMM True False"
| "worst_accepted (Some WithdrawFeePool) = StaleForAMM True False"
| "worst_accepted (Some OracleOrderPrice) = InsufficientDataPoints"
| "worst_accepted (Some MarginCalc) = InsufficientDataPoints"
| "worst_accepted (Some FillOrderMatch) = InsufficientDataPoints"
| "worst_accepted (Some UpdateFunding) = StaleForMargin"
| "worst_accepted (Some SettlePnl) = StaleForMargin"
| "worst_accepted (Some UpdateAmmCache) = StaleForMargin"
| "worst_accepted (Some UpdateLpPoolAum) = StaleForMargin"
| "worst_accepted (Some LpPoolSwap) = StaleForMargin"
| "worst_accepted (Some TriggerOrder) = TooUncertain"
| "worst_accepted (Some Liquidate) = TooUncertain"
| "worst_accepted (Some UseMMOraclePrice) = TooUncertain"
| "worst_accepted (Some UpdateTwap) = TooVolatile"
| "worst_accepted (Some UpdateAMMCurve) = TooVolatile"

lemma valid_for_action_threshold: "is_oracle_valid_for_action v action \<longleftrightarrow> worst_accepted action \<le> v"
  by (cases action rule: worst_accepted.cases)
    (cases v; simp add: is_oracle_valid_for_action_def is_low_risk_fresh_def is_stale_for_amm_def
      less_eq_oracle_validity_class_def)+

text \<open>A class the classification returns names at least one window that is over.\<close>

lemma oracle_validity_stale:
  assumes "oracle_validity twap d g mult src imm mm low slot c = Ok (StaleForAMM i l)"
  shows "i \<or> l"
  using assms unfolding oracle_validity_def Let_def
  by (elim and_thenE) (simp split: if_split_asm)

lemma validity_codes:
  assumes "oracle_validity_to_u8 v = Ok n" "v \<noteq> StaleForAMM False False"
  shows "oracle_validity_try_from n = Ok v"
  using assms by (cases v rule: oracle_validity_to_u8.cases) (auto simp: oracle_validity_try_from_def)

lemma validity_code_panics: "oracle_validity_to_u8 v = Panic \<longleftrightarrow> v = StaleForAMM False True"
  by (cases v rule: oracle_validity_to_u8.cases) auto

text \<open>The price the AMM trades on is never far from the exchange's.\<close>

lemma new_mm_oracle_price_data_Ok:
  assumes "new_mm_oracle_price_data mm_price delay sid v d = Ok r"
  shows "(mo_safe_oracle_price_data r = d \<and> \<not> mo_safe_price_is_mm_sourced r)
    \<or> (mo_safe_price_is_mm_sourced r \<and> mm_price \<noteq> 0 \<and> is_oracle_valid_for_action v (Some UseMMOraclePrice)
      \<and> \<not> MM_EXCHANGE_FALLBACK_THRESHOLD < \<bar>mm_price - op_price d\<bar> * PERCENTAGE_PRECISION div max \<bar>op_price d\<bar> 1
      \<and> op_price (mo_safe_oracle_price_data r) = mm_price
      \<and> op_confidence (mo_safe_oracle_price_data r) = op_confidence d + \<bar>mm_price - op_price d\<bar>)"
  using assms
  by (clarsimp simp: new_mm_oracle_price_data_def ok_iff) (simp add: ok_iff split: if_split_asm)

lemma safe_price_bounds:
  assumes "new_mm_oracle_price_data mm_price delay sid v d = Ok r"
  shows "\<bar>mm_get_price r - op_price d\<bar> * PERCENTAGE_PRECISION < (MM_EXCHANGE_FALLBACK_THRESHOLD + 1) * max \<bar>op_price d\<bar> 1
    \<and> mm_get_confidence r = op_confidence d + \<bar>mm_get_price r - op_price d\<bar>
    \<and> (mo_safe_price_is_mm_sourced r \<longrightarrow> is_oracle_valid_for_action v (Some UseMMOraclePrice) \<and> mm_get_price r \<noteq> 0)"
proof -
  let ?p = "max \<bar>op_price d\<bar> 1" and ?v = "\<bar>mm_price - op_price d\<bar> * PERCENTAGE_PRECISION"
  have "?v < (MM_EXCHANGE_FALLBACK_THRESHOLD + 1) * ?p" if "\<not> MM_EXCHANGE_FALLBACK_THRESHOLD < ?v div ?p"
    using that div_less_iff_mul [of ?p ?v "MM_EXCHANGE_FALLBACK_THRESHOLD + 1"] by simp
  then show ?thesis using new_mm_oracle_price_data_Ok [OF assms]
    by (auto simp: mm_get_price_def mm_get_confidence_def)
qed

end
