(* ===== verification/Amm_Math.thy ===== *)
theory Amm_Math
  imports Oracle Perp_Position Spot_Accrual
begin

text \<open>
  The curve of the AMM: \<open>vlp/amm/math/amm.rs\<close>, \<open>vlp/amm/math/cp_curve.rs\<close> and the methods of \<open>AMM\<close>
  in \<open>vlp/amm/state.rs\<close>. The reserves lie on a constant product curve: the quote reserve is the
  square of \<open>sqrt_k\<close> divided by the base reserve, rounded down. Products are formed in 192 or 256
  bits as in the source, with \<open>try_to\<close> the conversion back.
\<close>

definition try_to :: "int_ty \<Rightarrow> int \<Rightarrow> int result" where
  "try_to t v = (if fits t v then Ok v else Err BnConversionError)"

lemma try_to_Ok_iff [ok_iff]: "try_to t v = Ok r \<longleftrightarrow> r = v \<and> fits t v"
  by (auto simp: try_to_def)

text \<open>The conversion of a signed number into a 192 bit one panics when it is negative.\<close>

definition unsigned_from :: "int \<Rightarrow> int result" where
  "unsigned_from v = (if v < 0 then Panic else Ok v)"

lemma unsigned_from_Ok_iff [ok_iff]: "unsigned_from v = Ok r \<longleftrightarrow> r = v \<and> 0 \<le> v"
  by (auto simp: unsigned_from_def)

primrec unwrap_or :: "'a result \<Rightarrow> 'a \<Rightarrow> 'a result" where
  "unwrap_or (Ok v) d = Ok v"
| "unwrap_or (Err e) d = Ok d"
| "unwrap_or Panic d = Panic"

section \<open>Prices and bounds\<close>

definition calculate_price :: "int \<Rightarrow> int \<Rightarrow> int \<Rightarrow> int result" where
  "calculate_price quote_asset_reserve base_asset_reserve peg_multiplier =
     and_then (safe_mul U128 quote_asset_reserve peg_multiplier) (\<lambda>peg_quote_asset_amount.
     and_then (safe_mul U192 peg_quote_asset_amount PRICE_TO_PEG_PRECISION_RATIO) (\<lambda>v.
     and_then (safe_div U192 v base_asset_reserve) (\<lambda>v.
     try_to U64 v)))"

definition calculate_bid_ask_bounds :: "int \<Rightarrow> int \<Rightarrow> (int \<times> int) result" where
  "calculate_bid_ask_bounds concentration_coef sqrt_k =
     and_then (validate (concentration_coef > CONCENTRATION_PRECISION) InvalidConcentrationCoef) (\<lambda>_.
     and_then (get_proportion_u128 sqrt_k concentration_coef CONCENTRATION_PRECISION) (\<lambda>ask_bounded_base.
     and_then (get_proportion_u128 sqrt_k CONCENTRATION_PRECISION concentration_coef) (\<lambda>bid_bounded_base.
     Ok (bid_bounded_base, ask_bounded_base))))"

definition calculate_market_open_bids_asks_of :: "int \<Rightarrow> int \<Rightarrow> int \<Rightarrow> (int \<times> int) result" where
  "calculate_market_open_bids_asks_of base_asset_reserve min_base_asset_reserve max_base_asset_reserve =
     and_then
       (if base_asset_reserve < max_base_asset_reserve then
          and_then (safe_sub U128 max_base_asset_reserve base_asset_reserve) (\<lambda>v.
          and_then (cast I128 v) (\<lambda>v. plain_neg I128 v))
        else Ok 0) (\<lambda>max_asks.
     and_then
       (if base_asset_reserve > min_base_asset_reserve then
          and_then (safe_sub U128 base_asset_reserve min_base_asset_reserve) (\<lambda>v. cast I128 v)
        else Ok 0) (\<lambda>max_bids.
     Ok (max_bids, max_asks)))"

definition calculate_market_open_bids_asks :: "amm \<Rightarrow> (int \<times> int) result" where
  "calculate_market_open_bids_asks a =
     calculate_market_open_bids_asks_of (am_base_asset_reserve a) (am_min_base_asset_reserve a)
       (am_max_base_asset_reserve a)"

definition estimate_best_bid_ask_price ::
  "int \<Rightarrow> int \<Rightarrow> int \<Rightarrow> int \<Rightarrow> int \<Rightarrow> historical_oracle_data \<Rightarrow> int option \<Rightarrow> position_direction option \<Rightarrow> int
     \<Rightarrow> (int \<times> int) result" where
  "estimate_best_bid_ask_price amm_bid_price amm_ask_price amm_base_spread amm_long_spread amm_short_spread
       h precomputed_trade_price direction order_tick_size =
     and_then (cast U64 amm_base_spread) (\<lambda>base_spread.
     and_then (cast U64 (ho_last_oracle_price h)) (\<lambda>last_oracle_price.
     let trade_price = (case precomputed_trade_price of Some p \<Rightarrow> p | None \<Rightarrow> last_oracle_price) in
     and_then (cast I64 trade_price) (\<lambda>t.
     and_then (safe_sub I64 t (ho_last_oracle_price h)) (\<lambda>trade_premium.
     and_then (validate (ho_last_oracle_price h > 0) InvalidOracle) (\<lambda>_.
     and_then
       (if trade_premium > 0 then
          and_then (cast U64 amm_short_spread) (\<lambda>s.
          let discount = min base_spread (s div 2) in
          Ok (max (saturating_sub U64 last_oracle_price (min discount \<bar>trade_premium\<bar>)) order_tick_size))
        else Ok trade_price) (\<lambda>bid.
     let best_bid_estimate = max bid amm_bid_price in
     and_then
       (if trade_premium < 0 then
          and_then (cast U64 amm_long_spread) (\<lambda>s.
          let premium = min base_spread (s div 2) in
          safe_add U64 last_oracle_price (min premium \<bar>trade_premium\<bar>))
        else Ok trade_price) (\<lambda>ask.
     let best_ask_estimate = min ask amm_ask_price;
         (bid_price, ask_price) =
           (case direction of
              Some Long \<Rightarrow> (best_bid_estimate, max trade_price best_bid_estimate)
            | Some Short \<Rightarrow> (min trade_price best_ask_estimate, best_ask_estimate)
            | None \<Rightarrow> (min (max trade_price amm_bid_price) amm_ask_price,
                       min (max trade_price amm_bid_price) amm_ask_price)) in
     and_then (validate (bid_price \<le> ask_price) InvalidMarkTwapUpdateDetected) (\<lambda>_.
     Ok (bid_price, ask_price)))))))))"

datatype twap_period = FundingPeriod | FiveMin

definition calculate_new_oracle_price_twap :: "market_stats \<Rightarrow> int \<Rightarrow> int \<Rightarrow> twap_period \<Rightarrow> int result" where
  "calculate_new_oracle_price_twap ms now oracle_price twap_period =
     (let h = ms_historical_oracle_data ms;
          last_mark_twap = (case twap_period of
              FundingPeriod \<Rightarrow> ms_last_mark_price_twap ms | FiveMin \<Rightarrow> ms_last_mark_price_twap_5min ms);
          last_oracle_twap = (case twap_period of
              FundingPeriod \<Rightarrow> ho_last_oracle_price_twap h | FiveMin \<Rightarrow> ho_last_oracle_price_twap_5min h);
          period = (case twap_period of FundingPeriod \<Rightarrow> ms_funding_period ms | FiveMin \<Rightarrow> FIVE_MINUTE) in
      and_then (safe_sub I64 now (ho_last_oracle_price_twap_ts h)) (\<lambda>d.
      let since_last = max (if period = 0 then 1 else 0) d in
      and_then (safe_sub I64 period since_last) (\<lambda>f.
      let from_start = max 0 f in
      and_then
        (if ms_last_mark_price_twap_ts ms > ho_last_oracle_price_twap_ts h then
           and_then (safe_sub I64 (ms_last_mark_price_twap_ts ms) (ho_last_oracle_price_twap_ts h))
             (\<lambda>since_last_valid.
           and_then (safe_sub I64 period since_last_valid) (\<lambda>f.
           and_then (cast I64 last_mark_twap) (\<lambda>last_mark_twap.
           calculate_weighted_average last_mark_twap oracle_price since_last_valid (max 1 f) None)))
         else Ok oracle_price) (\<lambda>interpolated_oracle_price.
      calculate_weighted_average interpolated_oracle_price last_oracle_twap since_last from_start None))))"

section \<open>Swaps\<close>

definition calculate_swap_output :: "int \<Rightarrow> int \<Rightarrow> swap_direction \<Rightarrow> int \<Rightarrow> (int \<times> int) result" where
  "calculate_swap_output swap_amount input_asset_reserve direction invariant_sqrt =
     and_then (safe_mul U192 invariant_sqrt invariant_sqrt) (\<lambda>invariant.
     if direction = Remove \<and> swap_amount > input_asset_reserve then Err TradeSizeTooLarge
     else
       and_then
         (case direction of
            Add \<Rightarrow> safe_add U128 input_asset_reserve swap_amount
          | Remove \<Rightarrow> safe_sub U128 input_asset_reserve swap_amount) (\<lambda>new_input_asset_reserve.
       and_then (safe_div U192 invariant new_input_asset_reserve) (\<lambda>v.
       and_then (try_to U128 v) (\<lambda>new_output_asset_reserve.
       Ok (new_output_asset_reserve, new_input_asset_reserve)))))"

definition calculate_quote_asset_amount_swapped :: "int \<Rightarrow> int \<Rightarrow> swap_direction \<Rightarrow> int \<Rightarrow> int result" where
  "calculate_quote_asset_amount_swapped quote_asset_reserve_before quote_asset_reserve_after swap_direction
       peg_multiplier =
     and_then
       (case swap_direction of
          Add \<Rightarrow> safe_sub U128 quote_asset_reserve_before quote_asset_reserve_after
        | Remove \<Rightarrow>
            and_then (safe_sub U128 quote_asset_reserve_after quote_asset_reserve_before) (\<lambda>c.
            safe_add U128 c 1)) (\<lambda>quote_asset_reserve_change.
     and_then (reserve_to_asset_amount quote_asset_reserve_change peg_multiplier) (\<lambda>quote_asset_amount.
     if swap_direction = Remove then safe_add U128 quote_asset_amount 1 else Ok quote_asset_amount))"

definition calculate_terminal_reserves :: "amm \<Rightarrow> (int \<times> int) result" where
  "calculate_terminal_reserves a =
     (let swap_direction = (if am_base_asset_amount_with_amm a > 0 then Add else Remove) in
      calculate_swap_output \<bar>am_base_asset_amount_with_amm a\<bar> (am_base_asset_reserve a) swap_direction
        (am_sqrt_k a))"

definition calculate_terminal_price_and_reserves :: "amm \<Rightarrow> (int \<times> int \<times> int) result" where
  "calculate_terminal_price_and_reserves a =
     and_then (calculate_terminal_reserves a) (\<lambda>(new_quote_asset_amount, new_base_asset_amount).
     and_then (calculate_price new_quote_asset_amount new_base_asset_amount (am_peg_multiplier a)) (\<lambda>terminal_price.
     Ok (terminal_price, new_quote_asset_amount, new_base_asset_amount)))"

definition reserve_price :: "amm \<Rightarrow> int result" where
  "reserve_price a = calculate_price (am_quote_asset_reserve a) (am_base_asset_reserve a) (am_peg_multiplier a)"

definition calculate_oracle_reserve_price_spread ::
  "amm \<Rightarrow> mm_oracle_price_data \<Rightarrow> int option \<Rightarrow> (int \<times> int) result" where
  "calculate_oracle_reserve_price_spread a mm precomputed_reserve_price =
     and_then (case precomputed_reserve_price of Some p \<Rightarrow> Ok p | None \<Rightarrow> reserve_price a) (\<lambda>p.
     and_then (cast I64 p) (\<lambda>p.
     and_then (safe_sub I64 p (mm_get_price mm)) (\<lambda>price_spread.
     Ok (mm_get_price mm, price_spread))))"

definition calculate_oracle_reserve_price_spread_pct ::
  "amm \<Rightarrow> mm_oracle_price_data \<Rightarrow> int option \<Rightarrow> int result" where
  "calculate_oracle_reserve_price_spread_pct a mm precomputed_reserve_price =
     and_then (case precomputed_reserve_price of Some p \<Rightarrow> Ok p | None \<Rightarrow> reserve_price a) (\<lambda>p.
     and_then (calculate_oracle_reserve_price_spread a mm (Some p)) (\<lambda>(_, price_spread).
     and_then (cast I128 price_spread) (\<lambda>s.
     and_then (safe_mul I128 s BID_ASK_SPREAD_PRECISION) (\<lambda>v.
     and_then (cast I128 p) (\<lambda>p.
     and_then (safe_div I128 v p) (\<lambda>v.
     cast I64 v))))))"

definition calculate_amm_available_liquidity :: "amm \<Rightarrow> position_direction \<Rightarrow> int \<Rightarrow> int result" where
  "calculate_amm_available_liquidity a order_direction order_step_size =
     and_then (plain_div U128 (am_base_asset_reserve a) (am_max_fill_reserve_fraction a)) (\<lambda>v.
     and_then (cast U64 (min v (ty_max U64))) (\<lambda>max_fill_size.
     and_then (cast U64
       (case order_direction of
          Long \<Rightarrow> saturating_sub U128 (am_base_asset_reserve a) (am_min_base_asset_reserve a) div 2
        | Short \<Rightarrow> saturating_sub U128 (am_max_base_asset_reserve a) (am_base_asset_reserve a) div 2))
       (\<lambda>max_base_asset_amount_on_side.
     standardize_base_asset_amount (min max_fill_size max_base_asset_amount_on_side) order_step_size)))"

section \<open>The pnl of the users against the AMM\<close>

definition calculate_net_user_cost_basis :: "int \<Rightarrow> int \<Rightarrow> int result" where
  "calculate_net_user_cost_basis quote_asset_amount net_unsettled_funding_pnl =
     and_then (cast I128 net_unsettled_funding_pnl) (\<lambda>f. safe_add I128 quote_asset_amount f)"

definition calculate_net_user_pnl :: "amm \<Rightarrow> int \<Rightarrow> int \<Rightarrow> int \<Rightarrow> int result" where
  "calculate_net_user_pnl a oracle_price quote_asset_amount net_unsettled_funding_pnl =
     and_then (validate (oracle_price > 0) InvalidOracle) (\<lambda>_.
     and_then (cast I128 oracle_price) (\<lambda>p.
     and_then (safe_mul I128 (am_base_asset_amount_with_amm a) p) (\<lambda>v.
     and_then (safe_div I128 v PRICE_TIMES_AMM_TO_QUOTE_PRECISION_RATIO) (\<lambda>net_user_base_asset_value.
     and_then (calculate_net_user_cost_basis quote_asset_amount net_unsettled_funding_pnl) (\<lambda>c.
     safe_add I128 net_user_base_asset_value c)))))"

definition calculate_expiry_price :: "amm \<Rightarrow> int \<Rightarrow> int \<Rightarrow> int \<Rightarrow> int \<Rightarrow> int \<Rightarrow> int result" where
  "calculate_expiry_price a target_price total_excess_balance quote_asset_amount net_unsettled_funding_pnl
       order_step_size =
     and_then (plain_abs I128 (am_base_asset_amount_with_amm a)) (\<lambda>b.
     and_then (cast I128 order_step_size) (\<lambda>step.
     if b < step then Ok target_price
     else
       and_then (calculate_net_user_cost_basis quote_asset_amount net_unsettled_funding_pnl) (\<lambda>net_user_cost_basis.
       and_then (safe_sub I128 net_user_cost_basis total_excess_balance) (\<lambda>v.
       and_then (safe_mul I128 v PRICE_TIMES_AMM_TO_QUOTE_PRECISION_RATIO) (\<lambda>v.
       and_then (safe_div I128 v (am_base_asset_amount_with_amm a)) (\<lambda>v.
       and_then (cast I64 v) (\<lambda>v.
       and_then (plain_neg I64 v) (\<lambda>best_expiry_price.
       Ok (if am_base_asset_amount_with_amm a \<ge> 0
           then saturating_sub I64 (min best_expiry_price target_price) 1
           else saturating_add I64 (max best_expiry_price target_price) 1)))))))))"

section \<open>The state of the AMM\<close>

definition amm_validate :: "amm \<Rightarrow> market_status \<Rightarrow> int \<Rightarrow> int \<Rightarrow> unit result" where
  "amm_validate a market_status margin_ratio_initial net_user_position =
     and_then (validate (net_user_position = am_base_asset_amount_with_amm a) InvalidAmmDetected) (\<lambda>_.
     and_then (validate (am_base_asset_amount_with_amm a \<le> MAX_BASE_ASSET_AMOUNT_WITH_AMM) InvalidAmmDetected) (\<lambda>_.
     and_then (validate (am_peg_multiplier a > 0) InvalidAmmDetected) (\<lambda>_.
     and_then
       (if market_status \<noteq> ReduceOnly
        then validate (am_sqrt_k a > \<bar>am_base_asset_amount_with_amm a\<bar>) InvalidAmmDetected else Ok ()) (\<lambda>_.
     and_then (validate (am_sqrt_k a \<ge> am_base_asset_reserve a \<or> am_sqrt_k a \<ge> am_quote_asset_reserve a)
         InvalidAmmDetected) (\<lambda>_.
     and_then (safe_mul U192 (am_sqrt_k a) (am_sqrt_k a)) (\<lambda>invariant.
     and_then (safe_div U192 invariant (am_base_asset_reserve a)) (\<lambda>q.
     and_then (try_to U128 q) (\<lambda>q.
     and_then (cast I128 q) (\<lambda>q.
     and_then (cast I128 (am_quote_asset_reserve a)) (\<lambda>r.
     and_then (safe_sub I128 q r) (\<lambda>d.
     and_then (plain_abs I128 d) (\<lambda>rounding_diff.
     and_then (validate (rounding_diff \<le> 15) InvalidAmmDetected) (\<lambda>_.
     and_then
       (if am_base_asset_amount_with_amm a > 0
        then validate (am_terminal_quote_asset_reserve a \<le> am_quote_asset_reserve a) InvalidAmmDetected
        else if am_base_asset_amount_with_amm a < 0
        then validate (am_terminal_quote_asset_reserve a \<ge> am_quote_asset_reserve a) InvalidAmmDetected
        else validate (am_terminal_quote_asset_reserve a = am_quote_asset_reserve a) InvalidAmmDetected) (\<lambda>_.
     if am_base_spread a > 0 then
       (if am_max_spread a > am_base_spread a then
          and_then (plain_mul U32 margin_ratio_initial 100) (\<lambda>limit.
          validate (am_max_spread a < limit) InvalidAmmDetected)
        else Err InvalidAmmDetected)
     else Ok ()))))))))))))))"

definition validate_for_fill :: "amm \<Rightarrow> position_direction \<Rightarrow> unit result" where
  "validate_for_fill a direction =
     (case direction of
        Long \<Rightarrow> validate (am_base_asset_reserve a \<ge> am_min_base_asset_reserve a) InvalidAmmForFillDetected
      | Short \<Rightarrow> validate (am_base_asset_reserve a \<le> am_max_base_asset_reserve a) InvalidAmmForFillDetected)"

definition is_curve_update_enabled :: "amm \<Rightarrow> bool" where
  "is_curve_update_enabled a \<longleftrightarrow> am_curve_update_intensity a > 0"

definition is_underwater :: "amm \<Rightarrow> bool" where
  "is_underwater a \<longleftrightarrow> am_total_fee_minus_distributions a < 0"

definition has_too_much_drawdown :: "amm \<Rightarrow> contract_tier \<Rightarrow> bool result" where
  "has_too_much_drawdown a tier =
     (let revenue = am_net_revenue_since_last_funding a;
          quote_drawdown_limit_breached =
            (if tier \<in> {CT_A, CT_B} then revenue \<le> DEFAULT_REVENUE_SINCE_LAST_FUNDING_SPREAD_RETREAT * 400
             else revenue \<le> DEFAULT_REVENUE_SINCE_LAST_FUNDING_SPREAD_RETREAT * 200) in
      if quote_drawdown_limit_breached then
        and_then (cast I128 revenue) (\<lambda>r.
        and_then (safe_mul I128 r PERCENTAGE_PRECISION) (\<lambda>v.
        and_then (safe_div I128 v (max (am_total_fee_minus_distributions a) 1)) (\<lambda>percent_drawdown.
        Ok (case tier of
              CT_A \<Rightarrow> percent_drawdown \<le> - 20000
            | CT_B \<Rightarrow> percent_drawdown \<le> - 30303
            | CT_C \<Rightarrow> percent_drawdown \<le> - 40000
            | _ \<Rightarrow> percent_drawdown \<le> - 50000))))
      else Ok False)"

definition is_fresh_at :: "amm \<Rightarrow> int \<Rightarrow> bool" where
  "is_fresh_at a current_slot \<longleftrightarrow> current_slot = am_last_update_slot a"

definition slots_since_update :: "amm \<Rightarrow> int \<Rightarrow> int" where
  "slots_since_update a current_slot = saturating_sub U64 current_slot (am_last_update_slot a)"

definition fee_pool_token_amount :: "amm \<Rightarrow> spot_market \<Rightarrow> int result" where
  "fee_pool_token_amount a spot_market = get_token_amount (pb_scaled_balance (am_fee_pool a)) spot_market Deposit"

definition get_reference_price_offset_deadband_pct :: "amm \<Rightarrow> int result" where
  "get_reference_price_offset_deadband_pct a =
     and_then (safe_mul U128 PERCENTAGE_PRECISION (am_reference_price_offset_deadband_pct a)) (\<lambda>v.
     safe_div U128 v 100)"

definition spread_price :: "int \<Rightarrow> int \<Rightarrow> int result" where
  "spread_price price adjusted_spread =
     and_then (cast I128 adjusted_spread) (\<lambda>s.
     and_then (safe_add I128 BID_ASK_SPREAD_PRECISION s) (\<lambda>multiplier.
     and_then (cast U128 price) (\<lambda>p.
     and_then (cast U128 multiplier) (\<lambda>multiplier.
     and_then (safe_mul U128 p multiplier) (\<lambda>v.
     and_then (safe_div U128 v BID_ASK_SPREAD_PRECISION) (\<lambda>v.
     cast U64 v))))))"

definition bid_price :: "int \<Rightarrow> int \<Rightarrow> int \<Rightarrow> int result" where
  "bid_price price short_spread reference_price_offset =
     and_then (cast I32 short_spread) (\<lambda>s.
     and_then (plain_neg I32 s) (\<lambda>s.
     and_then (safe_add I32 s reference_price_offset) (\<lambda>adjusted_spread.
     spread_price price adjusted_spread)))"

definition ask_price :: "int \<Rightarrow> int \<Rightarrow> int \<Rightarrow> int result" where
  "ask_price price long_spread reference_price_offset =
     and_then (cast I32 long_spread) (\<lambda>s.
     and_then (safe_add I32 s reference_price_offset) (\<lambda>adjusted_spread.
     spread_price price adjusted_spread))"

definition bid_ask_price :: "int \<Rightarrow> int \<Rightarrow> int \<Rightarrow> int \<Rightarrow> (int \<times> int) result" where
  "bid_ask_price price long_spread short_spread reference_price_offset =
     and_then (bid_price price short_spread reference_price_offset) (\<lambda>bid.
     and_then (ask_price price long_spread reference_price_offset) (\<lambda>ask.
     Ok (bid, ask)))"

definition amm_ask_price :: "amm \<Rightarrow> int result" where
  "amm_ask_price a =
     and_then (reserve_price a) (\<lambda>p. ask_price p (am_long_spread a) (am_reference_price_offset a))"

definition amm_bid_price :: "amm \<Rightarrow> int result" where
  "amm_bid_price a =
     and_then (reserve_price a) (\<lambda>p. bid_price p (am_short_spread a) (am_reference_price_offset a))"

definition last_ask_premium :: "amm \<Rightarrow> market_stats \<Rightarrow> int result" where
  "last_ask_premium a ms =
     and_then (amm_ask_price a) (\<lambda>p.
     and_then (cast I64 p) (\<lambda>p.
     safe_sub I64 p (ho_last_oracle_price (ms_historical_oracle_data ms))))"

definition last_bid_discount :: "amm \<Rightarrow> market_stats \<Rightarrow> int result" where
  "last_bid_discount a ms =
     and_then (amm_bid_price a) (\<lambda>p.
     and_then (cast I64 p) (\<lambda>p.
     safe_sub I64 (ho_last_oracle_price (ms_historical_oracle_data ms)) p))"

definition clamp :: "int \<Rightarrow> int \<Rightarrow> int \<Rightarrow> int" where
  "clamp x lo hi = max lo (min x hi)"

definition get_fallback_price ::
  "amm \<Rightarrow> market_stats \<Rightarrow> position_direction \<Rightarrow> int \<Rightarrow> int \<Rightarrow> int \<Rightarrow> int \<Rightarrow> int result" where
  "get_fallback_price a ms direction amm_available_liquidity oracle_price seconds_til_order_expiry min_order_size =
     (let h = ms_historical_oracle_data ms in
      case direction of
        Long \<Rightarrow>
          if amm_available_liquidity \<ge> min_order_size then
            and_then (amm_ask_price a) (\<lambda>p.
            and_then (cast I64 p) (\<lambda>p.
            and_then (safe_add I64 p (p sdiv (clamp seconds_til_order_expiry 5 10 * 20))) (\<lambda>v.
            cast U64 v)))
          else
            and_then (cast I64 (ms_last_ask_price_twap ms)) (\<lambda>t.
            and_then (safe_sub I64 t (ho_last_oracle_price_twap h)) (\<lambda>d.
            and_then (safe_add I64 oracle_price (max d 0)) (\<lambda>v.
            and_then (safe_add I64 v (oracle_price sdiv (clamp seconds_til_order_expiry 5 25 * 2))) (\<lambda>v.
            cast U64 v))))
      | Short \<Rightarrow>
          if amm_available_liquidity \<ge> min_order_size then
            and_then (amm_bid_price a) (\<lambda>p.
            and_then (cast I64 p) (\<lambda>p.
            and_then (safe_sub I64 p (p sdiv (clamp seconds_til_order_expiry 5 10 * 20))) (\<lambda>v.
            cast U64 v)))
          else
            and_then (cast I64 (ms_last_bid_price_twap ms)) (\<lambda>t.
            and_then (safe_sub I64 t (ho_last_oracle_price_twap h)) (\<lambda>d.
            and_then (safe_add I64 oracle_price (min d 0)) (\<lambda>v.
            and_then (safe_sub I64 v (oracle_price sdiv (clamp seconds_til_order_expiry 5 25 * 2))) (\<lambda>v.
            cast U64 (max v 0))))))"

definition get_lower_bound_sqrt_k :: "amm \<Rightarrow> int \<Rightarrow> int result" where
  "get_lower_bound_sqrt_k a min_order_size =
     and_then (cast U128 min_order_size) (\<lambda>m.
     Ok (min (am_sqrt_k a) (max m \<bar>am_base_asset_amount_with_amm a\<bar>)))"

definition get_protocol_owned_position :: "amm \<Rightarrow> int result" where
  "get_protocol_owned_position a = cast I64 (am_base_asset_amount_with_amm a)"

definition get_max_reference_price_offset :: "amm \<Rightarrow> int result" where
  "get_max_reference_price_offset a =
     (if am_curve_update_intensity a \<le> 100 then Ok 0
      else if am_curve_update_intensity a \<ge> 200 then
        and_then (cast I64 (am_max_spread a)) (\<lambda>m. Ok (max (m div 2) 10000))
      else
        and_then (safe_sub U8 (am_curve_update_intensity a) 100) (\<lambda>i.
        and_then (cast I64 i) (\<lambda>lower_bound_multiplier.
        and_then (safe_mul I64 (PERCENTAGE_PRECISION div 10000) lower_bound_multiplier) (\<lambda>lb_bps.
        and_then (cast I64 (am_max_spread a)) (\<lambda>m.
        Ok (min (m div 2) lb_bps))))))"

definition amm_jit_is_active :: "amm \<Rightarrow> bool" where
  "amm_jit_is_active a \<longleftrightarrow> am_amm_jit_intensity a > 0"

definition amm_wants_to_jit_make :: "amm \<Rightarrow> position_direction \<Rightarrow> int \<Rightarrow> bool result" where
  "amm_wants_to_jit_make a taker_direction order_step_size =
     and_then (cast I128 order_step_size) (\<lambda>step.
     let wants = (case taker_direction of
            Long \<Rightarrow> am_base_asset_amount_with_amm a < - step
          | Short \<Rightarrow> am_base_asset_amount_with_amm a > step) in
     Ok (wants \<and> amm_jit_is_active a))"

definition amm_has_low_enough_inventory :: "amm \<Rightarrow> bool \<Rightarrow> bool result" where
  "amm_has_low_enough_inventory a wants_to_jit_make =
     (if wants_to_jit_make then
        and_then (calculate_market_open_bids_asks a) (\<lambda>(max_bids, max_asks).
        and_then (plain_abs I128 max_asks) (\<lambda>max_asks.
        and_then (plain_abs I128 (am_base_asset_amount_with_amm a)) (\<lambda>b.
        and_then (safe_div I128 (min max_bids max_asks) 10) (\<lambda>limit.
        Ok (b < limit)))))
      else Ok True)"

definition can_lower_k :: "amm \<Rightarrow> int \<Rightarrow> bool result" where
  "can_lower_k a min_order_size =
     and_then (calculate_market_open_bids_asks a) (\<lambda>(max_bids, max_asks).
     and_then (cast U128 min_order_size) (\<lambda>min_order_size.
     Ok (\<bar>am_base_asset_amount_with_amm a\<bar> < min \<bar>max_bids\<bar> \<bar>max_asks\<bar>
         \<and> max \<bar>am_base_asset_amount_with_amm a\<bar> min_order_size < am_sqrt_k a
         \<and> min_order_size < max \<bar>max_bids\<bar> \<bar>max_asks\<bar>)))"

section \<open>Updates of the curve\<close>

definition set_bounds :: "amm \<Rightarrow> int \<Rightarrow> amm result" where
  "set_bounds a terminal_base_reserves =
     and_then (calculate_bid_ask_bounds (am_concentration_coef a) terminal_base_reserves)
       (\<lambda>(min_base_asset_reserve, max_base_asset_reserve).
     Ok (a\<lparr>am_max_base_asset_reserve := max_base_asset_reserve,
           am_min_base_asset_reserve := min_base_asset_reserve\<rparr>))"

definition update_concentration_coef :: "amm \<Rightarrow> int \<Rightarrow> amm result" where
  "update_concentration_coef a scale =
     and_then (validate (scale > 0) InvalidConcentrationCoef) (\<lambda>_.
     let new_concentration_coef =
       CONCENTRATION_PRECISION + (MAX_CONCENTRATION_COEFFICIENT - CONCENTRATION_PRECISION) div scale in
     and_then (validate (new_concentration_coef > CONCENTRATION_PRECISION
         \<and> new_concentration_coef \<le> MAX_CONCENTRATION_COEFFICIENT) InvalidConcentrationCoef) (\<lambda>_.
     let a = a\<lparr>am_concentration_coef := new_concentration_coef\<rparr> in
     and_then (calculate_terminal_price_and_reserves a) (\<lambda>(_, terminal_quote_reserves, terminal_base_reserves).
     and_then (validate (terminal_quote_reserves = am_terminal_quote_asset_reserve a) InvalidAmmDetected) (\<lambda>_.
     and_then (set_bounds a terminal_base_reserves) (\<lambda>a.
     and_then (calculate_market_open_bids_asks a) (\<lambda>(max_bids, max_asks).
     and_then (validate (max_bids > am_base_asset_amount_with_amm a \<and> max_asks < am_base_asset_amount_with_amm a)
         InvalidConcentrationCoef) (\<lambda>_.
     Ok a)))))))"

definition set_terminal :: "amm \<Rightarrow> amm result" where
  "set_terminal a =
     and_then (calculate_terminal_price_and_reserves a) (\<lambda>(_, terminal_quote_reserves, terminal_base_reserves).
     set_bounds (a\<lparr>am_terminal_quote_asset_reserve := terminal_quote_reserves\<rparr>) terminal_base_reserves)"

definition reconciles :: "int \<Rightarrow> int \<Rightarrow> bool result" where
  "reconciles quote_asset_reserve new_quote_asset_reserve =
     and_then (cast I128 quote_asset_reserve) (\<lambda>q.
     and_then (cast I128 new_quote_asset_reserve) (\<lambda>r.
     and_then (plain_sub I128 q r) (\<lambda>d.
     and_then (plain_abs I128 d) (\<lambda>d.
     Ok (d < 100)))))"

definition move_price :: "amm \<Rightarrow> int \<Rightarrow> int \<Rightarrow> int \<Rightarrow> amm result" where
  "move_price a base_asset_reserve quote_asset_reserve sqrt_k =
     and_then (safe_mul U256 sqrt_k sqrt_k) (\<lambda>k.
     and_then (safe_div U256 k base_asset_reserve) (\<lambda>v.
     and_then (try_to U128 v) (\<lambda>new_quote.
     and_then (reconciles quote_asset_reserve new_quote) (\<lambda>ok.
     and_then (validate ok InvalidAmmDetected) (\<lambda>_.
     set_terminal (a\<lparr>am_base_asset_reserve := base_asset_reserve, am_quote_asset_reserve := new_quote,
       am_sqrt_k := sqrt_k\<rparr>))))))"

definition recenter :: "amm \<Rightarrow> int \<Rightarrow> int \<Rightarrow> amm result" where
  "recenter a peg_multiplier sqrt_k =
     (let swap_direction = (if am_base_asset_amount_with_amm a > 0 then Remove else Add) in
      and_then (calculate_swap_output \<bar>am_base_asset_amount_with_amm a\<bar> sqrt_k swap_direction sqrt_k)
        (\<lambda>(new_quote_asset_amount, new_base_asset_amount).
      and_then (safe_mul U256 sqrt_k sqrt_k) (\<lambda>k.
      and_then (safe_div U256 k new_base_asset_amount) (\<lambda>v.
      and_then (try_to U128 v) (\<lambda>new_quote.
      and_then (reconciles new_quote_asset_amount new_quote) (\<lambda>ok.
      and_then (validate ok InvalidAmmDetected) (\<lambda>_.
      set_terminal (a\<lparr>am_base_asset_reserve := new_base_asset_amount, am_quote_asset_reserve := new_quote,
        am_sqrt_k := sqrt_k, am_peg_multiplier := peg_multiplier\<rparr>))))))))"

record update_k_result =
  uk_sqrt_k :: int
  uk_base_asset_reserve :: int
  uk_quote_asset_reserve :: int

definition apply_k_update :: "amm \<Rightarrow> update_k_result \<Rightarrow> amm result" where
  "apply_k_update a update =
     (let a = a\<lparr>am_base_asset_reserve := uk_base_asset_reserve update,
                am_quote_asset_reserve := uk_quote_asset_reserve update, am_sqrt_k := uk_sqrt_k update\<rparr> in
      and_then (calculate_terminal_reserves a) (\<lambda>(new_terminal_quote_reserve, new_terminal_base_reserve).
      set_bounds (a\<lparr>am_terminal_quote_asset_reserve := new_terminal_quote_reserve\<rparr>) new_terminal_base_reserve))"

definition inventory_close_value :: "amm \<Rightarrow> int result" where
  "inventory_close_value a =
     (let b = am_base_asset_amount_with_amm a in
      if b = 0 then Ok 0
      else
        (let swap_direction = (if b \<ge> 0 then Add else Remove) in
         and_then (calculate_swap_output \<bar>b\<bar> (am_base_asset_reserve a) swap_direction (am_sqrt_k a))
           (\<lambda>(new_quote_asset_reserve, _).
         calculate_quote_asset_amount_swapped (am_quote_asset_reserve a) new_quote_asset_reserve swap_direction
           (am_peg_multiplier a))))"

definition inventory_value_and_pnl :: "amm \<Rightarrow> int \<Rightarrow> (int \<times> int) result" where
  "inventory_value_and_pnl a prior_value =
     (if am_base_asset_amount_with_amm a = 0 then Ok (0, 0)
      else
        and_then (inventory_close_value a) (\<lambda>value.
        and_then (cast I128 value) (\<lambda>v.
        and_then (cast I128 prior_value) (\<lambda>p.
        and_then (if am_base_asset_amount_with_amm a \<ge> 0 then safe_sub I128 v p else safe_sub I128 p v) (\<lambda>pnl.
        Ok (value, pnl))))))"

definition adjust_k_cost_and_update :: "amm \<Rightarrow> update_k_result \<Rightarrow> (amm \<times> int) result" where
  "adjust_k_cost_and_update a update =
     and_then (inventory_close_value a) (\<lambda>current_net_market_value.
     and_then (apply_k_update a update) (\<lambda>a.
     and_then (inventory_value_and_pnl a current_net_market_value) (\<lambda>(_, cost).
     Ok (a, cost))))"

definition adjust_k_cost :: "amm \<Rightarrow> update_k_result \<Rightarrow> int result" where
  "adjust_k_cost a update =
     and_then (inventory_value_and_pnl a 0) (\<lambda>(current_net_market_value, _).
     and_then (apply_k_update a update) (\<lambda>a.
     and_then (inventory_value_and_pnl a current_net_market_value) (\<lambda>(_, cost).
     Ok cost)))"

definition get_update_k_result :: "amm \<Rightarrow> market_status \<Rightarrow> int \<Rightarrow> bool \<Rightarrow> update_k_result result" where
  "get_update_k_result a market_status new_sqrt_k bound_update =
     and_then (safe_mul U192 new_sqrt_k AMM_RESERVE_PRECISION) (\<lambda>v.
     and_then (safe_div U192 v (am_sqrt_k a)) (\<lambda>sqrt_k_ratio.
     if bound_update \<and> sqrt_k_ratio < 500000000 then Err InvalidUpdateK
     else
       (let sqrt_k_ratio = (if sqrt_k_ratio < AMM_RESERVE_PRECISION then sqrt_k_ratio + 1 else sqrt_k_ratio) in
        and_then (try_to U128 new_sqrt_k) (\<lambda>sqrt_k.
        and_then (validate (sqrt_k_ratio < AMM_RESERVE_PRECISION \<or> sqrt_k \<le> MAX_SQRT_K) InvalidUpdateK) (\<lambda>_.
        if market_status \<noteq> ReduceOnly \<and> new_sqrt_k < am_sqrt_k a \<and> \<bar>am_base_asset_amount_with_amm a\<bar> > sqrt_k
        then Err InvalidUpdateK
        else
          and_then (safe_mul U192 (am_base_asset_reserve a) sqrt_k_ratio) (\<lambda>v.
          and_then (safe_div U192 v AMM_RESERVE_PRECISION) (\<lambda>v.
          and_then (try_to U128 v) (\<lambda>base_asset_reserve.
          and_then (safe_mul U192 sqrt_k sqrt_k) (\<lambda>invariant.
          and_then (safe_div U192 invariant base_asset_reserve) (\<lambda>v.
          and_then (try_to U128 v) (\<lambda>quote_asset_reserve.
          Ok \<lparr> uk_sqrt_k = sqrt_k, uk_base_asset_reserve = base_asset_reserve,
               uk_quote_asset_reserve = quote_asset_reserve \<rparr>)))))))))))"

section \<open>The size of a budgeted update\<close>

text \<open>A product of two numbers scaled down, in 192 bits.\<close>

definition mul_div_192 :: "int \<Rightarrow> int \<Rightarrow> int \<Rightarrow> int result" where
  "mul_div_192 x y d = and_then (safe_mul U192 x y) (\<lambda>v. safe_div U192 v d)"

definition bounded_k_change :: "int \<Rightarrow> int \<Rightarrow> int \<Rightarrow> int \<Rightarrow> (int \<times> int) result" where
  "bounded_k_change numerator denominator k_pct_upper_bound k_pct_lower_bound =
     and_then (safe_mul I128 numerator PERCENTAGE_PRECISION) (\<lambda>v.
     and_then (safe_div I128 v denominator) (\<lambda>current_pct_change.
     if numerator > denominator then
       and_then (safe_mul I128 k_pct_upper_bound PERCENTAGE_PRECISION) (\<lambda>v.
       and_then (safe_div I128 v K_BPS_UPDATE_SCALE) (\<lambda>maximum_pct_change.
       Ok (if current_pct_change > maximum_pct_change then k_pct_upper_bound else current_pct_change,
           K_BPS_UPDATE_SCALE)))
     else
       and_then (safe_mul I128 k_pct_lower_bound PERCENTAGE_PRECISION) (\<lambda>v.
       and_then (safe_div I128 v K_BPS_UPDATE_SCALE) (\<lambda>maximum_pct_change.
       Ok (if current_pct_change < maximum_pct_change then k_pct_lower_bound else current_pct_change,
           K_BPS_UPDATE_SCALE)))))"

definition calculate_budgeted_k_scale_of ::
  "int \<Rightarrow> int \<Rightarrow> int \<Rightarrow> int \<Rightarrow> int \<Rightarrow> int \<Rightarrow> int \<Rightarrow> (int \<times> int) result" where
  "calculate_budgeted_k_scale_of x y budget q d k_pct_upper_bound k_pct_lower_bound =
     and_then (plain_neg I128 budget) (\<lambda>c.
     and_then (cast I128 q) (\<lambda>q.
     let c_sign = (if c > 0 then 1 else - 1); d_sign = (if d > 0 then 1 else - 1) in
     and_then (safe_mul I128 c_sign d_sign) (\<lambda>rounding_bias.
     and_then (cast I128 x) (\<lambda>x1.
     and_then (safe_add I128 x1 d) (\<lambda>x_d.
     and_then (unsigned_from x_d) (\<lambda>x_d.
     and_then (mul_div_192 x x_d AMM_RESERVE_PRECISION) (\<lambda>x_times_x_d.
     and_then (mul_div_192 x_times_x_d \<bar>c\<bar> QUOTE_PRECISION) (\<lambda>v.
     and_then (try_to U128 v) (\<lambda>x_times_x_d_c.
     and_then (mul_div_192 \<bar>c\<bar> \<bar>x_d\<bar> QUOTE_PRECISION) (\<lambda>v.
     and_then (mul_div_192 v \<bar>d\<bar> AMM_RESERVE_PRECISION) (\<lambda>v.
     and_then (try_to U128 v) (\<lambda>c_times_x_d_d.
     and_then (mul_div_192 y \<bar>d\<bar> AMM_RESERVE_PRECISION) (\<lambda>v.
     and_then (mul_div_192 v \<bar>d\<bar> AMM_RESERVE_PRECISION) (\<lambda>v.
     and_then (unsigned_from q) (\<lambda>q.
     and_then (mul_div_192 v q PEG_PRECISION) (\<lambda>v.
     and_then (try_to U128 v) (\<lambda>v.
     and_then (cast I128 v) (\<lambda>pegged_quote_times_dd.
     and_then (cast I128 c_times_x_d_d) (\<lambda>v.
     and_then (safe_mul I128 v rounding_bias) (\<lambda>numer2.
     and_then (cast I128 x_times_x_d_c) (\<lambda>v.
     and_then (safe_mul I128 v c_sign) (\<lambda>denom1.
     if c_sign < 0 \<and> x_times_x_d_c > \<bar>pegged_quote_times_dd\<bar> then
       and_then (cast U128 k_pct_upper_bound) (\<lambda>k.
       and_then (cast U128 K_BPS_UPDATE_SCALE) (\<lambda>s. Ok (k, s)))
     else
       and_then (safe_sub I128 pegged_quote_times_dd numer2) (\<lambda>v.
       and_then (safe_div I128 v AMM_TO_QUOTE_PRECISION_RATIO) (\<lambda>numerator.
       and_then (safe_add I128 denom1 pegged_quote_times_dd) (\<lambda>v.
       and_then (safe_div I128 v AMM_TO_QUOTE_PRECISION_RATIO) (\<lambda>denominator.
       let (numerator, denominator) =
         (if numerator < 0 \<and> denominator < 0 then (\<bar>numerator\<bar>, \<bar>denominator\<bar>) else (numerator, denominator)) in
       if \<not> (numerator > 0 \<and> denominator > 0) then Panic
       else
         and_then (bounded_k_change numerator denominator k_pct_upper_bound k_pct_lower_bound)
           (\<lambda>(numerator, denominator).
         and_then (cast U128 numerator) (\<lambda>n.
         and_then (cast U128 denominator) (\<lambda>d. Ok (n, d))))))))))))))))))))))))))))))"

definition calculate_budgeted_k_scale :: "amm \<Rightarrow> int \<Rightarrow> int \<Rightarrow> int \<Rightarrow> (int \<times> int) result" where
  "calculate_budgeted_k_scale a budget k_pct_upper_bound k_pct_lower_bound =
     and_then (validate (k_pct_upper_bound \<ge> K_BPS_UPDATE_SCALE) InvalidUpdateK) (\<lambda>_.
     and_then (validate (K_BPS_UPDATE_SCALE - MAX_K_BPS_DECREASE \<le> k_pct_lower_bound
         \<and> k_pct_lower_bound \<le> K_BPS_UPDATE_SCALE) InvalidUpdateK) (\<lambda>_.
     calculate_budgeted_k_scale_of (am_base_asset_reserve a) (am_quote_asset_reserve a) budget
       (am_peg_multiplier a) (am_base_asset_amount_with_amm a) k_pct_upper_bound k_pct_lower_bound))"

section \<open>Swaps stay on the curve\<close>

lemma square_sdiv [simp]: "0 \<le> b \<Longrightarrow> k * k sdiv b = k * k div (b :: int)"
  by (rule sdiv_nonneg) auto

lemma swap_output_Ok:
  assumes "calculate_swap_output s r d k = Ok (out, inp)"
  shows "inp = r + (case d of Add \<Rightarrow> s | Remove \<Rightarrow> - s) \<and> out = k * k div inp \<and> 0 < inp \<and> fits U128 inp \<and> fits U128 out"
proof -
  have "fits U128 v \<Longrightarrow> v \<noteq> 0 \<Longrightarrow> 0 < v" for v :: int by (auto dest: fits_nonneg)
  then show ?thesis
    using assms unfolding calculate_swap_output_def
    by (cases d) (auto simp: ok_iff sdiv_nonneg dest: fits_nonneg split: if_split_asm)
qed

text \<open>The terminal reserves: what is left on the curve once the users have closed against it.\<close>

lemma terminal_reserves_Ok:
  assumes "calculate_terminal_reserves a = Ok (q, b)"
  shows "b = am_base_asset_reserve a + am_base_asset_amount_with_amm a
    \<and> q = am_sqrt_k a * am_sqrt_k a div b \<and> 0 < b"
  using swap_output_Ok [OF assms [unfolded calculate_terminal_reserves_def Let_def]]
  by (auto split: if_split_asm)

definition on_curve :: "amm \<Rightarrow> bool" where
  "on_curve a \<longleftrightarrow> 0 < am_base_asset_reserve a
     \<and> am_quote_asset_reserve a = am_sqrt_k a * am_sqrt_k a div am_base_asset_reserve a
     \<and> 0 < am_base_asset_reserve a + am_base_asset_amount_with_amm a
     \<and> am_terminal_quote_asset_reserve a
       = am_sqrt_k a * am_sqrt_k a div (am_base_asset_reserve a + am_base_asset_amount_with_amm a)"

text \<open>What \<open>on_curve\<close> reads of the AMM; the other fields may change freely.\<close>

definition same_curve :: "amm \<Rightarrow> amm \<Rightarrow> bool" where
  "same_curve a b \<longleftrightarrow> am_base_asset_reserve a = am_base_asset_reserve b
     \<and> am_quote_asset_reserve a = am_quote_asset_reserve b \<and> am_sqrt_k a = am_sqrt_k b
     \<and> am_base_asset_amount_with_amm a = am_base_asset_amount_with_amm b
     \<and> am_terminal_quote_asset_reserve a = am_terminal_quote_asset_reserve b"

lemma same_curve_refl [simp]: "same_curve a a"
  by (simp add: same_curve_def)

lemma same_curve_trans: "same_curve a b \<Longrightarrow> same_curve b c \<Longrightarrow> same_curve a c"
  by (simp add: same_curve_def)

lemma on_curve_same: "same_curve a b \<Longrightarrow> on_curve a \<longleftrightarrow> on_curve b"
  by (simp add: same_curve_def on_curve_def)

lemma set_bounds_same: "set_bounds a t = Ok b \<Longrightarrow> same_curve a b"
  by (auto simp: set_bounds_def ok_iff same_curve_def)

text \<open>The result of an update of k, and of the two administrative moves, lies on its curve.\<close>

definition update_on_curve :: "update_k_result \<Rightarrow> bool" where
  "update_on_curve u \<longleftrightarrow> 0 < uk_base_asset_reserve u
     \<and> uk_quote_asset_reserve u = uk_sqrt_k u * uk_sqrt_k u div uk_base_asset_reserve u"

lemma apply_k_update_curve:
  assumes "apply_k_update a u = Ok b" "update_on_curve u"
  shows "on_curve b \<and> am_base_asset_reserve b = uk_base_asset_reserve u \<and> am_sqrt_k b = uk_sqrt_k u
    \<and> am_quote_asset_reserve b = uk_quote_asset_reserve u \<and> am_peg_multiplier b = am_peg_multiplier a
    \<and> am_base_asset_amount_with_amm b = am_base_asset_amount_with_amm a
    \<and> am_total_fee_minus_distributions b = am_total_fee_minus_distributions a"
  using assms
  by (auto simp: apply_k_update_def set_bounds_def Let_def ok_iff on_curve_def update_on_curve_def
      dest!: terminal_reserves_Ok)

lemma set_terminal_curve:
  assumes "set_terminal a = Ok b" "0 < am_base_asset_reserve a"
    "am_quote_asset_reserve a = am_sqrt_k a * am_sqrt_k a div am_base_asset_reserve a"
  shows "on_curve b"
  using assms
  by (auto simp: set_terminal_def set_bounds_def calculate_terminal_price_and_reserves_def ok_iff on_curve_def
      dest!: terminal_reserves_Ok)

lemma move_price_curve:
  assumes "move_price a b q k = Ok a'" "0 \<le> b"
  shows "on_curve a'"
proof -
  have "on_curve a'" if "set_terminal c = Ok a'" "am_base_asset_reserve c = b" "b \<noteq> 0" "am_sqrt_k c = k"
    "am_quote_asset_reserve c = k * k div b" for c
    using set_terminal_curve [OF that(1)] that assms(2) by auto
  then show ?thesis
    using assms(1) unfolding move_price_def
    by (elim and_thenE) (auto simp: ok_iff assms(2))
qed

lemma recenter_curve:
  assumes "recenter a peg k = Ok a'"
  shows "on_curve a'"
proof -
  have "on_curve a'" if "set_terminal c = Ok a'" "0 < am_base_asset_reserve c"
    "am_quote_asset_reserve c = am_sqrt_k c * am_sqrt_k c div am_base_asset_reserve c" for c
    using set_terminal_curve that by blast
  then show ?thesis
    using assms unfolding recenter_def Let_def
    by (elim and_thenE) (auto simp: ok_iff dest!: swap_output_Ok)
qed

lemma curve_point:
  assumes "try_to U128 v = Ok b" "safe_mul U192 k k = Ok i" "safe_div U192 i b = Ok w" "try_to U128 w = Ok q"
  shows "0 < b \<and> q = k * k div b"
proof -
  have "0 \<le> b" using assms(1) by (auto simp: ok_iff dest: fits_nonneg)
  then show ?thesis using assms(2-4) by (auto simp: ok_iff)
qed

lemma update_k_result_curve:
  assumes "get_update_k_result a st k bound = Ok u"
  shows "update_on_curve u \<and> uk_sqrt_k u = k"
proof -
  have k: "s = k" if "try_to U128 k = Ok s" for s using that by (simp add: ok_iff)
  show ?thesis
    using assms unfolding get_update_k_result_def Let_def
    by (elim and_thenE if_OkE) (simp_all, frule (3) curve_point, drule k, auto simp: update_on_curve_def)
qed

text \<open>Two prices of a swap: what a reserve is worth, and that the rounding is against the taker.\<close>

lemma reserve_to_asset_amount_Ok:
  assumes "reserve_to_asset_amount r peg = Ok v"
  shows "v = r * peg div 1000000000 \<and> 0 \<le> r * peg"
  using assms by (auto simp: reserve_to_asset_amount_def ok_iff dest: fits_nonneg)

lemma quote_swapped_Ok:
  assumes "calculate_quote_asset_amount_swapped before after d peg = Ok v"
  shows "case d of
      Add \<Rightarrow> after \<le> before \<and> v = (before - after) * peg div 1000000000
    | Remove \<Rightarrow> before \<le> after \<and> v = (after - before + 1) * peg div 1000000000 + 1"
  using assms
  by (cases d) (auto simp: calculate_quote_asset_amount_swapped_def ok_iff dest!: reserve_to_asset_amount_Ok fits_nonneg)

lemma unwrap_or_Ok_iff [ok_iff]: "unwrap_or r d = Ok v \<longleftrightarrow> r = Ok v \<or> (\<exists>e. r = Err e) \<and> v = d"
  by (cases r) auto

section \<open>The price of an expired market\<close>

lemma sdiv_near:
  fixes n :: int
  assumes "n \<noteq> 0"
  shows "\<bar>x - x sdiv n * n\<bar> < \<bar>n\<bar>"
proof -
  define d where "d = \<bar>x\<bar> div \<bar>n\<bar>"
  have d: "d * \<bar>n\<bar> \<le> \<bar>x\<bar>" "\<bar>x\<bar> < d * \<bar>n\<bar> + \<bar>n\<bar>"
    unfolding d_def using assms by (auto simp: div_mul_le less_div_mul)
  have "x sdiv n * n = sgn x * (d * \<bar>n\<bar>)"
    by (simp add: signed_divide_int_def d_def mult_sgn_abs ac_simps) (metis abs_sgn mult.assoc mult.commute)
  then have "x - x sdiv n * n = sgn x * (\<bar>x\<bar> - d * \<bar>n\<bar>)"
    by (simp add: right_diff_distrib sgn_mult_abs)
  then have "\<bar>x - x sdiv n * n\<bar> \<le> \<bar>x\<bar> - d * \<bar>n\<bar>"
    using d(1) by (cases x "0 :: int" rule: linorder_cases) (simp_all add: abs_mult)
  with d(2) show ?thesis by linarith
qed

lemma expiry_price_solvent:
  assumes "calculate_expiry_price a target excess quote unsettled step = Ok p"
    "step \<le> \<bar>am_base_asset_amount_with_amm a\<bar>" "ty_min I64 < p" "p < ty_max I64"
  shows "am_base_asset_amount_with_amm a * p \<le> (excess - (quote + unsettled)) * PRICE_TIMES_AMM_TO_QUOTE_PRECISION_RATIO
    \<and> (if 0 < am_base_asset_amount_with_amm a then p < target else target < p)"
proof -
  let ?n = "am_base_asset_amount_with_amm a"
  define x where "x = (quote + unsettled - excess) * PRICE_TIMES_AMM_TO_QUOTE_PRECISION_RATIO"
  have n: "?n \<noteq> 0" and p: "p = (if 0 \<le> ?n then saturating_sub I64 (min (- (x sdiv ?n)) target) 1
      else saturating_add I64 (max (- (x sdiv ?n)) target) 1)"
    using assms(1,2)
    by (auto simp: calculate_expiry_price_def calculate_net_user_cost_basis_def ok_iff x_def split: if_split_asm)
  note near = sdiv_near [OF n, of x]
  show ?thesis
  proof (cases "0 < ?n")
    case True
    then have le: "p \<le> - (x sdiv ?n) - 1" "p < target"
      using p assms(3) by (auto simp: saturating_sub_def max_def split: if_split_asm)
    have "?n * p \<le> ?n * (- (x sdiv ?n) - 1)"
      using True le(1) by (intro mult_left_mono) auto
    also have "\<dots> = - (x sdiv ?n * ?n) - ?n" by (simp add: algebra_simps)
    also have "\<dots> \<le> - x" using near True by linarith
    finally show ?thesis using le(2) True by (simp add: x_def algebra_simps)
  next
    case False
    then have ge: "- (x sdiv ?n) + 1 \<le> p" "target < p"
      using p n assms(4) by (auto simp: saturating_add_def min_def split: if_split_asm)
    have "?n * p \<le> ?n * (- (x sdiv ?n) + 1)"
      using False ge(1) by (intro mult_left_mono_neg) auto
    also have "\<dots> = - (x sdiv ?n * ?n) + ?n" by (simp add: algebra_simps)
    also have "\<dots> \<le> - x" using near False by linarith
    finally show ?thesis using ge(2) False by (simp add: x_def algebra_simps)
  qed
qed

end
