(* ===== verification/Amm_Spread.thy ===== *)
theory Amm_Spread
  imports Amm_Math
begin

text \<open>
  The quotes of the AMM: \<open>vlp/amm/math/spread.rs\<close>. A refresh derives the long and the short spread,
  the reference price offset and the reserves each side is executed against from the state of the
  curve, the statistics of the market and the oracle price. The square roots \<open>nth_root(2)\<close> of
  \<open>num_integer\<close> and \<open>integer_sqrt\<close> of the wide integers are the parameter \<open>isqrt\<close>; what the code
  relies on is \<open>integer_square_root\<close>.
\<close>

definition integer_square_root :: "(int \<Rightarrow> int) \<Rightarrow> bool" where
  "integer_square_root isqrt \<longleftrightarrow>
     (\<forall>n \<ge> 0. 0 \<le> isqrt n \<and> isqrt n * isqrt n \<le> n \<and> n < (isqrt n + 1) * (isqrt n + 1))"

section \<open>Pairs of spreads\<close>

record spread_pair =
  sd_long :: int
  sd_short :: int

definition default_pair :: spread_pair where
  "default_pair = \<lparr> sd_long = 0, sd_short = 0 \<rparr>"

definition total :: "spread_pair \<Rightarrow> int result" where
  "total p = safe_add U64 (sd_long p) (sd_short p)"

definition component_min :: "spread_pair \<Rightarrow> spread_pair \<Rightarrow> spread_pair" where
  "component_min p other =
     \<lparr> sd_long = min (sd_long p) (sd_long other), sd_short = min (sd_short p) (sd_short other) \<rparr>"

definition sub_pair :: "spread_pair \<Rightarrow> spread_pair \<Rightarrow> spread_pair result" where
  "sub_pair p other =
     and_then (safe_sub U64 (sd_long p) (sd_long other)) (\<lambda>l.
     and_then (safe_sub U64 (sd_short p) (sd_short other)) (\<lambda>s.
     Ok \<lparr> sd_long = l, sd_short = s \<rparr>))"

definition positive_delta_from :: "spread_pair \<Rightarrow> spread_pair \<Rightarrow> spread_pair" where
  "positive_delta_from p before =
     \<lparr> sd_long = saturating_sub U64 (sd_long p) (sd_long before),
       sd_short = saturating_sub U64 (sd_short p) (sd_short before) \<rparr>"

definition add_pair :: "spread_pair \<Rightarrow> spread_pair \<Rightarrow> spread_pair result" where
  "add_pair p other =
     and_then (safe_add U64 (sd_long p) (sd_long other)) (\<lambda>l.
     and_then (safe_add U64 (sd_short p) (sd_short other)) (\<lambda>s.
     Ok \<lparr> sd_long = l, sd_short = s \<rparr>))"

definition from_floors :: "int \<Rightarrow> int \<times> int \<Rightarrow> spread_pair" where
  "from_floors half_base_spread vol =
     \<lparr> sd_long = max half_base_spread (fst vol), sd_short = max half_base_spread (snd vol) \<rparr>"

definition apply_oracle_retreat :: "spread_pair \<Rightarrow> int \<Rightarrow> int \<times> int \<Rightarrow> spread_pair result" where
  "apply_oracle_retreat p spread_pct vol =
     (if spread_pct < 0 then
        and_then (safe_add U64 \<bar>spread_pct\<bar> (fst vol)) (\<lambda>v. Ok (p\<lparr>sd_long := max (sd_long p) v\<rparr>))
      else if spread_pct > 0 then
        and_then (safe_add U64 \<bar>spread_pct\<bar> (snd vol)) (\<lambda>v. Ok (p\<lparr>sd_short := max (sd_short p) v\<rparr>))
      else Ok p)"

definition scale_side :: "int \<Rightarrow> int \<Rightarrow> int result" where
  "scale_side v factor = and_then (safe_mul U64 v factor) (\<lambda>v. safe_div U64 v BID_ASK_SPREAD_PRECISION)"

definition scale :: "spread_pair \<Rightarrow> position_direction option \<Rightarrow> int \<Rightarrow> spread_pair result" where
  "scale p loaded factor =
     (case loaded of
        Some Long \<Rightarrow> and_then (scale_side (sd_long p) factor) (\<lambda>v. Ok (p\<lparr>sd_long := v\<rparr>))
      | Some Short \<Rightarrow> and_then (scale_side (sd_short p) factor) (\<lambda>v. Ok (p\<lparr>sd_short := v\<rparr>))
      | None \<Rightarrow> Ok p)"

definition scale_both_saturating :: "spread_pair \<Rightarrow> int \<Rightarrow> spread_pair result" where
  "scale_both_saturating p factor =
     and_then (safe_div U64 (saturating_mul U64 (sd_long p) factor) BID_ASK_SPREAD_PRECISION) (\<lambda>l.
     and_then (safe_div U64 (saturating_mul U64 (sd_short p) factor) BID_ASK_SPREAD_PRECISION) (\<lambda>s.
     Ok \<lparr> sd_long = l, sd_short = s \<rparr>))"

definition widen :: "spread_pair \<Rightarrow> position_direction option \<Rightarrow> int \<Rightarrow> int \<Rightarrow> spread_pair result" where
  "widen p loaded loaded_amount opposite_amount =
     add_pair p
       (case loaded of
          Some Long \<Rightarrow> \<lparr> sd_long = loaded_amount, sd_short = opposite_amount \<rparr>
        | Some Short \<Rightarrow> \<lparr> sd_long = opposite_amount, sd_short = loaded_amount \<rparr>
        | None \<Rightarrow> \<lparr> sd_long = opposite_amount, sd_short = opposite_amount \<rparr>)"

definition shrink_by :: "int_ty \<Rightarrow> int \<Rightarrow> int \<Rightarrow> int result" where
  "shrink_by t v adjustment =
     and_then (safe_div t (saturating_mul t v adjustment) 100) (\<lambda>d. Ok (max (saturating_sub t v d) 1))"

definition grow_by :: "int_ty \<Rightarrow> int \<Rightarrow> int \<Rightarrow> int result" where
  "grow_by t v adjustment =
     and_then (safe_div_ceil t (saturating_mul t v adjustment) 100) (\<lambda>d. Ok (max (saturating_add t v d) 1))"

definition apply_percent_adjustment :: "spread_pair \<Rightarrow> int \<Rightarrow> spread_pair \<Rightarrow> spread_pair result" where
  "apply_percent_adjustment p adjustment lower =
     (if adjustment = 0 then Ok p
      else
        (let f = (if adjustment < 0 then shrink_by U64 else grow_by U64) in
         and_then (f (sd_long p) \<bar>adjustment\<bar>) (\<lambda>l.
         and_then (f (sd_short p) \<bar>adjustment\<bar>) (\<lambda>s.
         Ok \<lparr> sd_long = max (sd_long lower) l, sd_short = max (sd_short lower) s \<rparr>))))"

definition cap_to_max_spread :: "int \<Rightarrow> int \<Rightarrow> int \<Rightarrow> (int \<times> int) result" where
  "cap_to_max_spread long_spread short_spread max_spread =
     and_then (safe_add U64 long_spread short_spread) (\<lambda>total_spread.
     and_then
       (if total_spread > max_spread then
          (if long_spread > short_spread then
             and_then (safe_div_ceil U64 (saturating_mul U64 long_spread max_spread) total_spread) (\<lambda>long_spread.
             and_then (safe_sub U64 max_spread long_spread) (\<lambda>short_spread.
             Ok (long_spread, short_spread)))
           else
             and_then (safe_div_ceil U64 (saturating_mul U64 short_spread max_spread) total_spread) (\<lambda>short_spread.
             and_then (safe_sub U64 max_spread short_spread) (\<lambda>long_spread.
             Ok (long_spread, short_spread))))
        else Ok (long_spread, short_spread))
       (\<lambda>(long_spread, short_spread).
     and_then (safe_add U64 long_spread short_spread) (\<lambda>new_total_spread.
     and_then (validate (new_total_spread \<le> max_spread) InvalidAmmMaxSpreadDetected) (\<lambda>_.
     Ok (long_spread, short_spread)))))"

definition cap_total :: "spread_pair \<Rightarrow> int \<Rightarrow> spread_pair result" where
  "cap_total p max_total =
     and_then (cap_to_max_spread (sd_long p) (sd_short p) max_total) (\<lambda>(l, s).
     Ok \<lparr> sd_long = l, sd_short = s \<rparr>)"

record spread_components =
  cp_divergence :: spread_pair
  cp_floor :: spread_pair
  cp_steering :: spread_pair
  cp_padding :: spread_pair

definition from_raw ::
  "spread_pair \<Rightarrow> spread_pair \<Rightarrow> spread_pair \<Rightarrow> spread_pair \<Rightarrow> spread_components result" where
  "from_raw p divergence_required floor_required steering_added =
     (let divergence = component_min p divergence_required in
      and_then (sub_pair p divergence) (\<lambda>after_divergence.
      let lower = component_min after_divergence floor_required in
      and_then (sub_pair after_divergence lower) (\<lambda>after_floor.
      let steering = component_min after_floor steering_added in
      and_then (sub_pair after_floor steering) (\<lambda>padding.
      Ok \<lparr> cp_divergence = divergence, cp_floor = lower, cp_steering = steering, cp_padding = padding \<rparr>))))"

definition raw :: "spread_components \<Rightarrow> spread_pair result" where
  "raw c =
     and_then (add_pair (cp_divergence c) (cp_floor c)) (\<lambda>p.
     and_then (add_pair p (cp_steering c)) (\<lambda>p.
     add_pair p (cp_padding c)))"

text \<open>One turn of the loop over the layers: nothing is allocated once no room is left.\<close>

definition allocate_layer :: "spread_pair \<times> int \<Rightarrow> spread_pair \<Rightarrow> (spread_pair \<times> int) result" where
  "allocate_layer = (\<lambda>(p, remaining) layer.
     if remaining = 0 then Ok (p, remaining)
     else
       and_then (cap_total layer remaining) (\<lambda>allocated.
       and_then (add_pair p allocated) (\<lambda>p.
       and_then (total allocated) (\<lambda>t.
       and_then (safe_sub U64 remaining t) (\<lambda>remaining.
       Ok (p, remaining))))))"

definition cap_total_ordered :: "spread_components \<Rightarrow> int \<Rightarrow> spread_pair result" where
  "cap_total_ordered c max_total =
     and_then (raw c) (\<lambda>p.
     and_then (total p) (\<lambda>t.
     if t \<le> max_total then Ok p
     else
       and_then (try_fold allocate_layer (default_pair, max_total)
         [cp_divergence c, cp_floor c, cp_steering c, cp_padding c]) (\<lambda>(p, _).
       and_then (total p) (\<lambda>t.
       and_then (validate (t \<le> max_total) InvalidAmmMaxSpreadDetected) (\<lambda>_.
       Ok p)))))"

section \<open>The terms of the spread\<close>

definition divergence_requirement :: "int \<Rightarrow> spread_pair" where
  "divergence_requirement spread_pct =
     (if spread_pct < 0 then \<lparr> sd_long = \<bar>spread_pct\<bar>, sd_short = 0 \<rparr>
      else if spread_pct > 0 then \<lparr> sd_long = 0, sd_short = \<bar>spread_pct\<bar> \<rparr>
      else default_pair)"

definition inventory_increasing_side :: "int \<Rightarrow> position_direction option" where
  "inventory_increasing_side base_asset_amount_with_amm =
     (if base_asset_amount_with_amm > 0 then Some Long
      else if base_asset_amount_with_amm < 0 then Some Short else None)"

definition calculate_spread_conf_component :: "int \<Rightarrow> int result" where
  "calculate_spread_conf_component confidence_pct =
     and_then (safe_div U64 confidence_pct SPREAD_CONF_DISCOUNT_DIVISOR) (\<lambda>v.
     and_then (safe_add U64 v (saturating_sub U64 confidence_pct LAZER_CONF_FLOOR_PCT)) (\<lambda>v.
     Ok (min v confidence_pct)))"

definition intensity_factor :: "int \<Rightarrow> int \<Rightarrow> int result" where
  "intensity_factor intensity_volume volume_24h =
     and_then (safe_mul U128 intensity_volume PERCENTAGE_PRECISION) (\<lambda>v.
     and_then (safe_div U128 v (max volume_24h 1)) (\<lambda>v.
     Ok (clamp v (PERCENTAGE_PRECISION div 100) PERCENTAGE_PRECISION)))"

definition calculate_long_short_vol_spread ::
  "int \<Rightarrow> int \<Rightarrow> int \<Rightarrow> int \<Rightarrow> int \<Rightarrow> int \<Rightarrow> int \<Rightarrow> (int \<times> int) result" where
  "calculate_long_short_vol_spread last_oracle_conf_pct price mark_std oracle_std
       long_intensity_volume short_intensity_volume volume_24h =
     and_then (safe_add U64 oracle_std mark_std) (\<lambda>v.
     and_then (safe_mul U128 v PERCENTAGE_PRECISION) (\<lambda>v.
     and_then (safe_div U128 v price) (\<lambda>v.
     and_then (safe_div U128 v 2) (\<lambda>market_avg_std_pct.
     and_then (calculate_spread_conf_component last_oracle_conf_pct) (\<lambda>conf_component.
     and_then (safe_div U128 market_avg_std_pct SPREAD_VOL_STD_DISCOUNT_DIVISOR) (\<lambda>v.
     let vol_spread = max conf_component v;
         side_vol_spread = (\<lambda>factor.
           and_then (safe_mul U128 vol_spread factor) (\<lambda>v.
           and_then (safe_div U128 v PERCENTAGE_PRECISION) (\<lambda>v.
           and_then (cast U64 v) (\<lambda>v. Ok (max conf_component v))))) in
     and_then (intensity_factor long_intensity_volume volume_24h) (\<lambda>long_factor.
     and_then (intensity_factor short_intensity_volume volume_24h) (\<lambda>short_factor.
     and_then (side_vol_spread long_factor) (\<lambda>l.
     and_then (side_vol_spread short_factor) (\<lambda>s.
     Ok (l, s)))))))))))"

datatype liquidity_basis = MinSide | Average

definition inventory_liquidity_ratio :: "int \<Rightarrow> int \<Rightarrow> int \<Rightarrow> int \<Rightarrow> liquidity_basis \<Rightarrow> int result" where
  "inventory_liquidity_ratio base_asset_amount_with_amm base_asset_reserve min_base_asset_reserve
       max_base_asset_reserve basis =
     and_then (calculate_market_open_bids_asks_of base_asset_reserve min_base_asset_reserve
       max_base_asset_reserve) (\<lambda>(max_bids, max_asks).
     and_then (plain_abs I128 max_asks) (\<lambda>max_asks.
     and_then
       (case basis of
          MinSide \<Rightarrow> Ok (min max_bids max_asks)
        | Average \<Rightarrow> and_then (safe_add I128 max_bids max_asks) (\<lambda>v. safe_div I128 v 2)) (\<lambda>liquidity.
     and_then (plain_abs I128 base_asset_amount_with_amm) (\<lambda>b.
     if b < liquidity then
       and_then (unwrap_or (safe_mul I128 b PERCENTAGE_PRECISION) (ty_max I128)) (\<lambda>v.
       and_then (safe_div I128 v (max liquidity 1)) (\<lambda>v.
       Ok (min v PERCENTAGE_PRECISION)))
     else Ok PERCENTAGE_PRECISION))))"

definition calculate_inventory_liquidity_ratio :: "int \<Rightarrow> int \<Rightarrow> int \<Rightarrow> int \<Rightarrow> int result" where
  "calculate_inventory_liquidity_ratio base_asset_amount_with_amm base_asset_reserve min_base_asset_reserve
       max_base_asset_reserve =
     inventory_liquidity_ratio base_asset_amount_with_amm base_asset_reserve min_base_asset_reserve
       max_base_asset_reserve MinSide"

definition calculate_inventory_liquidity_ratio_for_reference_price_offset ::
  "int \<Rightarrow> int \<Rightarrow> int \<Rightarrow> int \<Rightarrow> int result" where
  "calculate_inventory_liquidity_ratio_for_reference_price_offset base_asset_amount_with_amm
       base_asset_reserve min_base_asset_reserve max_base_asset_reserve =
     inventory_liquidity_ratio base_asset_amount_with_amm base_asset_reserve min_base_asset_reserve
       max_base_asset_reserve Average"

definition calculate_spread_inventory_scale :: "int \<Rightarrow> int \<Rightarrow> int \<Rightarrow> int \<Rightarrow> int \<Rightarrow> int \<Rightarrow> int result" where
  "calculate_spread_inventory_scale base_asset_amount_with_amm base_asset_reserve min_base_asset_reserve
       max_base_asset_reserve directional_spread max_spread =
     (if base_asset_amount_with_amm = 0 then Ok BID_ASK_SPREAD_PRECISION
      else
        and_then (calculate_inventory_liquidity_ratio base_asset_amount_with_amm base_asset_reserve
          min_base_asset_reserve max_base_asset_reserve) (\<lambda>amm_inventory_pct.
        and_then (safe_mul U64 max_spread BID_ASK_SPREAD_PRECISION) (\<lambda>v.
        and_then (safe_div U64 v (max directional_spread 1)) (\<lambda>v.
        let inventory_scale_max = max MAX_BID_ASK_INVENTORY_SKEW_FACTOR v in
        and_then (cast U64 \<bar>amm_inventory_pct\<bar>) (\<lambda>pct.
        and_then (unwrap_or (safe_mul U64 inventory_scale_max pct) (ty_max U64)) (\<lambda>v.
        and_then (safe_div U64 v PERCENTAGE_PRECISION) (\<lambda>v.
        and_then (unwrap_or (safe_add U64 BID_ASK_SPREAD_PRECISION v) (ty_max U64)) (\<lambda>v.
        Ok (min inventory_scale_max v)))))))))"

definition calculate_spread_leverage_scale :: "int \<Rightarrow> int \<Rightarrow> int \<Rightarrow> int \<Rightarrow> int \<Rightarrow> int \<Rightarrow> int result" where
  "calculate_spread_leverage_scale quote_asset_reserve terminal_quote_asset_reserve peg_multiplier
       base_asset_amount_with_amm price total_fee_minus_distributions =
     and_then (cast I128 quote_asset_reserve) (\<lambda>q.
     and_then (cast I128 terminal_quote_asset_reserve) (\<lambda>t.
     and_then (safe_sub I128 q t) (\<lambda>v.
     and_then (cast I128 peg_multiplier) (\<lambda>peg.
     and_then (safe_mul I128 v peg) (\<lambda>v.
     and_then (safe_div I128 v AMM_TIMES_PEG_TO_QUOTE_PRECISION_RATIO) (\<lambda>net_base_asset_value.
     and_then (safe_mul I128 base_asset_amount_with_amm price) (\<lambda>v.
     and_then (safe_div I128 v (AMM_TO_QUOTE_PRECISION_RATIO * PRICE_PRECISION)) (\<lambda>local_base_asset_value.
     and_then (safe_sub I128 local_base_asset_value net_base_asset_value) (\<lambda>v.
     and_then (safe_mul I128 (max 0 v) BID_ASK_SPREAD_PRECISION) (\<lambda>v.
     and_then (plain_add I128 (max 0 total_fee_minus_distributions) 1) (\<lambda>d.
     and_then (safe_div I128 v d) (\<lambda>effective_leverage.
     and_then (cast U64 (max 0 effective_leverage)) (\<lambda>v.
     and_then (plain_add U64 v 1) (\<lambda>v.
     and_then (safe_add U64 BID_ASK_SPREAD_PRECISION v) (\<lambda>v.
     Ok (min MAX_BID_ASK_INVENTORY_SKEW_FACTOR v))))))))))))))))"

definition calculate_spread_revenue_retreat_amount :: "int \<Rightarrow> int \<Rightarrow> int \<Rightarrow> int result" where
  "calculate_spread_revenue_retreat_amount base_spread max_spread net_revenue_since_last_funding =
     (let threshold = DEFAULT_REVENUE_SINCE_LAST_FUNDING_SPREAD_RETREAT in
      if net_revenue_since_last_funding < threshold then
        and_then (safe_div U64 max_spread SPREAD_REVENUE_RETREAT_MAX_DIVISOR) (\<lambda>max_retreat.
        if net_revenue_since_last_funding \<ge> threshold * 1000 then
          and_then (safe_mul U64 base_spread \<bar>net_revenue_since_last_funding\<bar>) (\<lambda>v.
          and_then (safe_div U64 v \<bar>threshold\<bar>) (\<lambda>v.
          Ok (min max_retreat v)))
        else Ok max_retreat)
      else Ok 0)"

definition calculate_max_target_spread :: "int \<Rightarrow> int \<Rightarrow> int \<Rightarrow> int \<Rightarrow> int \<Rightarrow> int \<Rightarrow> int result" where
  "calculate_max_target_spread spread_pct price last_oracle_conf_pct mark_std oracle_std max_spread =
     and_then (safe_mul U64 last_oracle_conf_pct 2) (\<lambda>conf.
     and_then (safe_mul U64 (max mark_std oracle_std) PERCENTAGE_PRECISION) (\<lambda>v.
     and_then (safe_div U64 v price) (\<lambda>std_pct.
     Ok (max max_spread (max \<bar>spread_pct\<bar> (min (max conf std_pct) BID_ASK_SPREAD_PRECISION))))))"

definition calculate_spread_funding_bias_scale :: "int \<Rightarrow> int \<Rightarrow> int \<Rightarrow> int \<Rightarrow> int result" where
  "calculate_spread_funding_bias_scale base_asset_amount_with_amm last_24h_avg_funding_rate
       last_funding_oracle_twap funding_bias_sensitivity =
     (if funding_bias_sensitivity = 0 \<or> last_funding_oracle_twap \<le> 0 then Ok BID_ASK_SPREAD_PRECISION
      else
        and_then (safe_mul I128 last_24h_avg_funding_rate PRICE_PRECISION) (\<lambda>v.
        and_then (safe_div I128 v last_funding_oracle_twap) (\<lambda>v.
        and_then (safe_mul I128 v 24) (\<lambda>f_norm.
        if sgn f_norm * sgn base_asset_amount_with_amm \<ge> 0 then Ok BID_ASK_SPREAD_PRECISION
        else
          and_then (safe_mul U128 \<bar>f_norm\<bar> PERCENTAGE_PRECISION) (\<lambda>v.
          and_then (safe_div U128 v FUNDING_RATE_OFFSET_PERCENTAGE) (\<lambda>v.
          and_then (cast U64 (min v PERCENTAGE_PRECISION)) (\<lambda>ramp.
          and_then (safe_mul U64 funding_bias_sensitivity ramp) (\<lambda>v.
          and_then (safe_div U64 v 100) (\<lambda>v.
          safe_add U64 BID_ASK_SPREAD_PRECISION v)))))))))"

text \<open>A clamp of the standard library panics when its bounds are in the wrong order.\<close>

definition clamp_checked :: "int \<Rightarrow> int \<Rightarrow> int \<Rightarrow> int result" where
  "clamp_checked x lo hi = (if lo \<le> hi then Ok (clamp x lo hi) else Panic)"

definition calculate_reference_price_offset ::
  "int \<Rightarrow> int \<Rightarrow> int \<Rightarrow> int \<Rightarrow> int \<Rightarrow> int \<Rightarrow> int \<Rightarrow> int \<Rightarrow> int result" where
  "calculate_reference_price_offset price last_24h_avg_funding_rate liquidity_fraction oracle_twap_fast
       mark_twap_fast oracle_twap_slow mark_twap_slow max_offset_pct =
     (if last_24h_avg_funding_rate = 0 \<or> liquidity_fraction = 0 then Ok 0
      else
        and_then (cast I64 price) (\<lambda>p.
        and_then (safe_mul I64 max_offset_pct p) (\<lambda>v.
        and_then (safe_div I64 v PERCENTAGE_PRECISION) (\<lambda>hi.
        and_then (cast I64 mark_twap_fast) (\<lambda>v.
        and_then (safe_sub I64 v oracle_twap_fast) (\<lambda>v.
        and_then (clamp_checked v (- hi) hi) (\<lambda>mark_premium_minute.
        and_then (cast I64 mark_twap_slow) (\<lambda>v.
        and_then (safe_sub I64 v oracle_twap_slow) (\<lambda>v.
        and_then (clamp_checked v (- hi) hi) (\<lambda>mark_premium_hour.
        and_then (safe_div I64 last_24h_avg_funding_rate FUNDING_RATE_BUFFER) (\<lambda>v.
        and_then (safe_mul I64 v 24) (\<lambda>v.
        and_then (plain_abs I64 oracle_twap_slow) (\<lambda>t.
        and_then (safe_div I64 t FUNDING_RATE_OFFSET_DENOMINATOR) (\<lambda>t.
        and_then (safe_sub I64 v t) (\<lambda>v.
        and_then (clamp_checked v (- hi) hi) (\<lambda>mark_premium_day.
        and_then (safe_add I64 mark_premium_minute mark_premium_hour) (\<lambda>v.
        and_then (safe_add I64 v mark_premium_day) (\<lambda>v.
        and_then (safe_div I64 v 3) (\<lambda>mark_premium_avg.
        and_then (safe_mul I64 mark_premium_avg PRICE_PRECISION) (\<lambda>v.
        and_then (safe_div I64 v p) (\<lambda>mark_premium_avg_pct.
        if sgn mark_premium_avg_pct \<noteq> sgn liquidity_fraction then Ok 0
        else
          and_then (safe_mul I128 max_offset_pct
            (min \<bar>liquidity_fraction\<bar> REFERENCE_PRICE_OFFSET_FULL_INVENTORY_PCT)) (\<lambda>v.
          and_then (safe_div I128 v REFERENCE_PRICE_OFFSET_FULL_INVENTORY_PCT) (\<lambda>v.
          and_then (safe_mul I128 v (sgn liquidity_fraction)) (\<lambda>v.
          cast I32 v))))))))))))))))))))))))"

section \<open>The reserves a side is executed against\<close>

definition k_invariant :: "int \<Rightarrow> int result" where
  "k_invariant sqrt_k = safe_mul U192 sqrt_k sqrt_k"

definition compute_spread_reserves_for_direction ::
  "amm \<Rightarrow> int \<Rightarrow> int \<Rightarrow> position_direction \<Rightarrow> (int \<times> int) result" where
  "compute_spread_reserves_for_direction a spread reference_price_offset direction =
     and_then (cast I32 spread) (\<lambda>s.
     and_then (if direction = Short then plain_neg I32 s else Ok s) (\<lambda>s.
     and_then (safe_add I32 s reference_price_offset) (\<lambda>spread_with_offset.
     and_then (cast I128 (am_quote_asset_reserve a)) (\<lambda>q.
     and_then (safe_mul I128 q spread_with_offset) (\<lambda>v.
     and_then (safe_div I128 v (BID_ASK_SPREAD_PRECISION * 2)) (\<lambda>delta.
     and_then
       (if delta > 0 then safe_add U128 (am_quote_asset_reserve a) \<bar>delta\<bar>
        else safe_sub U128 (am_quote_asset_reserve a) \<bar>delta\<bar>) (\<lambda>quote_asset_reserve.
     and_then (k_invariant (am_sqrt_k a)) (\<lambda>k.
     and_then (safe_div U192 k quote_asset_reserve) (\<lambda>v.
     and_then (try_to U128 v) (\<lambda>base_asset_reserve.
     Ok (base_asset_reserve, quote_asset_reserve)))))))))))"

definition refresh_cached_spread_reserves :: "amm \<Rightarrow> amm result" where
  "refresh_cached_spread_reserves a =
     and_then (compute_spread_reserves_for_direction a (am_long_spread a) (am_reference_price_offset a) Long)
       (\<lambda>(ask_base, ask_quote).
     and_then (compute_spread_reserves_for_direction a (am_short_spread a) (am_reference_price_offset a) Short)
       (\<lambda>(bid_base, bid_quote).
     Ok (if am_reference_price_offset a = 0 then
           a\<lparr>am_ask_base_asset_reserve := min ask_base (am_base_asset_reserve a),
             am_ask_quote_asset_reserve := max ask_quote (am_quote_asset_reserve a),
             am_bid_base_asset_reserve := max bid_base (am_base_asset_reserve a),
             am_bid_quote_asset_reserve := min bid_quote (am_quote_asset_reserve a)\<rparr>
         else
           a\<lparr>am_ask_base_asset_reserve := ask_base, am_ask_quote_asset_reserve := ask_quote,
             am_bid_base_asset_reserve := bid_base, am_bid_quote_asset_reserve := bid_quote\<rparr>)))"

definition calculate_base_asset_amount_to_trade_to_price ::
  "(int \<Rightarrow> int) \<Rightarrow> amm \<Rightarrow> int \<Rightarrow> position_direction \<Rightarrow> (int \<times> position_direction) result" where
  "calculate_base_asset_amount_to_trade_to_price isqrt a limit_price direction =
     and_then (k_invariant (am_sqrt_k a)) (\<lambda>invariant.
     and_then (validate (limit_price > 0) InvalidOrderLimitPrice) (\<lambda>_.
     and_then (safe_mul U192 invariant PRICE_PRECISION) (\<lambda>v.
     and_then (safe_div U192 v limit_price) (\<lambda>v.
     and_then (safe_mul U192 v (am_peg_multiplier a)) (\<lambda>v.
     and_then (safe_div U192 v PEG_PRECISION) (\<lambda>new_base_asset_reserve_squared.
     and_then (try_to U128 (isqrt new_base_asset_reserve_squared)) (\<lambda>new_base_asset_reserve.
     let base_asset_reserve_before = (case direction of
           Long \<Rightarrow> am_ask_base_asset_reserve a | Short \<Rightarrow> am_bid_base_asset_reserve a) in
     if new_base_asset_reserve > base_asset_reserve_before then
       and_then (safe_sub U128 new_base_asset_reserve base_asset_reserve_before) (\<lambda>v.
       and_then (unwrap_or (cast U64 v) (ty_max U64)) (\<lambda>max_trade_amount.
       Ok (max_trade_amount, Short)))
     else
       and_then (safe_sub U128 base_asset_reserve_before new_base_asset_reserve) (\<lambda>v.
       and_then (unwrap_or (cast U64 v) (ty_max U64)) (\<lambda>max_trade_amount.
       Ok (max_trade_amount, Long))))))))))"

section \<open>The spread of a refresh\<close>

text \<open>Scaling of the loaded side, with what it added recorded as steering.\<close>

definition scale_steering ::
  "spread_pair \<times> spread_pair \<Rightarrow> position_direction option \<Rightarrow> int \<Rightarrow> (spread_pair \<times> spread_pair) result" where
  "scale_steering = (\<lambda>(spread, steering_added) loaded factor.
     and_then (scale spread loaded factor) (\<lambda>scaled.
     and_then (add_pair steering_added (positive_delta_from scaled spread)) (\<lambda>steering_added.
     Ok (scaled, steering_added))))"

definition apply_leverage ::
  "amm \<Rightarrow> int \<Rightarrow> position_direction option \<Rightarrow> spread_pair \<times> spread_pair \<Rightarrow> (spread_pair \<times> spread_pair) result" where
  "apply_leverage a price loaded = (\<lambda>(spread, steering_added).
     if am_total_fee_minus_distributions a \<le> 0 then
       and_then (scale_both_saturating spread DEFAULT_LARGE_BID_ASK_FACTOR) (\<lambda>spread.
       Ok (spread, steering_added))
     else
       and_then (calculate_spread_leverage_scale (am_quote_asset_reserve a) (am_terminal_quote_asset_reserve a)
         (am_peg_multiplier a) (am_base_asset_amount_with_amm a) price (am_total_fee_minus_distributions a))
         (\<lambda>leverage_scale.
       scale_steering (spread, steering_added) loaded leverage_scale))"

definition apply_revenue_retreat ::
  "int \<Rightarrow> position_direction option \<Rightarrow> spread_pair \<times> spread_pair \<Rightarrow> (spread_pair \<times> spread_pair) result" where
  "apply_revenue_retreat revenue_retreat loaded = (\<lambda>(spread, steering_added).
     if revenue_retreat = 0 then Ok (spread, steering_added)
     else
       and_then (safe_div U64 revenue_retreat 2) (\<lambda>common_retreat.
       and_then (widen spread loaded revenue_retreat common_retreat) (\<lambda>spread.
       and_then (safe_sub U64 revenue_retreat common_retreat) (\<lambda>directional_retreat.
       case loaded of
         Some Long \<Rightarrow>
           and_then (safe_add U64 (sd_long steering_added) directional_retreat) (\<lambda>v.
           Ok (spread, steering_added\<lparr>sd_long := v\<rparr>))
       | Some Short \<Rightarrow>
           and_then (safe_add U64 (sd_short steering_added) directional_retreat) (\<lambda>v.
           Ok (spread, steering_added\<lparr>sd_short := v\<rparr>))
       | None \<Rightarrow> Ok (spread, steering_added)))))"

definition calculate_spread :: "amm \<Rightarrow> market_stats \<Rightarrow> int \<Rightarrow> int \<Rightarrow> (int \<times> int) result" where
  "calculate_spread a stats price spread_pct =
     (let quote_spread_pct = clamp spread_pct (- BID_ASK_SPREAD_PRECISION) BID_ASK_SPREAD_PRECISION in
      and_then (calculate_long_short_vol_spread (ms_last_oracle_conf_pct stats) price (ms_mark_std stats)
        (ms_oracle_std stats) (ms_long_intensity_volume stats) (ms_short_intensity_volume stats)
        (ms_volume_24h stats)) (\<lambda>vol.
      let floors = from_floors (am_base_spread a div 2) vol in
      and_then (calculate_max_target_spread quote_spread_pct price (ms_last_oracle_conf_pct stats)
        (ms_mark_std stats) (ms_oracle_std stats) (am_max_spread a)) (\<lambda>max_target_spread.
      and_then (apply_oracle_retreat floors quote_spread_pct vol) (\<lambda>spread.
      let loaded = inventory_increasing_side (am_base_asset_amount_with_amm a);
          directional_spread = (if loaded = Some Long then sd_long spread else sd_short spread) in
      and_then (calculate_spread_inventory_scale (am_base_asset_amount_with_amm a) (am_base_asset_reserve a)
        (am_min_base_asset_reserve a) (am_max_base_asset_reserve a) directional_spread max_target_spread)
        (\<lambda>inventory_scale.
      and_then (scale_steering (spread, default_pair) loaded inventory_scale) (\<lambda>state.
      and_then (apply_leverage a price loaded state) (\<lambda>state.
      and_then (calculate_spread_revenue_retreat_amount (am_base_spread a) max_target_spread
        (am_net_revenue_since_last_funding a)) (\<lambda>revenue_retreat.
      and_then (apply_revenue_retreat revenue_retreat loaded state) (\<lambda>state.
      and_then (calculate_spread_funding_bias_scale (am_base_asset_amount_with_amm a)
        (ms_last_24h_avg_funding_rate stats) (ms_last_funding_oracle_twap stats)
        (am_funding_bias_sensitivity a)) (\<lambda>funding_bias_scale.
      and_then (if funding_bias_scale > BID_ASK_SPREAD_PRECISION
                then scale_steering state loaded funding_bias_scale else Ok state) (\<lambda>(spread, steering_added).
      and_then (apply_percent_adjustment spread (am_amm_inventory_spread_adjustment a) floors) (\<lambda>spread.
      and_then
        (if am_total_fee_minus_distributions a \<le> 0 then cap_total spread max_target_spread
         else
           and_then (from_raw spread (divergence_requirement spread_pct) floors steering_added) (\<lambda>c.
           cap_total_ordered c max_target_spread)) (\<lambda>capped.
      and_then (cast U32 (sd_long capped)) (\<lambda>l.
      and_then (cast U32 (sd_short capped)) (\<lambda>s.
      Ok (l, s))))))))))))))))"

section \<open>The guard against quoting through the oracle\<close>

definition with_margin :: "int \<Rightarrow> int result" where
  "with_margin requirement = (if requirement > 0 then safe_add I128 requirement 1 else Ok requirement)"

definition linear_requirements :: "int \<Rightarrow> int \<Rightarrow> int \<Rightarrow> (int \<times> int) result" where
  "linear_requirements offset price oracle_price =
     and_then (safe_mul I128 oracle_price BID_ASK_SPREAD_PRECISION) (\<lambda>q_numerator.
     and_then (safe_div I128 q_numerator price) (\<lambda>q_down.
     and_then (safe_div_ceil I128 q_numerator price) (\<lambda>q_up.
     and_then (safe_sub I128 q_up BID_ASK_SPREAD_PRECISION) (\<lambda>v.
     and_then (safe_sub I128 v offset) (\<lambda>linear_min_long.
     and_then (safe_add I128 BID_ASK_SPREAD_PRECISION offset) (\<lambda>v.
     and_then (safe_sub I128 v q_down) (\<lambda>linear_min_short.
     Ok (linear_min_long, linear_min_short))))))))"

definition marginal_requirements :: "(int \<Rightarrow> int) \<Rightarrow> int \<Rightarrow> int \<Rightarrow> int \<Rightarrow> (int \<times> int) result" where
  "marginal_requirements isqrt offset price oracle_price =
     and_then (cast U128 oracle_price) (\<lambda>v.
     and_then (safe_mul U128 v BID_ASK_SPREAD_PRECISION) (\<lambda>v.
     and_then (safe_mul U128 v BID_ASK_SPREAD_PRECISION) (\<lambda>r_squared_numerator.
     and_then (safe_div U128 r_squared_numerator price) (\<lambda>r_squared.
     let r_root = isqrt r_squared in
     and_then (safe_mul U128 r_squared price) (\<lambda>v.
     and_then
       (if v = r_squared_numerator then map_ok (\<lambda>w. w = r_squared) (safe_mul U128 r_root r_root) else Ok False)
       (\<lambda>r_is_exact.
     and_then (cast I128 r_root) (\<lambda>r_down.
     and_then (if r_is_exact then Ok r_down else safe_add I128 r_down 1) (\<lambda>r_up.
     and_then (safe_sub I128 r_up BID_ASK_SPREAD_PRECISION) (\<lambda>v.
     and_then (safe_mul I128 v 2) (\<lambda>v.
     and_then (safe_sub I128 v offset) (\<lambda>v.
     and_then (with_margin v) (\<lambda>marginal_min_long.
     and_then (safe_sub I128 BID_ASK_SPREAD_PRECISION r_down) (\<lambda>v.
     and_then (safe_mul I128 v 2) (\<lambda>v.
     and_then (safe_add I128 offset v) (\<lambda>v.
     and_then (with_margin v) (\<lambda>marginal_min_short.
     Ok (marginal_min_long, marginal_min_short)))))))))))))))))"

definition apply_oracle_guard ::
  "(int \<Rightarrow> int) \<Rightarrow> int \<Rightarrow> int \<Rightarrow> int \<Rightarrow> int \<Rightarrow> int \<Rightarrow> (int \<times> int) result" where
  "apply_oracle_guard isqrt long_spread short_spread reference_price_offset price oracle_price =
     (if oracle_price \<le> 0 \<or> price = 0 then Ok (long_spread, short_spread)
      else
        and_then (linear_requirements reference_price_offset price oracle_price)
          (\<lambda>(linear_min_long, linear_min_short).
        and_then (marginal_requirements isqrt reference_price_offset price oracle_price)
          (\<lambda>(marginal_min_long, marginal_min_short).
        let min_long = max linear_min_long marginal_min_long;
            min_short = max linear_min_short marginal_min_short in
        and_then
          (if min_short > short_spread then
             and_then (safe_sub I128 BID_ASK_SPREAD_PRECISION long_spread) (\<lambda>v.
             Ok (max (min min_short v) short_spread))
           else Ok short_spread) (\<lambda>short_spread.
        and_then
          (if min_long > long_spread then
             and_then (safe_sub I128 BID_ASK_SPREAD_PRECISION short_spread) (\<lambda>v.
             Ok (max (min min_long v) long_spread))
           else Ok long_spread) (\<lambda>long_spread.
        and_then (cast U32 long_spread) (\<lambda>l.
        and_then (cast U32 short_spread) (\<lambda>s.
        Ok (l, s))))))))"

section \<open>The refresh\<close>

record quote_state =
  qs_long_spread :: int
  qs_short_spread :: int
  qs_reference_price_offset :: int
  qs_last_oracle_reserve_price_spread_pct :: int

definition quote_price_offset :: "amm \<Rightarrow> market_stats \<Rightarrow> int \<Rightarrow> int result" where
  "quote_price_offset a stats price =
     and_then (get_max_reference_price_offset a) (\<lambda>max_ref_offset.
     if max_ref_offset > 0 then
       and_then (calculate_inventory_liquidity_ratio_for_reference_price_offset (am_base_asset_amount_with_amm a)
         (am_base_asset_reserve a) (am_min_base_asset_reserve a) (am_max_base_asset_reserve a)) (\<lambda>liquidity_ratio.
       and_then (get_protocol_owned_position a) (\<lambda>position.
       and_then (safe_mul I128 liquidity_ratio (sgn position)) (\<lambda>signed_liquidity_ratio.
       and_then (get_reference_price_offset_deadband_pct a) (\<lambda>deadband_pct.
       and_then
         (if \<bar>signed_liquidity_ratio\<bar> \<le> deadband_pct then Ok 0
          else
            and_then (cast I128 deadband_pct) (\<lambda>d.
            and_then (safe_mul I128 d (sgn signed_liquidity_ratio)) (\<lambda>d.
            safe_sub I128 signed_liquidity_ratio d))) (\<lambda>fraction.
       calculate_reference_price_offset price (ms_last_24h_avg_funding_rate stats) fraction
         (ho_last_oracle_price_twap_5min (ms_historical_oracle_data stats)) (ms_last_mark_price_twap_5min stats)
         (ho_last_oracle_price_twap (ms_historical_oracle_data stats)) (ms_last_mark_price_twap stats)
         max_ref_offset)))))
     else Ok 0)"

definition adjust_spread :: "int \<Rightarrow> int \<Rightarrow> int result" where
  "adjust_spread adjustment spread =
     (if adjustment < 0 then shrink_by U32 spread \<bar>adjustment\<bar>
      else if adjustment > 0 then grow_by U32 spread adjustment
      else Ok spread)"

definition compute_quote_state ::
  "(int \<Rightarrow> int) \<Rightarrow> amm \<Rightarrow> market_stats \<Rightarrow> mm_oracle_price_data \<Rightarrow> int \<Rightarrow> quote_state result" where
  "compute_quote_state isqrt a stats mm price =
     and_then (calculate_oracle_reserve_price_spread_pct a mm (Some price)) (\<lambda>spread_pct.
     and_then (quote_price_offset a stats price) (\<lambda>offset.
     and_then
       (if am_curve_update_intensity a > 0 then calculate_spread a stats price spread_pct
        else and_then (safe_div U32 (am_base_spread a) 2) (\<lambda>half. Ok (half, half))) (\<lambda>(long_spread, short_spread).
     and_then (adjust_spread (am_amm_spread_adjustment a) long_spread) (\<lambda>long_spread.
     and_then (adjust_spread (am_amm_spread_adjustment a) short_spread) (\<lambda>short_spread.
     and_then
       (if am_curve_update_intensity a > 0
        then apply_oracle_guard isqrt long_spread short_spread offset price (mm_get_price mm)
        else Ok (long_spread, short_spread)) (\<lambda>(long_spread, short_spread).
     Ok \<lparr> qs_long_spread = long_spread, qs_short_spread = short_spread, qs_reference_price_offset = offset,
          qs_last_oracle_reserve_price_spread_pct = spread_pct \<rparr>))))))"

definition commit_quote_state :: "amm \<Rightarrow> quote_state \<Rightarrow> int \<Rightarrow> amm result" where
  "commit_quote_state a q slot =
     refresh_cached_spread_reserves
       (a\<lparr>am_long_spread := qs_long_spread q, am_short_spread := qs_short_spread q,
          am_reference_price_offset := qs_reference_price_offset q,
          am_last_oracle_reserve_price_spread_pct := qs_last_oracle_reserve_price_spread_pct q,
          am_last_spread_update_slot := slot\<rparr>)"

definition validate_amm_quote_state :: "amm \<Rightarrow> unit result" where
  "validate_amm_quote_state a =
     and_then (safe_add U32 (am_long_spread a) (am_short_spread a)) (\<lambda>t.
     and_then (validate (t \<le> BID_ASK_SPREAD_PRECISION) InvalidAmmDetected) (\<lambda>_.
     and_then
       (if am_amm_spread_adjustment a \<ge> 0 \<and> am_amm_inventory_spread_adjustment a \<ge> 0
        then validate (t \<ge> saturating_sub U32 (am_base_spread a) 2) InvalidAmmDetected else Ok ()) (\<lambda>_.
     and_then
       (if am_reference_price_offset a \<le> 0
        then validate (am_bid_base_asset_reserve a \<ge> am_base_asset_reserve a
          \<and> am_bid_quote_asset_reserve a \<le> am_quote_asset_reserve a) InvalidAmmDetected
        else Ok ()) (\<lambda>_.
     if am_reference_price_offset a \<ge> 0
     then validate (am_ask_base_asset_reserve a \<le> am_base_asset_reserve a
       \<and> am_ask_quote_asset_reserve a \<ge> am_quote_asset_reserve a) InvalidAmmDetected
     else Ok ()))))"

definition update_amm_quote_state ::
  "(int \<Rightarrow> int) \<Rightarrow> amm \<Rightarrow> market_stats \<Rightarrow> mm_oracle_price_data \<Rightarrow> int \<Rightarrow> int \<Rightarrow> amm result" where
  "update_amm_quote_state isqrt a stats mm price slot =
     and_then (compute_quote_state isqrt a stats mm price) (\<lambda>q.
     and_then (commit_quote_state a q slot) (\<lambda>a.
     and_then (validate_amm_quote_state a) (\<lambda>_.
     Ok a)))"

section \<open>No quote through the oracle\<close>

lemma linear_requirements_Ok:
  assumes "linear_requirements offset price oracle_price = Ok (l, s)" "0 < price" "0 < oracle_price"
  shows "oracle_price * 1000000 \<le> (l + 1000000 + offset) * price
    \<and> (1000000 + offset - s) * price \<le> oracle_price * 1000000"
proof -
  obtain n lo hi where n: "n = oracle_price * 1000000" and lo: "lo = n div price" and hi: "hi = ceil_div n price"
    and ls: "l = hi - 1000000 - offset" "s = 1000000 + offset - lo"
    using assms unfolding linear_requirements_def
    by (elim and_thenE) (rule that; auto simp: ok_iff safe_div_ceil_Ok_iff)
  have "lo * price \<le> n" "n \<le> hi * price"
    using assms(2) unfolding lo hi by (auto simp: div_mul_le ceil_div_mul_ge)
  then show ?thesis using n ls by simp
qed

lemma guard_side:
  assumes "(if max r m > x0 then and_then (safe_sub I128 1000000 y) (\<lambda>v. Ok (max (min (max r m) v) x0)) else Ok x0) = Ok x"
  shows "x0 \<le> x \<and> (r \<le> x \<or> 1000000 \<le> x + y)"
proof (cases "max r m > x0")
  case True
  then have "x = max (min (max r m) (1000000 - y)) x0" using assms by (auto simp: ok_iff)
  then show ?thesis by linarith
qed (use assms in \<open>simp, linarith\<close>)

lemma oracle_guard_Ok:
  assumes "apply_oracle_guard isqrt l0 s0 offset price oracle_price = Ok (l, s)" "0 < price" "0 < oracle_price"
    "l + s < 1000000"
  shows "oracle_price * 1000000 \<le> (l + 1000000 + offset) * price
    \<and> (1000000 + offset - s) * price \<le> oracle_price * 1000000"
proof -
  have neg: "\<not> (oracle_price \<le> 0 \<or> price = 0)" using assms(2,3) by simp
  obtain ll ls ml ms l1 s1 where lin: "linear_requirements offset price oracle_price = Ok (ll, ls)"
    and s1: "(if max ls ms > s0 then and_then (safe_sub I128 1000000 l0) (\<lambda>v. Ok (max (min (max ls ms) v) s0)) else Ok s0) = Ok s1"
    and l1: "(if max ll ml > l0 then and_then (safe_sub I128 1000000 s1) (\<lambda>v. Ok (max (min (max ll ml) v) l0)) else Ok l0) = Ok l1"
    and cast: "cast U32 l1 = Ok l" "cast U32 s1 = Ok s"
    using assms(1) unfolding apply_oracle_guard_def Let_def if_not_P [OF neg]
    by (elim and_thenE case_prod_OkE) (clarify, rule that; assumption)
  have "l1 = l" "s1 = s" using cast by (simp_all add: ok_iff)
  note l = l1 [unfolded this] and s = s1 [unfolded this]
  have "ls \<le> s" "ll \<le> l"
    using guard_side [OF l] guard_side [OF s] assms(4) by linarith+
  then have "(ll + 1000000 + offset) * price \<le> (l + 1000000 + offset) * price"
    "(1000000 + offset - s) * price \<le> (1000000 + offset - ls) * price"
    using assms(2) by (auto intro!: mult_right_mono)
  with linear_requirements_Ok [OF lin assms(2,3)] show ?thesis by linarith
qed

lemma spread_price_Ok:
  assumes "spread_price price adjusted = Ok v"
  shows "v = price * (1000000 + adjusted) div 1000000 \<and> 0 \<le> 1000000 + adjusted \<and> 0 \<le> price"
  using assms unfolding spread_price_def by (elim and_thenE) (auto simp: ok_iff dest: fits_nonneg)

lemma linear_quotes:
  assumes "ask_price price l offset = Ok ask" "bid_price price s offset = Ok bid"
    "oracle_price * 1000000 \<le> (l + 1000000 + offset) * price"
    "(1000000 + offset - s) * price \<le> oracle_price * 1000000"
  shows "bid \<le> oracle_price \<and> oracle_price \<le> ask"
proof -
  have "ask = price * (1000000 + (l + offset)) div 1000000" "bid = price * (1000000 + (- s + offset)) div 1000000"
    using assms(1,2) by (auto simp: ask_price_def bid_price_def ok_iff dest!: spread_price_Ok)
  moreover have "price * (1000000 + (- s + offset)) div 1000000 \<le> oracle_price * 1000000 div 1000000"
    using assms(4) by (intro zdiv_mono1) (auto simp: algebra_simps)
  moreover have "oracle_price * 1000000 div 1000000 \<le> price * (1000000 + (l + offset)) div 1000000"
    using assms(3) by (intro zdiv_mono1) (auto simp: algebra_simps)
  ultimately show ?thesis by simp
qed

lemma update_amm_quote_state_Ok:
  assumes "update_amm_quote_state isqrt a stats mm price slot = Ok b" "0 < am_curve_update_intensity a"
  obtains l0 s0 where "apply_oracle_guard isqrt l0 s0 (am_reference_price_offset b) price (mm_get_price mm)
      = Ok (am_long_spread b, am_short_spread b)" "reserve_price b = reserve_price a"
proof -
  obtain q where q: "compute_quote_state isqrt a stats mm price = Ok q" "commit_quote_state a q slot = Ok b"
    using assms(1) unfolding update_amm_quote_state_def by (elim and_thenE) simp
  have b: "am_long_spread b = qs_long_spread q \<and> am_short_spread b = qs_short_spread q
      \<and> am_reference_price_offset b = qs_reference_price_offset q \<and> reserve_price b = reserve_price a"
    using q(2) unfolding commit_quote_state_def refresh_cached_spread_reserves_def
    by (elim and_thenE case_prod_OkE) (auto simp: reserve_price_def split: if_split_asm)
  have "\<exists>l0 s0. apply_oracle_guard isqrt l0 s0 (qs_reference_price_offset q) price (mm_get_price mm)
      = Ok (qs_long_spread q, qs_short_spread q)"
    using q(1) assms(2) unfolding compute_quote_state_def by (elim and_thenE case_prod_OkE) (auto, blast)
  with b that show ?thesis by auto
qed

lemma quotes_around_oracle:
  assumes "update_amm_quote_state isqrt a stats mm price slot = Ok b" "0 < am_curve_update_intensity a"
    "reserve_price a = Ok price" "0 < price" "0 < mm_get_price mm" "am_long_spread b + am_short_spread b < 1000000"
    "amm_ask_price b = Ok ask" "amm_bid_price b = Ok bid"
  shows "bid \<le> mm_get_price mm \<and> mm_get_price mm \<le> ask"
proof -
  obtain l0 s0 where "apply_oracle_guard isqrt l0 s0 (am_reference_price_offset b) price (mm_get_price mm)
      = Ok (am_long_spread b, am_short_spread b)" "reserve_price b = Ok price"
    using update_amm_quote_state_Ok [OF assms(1,2)] assms(3) by metis
  with oracle_guard_Ok [OF this(1) assms(4-6)] show ?thesis
    using assms(7,8) by (intro linear_quotes) (auto simp: amm_ask_price_def amm_bid_price_def)
qed

section \<open>The cap by priority\<close>

definition pair_ok :: "spread_pair \<Rightarrow> bool" where
  "pair_ok p \<longleftrightarrow> 0 \<le> sd_long p \<and> 0 \<le> sd_short p"

definition pair_le :: "spread_pair \<Rightarrow> spread_pair \<Rightarrow> bool" where
  "pair_le p q \<longleftrightarrow> sd_long p \<le> sd_long q \<and> sd_short p \<le> sd_short q"

lemma safe_div_ceil_fits: "safe_div_ceil t x y = Ok c \<Longrightarrow> fits t c"
  by (auto simp: safe_div_ceil_def checked_ceil_div_def checked_div_def checked_add_def checked_rem_def
      split: option.split_asm if_split_asm)

lemma cap_to_max_spread_Ok:
  assumes "cap_to_max_spread l s m = Ok (l', s')" "0 \<le> l" "0 \<le> s"
  shows "0 \<le> l' \<and> 0 \<le> s' \<and> l' + s' \<le> m \<and> (l + s \<le> m \<longrightarrow> l' = l \<and> s' = s)"
  using assms unfolding cap_to_max_spread_def
  by (elim and_thenE if_OkE case_prod_OkE) (auto simp: ok_iff dest: fits_nonneg dest!: safe_div_ceil_fits)

lemma cap_total_Ok:
  assumes "cap_total p m = Ok q" "pair_ok p"
  shows "pair_ok q \<and> sd_long q + sd_short q \<le> m \<and> (sd_long p + sd_short p \<le> m \<longrightarrow> q = p)"
  using assms by (auto simp: cap_total_def ok_iff pair_ok_def dest!: cap_to_max_spread_Ok)

lemma allocate_layer_Ok:
  assumes "allocate_layer (p, r) layer = Ok (p', r')" "pair_ok layer" "0 \<le> r"
  shows "0 \<le> r' \<and> pair_le p p' \<and> (sd_long p' + sd_short p') + r' = (sd_long p + sd_short p) + r
    \<and> (sd_long layer + sd_short layer \<le> r \<longrightarrow>
        sd_long p' = sd_long p + sd_long layer \<and> sd_short p' = sd_short p + sd_short layer)"
  using assms cap_total_Ok [of layer r]
  by (auto simp: allocate_layer_def add_pair_def total_def ok_iff pair_ok_def pair_le_def split: if_split_asm)

lemma cap_total_ordered_Ok:
  assumes "cap_total_ordered c m = Ok p" "0 \<le> m"
    "pair_ok (cp_divergence c)" "pair_ok (cp_floor c)" "pair_ok (cp_steering c)" "pair_ok (cp_padding c)"
  shows "sd_long p + sd_short p \<le> m
    \<and> (sd_long (cp_divergence c) + sd_short (cp_divergence c) \<le> m \<longrightarrow> pair_le (cp_divergence c) p)"
proof -
  obtain p0 t where p0: "raw c = Ok p0" "total p0 = Ok t"
    and p: "if t \<le> m then p = p0
      else \<exists>r. try_fold allocate_layer (default_pair, m) [cp_divergence c, cp_floor c, cp_steering c, cp_padding c] = Ok (p, r)"
    using assms(1) unfolding cap_total_ordered_def by (elim and_thenE if_OkE case_prod_OkE) (auto simp: ok_iff)
  show ?thesis
  proof (cases "t \<le> m")
    case True
    then show ?thesis
      using p0 p assms(3-6) by (auto simp: raw_def add_pair_def total_def ok_iff pair_le_def pair_ok_def)
  next
    case False
    then obtain r p1 r1 p2 r2 p3 r3 where
      "allocate_layer (default_pair, m) (cp_divergence c) = Ok (p1, r1)" "allocate_layer (p1, r1) (cp_floor c) = Ok (p2, r2)"
      "allocate_layer (p2, r2) (cp_steering c) = Ok (p3, r3)" "allocate_layer (p3, r3) (cp_padding c) = Ok (p, r)"
      using p by (auto simp: ok_iff)
    note a = this
    note b1 = allocate_layer_Ok [OF a(1) assms(3,2)]
    note b2 = allocate_layer_Ok [OF a(2) assms(4)]
    note b3 = allocate_layer_Ok [OF a(3) assms(5)]
    note b4 = allocate_layer_Ok [OF a(4) assms(6)]
    show ?thesis using b1 b2 b3 b4 by (auto simp: pair_le_def default_pair_def)
  qed
qed

end
