(* ===== verification/Funding_Math.thy ===== *)
theory Funding_Math
  imports Amm_Math
begin

text \<open>
  Funding payments: \<open>math/funding.rs\<close>. A rate is what a long position pays per unit of base; the AMM
  is the counterparty of both sides and may pay no more than a third of its equity in a period, in
  which case the receiving side is paid at a lower rate.
\<close>

section \<open>Definitions\<close>

record funding_market_inputs =
  fi_net_counterparty_position :: int
  fi_base_asset_amount_long :: int
  fi_base_asset_amount_short :: int
  fi_total_fee_minus_distributions :: int

definition funding_inputs_from_market :: "perp_market \<Rightarrow> funding_market_inputs" where
  "funding_inputs_from_market m =
     \<lparr> fi_net_counterparty_position = am_base_asset_amount_with_amm (pm_amm m),
       fi_base_asset_amount_long = pm_base_asset_amount_long m,
       fi_base_asset_amount_short = pm_base_asset_amount_short m,
       fi_total_fee_minus_distributions = am_total_fee_minus_distributions (pm_amm m) \<rparr>"

definition available_fees :: "funding_market_inputs \<Rightarrow> int result" where
  "available_fees inputs = safe_div U128 \<bar>max (fi_total_fee_minus_distributions inputs) 0\<bar> 3"

definition calculate_funding_premium_with_offset :: "int \<Rightarrow> int \<Rightarrow> int \<Rightarrow> int \<Rightarrow> int result" where
  "calculate_funding_premium_with_offset price_spread clamp_threshold ramp_slope funding_rate_offset =
     and_then (plain_abs I64 price_spread) (\<lambda>s.
     if s \<le> clamp_threshold then Ok funding_rate_offset
     else
       and_then (safe_mul I64 (sgn price_spread) clamp_threshold) (\<lambda>v.
       and_then (safe_sub I64 price_spread v) (\<lambda>shrunk.
       and_then (safe_mul I128 shrunk ramp_slope) (\<lambda>v.
       and_then (safe_div I128 v PERCENTAGE_PRECISION) (\<lambda>v.
       and_then (cast I64 v) (\<lambda>ramped.
       safe_add I64 ramped funding_rate_offset))))))"

definition calculate_funding_payment_of :: "int \<Rightarrow> int \<Rightarrow> int result" where
  "calculate_funding_payment_of funding_rate_delta base_asset_amount =
     and_then (safe_mul U192 \<bar>funding_rate_delta\<bar> \<bar>base_asset_amount\<bar>) (\<lambda>v.
     and_then (safe_div U192 v PRICE_PRECISION) (\<lambda>v.
     and_then (safe_div U192 v FUNDING_RATE_BUFFER) (\<lambda>v.
     and_then (try_to U128 v) (\<lambda>v.
     and_then (cast I128 v) (\<lambda>magnitude.
     and_then (safe_mul I128 magnitude (if base_asset_amount > 0 then - 1 else 1)) (\<lambda>v.
     safe_mul I128 v (if funding_rate_delta > 0 then 1 else - 1)))))))"

definition calculate_funding_payment :: "int \<Rightarrow> perp_position \<Rightarrow> int result" where
  "calculate_funding_payment amm_cumulative_funding_rate p =
     and_then (safe_sub I128 amm_cumulative_funding_rate (pp_last_cumulative_funding_rate p)) (\<lambda>funding_rate_delta.
     if funding_rate_delta = 0 then Ok 0
     else
       and_then (calculate_funding_payment_of funding_rate_delta (pp_base_asset_amount p)) (\<lambda>v.
       and_then (safe_div I128 v AMM_TO_QUOTE_PRECISION_RATIO) (\<lambda>v.
       cast I64 v)))"

definition calculate_funding_payment_in_quote_precision :: "int \<Rightarrow> int \<Rightarrow> int result" where
  "calculate_funding_payment_in_quote_precision funding_rate_delta base_asset_amount =
     and_then (calculate_funding_payment_of funding_rate_delta base_asset_amount) (\<lambda>v.
     safe_div I128 v AMM_TO_QUOTE_PRECISION_RATIO)"

definition calculate_funding_rate_from_pnl_limit :: "int \<Rightarrow> int \<Rightarrow> int result" where
  "calculate_funding_rate_from_pnl_limit pnl_limit base_asset_amount =
     (if base_asset_amount = 0 then Ok 0
      else
        and_then (if pnl_limit < 0 then safe_add I128 pnl_limit 1 else Ok pnl_limit) (\<lambda>pnl_limit_biased.
        and_then (safe_mul I128 pnl_limit_biased QUOTE_TO_BASE_AMT_FUNDING_PRECISION) (\<lambda>v.
        safe_div I128 v base_asset_amount)))"

definition calculate_capped_funding_rate :: "funding_market_inputs \<Rightarrow> int \<Rightarrow> int \<Rightarrow> (int \<times> int) result" where
  "calculate_capped_funding_rate inputs uncapped_funding_pnl funding_rate =
     and_then (available_fees inputs) (\<lambda>v.
     and_then (cast I128 v) (\<lambda>v.
     and_then (plain_neg I128 v) (\<lambda>funding_rate_pnl_limit.
     let capped_funding_pnl = max uncapped_funding_pnl funding_rate_pnl_limit in
     and_then
       (if uncapped_funding_pnl < funding_rate_pnl_limit then
          and_then (calculate_funding_payment_in_quote_precision funding_rate
            (if funding_rate > 0 then fi_base_asset_amount_long inputs else fi_base_asset_amount_short inputs))
            (\<lambda>funding_payment_from_users.
          and_then (plain_abs I128 funding_payment_from_users) (\<lambda>v.
          and_then (safe_sub I128 funding_rate_pnl_limit v) (\<lambda>limit.
          calculate_funding_rate_from_pnl_limit limit
            (if funding_rate < 0 then fi_base_asset_amount_long inputs else fi_base_asset_amount_short inputs))))
        else Ok funding_rate) (\<lambda>capped_funding_rate.
     Ok (capped_funding_rate, capped_funding_pnl)))))"

definition calculate_funding_rate_long_short ::
  "funding_market_inputs \<Rightarrow> int \<Rightarrow> (int \<times> int \<times> int) result" where
  "calculate_funding_rate_long_short inputs funding_rate =
     and_then (calculate_funding_payment_in_quote_precision funding_rate (fi_net_counterparty_position inputs))
       (\<lambda>net_market_position_funding_payment.
     and_then (plain_neg I128 net_market_position_funding_payment) (\<lambda>uncapped_funding_pnl.
     if uncapped_funding_pnl \<ge> 0 then Ok (funding_rate, funding_rate, uncapped_funding_pnl)
     else
       and_then (calculate_capped_funding_rate inputs uncapped_funding_pnl funding_rate)
         (\<lambda>(capped_funding_rate, capped_funding_pnl).
       Ok (if funding_rate < 0 then capped_funding_rate else funding_rate,
           if funding_rate > 0 then capped_funding_rate else funding_rate,
           capped_funding_pnl))))"

definition validate_funding_pnl_profitability :: "funding_market_inputs \<Rightarrow> int \<Rightarrow> unit result" where
  "validate_funding_pnl_profitability inputs funding_pnl =
     (if funding_pnl \<ge> 0 then Ok ()
      else
        and_then (safe_add I128 (fi_total_fee_minus_distributions inputs) funding_pnl) (\<lambda>v.
        if v < 0 then Err InvalidFundingProfitability else Ok ()))"

definition amm_side_payment :: "int \<Rightarrow> int \<Rightarrow> int \<Rightarrow> int result" where
  "amm_side_payment amm_payment delta base_asset_amount =
     (if delta \<noteq> 0 \<and> base_asset_amount \<noteq> 0 then
        and_then (safe_mul I128 base_asset_amount (- 1)) (\<lambda>b.
        and_then (calculate_funding_payment_of delta b) (\<lambda>v.
        safe_add I128 amm_payment v))
      else Ok amm_payment)"

definition calculate_amm_funding_payment :: "int \<Rightarrow> int \<Rightarrow> int \<Rightarrow> int \<Rightarrow> int \<Rightarrow> int \<Rightarrow> int result" where
  "calculate_amm_funding_payment base_asset_amount_long base_asset_amount_short cumulative_funding_rate_long
       cumulative_funding_rate_short last_cumulative_funding_rate_long last_cumulative_funding_rate_short =
     and_then (safe_sub I128 cumulative_funding_rate_long last_cumulative_funding_rate_long) (\<lambda>long_delta.
     and_then (safe_sub I128 cumulative_funding_rate_short last_cumulative_funding_rate_short) (\<lambda>short_delta.
     and_then (amm_side_payment 0 long_delta base_asset_amount_long) (\<lambda>v.
     and_then (amm_side_payment v short_delta base_asset_amount_short) (\<lambda>v.
     safe_div I128 v AMM_TO_QUOTE_PRECISION_RATIO))))"

section \<open>What the AMM pays in a period\<close>

text \<open>The payment of a position, in base precision.\<close>

definition funding_flow :: "int \<Rightarrow> int \<Rightarrow> int" where
  "funding_flow rate base = \<bar>rate\<bar> * \<bar>base\<bar> div 1000000000"

lemma funding_flow_nonneg [simp]: "0 \<le> funding_flow r b"
  by (simp add: funding_flow_def div_nonneg)

lemma funding_flow_0 [simp]: "funding_flow 0 b = 0" "funding_flow r 0 = 0"
  by (simp_all add: funding_flow_def)

lemma funding_payment_of_Ok:
  assumes "calculate_funding_payment_of r b = Ok v"
  shows "v = (if b > 0 then - 1 else 1) * (if r > 0 then 1 else - 1) * funding_flow r b"
proof -
  have "\<bar>r\<bar> * \<bar>b\<bar> sdiv 1000000 = \<bar>r\<bar> * \<bar>b\<bar> div 1000000"
    by (rule sdiv_nonneg) auto
  moreover have "\<bar>r\<bar> * \<bar>b\<bar> div 1000000 sdiv 1000 = \<bar>r\<bar> * \<bar>b\<bar> div 1000000 div 1000"
    by (rule sdiv_nonneg) (auto intro: div_nonneg)
  moreover have "\<bar>r\<bar> * \<bar>b\<bar> div 1000000 div 1000 = funding_flow r b"
    by (simp add: funding_flow_def flip: zdiv_zmult2_eq)
  ultimately show ?thesis
    using assms unfolding calculate_funding_payment_of_def
    by (elim and_thenE) (simp only: ok_iff, simp only: ac_simps)
qed

lemma amm_side_payment_Ok:
  assumes "amm_side_payment a d b = Ok v"
  shows "v = a + (if b < 0 then - 1 else 1) * (if d > 0 then 1 else - 1) * funding_flow d b"
  using assms
  by (auto simp: amm_side_payment_def ok_iff funding_flow_def dest!: funding_payment_of_Ok split: if_split_asm)

lemma funding_in_quote_Ok:
  assumes "calculate_funding_payment_in_quote_precision r b = Ok v"
  shows "v = (if (b > 0) = (r > 0) then - 1 else 1) * (funding_flow r b div 1000)"
proof -
  have "- funding_flow r b sdiv 1000 = - (funding_flow r b div 1000)"
    by (cases "funding_flow r b = 0") (auto simp: neg_sdiv ceil_div_def)
  then show ?thesis
    using assms
    by (auto simp: calculate_funding_payment_in_quote_precision_def ok_iff dest!: funding_payment_of_Ok)
qed

lemma available_fees_Ok:
  "available_fees i = Ok a \<Longrightarrow> a = max (fi_total_fee_minus_distributions i) 0 div 3"
  by (auto simp: available_fees_def ok_iff)

text \<open>A rate that spends a budget spends no more than it.\<close>

lemma budgeted_flow:
  assumes "0 \<le> budget" "0 < b" "rate = budget * 1000000000000 div b"
  shows "funding_flow rate b \<le> budget * 1000"
proof -
  have "rate * b \<le> budget * 1000000000000" "0 \<le> rate"
    using assms div_mul_le [of b "budget * 1000000000000"] by (auto intro: div_nonneg)
  then have "rate * b div 1000000000 \<le> budget * 1000000000000 div 1000000000"
    by (intro zdiv_mono1) auto
  with assms(2) \<open>0 \<le> rate\<close> show ?thesis by (simp add: funding_flow_def)
qed

lemma pnl_limit_flow:
  assumes "calculate_funding_rate_from_pnl_limit (- budget) b = Ok rate" "0 \<le> budget"
  shows "funding_flow rate b \<le> budget * 1000 \<and> (b < 0 \<longrightarrow> 0 \<le> rate) \<and> (0 < b \<longrightarrow> rate \<le> 0)"
proof -
  define n where "n = max (budget - 1) 0"
  have n: "0 \<le> n" "n \<le> budget"
    using assms(2) by (auto simp: n_def)
  have "(if - budget < 0 then safe_add I128 (- budget) 1 else Ok (- budget)) = Ok m \<Longrightarrow> m = - n" for m
    using assms(2) by (auto simp: n_def ok_iff split: if_split_asm)
  then have *: "rate = (- n * 1000000000000) sdiv b" if "b \<noteq> 0"
    using assms that unfolding calculate_funding_rate_from_pnl_limit_def
    by (auto simp: ok_iff simp del: minus_mult_left minus_mult_right)
  consider "b = 0" | "b < 0" | "0 < b" by linarith
  then show ?thesis
  proof cases
    case 2
    then have "rate = n * 1000000000000 div - b"
      using * n(1) by (cases "n = 0") (simp_all add: signed_divide_int_def)
    then have "funding_flow rate (- b) \<le> n * 1000" "0 \<le> rate"
      using budgeted_flow [of n "- b" rate] n(1) 2 by (auto intro: div_nonneg)
    then show ?thesis using n 2 by (simp add: funding_flow_def)
  next
    case 3
    then have "- rate = n * 1000000000000 div b"
      using * n(1) by (cases "n = 0") (simp_all add: neg_sdiv ceil_div_def)
    then have "funding_flow (- rate) b \<le> n * 1000" "0 \<le> - rate"
      using budgeted_flow [of n b "- rate"] n(1) 3 div_nonneg [of "n * 1000000000000" b] by auto
    then show ?thesis using n 3 by (simp add: funding_flow_def)
  qed (use assms n in \<open>auto simp: funding_flow_def\<close>)
qed

text \<open>The flows of the two sides differ from the flow of the net position by less than one unit.\<close>

lemma net_flow:
  assumes "0 \<le> p" "p \<le> q" "funding_flow r (q - p) div 1000 \<le> a"
  shows "- (a + 1) * 1000 \<le> funding_flow r p - funding_flow r q"
proof -
  define P Q where "P = \<bar>r\<bar> * p" and "Q = \<bar>r\<bar> * q"
  define x y where "x = P div 1000000000" and "y = Q div 1000000000"
  have "(Q - P) div 1000000000 < (a + 1) * 1000"
    using assms by (simp add: funding_flow_def right_diff_distrib div_less_iff_mul P_def Q_def)
  then have "Q - P < (a + 1) * 1000 * 1000000000"
    by (simp add: div_less_iff_mul)
  moreover have "P < x * 1000000000 + 1000000000" "y * 1000000000 \<le> Q"
    unfolding x_def y_def by (auto simp: less_div_mul div_mul_le)
  ultimately have "y < (a + 1) * 1000 + x + 1" by linarith
  then show ?thesis using assms by (simp add: funding_flow_def x_def y_def P_def Q_def)
qed

lemma sdiv_ge:
  fixes x :: int
  assumes "- a * d \<le> x" "0 < d" "0 \<le> a"
  shows "- a \<le> x sdiv d"
proof (cases "x < 0")
  case True
  have "- a * d \<le> ceil_div x d * d"
    using assms ceil_div_mul_ge [of d x] by linarith
  then have "- a \<le> ceil_div x d"
    using mult_le_cancel_right [of "- a" d "ceil_div x d"] assms(2) by simp
  then show ?thesis using True assms(2) by (simp add: neg_sdiv)
next
  case False
  then have "0 \<le> x sdiv d" using assms(2) by (simp add: div_nonneg)
  then show ?thesis using assms(3) by linarith
qed

lemma funding_flow_mono: "\<bar>b\<bar> \<le> \<bar>b'\<bar> \<Longrightarrow> funding_flow r b \<le> funding_flow r b'"
  by (simp add: funding_flow_def zdiv_mono1 mult_left_mono)

text \<open>The rate the receiving side gets: what the payers pay and the budget of the AMM cover it.\<close>

lemma capped_rate_flow:
  assumes "calculate_capped_funding_rate i u r = Ok (c, pnl)" "r \<noteq> 0"
    "u = - (funding_flow r net div 1000)" "\<bar>net\<bar> = \<bar>receiver\<bar> - \<bar>payer\<bar>"
    "payer = (if r > 0 then fi_base_asset_amount_long i else fi_base_asset_amount_short i)"
    "receiver = (if r < 0 then fi_base_asset_amount_long i else fi_base_asset_amount_short i)"
  defines "a \<equiv> max (fi_total_fee_minus_distributions i) 0 div 3"
  shows "- (a + 1) * 1000 \<le> funding_flow r payer - funding_flow c receiver
    \<and> (0 < r \<longrightarrow> receiver \<le> 0 \<longrightarrow> 0 \<le> c) \<and> (r < 0 \<longrightarrow> 0 \<le> receiver \<longrightarrow> c \<le> 0)"
proof -
  have a: "0 \<le> a" by (simp add: a_def div_nonneg)
  obtain v where "available_fees i = Ok v"
    and c: "(if u < - v then
        and_then (calculate_funding_payment_in_quote_precision r payer) (\<lambda>w.
        and_then (plain_abs I128 w) (\<lambda>w.
        and_then (safe_sub I128 (- v) w) (\<lambda>limit. calculate_funding_rate_from_pnl_limit limit receiver)))
      else Ok r) = Ok c"
    using assms(1) unfolding calculate_capped_funding_rate_def Let_def assms(5,6)
    by (elim and_thenE) (simp add: ok_iff)
  then have c: "if u < - a then \<exists>w. calculate_funding_payment_in_quote_precision r payer = Ok w
      \<and> calculate_funding_rate_from_pnl_limit (- a - \<bar>w\<bar>) receiver = Ok c
    else c = r"
    by (auto simp: a_def ok_iff dest: available_fees_Ok split: if_split_asm)
  show ?thesis
  proof (cases "u < - a")
  case True
  then obtain w where w: "calculate_funding_payment_in_quote_precision r payer = Ok w"
    "calculate_funding_rate_from_pnl_limit (- a - \<bar>w\<bar>) receiver = Ok c"
    using c by auto
  have "\<bar>w\<bar> = funding_flow r payer div 1000"
    using funding_in_quote_Ok [OF w(1)] div_nonneg [of "funding_flow r payer" 1000] by (auto simp: abs_mult)
  with w(2) have "calculate_funding_rate_from_pnl_limit (- (a + funding_flow r payer div 1000)) receiver = Ok c"
    by simp
  from pnl_limit_flow [OF this]
  have "funding_flow c receiver \<le> (a + funding_flow r payer div 1000) * 1000
    \<and> (receiver < 0 \<longrightarrow> 0 \<le> c) \<and> (0 < receiver \<longrightarrow> c \<le> 0)"
    using a by (simp add: div_nonneg)
  moreover have "funding_flow r payer div 1000 * 1000 \<le> funding_flow r payer"
    by (simp add: div_mul_le)
  moreover have "receiver = 0 \<Longrightarrow> c = 0"
    using w(2)
    by (simp add: calculate_funding_rate_from_pnl_limit_def)
  ultimately show ?thesis using a by (auto simp: le_less)
next
  case False
  then have "c = r" using c by simp
  moreover have "funding_flow r (\<bar>receiver\<bar> - \<bar>payer\<bar>) = funding_flow r net"
    using assms(4) by (simp add: funding_flow_def)
  then have "- (a + 1) * 1000 \<le> funding_flow r \<bar>payer\<bar> - funding_flow r \<bar>receiver\<bar>"
    using False assms(3,4) by (intro net_flow) auto
  ultimately show ?thesis by (auto simp: funding_flow_def)
  qed
qed

lemma funding_rates:
  assumes "calculate_funding_rate_long_short i r = Ok (rl, rs, pnl)"
  assumes "0 \<le> fi_base_asset_amount_long i" "fi_base_asset_amount_short i \<le> 0"
    "fi_net_counterparty_position i = fi_base_asset_amount_long i + fi_base_asset_amount_short i"
  defines "a \<equiv> max (fi_total_fee_minus_distributions i) 0 div 3"
  shows "(0 < r \<longrightarrow> rl = r \<and> 0 \<le> rs \<and>
      - (a + 1) * 1000 \<le> funding_flow r (fi_base_asset_amount_long i) - funding_flow rs (fi_base_asset_amount_short i))
    \<and> (r < 0 \<longrightarrow> rs = r \<and> rl \<le> 0 \<and>
      - (a + 1) * 1000 \<le> funding_flow r (fi_base_asset_amount_short i) - funding_flow rl (fi_base_asset_amount_long i))
    \<and> (r = 0 \<longrightarrow> rl = 0 \<and> rs = 0)"
proof -
  let ?L = "fi_base_asset_amount_long i" and ?S = "fi_base_asset_amount_short i"
  let ?net = "fi_net_counterparty_position i"
  have a: "0 \<le> a" by (simp add: a_def div_nonneg)
  obtain v where v: "calculate_funding_payment_in_quote_precision r ?net = Ok v"
    and rates: "0 \<le> - v \<longrightarrow> rl = r \<and> rs = r"
      "\<not> 0 \<le> - v \<longrightarrow> (\<exists>c pnl. calculate_capped_funding_rate i (- v) r = Ok (c, pnl)
        \<and> rl = (if r < 0 then c else r) \<and> rs = (if r > 0 then c else r))"
    using assms(1) unfolding calculate_funding_rate_long_short_def
    by (elim and_thenE, cases "0 < r"; cases "r < 0") (auto simp: ok_iff split: if_split_asm)
  define u where "u = - v"
  have u: "u = (if (?net > 0) = (r > 0) then 1 else - 1) * (funding_flow r ?net div 1000)"
    using funding_in_quote_Ok [OF v] by (simp add: u_def)
  define p q where "p = (if r > 0 then ?L else ?S)" and "q = (if r < 0 then ?L else ?S)"
  show ?thesis
  proof (cases "u \<ge> 0")
    case True
    have "- (a + 1) * 1000 \<le> funding_flow r p - funding_flow r q" if "r \<noteq> 0"
    proof (cases "\<bar>q\<bar> \<le> \<bar>p\<bar>")
      case True
      then show ?thesis using funding_flow_mono [of q p r] a by simp
    next
      case False
      have "\<bar>?net\<bar> = \<bar>q\<bar> - \<bar>p\<bar> \<and> \<not> (?net > 0) = (r > 0)"
        using False assms(2-4) that by (cases "0 < r") (simp_all add: p_def q_def)
      then have "funding_flow r (\<bar>q\<bar> - \<bar>p\<bar>) div 1000 \<le> a"
        using True a u by (auto simp: funding_flow_def)
      then have "- (a + 1) * 1000 \<le> funding_flow r \<bar>p\<bar> - funding_flow r \<bar>q\<bar>"
        using False by (intro net_flow) auto
      then show ?thesis by (simp add: funding_flow_def)
    qed
    with True rates(1) show ?thesis by (auto simp: p_def q_def u_def)
  next
    case False
    then obtain c pnl' where c: "calculate_capped_funding_rate i u r = Ok (c, pnl')"
      and r: "rl = (if r < 0 then c else r)" "rs = (if r > 0 then c else r)" "r \<noteq> 0"
      using rates(2) u by (cases "r = 0") (auto simp: funding_flow_def u_def)
    have sides: "\<not> (?net > 0) = (r > 0)"
      using u False div_nonneg [of "funding_flow r ?net" 1000] by (cases "(?net > 0) = (r > 0)") simp_all
    then have "u = - (funding_flow r ?net div 1000)" "\<bar>?net\<bar> = \<bar>q\<bar> - \<bar>p\<bar>"
      using u assms(2-4) r(3) by (simp, cases "0 < r") (simp_all add: p_def q_def)
    from capped_rate_flow [OF c r(3) this p_def q_def] show ?thesis
      using r assms(2,3) unfolding a_def by (auto simp: p_def q_def split: if_split_asm)
  qed
qed

lemma amm_funding_bounded:
  assumes "calculate_funding_rate_long_short i r = Ok (rl, rs, pnl)"
  assumes "0 \<le> fi_base_asset_amount_long i" "fi_base_asset_amount_short i \<le> 0"
    "fi_net_counterparty_position i = fi_base_asset_amount_long i + fi_base_asset_amount_short i"
  assumes "calculate_amm_funding_payment (fi_base_asset_amount_long i) (fi_base_asset_amount_short i)
    (cl + rl) (cs + rs) cl cs = Ok p"
  shows "- (max (fi_total_fee_minus_distributions i) 0 div 3 + 1) \<le> p"
proof -
  let ?L = "fi_base_asset_amount_long i" and ?S = "fi_base_asset_amount_short i"
  define a where "a = max (fi_total_fee_minus_distributions i) 0 div 3"
  have a: "0 \<le> a" by (simp add: a_def div_nonneg)
  have p: "p = ((if 0 < rl then 1 else - 1) * funding_flow rl ?L - (if 0 < rs then 1 else - 1) * funding_flow rs ?S) sdiv 1000"
    using assms(2,3,5)
    by (auto simp: calculate_amm_funding_payment_def ok_iff minus_diff_commute dest!: amm_side_payment_Ok)
  have "- (a + 1) * 1000 \<le> (if 0 < rl then 1 else - 1) * funding_flow rl ?L - (if 0 < rs then 1 else - 1) * funding_flow rs ?S"
    using funding_rates [OF assms(1-4)] a unfolding a_def [symmetric]
    by (cases r "0 :: int" rule: linorder_cases) (auto split: if_split)
  then show ?thesis
    unfolding p a_def [symmetric] using sdiv_ge [of "a + 1" 1000] a by simp
qed

end
