(* ===== verification/Amm_Curve.thy ===== *)
theory Amm_Curve
  imports Amm_Spread Funding_Math
begin

text \<open>
  What moves the curve of the AMM: \<open>vlp/amm/controller.rs\<close> (the output of a swap) and
  \<open>vlp/amm/math/repeg.rs\<close> (the peg, what moving it costs, and the projection of the AMM onto the
  oracle). Events and logs are not part of the model.
\<close>

section \<open>The output of a swap\<close>

record amm_swap_output =
  sw_new_base_asset_reserve :: int
  sw_new_quote_asset_reserve :: int
  sw_quote_asset_amount :: int
  sw_quote_asset_amount_surplus :: int

definition amm_quote_asset_amount_surplus :: "int \<Rightarrow> int \<Rightarrow> swap_direction \<Rightarrow> int \<Rightarrow> int \<Rightarrow> int result" where
  "amm_quote_asset_amount_surplus reserve_before reserve_after direction peg_multiplier quote_asset_amount =
     and_then
       (case direction of
          Remove \<Rightarrow>
            and_then (safe_sub U128 reserve_after reserve_before) (\<lambda>v.
            and_then (reserve_to_asset_amount v peg_multiplier) (\<lambda>v.
            safe_add U128 v 1))
        | Add \<Rightarrow>
            and_then (safe_sub U128 reserve_before reserve_after) (\<lambda>v.
            reserve_to_asset_amount v peg_multiplier)) (\<lambda>curve_quote_asset_amount.
     and_then (cast I128 quote_asset_amount) (\<lambda>q.
     and_then (cast I128 curve_quote_asset_amount) (\<lambda>c.
     case direction of Remove \<Rightarrow> safe_sub I128 q c | Add \<Rightarrow> safe_sub I128 c q)))"

definition calculate_base_swap_output :: "amm \<Rightarrow> int \<Rightarrow> swap_direction \<Rightarrow> amm_swap_output result" where
  "calculate_base_swap_output a base_asset_swap_amount direction =
     (let (base_with_spread, quote_with_spread) = (case direction of
            Add \<Rightarrow> (am_bid_base_asset_reserve a, am_bid_quote_asset_reserve a)
          | Remove \<Rightarrow> (am_ask_base_asset_reserve a, am_ask_quote_asset_reserve a)) in
      and_then (calculate_swap_output base_asset_swap_amount base_with_spread direction (am_sqrt_k a))
        (\<lambda>(new_quote_with_spread, _).
      and_then (calculate_quote_asset_amount_swapped quote_with_spread new_quote_with_spread direction
        (am_peg_multiplier a)) (\<lambda>quote_asset_amount.
      and_then (calculate_swap_output base_asset_swap_amount (am_base_asset_reserve a) direction (am_sqrt_k a))
        (\<lambda>(new_quote_asset_reserve, new_base_asset_reserve).
      and_then (amm_quote_asset_amount_surplus (am_quote_asset_reserve a) new_quote_asset_reserve direction
        (am_peg_multiplier a) quote_asset_amount) (\<lambda>surplus.
      and_then (cast U64 quote_asset_amount) (\<lambda>quote_asset_amount.
      and_then (cast I64 surplus) (\<lambda>surplus.
      Ok \<lparr> sw_new_base_asset_reserve = new_base_asset_reserve,
           sw_new_quote_asset_reserve = new_quote_asset_reserve,
           sw_quote_asset_amount = quote_asset_amount, sw_quote_asset_amount_surplus = surplus \<rparr>)))))))"

section \<open>The peg\<close>

definition has_market_config_flag :: "perp_market \<Rightarrow> market_config_flag \<Rightarrow> bool" where
  "has_market_config_flag m flag \<longleftrightarrow> and (pm_market_config m) (case flag of DisableFormulaicKUpdate \<Rightarrow> 1) > 0"

text \<open>
  Whether a new peg may be set: the terminal price moves towards the oracle, not past the near edge
  of its confidence band, and the price of the reserves not past the far edge.
\<close>

definition calculate_repeg_validity ::
  "amm \<Rightarrow> oracle_price_data \<Rightarrow> bool \<Rightarrow> int \<Rightarrow> (bool \<times> bool \<times> bool \<times> bool) result" where
  "calculate_repeg_validity a d oracle_is_valid terminal_price_before =
     and_then (cast U64 (op_price d)) (\<lambda>oracle_price.
     and_then (calculate_terminal_price_and_reserves a) (\<lambda>(terminal_price_after, _, _).
     if oracle_is_valid then
       and_then (calculate_price (am_quote_asset_reserve a) (am_base_asset_reserve a) (am_peg_multiplier a))
         (\<lambda>reserve_price_after.
       and_then (safe_add U64 oracle_price (op_confidence d)) (\<lambda>band_top.
       and_then (safe_sub U64 oracle_price (op_confidence d)) (\<lambda>band_bottom.
       Ok (if oracle_price > terminal_price_after then
             (True, \<not> terminal_price_after < terminal_price_before, \<not> band_bottom < terminal_price_after,
              \<not> reserve_price_after > band_top)
           else if oracle_price < terminal_price_after then
             (True, \<not> terminal_price_after > terminal_price_before, \<not> band_top > terminal_price_after,
              \<not> reserve_price_after < band_bottom)
           else (True, True, True, True)))))
     else Ok (False, False, False, False)))"

definition calculate_peg_from_target_price :: "int \<Rightarrow> int \<Rightarrow> int \<Rightarrow> int result" where
  "calculate_peg_from_target_price quote_asset_reserve base_asset_reserve target_price =
     and_then (safe_mul U192 target_price base_asset_reserve) (\<lambda>v.
     and_then (safe_div U192 v quote_asset_reserve) (\<lambda>v.
     and_then (safe_add U192 v (PRICE_TO_PEG_PRECISION_RATIO div 2)) (\<lambda>v.
     and_then (safe_div U192 v PRICE_TO_PEG_PRECISION_RATIO) (\<lambda>v.
     and_then (try_to U128 v) (\<lambda>new_peg.
     Ok (max new_peg 1))))))"

definition adjust_peg_cost :: "amm \<Rightarrow> int \<Rightarrow> (amm \<times> int) result" where
  "adjust_peg_cost a new_peg_candidate =
     (if new_peg_candidate \<noteq> am_peg_multiplier a then
        and_then (inventory_value_and_pnl a 0) (\<lambda>(current_net_market_value, _).
        let a = a\<lparr>am_peg_multiplier := new_peg_candidate\<rparr> in
        and_then (inventory_value_and_pnl a current_net_market_value) (\<lambda>(_, cost).
        Ok (a, cost)))
      else Ok (a, 0))"

definition calculate_repeg_cost :: "amm \<Rightarrow> int \<Rightarrow> int result" where
  "calculate_repeg_cost a new_peg =
     and_then (cast I128 (am_quote_asset_reserve a)) (\<lambda>q.
     and_then (cast I128 (am_terminal_quote_asset_reserve a)) (\<lambda>t.
     and_then (safe_sub I128 q t) (\<lambda>v.
     and_then (cast I128 new_peg) (\<lambda>n.
     and_then (cast I128 (am_peg_multiplier a)) (\<lambda>p.
     and_then (safe_sub I128 n p) (\<lambda>d.
     and_then (safe_mul I128 v d) (\<lambda>v.
     safe_div I128 v AMM_RESERVE_PRECISION)))))))"

definition calculate_per_peg_cost :: "int \<Rightarrow> int \<Rightarrow> int result" where
  "calculate_per_peg_cost quote_asset_reserve terminal_quote_asset_reserve =
     and_then
       (if quote_asset_reserve \<noteq> terminal_quote_asset_reserve then
          and_then (cast I128 quote_asset_reserve) (\<lambda>q.
          and_then (cast I128 terminal_quote_asset_reserve) (\<lambda>t.
          and_then (safe_sub I128 q t) (\<lambda>v.
          safe_div_ceil I128 v (AMM_RESERVE_PRECISION div PEG_PRECISION))))
        else Ok 0) (\<lambda>per_peg_cost.
     if per_peg_cost > 0 then safe_add I128 per_peg_cost 1
     else if per_peg_cost < 0 then safe_sub I128 per_peg_cost 1
     else Ok per_peg_cost)"

text \<open>The lower k a full-budget update tries first, with what it costs and the cost of the peg on it.\<close>

definition lower_k_first :: "perp_market \<Rightarrow> int \<Rightarrow> int \<Rightarrow> bool \<Rightarrow> (amm \<times> int \<times> int) result" where
  "lower_k_first m budget per_peg_cost adjust_k =
     (let a = pm_amm m in
      and_then (can_lower_k a (ms_min_order_size (pm_market_stats m))) (\<lambda>lower.
      if adjust_k \<and> lower \<and> \<not> has_market_config_flag m DisableFormulaicKUpdate then
        and_then (get_lower_bound_sqrt_k a (ms_min_order_size (pm_market_stats m))) (\<lambda>new_sqrt_k_lower_bound.
        and_then (safe_div U128 (am_sqrt_k a) 1000) (\<lambda>v.
        and_then (safe_sub U128 (am_sqrt_k a) v) (\<lambda>v.
        and_then (get_update_k_result a (pm_status m) (max v new_sqrt_k_lower_bound) True) (\<lambda>update.
        and_then (adjust_k_cost_and_update a update) (\<lambda>(k_adjusted, adjustment_cost).
        and_then (safe_sub I128 budget adjustment_cost) (\<lambda>left.
        if left > 0 then
          and_then (calculate_per_peg_cost (am_quote_asset_reserve k_adjusted)
            (am_terminal_quote_asset_reserve k_adjusted)) (\<lambda>per_peg_cost.
          Ok (k_adjusted, adjustment_cost, per_peg_cost))
        else Ok (a, 0, per_peg_cost)))))))
      else Ok (a, 0, per_peg_cost)))"

definition budget_peg :: "int \<Rightarrow> int \<Rightarrow> int result" where
  "budget_peg peg_multiplier budget_delta_peg =
     (if budget_delta_peg > 0 then unwrap_or (safe_add U128 peg_multiplier \<bar>budget_delta_peg\<bar>) (ty_max U128)
      else if peg_multiplier > \<bar>budget_delta_peg\<bar> then safe_sub U128 peg_multiplier \<bar>budget_delta_peg\<bar>
      else Ok 1)"

definition adjust_amm :: "perp_market \<Rightarrow> int \<Rightarrow> int \<Rightarrow> bool \<Rightarrow> (perp_market \<times> int) result" where
  "adjust_amm m optimal_peg budget adjust_k =
     (let a = pm_amm m in
      if optimal_peg = am_peg_multiplier a \<or> min (am_curve_update_intensity a) 100 = 0 then Ok (m, 0)
      else
        and_then (cast I128 optimal_peg) (\<lambda>o1.
        and_then (cast I128 (am_peg_multiplier a)) (\<lambda>p.
        and_then (safe_sub I128 o1 p) (\<lambda>delta_peg.
        and_then (calculate_per_peg_cost (am_quote_asset_reserve a) (am_terminal_quote_asset_reserve a))
          (\<lambda>per_peg_cost.
        and_then (cast I128 budget) (\<lambda>budget.
        and_then
          (if per_peg_cost \<noteq> 0 then
             and_then (safe_mul I128 budget PEG_PRECISION) (\<lambda>v.
             and_then (safe_div I128 v per_peg_cost) (\<lambda>v. Ok \<bar>v\<bar>))
           else Ok 0) (\<lambda>budget_delta_peg_magnitude.
        if per_peg_cost = 0 \<or> per_peg_cost > 0 \<and> delta_peg < 0 \<or> per_peg_cost < 0 \<and> delta_peg > 0
           \<or> budget_delta_peg_magnitude > \<bar>delta_peg\<bar> then
          and_then (calculate_repeg_cost a optimal_peg) (\<lambda>cost.
          Ok (m\<lparr>pm_amm := a\<lparr>am_peg_multiplier := optimal_peg\<rparr>\<rparr>, cost))
        else
          and_then (lower_k_first m budget per_peg_cost adjust_k) (\<lambda>(a', adjustment_cost, per_peg_cost).
          and_then (safe_sub I128 budget adjustment_cost) (\<lambda>v.
          and_then (safe_mul I128 v PEG_PRECISION) (\<lambda>v.
          and_then (safe_div I128 v per_peg_cost) (\<lambda>budget_delta_peg.
          and_then (budget_peg (am_peg_multiplier a) budget_delta_peg) (\<lambda>new_peg.
          and_then (calculate_repeg_cost a' new_peg) (\<lambda>cost.
          and_then (safe_add I128 cost adjustment_cost) (\<lambda>cost.
          Ok (m\<lparr>pm_amm := a'\<lparr>am_peg_multiplier := new_peg\<rparr>\<rparr>, cost)))))))))))))))"

definition calculate_fee_pool :: "amm \<Rightarrow> int result" where
  "calculate_fee_pool a = cast U128 (max (am_total_fee_minus_distributions a) 0)"

definition calculate_optimal_peg_and_budget ::
  "amm \<Rightarrow> mm_oracle_price_data \<Rightarrow> (int \<times> int \<times> bool) result" where
  "calculate_optimal_peg_and_budget a mm =
     and_then (reserve_price a) (\<lambda>reserve_price_before.
     and_then (calculate_fee_pool a) (\<lambda>fee_budget.
     and_then (cast U64 (mm_get_price mm)) (\<lambda>target_price.
     and_then (calculate_peg_from_target_price (am_quote_asset_reserve a) (am_base_asset_reserve a) target_price)
       (\<lambda>optimal_peg.
     and_then (calculate_repeg_cost a optimal_peg) (\<lambda>optimal_peg_cost.
     and_then (cast U128 (max 0 optimal_peg_cost)) (\<lambda>needed.
     if fee_budget < needed then
       and_then (safe_div U32 (am_max_spread a) 2) (\<lambda>half_spread.
       and_then (safe_mul U128 target_price half_spread) (\<lambda>v.
       and_then (safe_div U128 v BID_ASK_SPREAD_PRECISION) (\<lambda>v.
       and_then (cast I64 v) (\<lambda>half_max_price_spread.
       and_then (cast I64 reserve_price_before) (\<lambda>r.
       and_then (safe_sub I64 r (mm_get_price mm)) (\<lambda>target_price_gap.
       and_then (plain_abs I64 target_price_gap) (\<lambda>gap.
       if gap > half_max_price_spread then
         and_then (safe_sub I64 gap half_max_price_spread) (\<lambda>v.
         and_then (cast U64 v) (\<lambda>mark_adj.
         and_then
           (if target_price_gap < 0 then safe_add U64 reserve_price_before mark_adj
            else safe_sub U64 reserve_price_before mark_adj) (\<lambda>target_price.
         and_then (calculate_peg_from_target_price (am_quote_asset_reserve a) (am_base_asset_reserve a)
           target_price) (\<lambda>optimal_peg.
         and_then (calculate_repeg_cost a optimal_peg) (\<lambda>v.
         and_then (cast U128 v) (\<lambda>fee_budget.
         Ok (optimal_peg, fee_budget, False)))))))
       else Ok (optimal_peg, fee_budget, fee_budget \<noteq> 0))))))))
     else Ok (optimal_peg, fee_budget, True)))))))"

record projected_amm_state =
  pr_peg_multiplier :: int
  pr_base_asset_reserve :: int
  pr_quote_asset_reserve :: int
  pr_sqrt_k :: int
  pr_cost :: int
  pr_applied :: bool
  pr_rejected_due_to_affordability :: bool

definition noop :: "amm \<Rightarrow> projected_amm_state" where
  "noop a =
     \<lparr> pr_peg_multiplier = am_peg_multiplier a, pr_base_asset_reserve = am_base_asset_reserve a,
       pr_quote_asset_reserve = am_quote_asset_reserve a, pr_sqrt_k = am_sqrt_k a, pr_cost = 0,
       pr_applied = False, pr_rejected_due_to_affordability = False \<rparr>"

definition projected_update :: "projected_amm_state \<Rightarrow> update_k_result" where
  "projected_update p =
     \<lparr> uk_sqrt_k = pr_sqrt_k p, uk_base_asset_reserve = pr_base_asset_reserve p,
       uk_quote_asset_reserve = pr_quote_asset_reserve p \<rparr>"

definition projected_amm :: "projected_amm_state \<Rightarrow> amm \<Rightarrow> amm result" where
  "projected_amm p a =
     (if \<not> pr_applied p then Ok a
      else
        and_then (apply_k_update a (projected_update p)) (\<lambda>a.
        Ok (a\<lparr>am_peg_multiplier := pr_peg_multiplier p\<rparr>)))"

definition apply_to :: "projected_amm_state \<Rightarrow> amm \<Rightarrow> amm result" where
  "apply_to p a =
     (if \<not> pr_applied p then Ok a
      else
        and_then (apply_k_update a (projected_update p)) (\<lambda>a.
        and_then (safe_sub I128 (am_total_fee_minus_distributions a) (pr_cost p)) (\<lambda>tfmd.
        and_then (cast I64 (pr_cost p)) (\<lambda>c.
        and_then (safe_sub I64 (am_net_revenue_since_last_funding a) c) (\<lambda>revenue.
        Ok (a\<lparr>am_peg_multiplier := pr_peg_multiplier p, am_total_fee_minus_distributions := tfmd,
              am_net_revenue_since_last_funding := revenue\<rparr>))))))"

definition project_post_refresh ::
  "perp_market \<Rightarrow> mm_oracle_price_data \<Rightarrow> oracle_validity_class option \<Rightarrow> projected_amm_state result" where
  "project_post_refresh m mm validity =
     (let a = pm_amm m; intensity = min (am_curve_update_intensity a) 100 in
      case validity of
        None \<Rightarrow> Ok (noop a)
      | Some v \<Rightarrow>
          if \<not> is_oracle_valid_for_action v (Some UpdateAMMCurve) then Ok (noop a)
          else if intensity = 0 then Ok (noop a)
          else
            and_then (calculate_optimal_peg_and_budget a mm) (\<lambda>(optimal_peg, fee_budget, check_lower_bound).
            and_then (adjust_amm m optimal_peg fee_budget (intensity \<ge> 100)) (\<lambda>(repegged, cost).
            and_then
              (if cost > 0 then
                 and_then (safe_sub I128 (am_total_fee_minus_distributions a) cost) (\<lambda>new_tfmd.
                 Ok (\<not> (check_lower_bound \<and> new_tfmd < 0)))
               else Ok True) (\<lambda>applied.
            Ok (if applied then
                  \<lparr> pr_peg_multiplier = am_peg_multiplier (pm_amm repegged),
                    pr_base_asset_reserve = am_base_asset_reserve (pm_amm repegged),
                    pr_quote_asset_reserve = am_quote_asset_reserve (pm_amm repegged),
                    pr_sqrt_k = am_sqrt_k (pm_amm repegged), pr_cost = cost, pr_applied = True,
                    pr_rejected_due_to_affordability = False \<rparr>
                else (noop a)\<lparr>pr_rejected_due_to_affordability := True\<rparr>)))))"

record projection_inputs =
  pi_market_status :: market_status
  pi_market_config :: "8 word"
  pi_min_order_size :: int

definition projection_inputs_from_market :: "perp_market \<Rightarrow> projection_inputs" where
  "projection_inputs_from_market m =
     \<lparr> pi_market_status = pm_status m, pi_market_config = pm_market_config m,
       pi_min_order_size = ms_min_order_size (pm_market_stats m) \<rparr>"

definition project_post_refresh_scalar ::
  "amm \<Rightarrow> projection_inputs \<Rightarrow> mm_oracle_price_data \<Rightarrow> oracle_validity_class option \<Rightarrow> projected_amm_state result" where
  "project_post_refresh_scalar a inputs mm validity =
     project_post_refresh
       (default_perp_market\<lparr>pm_amm := a, pm_status := pi_market_status inputs,
          pm_market_config := pi_market_config inputs,
          pm_market_stats := default_market_stats\<lparr>ms_min_order_size := pi_min_order_size inputs\<rparr>\<rparr>)
       mm validity"

section \<open>What moving the peg costs\<close>

lemma per_peg_cost_covers:
  assumes "calculate_per_peg_cost q t = Ok c"
  shows "(c \<noteq> 0 \<longrightarrow> \<bar>q - t\<bar> \<le> \<bar>c\<bar> * 1000 \<and> (0 < c \<longleftrightarrow> 0 < q - t)) \<and> (c = 0 \<longrightarrow> - 1000 < q - t \<and> q - t \<le> 0)"
proof -
  have up: "v = ceil_div d 1000" if "safe_div_ceil I128 d 1000 = Ok v" "0 < d" "fits I128 d" for d v
    using that by (simp add: safe_div_ceil_Ok_iff)
  have down: "v = - (- d div 1000)" if "safe_div_ceil I128 d 1000 = Ok v" "d < 0" for d v
  proof -
    have "\<not> 0 < d smod 1000" using that(2) by (simp add: neg_smod)
    then show ?thesis
      using that by (auto simp: safe_div_ceil_def checked_ceil_div_def checked_div_def checked_rem_def neg_sdiv
          ceil_div_def split: option.split_asm if_split_asm)
  qed
  consider (eq) "q = t" "c = 0" | (pos) v where "0 < q - t" "safe_div_ceil I128 (q - t) 1000 = Ok v" "fits I128 (q - t)"
      "c = (if v > 0 then v + 1 else if v < 0 then v - 1 else v)"
    | (neg) v where "q - t < 0" "safe_div_ceil I128 (q - t) 1000 = Ok v"
      "c = (if v > 0 then v + 1 else if v < 0 then v - 1 else v)"
    using assms by (cases "q = t"; cases "0 < q - t") (auto simp: calculate_per_peg_cost_def ok_iff split: if_split_asm)
  then show ?thesis
  proof cases
    case (pos v)
    have "v = ceil_div (q - t) 1000" using up pos by blast
    moreover have "0 < ceil_div (q - t) 1000" using pos(1) by (simp add: less_ceil_div_iff)
    moreover have "q - t \<le> ceil_div (q - t) 1000 * 1000" by (simp add: ceil_div_mul_ge)
    ultimately show ?thesis using pos(1,4) by simp
  next
    case (neg v)
    have v: "v = - (- (q - t) div 1000)" using down neg by blast
    have "- (q - t) < - (q - t) div 1000 * 1000 + 1000" by (rule less_div_mul) simp
    moreover have "0 \<le> - (q - t) div 1000" using neg(1) by (intro div_nonneg) auto
    ultimately show ?thesis using neg(1,3) v by (auto split: if_split_asm)
  qed auto
qed

lemma repeg_cost_Ok:
  assumes "calculate_repeg_cost a peg = Ok cost"
  shows "cost = (am_quote_asset_reserve a - am_terminal_quote_asset_reserve a) * (peg - am_peg_multiplier a) sdiv 1000000000"
  using assms by (auto simp: calculate_repeg_cost_def ok_iff)

text \<open>A move of the peg the budget pays for costs no more than the budget.\<close>

lemma sdiv_le: "0 < d \<Longrightarrow> x \<le> b * d \<Longrightarrow> 0 \<le> b \<Longrightarrow> x sdiv d \<le> (b :: int)"
  using ceil_div_le_iff [of d x b] zdiv_mono1 [of x "b * d" d] by (cases "x < 0") (auto simp: neg_sdiv)

lemma budgeted_move:
  fixes d c :: int
  assumes "\<bar>d\<bar> \<le> \<bar>c\<bar> * 1000" "0 \<le> budget" "\<bar>move\<bar> \<le> \<bar>budget * 1000000 sdiv c\<bar>" "c \<noteq> 0"
  shows "d * move sdiv 1000000000 \<le> budget"
proof -
  have "\<bar>budget * 1000000 sdiv c\<bar> * \<bar>c\<bar> \<le> budget * 1000000"
  proof -
    have "\<bar>budget * 1000000 sdiv c\<bar> = budget * 1000000 div \<bar>c\<bar>"
      using assms(2,4) div_nonneg [of "budget * 1000000" "\<bar>c\<bar>"]
      by (cases "budget = 0") (auto simp: signed_divide_int_def abs_mult)
    then show ?thesis using assms(4) by (simp add: div_mul_le)
  qed
  have "d * move \<le> \<bar>d\<bar> * \<bar>move\<bar>" by (metis abs_ge_self abs_mult)
  also have "\<dots> \<le> (\<bar>c\<bar> * 1000) * \<bar>budget * 1000000 sdiv c\<bar>"
    using assms(1,3) by (intro mult_mono) auto
  also have "\<dots> = \<bar>budget * 1000000 sdiv c\<bar> * \<bar>c\<bar> * 1000" by simp
  also have "\<dots> \<le> budget * 1000000 * 1000"
    using \<open>_ * \<bar>c\<bar> \<le> budget * 1000000\<close> by (intro mult_right_mono) auto
  finally show ?thesis using assms(2) by (intro sdiv_le) auto
qed

lemma budget_peg_move:
  assumes "budget_peg peg delta = Ok new" "0 < peg" "new \<le> ty_max I128"
  shows "\<bar>new - peg\<bar> \<le> \<bar>delta\<bar>"
  using assms
  by (auto simp: budget_peg_def ok_iff split: if_split_asm)

definition same_books :: "amm \<Rightarrow> amm \<Rightarrow> bool" where
  "same_books a b \<longleftrightarrow> am_peg_multiplier a = am_peg_multiplier b
     \<and> am_base_asset_amount_with_amm a = am_base_asset_amount_with_amm b
     \<and> am_total_fee_minus_distributions a = am_total_fee_minus_distributions b"

lemma same_books_refl [simp]: "same_books a a"
  by (simp add: same_books_def)

lemma k_update_keeps:
  assumes "get_update_k_result a st k bound = Ok u" "apply_k_update a' u = Ok b"
  shows "on_curve b \<and> same_books a' b"
  using apply_k_update_curve [OF assms(2)] update_k_result_curve [OF assms(1)] by (simp add: same_books_def)

lemma adjust_k_keeps:
  assumes "get_update_k_result a st k bound = Ok u" "adjust_k_cost_and_update a u = Ok (b, cost)"
  shows "on_curve b \<and> same_books a b"
proof -
  have "apply_k_update a u = Ok b" using assms(2) by (auto simp: adjust_k_cost_and_update_def ok_iff)
  with assms(1) show ?thesis by (rule k_update_keeps)
qed

lemma lower_k_first_Ok:
  assumes "lower_k_first m budget c adjust_k = Ok (a, adj, c')" "0 \<le> budget"
    "calculate_per_peg_cost (am_quote_asset_reserve (pm_amm m)) (am_terminal_quote_asset_reserve (pm_amm m)) = Ok c"
  shows "calculate_per_peg_cost (am_quote_asset_reserve a) (am_terminal_quote_asset_reserve a) = Ok c' \<and> 0 \<le> budget - adj
    \<and> same_books (pm_amm m) a \<and> (on_curve (pm_amm m) \<longrightarrow> on_curve a)"
  using assms unfolding lower_k_first_def Let_def
  by (elim and_thenE if_OkE case_prod_OkE) (auto simp: ok_iff dest: adjust_k_keeps)


lemma optimal_move_cost:
  assumes "calculate_per_peg_cost (am_quote_asset_reserve a) (am_terminal_quote_asset_reserve a) = Ok c"
    "calculate_repeg_cost a peg = Ok cost" "0 \<le> budget"
    "c = 0 \<or> c > 0 \<and> peg - am_peg_multiplier a < 0 \<or> c < 0 \<and> peg - am_peg_multiplier a > 0
      \<or> c \<noteq> 0 \<and> \<bar>peg - am_peg_multiplier a\<bar> < \<bar>budget * 1000000 sdiv c\<bar>"
  shows "cost \<le> max budget (\<bar>peg - am_peg_multiplier a\<bar> div 1000000)"
proof -
  define d where "d = am_quote_asset_reserve a - am_terminal_quote_asset_reserve a"
  define move where "move = peg - am_peg_multiplier a"
  have cost: "cost = d * move sdiv 1000000000"
    using repeg_cost_Ok [OF assms(2)] by (simp add: d_def move_def)
  note c = per_peg_cost_covers [OF assms(1), folded d_def]
  show ?thesis
  proof (cases "c = 0")
    case True
    then have d: "\<bar>d\<bar> \<le> 1000" using c by auto
    have "d * move \<le> \<bar>d\<bar> * \<bar>move\<bar>" by (metis abs_ge_self abs_mult)
    also have "\<dots> \<le> 1000 * \<bar>move\<bar>" using d by (intro mult_right_mono) auto
    finally have "d * move \<le> 1000 * \<bar>move\<bar>" .
    then have "cost \<le> \<bar>move\<bar> div 1000000"
      unfolding cost using zdiv_mono1 [of "d * move" "1000 * \<bar>move\<bar>" 1000000000] div_nonneg [of "\<bar>move\<bar>" 1000000]
        sdiv_le [of 1000000000 "d * move" "\<bar>move\<bar> div 1000000"]
      by (cases "d * move < 0") auto
    then show ?thesis by (simp add: move_def)
  next
    case False
    consider "d * move \<le> 0" | "\<bar>move\<bar> < \<bar>budget * 1000000 sdiv c\<bar>"
    proof (cases "\<bar>move\<bar> < \<bar>budget * 1000000 sdiv c\<bar>")
      case False
      with assms(4) \<open>c \<noteq> 0\<close> c have "0 < d \<and> move < 0 \<or> d < 0 \<and> 0 < move \<or> d = 0"
        unfolding move_def by (cases "0 < c") auto
      then have "d * move \<le> 0" by (auto simp: mult_le_0_iff)
      then show ?thesis by (rule that)
    qed (rule that)
    then have "cost \<le> budget"
    proof cases
      case 1
      then show ?thesis unfolding cost using sdiv_le [of 1000000000 "d * move" budget] assms(3) by simp
    next
      case 2
      then show ?thesis unfolding cost using c False assms(3) by (intro budgeted_move) auto
    qed
    then show ?thesis by simp
  qed
qed

lemma budget_move_cost:
  assumes "cast I128 budget = Ok b" "lower_k_first m b c adjust_k = Ok x" "x = (a, y)" "y = (adj, c')"
    "calculate_per_peg_cost (am_quote_asset_reserve (pm_amm m)) (am_terminal_quote_asset_reserve (pm_amm m)) = Ok c"
    "safe_sub I128 b adj = Ok v" "safe_mul I128 v PEG_PRECISION = Ok w" "safe_div I128 w c' = Ok delta"
    "budget_peg (am_peg_multiplier (pm_amm m)) delta = Ok new" "calculate_repeg_cost a new = Ok r"
    "safe_add I128 r adj = Ok s" "Ok (m'', s) = Ok (m', cost)" "0 < am_peg_multiplier (pm_amm m)" "0 \<le> budget"
  shows "cost \<le> budget"
proof -
  define d where "d = am_quote_asset_reserve a - am_terminal_quote_asset_reserve a"
  have b: "b = budget" and delta: "delta = (budget - adj) * 1000000 sdiv c'" "c' \<noteq> 0" and cost: "cost = r + adj"
    using assms(1,6-8,11,12) by (auto simp: ok_iff)
  have k: "calculate_per_peg_cost (am_quote_asset_reserve a) (am_terminal_quote_asset_reserve a) = Ok c'" "0 \<le> budget - adj"
    "am_peg_multiplier a = am_peg_multiplier (pm_amm m)"
    using lower_k_first_Ok [OF assms(2) [unfolded assms(3,4) b] assms(14,5)] by (auto simp: same_books_def)
  have "new \<le> ty_max I128" using assms(10) by (auto simp: calculate_repeg_cost_def ok_iff fits_def)
  then have "\<bar>new - am_peg_multiplier a\<bar> \<le> \<bar>(budget - adj) * 1000000 sdiv c'\<bar>"
    using budget_peg_move [OF assms(9,13)] k(3) delta(1) by simp
  moreover have "\<bar>d\<bar> \<le> \<bar>c'\<bar> * 1000" using per_peg_cost_covers [OF k(1)] delta(2) by (simp add: d_def)
  ultimately have "r \<le> budget - adj"
    unfolding repeg_cost_Ok [OF assms(10)] d_def [symmetric] using k(2) delta(2) by (intro budgeted_move) auto
  then show ?thesis using cost by simp
qed

lemma adjust_amm_within_budget:
  assumes "adjust_amm m peg budget adjust_k = Ok (m', cost)" "0 < am_peg_multiplier (pm_amm m)" "0 \<le> budget"
  shows "cost \<le> max budget (\<bar>peg - am_peg_multiplier (pm_amm m)\<bar> div 1000000)"
  using assms unfolding adjust_amm_def Let_def
  apply (elim and_thenE if_OkE case_prod_OkE)
  subgoal by simp
  subgoal premises p by (rule optimal_move_cost) (use p in \<open>auto simp: ok_iff\<close>)
  subgoal by (rule order_trans [OF budget_move_cost max.cobounded1]; assumption)
  subgoal premises p by (rule optimal_move_cost) (use p in \<open>auto simp: ok_iff\<close>)
  subgoal by simp
  done

lemma lower_k_first_keeps:
  assumes "lower_k_first m budget c adjust_k = Ok (a, adj, c')" "on_curve (pm_amm m)"
  shows "on_curve a \<and> same_books (pm_amm m) a"
  using assms unfolding lower_k_first_def Let_def
  by (elim and_thenE if_OkE case_prod_OkE) (auto simp: ok_iff dest: adjust_k_keeps)

lemma set_peg_curve [simp]: "on_curve (a\<lparr>am_peg_multiplier := p\<rparr>) = on_curve a"
  by (simp add: on_curve_def)

lemma adjust_amm_curve:
  assumes "adjust_amm m peg budget adjust_k = Ok (m', cost)" "on_curve (pm_amm m)"
  shows "on_curve (pm_amm m')
    \<and> am_base_asset_amount_with_amm (pm_amm m') = am_base_asset_amount_with_amm (pm_amm m)"
  using assms unfolding adjust_amm_def Let_def
  by (elim and_thenE if_OkE case_prod_OkE) (auto simp: same_books_def dest: lower_k_first_keeps)

lemma project_post_refresh_curve:
  assumes "project_post_refresh m mm v = Ok p" "on_curve (pm_amm m)" "pr_applied p"
  shows "update_on_curve (projected_update p)"
proof (cases v)
  case (Some w)
  with assms show ?thesis
    unfolding project_post_refresh_def Let_def option.case Some
    by (elim if_OkE and_thenE case_prod_OkE)
      (auto simp: noop_def projected_update_def update_on_curve_def on_curve_def dest!: adjust_amm_curve split: if_split_asm)
qed (use assms in \<open>auto simp: project_post_refresh_def noop_def Let_def\<close>)

lemma apply_to_curve:
  assumes "apply_to p a = Ok b" "pr_applied p \<Longrightarrow> update_on_curve (projected_update p)" "on_curve a"
  shows "on_curve b \<and> am_base_asset_amount_with_amm b = am_base_asset_amount_with_amm a"
proof (cases "pr_applied p")
  case True
  then obtain c where "apply_k_update a (projected_update p) = Ok c" "same_curve c b"
    using assms(1) unfolding apply_to_def by (elim if_OkE and_thenE) (auto simp: same_curve_def)
  then show ?thesis
    using apply_k_update_curve [of a _ c] on_curve_same [of c b] assms(2) [OF True] by (auto simp: same_curve_def)
qed (use assms in \<open>simp add: apply_to_def\<close>)

lemma project_scalar_curve:
  assumes "project_post_refresh_scalar a inputs mm v = Ok p" "apply_to p a = Ok b" "on_curve a"
  shows "on_curve b \<and> am_base_asset_amount_with_amm b = am_base_asset_amount_with_amm a"
  using assms apply_to_curve project_post_refresh_curve [of _ mm v p] unfolding project_post_refresh_scalar_def by simp

end
