(* ===== verification/Amm_Quoter.thy ===== *)
theory Amm_Quoter
  imports Amm_Curve Spot_Balance
begin

text \<open>
  The AMM as a maker: \<open>vlp/amm/quoter.rs\<close> (the trait \<open>AmmContract\<close>, the quoters \<open>AmmQuoter\<close> and
  \<open>AmmJitQuoter\<close>) and \<open>vlp/amm/math/jit.rs\<close>. A quoter borrows the AMM, so its methods are functions
  of the AMM. Every operation keeps the AMM on its curve, and a taker who trades against the AMM and
  back again never gains.
\<close>

section \<open>The books of the AMM\<close>

definition record_credit :: "amm \<Rightarrow> int \<Rightarrow> amm result" where
  "record_credit a amount =
     and_then (safe_add I128 (am_total_fee_minus_distributions a) amount) (\<lambda>v.
     Ok (a\<lparr>am_total_fee_minus_distributions := v\<rparr>))"

definition record_fee_pool_withdrawal :: "amm \<Rightarrow> int \<Rightarrow> amm result" where
  "record_fee_pool_withdrawal a amount =
     and_then (safe_sub I128 (am_total_fee_minus_distributions a) amount) (\<lambda>v.
     Ok (a\<lparr>am_total_fee_minus_distributions := v\<rparr>))"

definition apply_settlement_counterparty :: "amm \<Rightarrow> int \<Rightarrow> amm result" where
  "apply_settlement_counterparty a base_delta =
     and_then (safe_add I128 (am_base_asset_amount_with_amm a) base_delta) (\<lambda>v.
     Ok (a\<lparr>am_base_asset_amount_with_amm := v\<rparr>))"

definition record_amm_pnl :: "amm \<Rightarrow> int \<Rightarrow> amm result" where
  "record_amm_pnl a amount =
     and_then (safe_add I128 (am_total_fee_minus_distributions a) amount) (\<lambda>tfmd.
     and_then (cast I64 amount) (\<lambda>amount.
     and_then (safe_add I64 (am_net_revenue_since_last_funding a) amount) (\<lambda>revenue.
     Ok (a\<lparr>am_total_fee_minus_distributions := tfmd, am_net_revenue_since_last_funding := revenue\<rparr>))))"

definition apply_fill_fees :: "amm \<Rightarrow> int \<Rightarrow> int \<Rightarrow> amm result" where
  "apply_fill_fees a fee_to_maker mm_fee_surplus =
     and_then (safe_add I128 (am_total_fee a) fee_to_maker) (\<lambda>total_fee.
     and_then (safe_add I128 (am_total_mm_fee a) mm_fee_surplus) (\<lambda>total_mm_fee.
     record_amm_pnl (a\<lparr>am_total_fee := total_fee, am_total_mm_fee := total_mm_fee\<rparr>) fee_to_maker))"

definition deposit_to_fee_pool :: "amm \<Rightarrow> int \<Rightarrow> spot_market \<Rightarrow> (amm \<times> spot_market) result" where
  "deposit_to_fee_pool a amount sm =
     and_then (update_spot_balances pool_balance_ops amount Deposit sm (am_fee_pool a) False) (\<lambda>(sm, pool).
     Ok (a\<lparr>am_fee_pool := pool\<rparr>, sm))"

definition withdraw_from_amm_fee_pool :: "amm \<Rightarrow> int \<Rightarrow> spot_market \<Rightarrow> bool \<Rightarrow> (amm \<times> spot_market) result" where
  "withdraw_from_amm_fee_pool a amount sm force_reduce_only =
     and_then (update_spot_balances pool_balance_ops amount Borrow sm (am_fee_pool a) force_reduce_only) (\<lambda>(sm, pool).
     Ok (a\<lparr>am_fee_pool := pool\<rparr>, sm))"

definition apply_cost :: "amm \<Rightarrow> int \<Rightarrow> bool \<Rightarrow> (amm \<times> bool) result" where
  "apply_cost a cost check_lower_bound =
     and_then
       (if cost > 0 then
          and_then (safe_sub I128 (am_total_fee_minus_distributions a) cost) (\<lambda>new_tfmd.
          Ok (if check_lower_bound \<and> new_tfmd < 0 then None else Some new_tfmd))
        else if cost < 0 then
          and_then (plain_abs I128 cost) (\<lambda>c.
          map_ok Some (safe_add I128 (am_total_fee_minus_distributions a) c))
        else Ok (Some (am_total_fee_minus_distributions a))) (\<lambda>tfmd.
     case tfmd of
       None \<Rightarrow> Ok (a, False)
     | Some tfmd \<Rightarrow>
         and_then (cast I64 cost) (\<lambda>c.
         and_then (safe_sub I64 (am_net_revenue_since_last_funding a) c) (\<lambda>revenue.
         Ok (a\<lparr>am_total_fee_minus_distributions := tfmd, am_net_revenue_since_last_funding := revenue\<rparr>, True))))"

definition apply_cost_to_amm :: "amm \<Rightarrow> int \<Rightarrow> (amm \<times> bool) result" where
  "apply_cost_to_amm a cost =
     and_then
       (if cost > 0 then
          and_then (safe_sub I128 (am_total_fee_minus_distributions a) cost) (\<lambda>new_tfmd.
          Ok (if new_tfmd < 0 then None else Some new_tfmd))
        else
          and_then (plain_abs I128 cost) (\<lambda>c.
          map_ok Some (safe_add I128 (am_total_fee_minus_distributions a) c))) (\<lambda>tfmd.
     case tfmd of
       None \<Rightarrow> Ok (a, False)
     | Some tfmd \<Rightarrow>
         and_then (cast I64 cost) (\<lambda>c.
         and_then (safe_sub I64 (am_net_revenue_since_last_funding a) c) (\<lambda>revenue.
         Ok (a\<lparr>am_total_fee_minus_distributions := tfmd, am_net_revenue_since_last_funding := revenue\<rparr>, True))))"

definition set_peg :: "amm \<Rightarrow> int \<Rightarrow> amm" where
  "set_peg a new_peg = a\<lparr>am_peg_multiplier := new_peg\<rparr>"

definition apply_summary_stats_correction :: "amm \<Rightarrow> int \<Rightarrow> int \<Rightarrow> amm" where
  "apply_summary_stats_correction a fee_delta new_total_fee_minus_distributions =
     a\<lparr>am_total_fee := saturating_add I128 (am_total_fee a) fee_delta,
       am_total_mm_fee := saturating_add I128 (am_total_mm_fee a) fee_delta,
       am_total_fee_minus_distributions := new_total_fee_minus_distributions\<rparr>"

section \<open>Quotes and fills\<close>

datatype fill_fee_policy = AmmHouse | DlobMatch

record quoter_fill =
  qf_side :: position_direction
  qf_base_filled :: int
  qf_quote_filled :: int
  qf_clearing_price :: int
  qf_refresh_cost :: int
  qf_is_fee_exempt :: bool
  qf_fee_policy :: fill_fee_policy
  qf_quote_asset_amount_surplus :: int

record quote_context =
  qc_stats :: market_stats
  qc_oracle :: oracle_price_data
  qc_mm_oracle :: "mm_oracle_price_data option"
  qc_oracle_validity :: "oracle_validity_class option"
  qc_tick :: int
  qc_step_size :: int
  qc_slot :: int
  qc_slot_clock :: slot_clock
  qc_base_precision :: int
  qc_market_status :: market_status
  qc_market_config :: "8 word"

definition swap_direction_of :: "position_direction \<Rightarrow> swap_direction" where
  "swap_direction_of taker = (case taker of Long \<Rightarrow> Remove | Short \<Rightarrow> Add)"

definition amm_bid_ask :: "amm \<Rightarrow> int \<Rightarrow> (int \<times> int) result" where
  "amm_bid_ask a price = bid_ask_price price (am_long_spread a) (am_short_spread a) (am_reference_price_offset a)"

definition max_fillable :: "amm \<Rightarrow> position_direction \<Rightarrow> int" where
  "max_fillable a taker =
     min (case taker of
            Long \<Rightarrow> saturating_sub U128 (am_base_asset_reserve a) (am_min_base_asset_reserve a)
          | Short \<Rightarrow> saturating_sub U128 (am_max_base_asset_reserve a) (am_base_asset_reserve a)) (ty_max U64)"

definition best_price :: "amm \<Rightarrow> position_direction \<Rightarrow> int result" where
  "best_price a taker =
     and_then (reserve_price a) (\<lambda>p.
     case taker of
       Long \<Rightarrow> ask_price p (am_long_spread a) (am_reference_price_offset a)
     | Short \<Rightarrow> bid_price p (am_short_spread a) (am_reference_price_offset a))"

definition cumulative_size ::
  "(int \<Rightarrow> int) \<Rightarrow> amm \<Rightarrow> quote_context \<Rightarrow> position_direction \<Rightarrow> int \<Rightarrow> int result" where
  "cumulative_size isqrt a ctx taker price =
     and_then (best_price a taker) (\<lambda>best.
     if \<not> (case taker of Long \<Rightarrow> price \<ge> best | Short \<Rightarrow> price \<le> best) then Ok 0
     else if (case taker of Long \<Rightarrow> price = ty_max U64 | Short \<Rightarrow> price = 0) then Ok (max_fillable a taker)
     else
       and_then (calculate_base_asset_amount_to_trade_to_price isqrt a price taker) (\<lambda>(amount, dir_result).
       if dir_result \<noteq> taker then Ok 0
       else standardize_base_asset_amount (min amount (max_fillable a taker)) (max (qc_step_size ctx) 1)))"

definition try_fill_solo :: "amm \<Rightarrow> position_direction \<Rightarrow> int \<Rightarrow> quoter_fill option result" where
  "try_fill_solo a taker target =
     (let base = min target (max_fillable a taker) in
      if base = 0 then Ok None
      else
        and_then (calculate_base_swap_output a base (swap_direction_of taker)) (\<lambda>swap.
        and_then (calculate_price (sw_new_quote_asset_reserve swap) (sw_new_base_asset_reserve swap)
          (am_peg_multiplier a)) (\<lambda>marginal_price.
        Ok (Some \<lparr> qf_side = taker, qf_base_filled = base, qf_quote_filled = sw_quote_asset_amount swap,
                   qf_clearing_price = marginal_price, qf_refresh_cost = 0, qf_is_fee_exempt = True,
                   qf_fee_policy = AmmHouse,
                   qf_quote_asset_amount_surplus = sw_quote_asset_amount_surplus swap \<rparr>))))"

definition commit_fill :: "amm \<Rightarrow> quoter_fill \<Rightarrow> amm result" where
  "commit_fill a fill =
     (if qf_base_filled fill = 0 then Ok a
      else
        and_then (calculate_base_swap_output a (qf_base_filled fill) (swap_direction_of (qf_side fill))) (\<lambda>swap.
        and_then (safe_add I128 (am_base_asset_amount_with_amm a)
          (case qf_side fill of Long \<Rightarrow> qf_base_filled fill | Short \<Rightarrow> - qf_base_filled fill)) (\<lambda>net.
        refresh_cached_spread_reserves
          (a\<lparr>am_base_asset_reserve := sw_new_base_asset_reserve swap,
             am_quote_asset_reserve := sw_new_quote_asset_reserve swap,
             am_base_asset_amount_with_amm := net\<rparr>))))"

section \<open>Making in an auction\<close>

definition calculate_clamped_jit_base_asset_amount :: "amm \<Rightarrow> int \<Rightarrow> int result" where
  "calculate_clamped_jit_base_asset_amount a jit_base_asset_amount =
     and_then (safe_mul U128 jit_base_asset_amount (min (am_amm_jit_intensity a) 100)) (\<lambda>v.
     and_then (safe_div U128 v 100) (\<lambda>v.
     and_then (cast U64 v) (\<lambda>v.
     and_then (cast U64 \<bar>am_base_asset_amount_with_amm a\<bar>) (\<lambda>max_amm_base_asset_amount.
     Ok (min v max_amm_base_asset_amount)))))"

text \<open>The amount an auction price far from the oracle leaves of the half the AMM may take.\<close>

definition wash_trade_scaled ::
  "amm \<Rightarrow> int \<Rightarrow> int \<Rightarrow> int option \<Rightarrow> position_direction \<Rightarrow> int result" where
  "wash_trade_scaled a max_jit_amount auction_price valid_oracle_price taker =
     (case valid_oracle_price of
        None \<Rightarrow> Ok 0
      | Some oracle_price \<Rightarrow>
          and_then (cast U64 oracle_price) (\<lambda>baseline.
          let five_bps = baseline div 2000 in
          and_then
            (if taker = Long
             then map_ok (\<lambda>v. auction_price < v) (safe_sub U64 baseline five_bps) else Ok False) (\<lambda>below.
          if below \<or> taker = Short \<and> auction_price > saturating_add U64 baseline five_bps then
            and_then (safe_mul U64 (if taker = Long then am_short_spread a else am_long_spread a) baseline) (\<lambda>v.
            and_then (safe_div U64 v PERCENTAGE_PRECISION) (\<lambda>opposite_spread_price.
            and_then (cast I64 auction_price) (\<lambda>v.
            and_then (safe_sub I64 v oracle_price) (\<lambda>d.
            let numerator = saturating_sub U64 opposite_spread_price \<bar>d\<bar> in
            and_then (safe_mul U64 max_jit_amount numerator) (\<lambda>v.
            safe_div U64 v (max opposite_spread_price 1))))))
          else Ok max_jit_amount)))"

definition calculate_jit_base_asset_amount ::
  "perp_market \<Rightarrow> int \<Rightarrow> int \<Rightarrow> int option \<Rightarrow> position_direction \<Rightarrow> int result" where
  "calculate_jit_base_asset_amount m maker_base_asset_amount auction_price valid_oracle_price taker =
     (let a = pm_amm m in
      and_then (safe_div U64 maker_base_asset_amount 2) (\<lambda>max_jit_amount.
      and_then (wash_trade_scaled a max_jit_amount auction_price valid_oracle_price taker) (\<lambda>max_jit_amount.
      if max_jit_amount = 0 then Ok 0
      else
        and_then (calculate_market_open_bids_asks a) (\<lambda>(max_bids, max_asks).
        and_then (safe_mul U128 (max \<bar>max_bids\<bar> \<bar>max_asks\<bar>) AMM_RESERVE_PRECISION) (\<lambda>v.
        and_then (unwrap_or (safe_div U128 v (min \<bar>max_bids\<bar> \<bar>max_asks\<bar>)) (ty_max U128)) (\<lambda>ratio.
        and_then
          (if ratio \<ge> 15 * (AMM_RESERVE_PRECISION div 10) then Ok maker_base_asset_amount
           else safe_div U64 maker_base_asset_amount 4) (\<lambda>jit_base_asset_amount.
        if jit_base_asset_amount = 0 then Ok 0
        else
          and_then (calculate_clamped_jit_base_asset_amount a jit_base_asset_amount) (\<lambda>v.
          standardize_base_asset_amount (min v max_jit_amount) (pm_order_step_size m)))))))))"

definition calculate_amm_jit_liquidity ::
  "perp_market \<Rightarrow> position_direction \<Rightarrow> int \<Rightarrow> int option \<Rightarrow> int \<Rightarrow> int \<Rightarrow> int \<Rightarrow> bool \<Rightarrow> int result" where
  "calculate_amm_jit_liquidity m taker maker_price valid_oracle_price base_asset_amount
       taker_base_asset_amount maker_base_asset_amount taker_has_limit_price =
     (if \<not> taker_has_limit_price \<and> maker_base_asset_amount < taker_base_asset_amount then Ok 0
      else
        and_then (amm_wants_to_jit_make (pm_amm m) taker (pm_order_step_size m)) (\<lambda>wants.
        if wants
        then calculate_jit_base_asset_amount m base_asset_amount maker_price valid_oracle_price taker
        else Ok 0))"

text \<open>The quoter of an auction: the AMM with the price it makes at and the cap of its size.\<close>

record amm_jit_quoter =
  jq_amm :: amm
  jq_jit_price :: int
  jq_max_jit_base :: int

definition from_match_context ::
  "perp_market \<Rightarrow> int \<Rightarrow> position_direction \<Rightarrow> int option \<Rightarrow> int \<Rightarrow> int \<Rightarrow> bool \<Rightarrow> amm_jit_quoter result" where
  "from_match_context m jit_price taker valid_oracle_price taker_unfilled maker_unfilled taker_has_limit_price =
     and_then (calculate_amm_jit_liquidity m taker jit_price valid_oracle_price (min taker_unfilled maker_unfilled)
       taker_unfilled maker_unfilled taker_has_limit_price) (\<lambda>max_jit_base.
     and_then (calculate_amm_available_liquidity (pm_amm m) taker (pm_order_step_size m)) (\<lambda>amm_available.
     let max_jit_base = min max_jit_base amm_available in
     and_then (if max_jit_base > 0 then validate_for_fill (pm_amm m) taker else Ok ()) (\<lambda>_.
     Ok \<lparr> jq_amm = pm_amm m, jq_jit_price = jit_price, jq_max_jit_base = max_jit_base \<rparr>)))"

definition jit_level_capacity :: "amm_jit_quoter \<Rightarrow> position_direction \<Rightarrow> int" where
  "jit_level_capacity q taker =
     (if jq_max_jit_base q = 0 then 0 else min (jq_max_jit_base q) (max_fillable (jq_amm q) taker))"

text \<open>The \<open>as\<close> cast of an unsigned 64 bit number to a signed one.\<close>

definition as_i64 :: "int \<Rightarrow> int" where
  "as_i64 v = (if v > ty_max I64 then v - 2 ^ 64 else v)"

definition jit_try_fill_solo :: "amm_jit_quoter \<Rightarrow> position_direction \<Rightarrow> int \<Rightarrow> quoter_fill option result" where
  "jit_try_fill_solo q taker target =
     (let a = jq_amm q; base = min target (min (max_fillable a taker) (jq_max_jit_base q)) in
      if base = 0 then Ok None
      else
        and_then (calculate_base_swap_output a base (swap_direction_of taker)) (\<lambda>swap.
        and_then (safe_mul U128 base (jq_jit_price q)) (\<lambda>v.
        and_then (safe_div U128 v BASE_PRECISION) (\<lambda>jit_quote.
        if jit_quote > ty_max U64 then Err MathError
        else
          and_then
            (case taker of
               Long \<Rightarrow> safe_sub I64 (as_i64 jit_quote) (as_i64 (sw_quote_asset_amount swap))
             | Short \<Rightarrow> safe_sub I64 (as_i64 (sw_quote_asset_amount swap)) (as_i64 jit_quote)) (\<lambda>surplus.
          Ok (Some \<lparr> qf_side = taker, qf_base_filled = base, qf_quote_filled = jit_quote,
                     qf_clearing_price = jq_jit_price q, qf_refresh_cost = 0, qf_is_fee_exempt = True,
                     qf_fee_policy = AmmHouse, qf_quote_asset_amount_surplus = surplus \<rparr>))))))"

section \<open>Refreshes\<close>

definition bump_update_slot :: "amm \<Rightarrow> oracle_validity_class option \<Rightarrow> projected_amm_state \<Rightarrow> int \<Rightarrow> amm" where
  "bump_update_slot a validity p slot =
     (case validity of
        Some v \<Rightarrow>
          if is_oracle_valid_for_action v (Some FillOrderAmmLowRisk) \<and> \<not> pr_rejected_due_to_affordability p
          then a\<lparr>am_last_update_slot := slot\<rparr> else a
      | None \<Rightarrow> a)"

definition project_and_apply ::
  "amm \<Rightarrow> projection_inputs \<Rightarrow> mm_oracle_price_data \<Rightarrow> oracle_validity_class option \<Rightarrow> int \<Rightarrow> amm result" where
  "project_and_apply a inputs mm validity slot =
     (if am_last_update_slot a \<ge> slot then Ok a
      else
        and_then (project_post_refresh_scalar a inputs mm validity) (\<lambda>p.
        and_then (apply_to p a) (\<lambda>a.
        Ok (bump_update_slot a validity p slot))))"

definition amm_setup :: "(int \<Rightarrow> int) \<Rightarrow> amm \<Rightarrow> quote_context \<Rightarrow> amm result" where
  "amm_setup isqrt a ctx =
     and_then (ok_or (qc_mm_oracle ctx) DefaultError) (\<lambda>mm.
     and_then (project_and_apply a
       \<lparr> pi_market_status = qc_market_status ctx, pi_market_config = qc_market_config ctx,
         pi_min_order_size = ms_min_order_size (qc_stats ctx) \<rparr> mm (qc_oracle_validity ctx) (qc_slot ctx)) (\<lambda>a.
     and_then (reserve_price a) (\<lambda>p.
     update_amm_quote_state isqrt a (qc_stats ctx) mm p (qc_slot ctx))))"

section \<open>The reaction to funding\<close>

definition funding_k_budget :: "amm \<Rightarrow> int \<Rightarrow> int \<Rightarrow> int \<Rightarrow> int result" where
  "funding_k_budget a funding_imbalance_cost long_spread short_spread =
     (if funding_imbalance_cost < 0 then
        (if max long_spread short_spread \<le> am_base_spread a then
           and_then (safe_div I64 funding_imbalance_cost 2) (\<lambda>v. plain_abs I64 v)
         else Ok 0)
      else if am_net_revenue_since_last_funding a < funding_imbalance_cost then
        and_then (safe_sub I64 (max 0 (am_net_revenue_since_last_funding a)) funding_imbalance_cost) (\<lambda>v.
        safe_div I64 v 2)
      else Ok 0)"

definition handle_funding_applied ::
  "amm \<Rightarrow> int \<Rightarrow> int \<Rightarrow> int \<Rightarrow> market_status \<Rightarrow> int \<Rightarrow> amm result" where
  "handle_funding_applied a funding_imbalance_cost long_spread short_spread market_status min_order_size =
     and_then (cast I64 funding_imbalance_cost) (\<lambda>funding_imbalance_cost.
     and_then (funding_k_budget a funding_imbalance_cost long_spread short_spread) (\<lambda>budget.
     and_then
       (if budget > 0 \<and> am_sqrt_k a < MAX_SQRT_K then Ok True
        else if budget < 0 then can_lower_k a min_order_size else Ok False) (\<lambda>k_eligible.
     if \<not> k_eligible then Ok a
     else
       (let k_update_intensity = min (am_curve_update_intensity a) 100;
            step = MAX_K_BPS_INCREASE * k_update_intensity div 100 in
        and_then (calculate_budgeted_k_scale a budget (K_BPS_UPDATE_SCALE + step) (K_BPS_UPDATE_SCALE - step))
          (\<lambda>(k_scale_numerator, k_scale_denominator).
        and_then (safe_mul U192 (am_sqrt_k a) k_scale_numerator) (\<lambda>v.
        and_then (safe_div U192 v k_scale_denominator) (\<lambda>new_sqrt_k.
        and_then (get_update_k_result a market_status new_sqrt_k True) (\<lambda>update.
        and_then (adjust_k_cost a update) (\<lambda>adjustment_cost.
        and_then (apply_cost_to_amm a adjustment_cost) (\<lambda>(a, applied).
        if \<not> applied then Ok a else apply_k_update a update))))))))))"

record funding_updated =
  fu_cumulative_funding_rate_long :: int
  fu_cumulative_funding_rate_short :: int
  fu_base_asset_amount_long :: int
  fu_base_asset_amount_short :: int
  fu_long_spread :: int
  fu_short_spread :: int
  fu_k_update_eligible :: bool
  fu_market_status :: market_status
  fu_min_order_size :: int

definition on_market_event :: "amm \<Rightarrow> funding_updated \<Rightarrow> amm result" where
  "on_market_event a e =
     and_then (calculate_amm_funding_payment (fu_base_asset_amount_long e) (fu_base_asset_amount_short e)
       (fu_cumulative_funding_rate_long e) (fu_cumulative_funding_rate_short e)
       (am_last_cumulative_funding_rate_long a) (am_last_cumulative_funding_rate_short a)) (\<lambda>payment.
     and_then (record_amm_pnl a payment) (\<lambda>a.
     and_then (cast I64 (fu_cumulative_funding_rate_long e)) (\<lambda>l.
     and_then (cast I64 (fu_cumulative_funding_rate_short e)) (\<lambda>s.
     let a = a\<lparr>am_last_cumulative_funding_rate_long := l, am_last_cumulative_funding_rate_short := s\<rparr> in
     and_then
       (if fu_k_update_eligible e then
          and_then (plain_neg I128 payment) (\<lambda>cost.
          handle_funding_applied a cost (fu_long_spread e) (fu_short_spread e) (fu_market_status e)
            (fu_min_order_size e))
        else Ok a) (\<lambda>a.
     Ok (a\<lparr>am_net_revenue_since_last_funding := 0\<rparr>))))))"

section \<open>The AMM stays on its curve\<close>

lemma refresh_cached_same: "refresh_cached_spread_reserves a = Ok b \<Longrightarrow> same_curve a b"
  by (auto simp: refresh_cached_spread_reserves_def ok_iff same_curve_def split: if_split_asm)

lemma base_swap_output_Ok:
  assumes "calculate_base_swap_output a s d = Ok w"
  shows "sw_new_base_asset_reserve w = am_base_asset_reserve a + (case d of Add \<Rightarrow> s | Remove \<Rightarrow> - s)
    \<and> sw_new_quote_asset_reserve w = am_sqrt_k a * am_sqrt_k a div sw_new_base_asset_reserve w
    \<and> 0 < sw_new_base_asset_reserve w"
  using assms unfolding calculate_base_swap_output_def
  by (cases d; simp only: swap_direction.case Let_def prod.case; elim and_thenE case_prod_OkE)
    (auto dest!: swap_output_Ok)

lemma commit_fill_curve:
  assumes "commit_fill a f = Ok b" "on_curve a"
  shows "on_curve b"
proof (cases "qf_base_filled f = 0")
  case False
  then obtain w net where w: "calculate_base_swap_output a (qf_base_filled f) (swap_direction_of (qf_side f)) = Ok w"
    and net: "net = am_base_asset_amount_with_amm a + (case qf_side f of Long \<Rightarrow> qf_base_filled f | Short \<Rightarrow> - qf_base_filled f)"
    and b: "refresh_cached_spread_reserves (a\<lparr>am_base_asset_reserve := sw_new_base_asset_reserve w,
      am_quote_asset_reserve := sw_new_quote_asset_reserve w, am_base_asset_amount_with_amm := net\<rparr>) = Ok b"
    using assms(1) unfolding commit_fill_def by (elim if_OkE and_thenE) (auto simp: ok_iff)
  have "on_curve (a\<lparr>am_base_asset_reserve := sw_new_base_asset_reserve w,
      am_quote_asset_reserve := sw_new_quote_asset_reserve w, am_base_asset_amount_with_amm := net\<rparr>)"
    using base_swap_output_Ok [OF w] assms(2)
    by (auto simp: on_curve_def net swap_direction_of_def split: position_direction.splits)
  then show ?thesis using on_curve_same [OF refresh_cached_same [OF b]] by simp
qed (use assms in \<open>simp add: commit_fill_def\<close>)

lemma update_amm_quote_state_same:
  assumes "update_amm_quote_state isqrt a stats mm price slot = Ok b"
  shows "same_curve a b"
proof -
  obtain q where "commit_quote_state a q slot = Ok b"
    using assms unfolding update_amm_quote_state_def by (elim and_thenE) simp
  from refresh_cached_same [OF this [unfolded commit_quote_state_def]]
  show ?thesis by (simp add: same_curve_def)
qed

lemma project_and_apply_curve:
  assumes "project_and_apply a inputs mm v slot = Ok b" "on_curve a"
  shows "on_curve b"
  using assms unfolding project_and_apply_def
  by (elim if_OkE and_thenE) (auto simp: bump_update_slot_def on_curve_def dest!: project_scalar_curve split: option.split if_split)

lemma amm_setup_curve:
  assumes "amm_setup isqrt a ctx = Ok b" "on_curve a"
  shows "on_curve b"
  using assms unfolding amm_setup_def
  by (elim and_thenE) (auto dest!: update_amm_quote_state_same project_and_apply_curve simp: on_curve_same)

text \<open>The books: total fees, distributions and revenue.\<close>

lemma books_same_curve:
  "record_credit a v = Ok b \<Longrightarrow> same_curve a b"
  "record_fee_pool_withdrawal a v = Ok b \<Longrightarrow> same_curve a b"
  "record_amm_pnl a w = Ok b \<Longrightarrow> same_curve a b"
  "apply_fill_fees a w x = Ok b \<Longrightarrow> same_curve a b"
  "apply_cost a w lower = Ok (b, y) \<Longrightarrow> same_curve a b"
  "apply_cost_to_amm a w = Ok (b, y) \<Longrightarrow> same_curve a b"
  "same_curve a (set_peg a w)"
  "same_curve a (apply_summary_stats_correction a w x)"
  by (auto simp: record_credit_def record_fee_pool_withdrawal_def record_amm_pnl_def apply_fill_fees_def apply_cost_def
      apply_cost_to_amm_def set_peg_def apply_summary_stats_correction_def ok_iff same_curve_def
      split: if_split_asm option.split_asm)

lemma handle_funding_applied_curve:
  assumes "handle_funding_applied a c l s st m = Ok b" "on_curve a"
  shows "on_curve b"
proof -
  have "on_curve b" if "get_update_k_result a st k True = Ok u" "apply_cost_to_amm a w = Ok (a', y)"
    "(if \<not> y then Ok a' else apply_k_update a' u) = Ok b" for k u w a' y
    using that assms(2) k_update_keeps [of a st k True u a' b] on_curve_same [OF books_same_curve(6) [OF that(2)]]
    by (auto split: if_split_asm)
  then show ?thesis
    using assms unfolding handle_funding_applied_def Let_def
    by (elim if_OkE [of "\<not> _"] and_thenE case_prod_OkE) auto
qed

lemma on_market_event_curve:
  assumes "on_market_event a e = Ok b" "on_curve a"
  shows "on_curve b"
proof -
  have reset: "on_curve (x\<lparr>am_net_revenue_since_last_funding := r\<rparr>) = on_curve x"
    "on_curve (x\<lparr>am_last_cumulative_funding_rate_long := l, am_last_cumulative_funding_rate_short := s\<rparr>) = on_curve x"
    for x r l s by (simp_all add: on_curve_def)
  show ?thesis
    using assms unfolding on_market_event_def Let_def
    by (elim and_thenE if_OkE)
      (auto simp: reset dest!: books_same_curve(3) handle_funding_applied_curve dest: on_curve_same)
qed

lemma update_concentration_coef_same: "update_concentration_coef a c = Ok b \<Longrightarrow> same_curve a b"
  by (auto simp: update_concentration_coef_def set_bounds_def Let_def ok_iff same_curve_def)

text \<open>
  The instructions of the AMM. A swap, the refresh to the oracle, the reaction to funding, the
  administrative moves of the curve and the entries into the books.
\<close>

datatype amm_op =
    CommitFill quoter_fill
  | Setup quote_context
  | FundingEvent funding_updated
  | MovePrice nat int int
  | Recenter int int
  | ConcentrationCoef int
  | FillFees int int
  | Credit int
  | FeePoolWithdrawal int
  | AmmPnl int
  | Cost int bool
  | Peg int

primrec amm_step :: "(int \<Rightarrow> int) \<Rightarrow> amm \<Rightarrow> amm_op \<Rightarrow> amm result" where
  "amm_step isqrt a (CommitFill f) = commit_fill a f"
| "amm_step isqrt a (Setup ctx) = amm_setup isqrt a ctx"
| "amm_step isqrt a (FundingEvent e) = on_market_event a e"
| "amm_step isqrt a (MovePrice b q k) = move_price a (int b) q k"
| "amm_step isqrt a (Recenter peg k) = recenter a peg k"
| "amm_step isqrt a (ConcentrationCoef c) = update_concentration_coef a c"
| "amm_step isqrt a (FillFees f s) = apply_fill_fees a f s"
| "amm_step isqrt a (Credit v) = record_credit a v"
| "amm_step isqrt a (FeePoolWithdrawal v) = record_fee_pool_withdrawal a v"
| "amm_step isqrt a (AmmPnl v) = record_amm_pnl a v"
| "amm_step isqrt a (Cost c lower) = map_ok fst (apply_cost a c lower)"
| "amm_step isqrt a (Peg p) = Ok (set_peg a p)"

interpretation amm_instructions: instruction_set "amm_step isqrt" on_curve for isqrt
proof
  fix a b op
  assume "on_curve a" "amm_step isqrt a op = Ok b"
  then show "on_curve b"
    by (cases op)
      (auto simp: ok_iff set_peg_def dest: commit_fill_curve amm_setup_curve on_market_event_curve
        move_price_curve recenter_curve update_concentration_coef_same books_same_curve(1-6) dest!: on_curve_same)
qed

section \<open>A round trip against the AMM\<close>

text \<open>
  What the quoted reserves promise when there is no reference price offset: the ask starts above the
  curve and the bid below it.
\<close>

definition quoted_outside :: "amm \<Rightarrow> bool" where
  "quoted_outside a \<longleftrightarrow>
     am_ask_base_asset_reserve a \<le> am_base_asset_reserve a
     \<and> am_ask_base_asset_reserve a * am_ask_quote_asset_reserve a \<le> am_sqrt_k a * am_sqrt_k a
     \<and> am_base_asset_reserve a \<le> am_bid_base_asset_reserve a
     \<and> am_bid_base_asset_reserve a * am_bid_quote_asset_reserve a \<le> am_sqrt_k a * am_sqrt_k a"

lemma spread_reserves_Ok:
  assumes "compute_spread_reserves_for_direction a s 0 d = Ok (b, q)" "0 \<le> s" "0 \<le> am_quote_asset_reserve a"
  shows "b * q \<le> am_sqrt_k a * am_sqrt_k a \<and> 0 \<le> b
    \<and> (case d of Long \<Rightarrow> am_quote_asset_reserve a \<le> q | Short \<Rightarrow> q \<le> am_quote_asset_reserve a)"
proof -
  let ?q = "am_quote_asset_reserve a" and ?k = "am_sqrt_k a * am_sqrt_k a"
  define delta where "delta = ?q * (if d = Short then - s else s) sdiv 2000000"
  obtain s0 s1 s2 q0 v dq kk w where e: "cast I32 s = Ok s0" "(if d = Short then plain_neg I32 s0 else Ok s0) = Ok s1"
    "safe_add I32 s1 0 = Ok s2" "cast I128 ?q = Ok q0" "safe_mul I128 q0 s2 = Ok v" "safe_div I128 v 2000000 = Ok dq"
    "(if dq > 0 then safe_add U128 ?q \<bar>dq\<bar> else safe_sub U128 ?q \<bar>dq\<bar>) = Ok q"
    "k_invariant (am_sqrt_k a) = Ok kk" "safe_div U192 kk q = Ok w" "try_to U128 w = Ok b"
    using assms(1) unfolding compute_spread_reserves_for_direction_def
    by (elim and_thenE) (rule that; simp)
  have "s2 = (if d = Short then - s else s)"
    using e(1-3) by (simp add: ok_iff split: if_split_asm)
  then have dq: "dq = delta" using e(4-6) by (simp add: ok_iff delta_def)
  have q: "q = ?q + delta" "0 \<le> q"
    using e(7) dq by (auto simp: ok_iff dest: fits_nonneg split: if_split_asm)
  moreover have "q \<noteq> 0" "b = ?k div q"
    using e(8-10) q(2) by (auto simp: ok_iff k_invariant_def)
  ultimately have q: "q = ?q + delta" "0 < q" "b = ?k div q" by auto
  have "0 \<le> ?q * s" using assms(2,3) by simp
  then have "d = Long \<Longrightarrow> 0 \<le> delta" "d = Short \<Longrightarrow> delta \<le> 0"
    unfolding delta_def using sdiv_le [of 2000000 "- (?q * s)" 0] div_nonneg [of "?q * s" 2000000] by auto
  then show ?thesis using q by (cases d) (auto simp: div_mul_le div_nonneg)
qed

definition plain_quotes :: "amm \<Rightarrow> bool" where
  "plain_quotes a \<longleftrightarrow> am_reference_price_offset a = 0 \<and> 0 \<le> am_long_spread a \<and> 0 \<le> am_short_spread a \<and> 0 \<le> am_peg_multiplier a"

lemma refresh_cached_quoted:
  assumes "refresh_cached_spread_reserves a = Ok b" "plain_quotes a" "on_curve a"
  shows "quoted_outside b \<and> plain_quotes b \<and> am_peg_multiplier b = am_peg_multiplier a"
proof -
  let ?k = "am_sqrt_k a * am_sqrt_k a" and ?q = "am_quote_asset_reserve a" and ?b = "am_base_asset_reserve a"
  have plain: "am_reference_price_offset a = 0" "0 \<le> am_long_spread a" "0 \<le> am_short_spread a"
    using assms(2) by (simp_all add: plain_quotes_def)
  have q: "0 \<le> ?q" "?b * ?q \<le> ?k" "0 < ?b"
    using assms(3) by (auto simp: on_curve_def div_nonneg mult.commute [of ?b] div_mul_le)
  obtain ab aq bb bq where ask: "compute_spread_reserves_for_direction a (am_long_spread a) 0 Long = Ok (ab, aq)"
    and bid: "compute_spread_reserves_for_direction a (am_short_spread a) 0 Short = Ok (bb, bq)"
    and b: "b = a\<lparr>am_ask_base_asset_reserve := min ab ?b, am_ask_quote_asset_reserve := max aq ?q,
      am_bid_base_asset_reserve := max bb ?b, am_bid_quote_asset_reserve := min bq ?q\<rparr>"
    using assms(1) plain(1) unfolding refresh_cached_spread_reserves_def
    by (elim and_thenE case_prod_OkE) (rule that; auto)
  note a1 = spread_reserves_Ok [OF ask plain(2) q(1)] and b1 = spread_reserves_Ok [OF bid plain(3) q(1)]
  have "min ab ?b * max aq ?q \<le> ab * aq"
    using a1 q by (simp add: mult_right_mono)
  moreover have "?b * bq \<le> ?k"
    using b1 q by (intro order_trans [OF mult_left_mono q(2)]) auto
  then have "max bb ?b * min bq ?q \<le> ?k"
    using b1 by (auto simp: max_def)
  ultimately show ?thesis
    using a1 assms(2) by (simp add: quoted_outside_def plain_quotes_def b)
qed

lemma commit_fill_Ok:
  assumes "commit_fill a f = Ok b" "qf_base_filled f \<noteq> 0"
  obtains w c where "calculate_base_swap_output a (qf_base_filled f) (swap_direction_of (qf_side f)) = Ok w"
    "refresh_cached_spread_reserves c = Ok b"
    "c = a\<lparr>am_base_asset_reserve := sw_new_base_asset_reserve w,
      am_quote_asset_reserve := sw_new_quote_asset_reserve w,
      am_base_asset_amount_with_amm := am_base_asset_amount_with_amm a
        + (case qf_side f of Long \<Rightarrow> qf_base_filled f | Short \<Rightarrow> - qf_base_filled f)\<rparr>"
  using assms unfolding commit_fill_def by (elim if_OkE and_thenE) (auto simp: ok_iff)

lemma commit_fill_quoted:
  assumes "commit_fill a f = Ok b" "qf_base_filled f \<noteq> 0" "plain_quotes a" "on_curve a"
  shows "quoted_outside b \<and> on_curve b \<and> am_peg_multiplier b = am_peg_multiplier a \<and> am_sqrt_k b = am_sqrt_k a
    \<and> am_base_asset_reserve b = am_base_asset_reserve a
      + (case qf_side f of Long \<Rightarrow> - qf_base_filled f | Short \<Rightarrow> qf_base_filled f)"
proof -
  obtain w c where w: "calculate_base_swap_output a (qf_base_filled f) (swap_direction_of (qf_side f)) = Ok w"
    and b: "refresh_cached_spread_reserves c = Ok b"
    and c: "c = a\<lparr>am_base_asset_reserve := sw_new_base_asset_reserve w,
      am_quote_asset_reserve := sw_new_quote_asset_reserve w,
      am_base_asset_amount_with_amm := am_base_asset_amount_with_amm a
        + (case qf_side f of Long \<Rightarrow> qf_base_filled f | Short \<Rightarrow> - qf_base_filled f)\<rparr>"
    using commit_fill_Ok [OF assms(1,2)] .
  have cb: "same_curve c b" using b by (rule refresh_cached_same)
  have "on_curve b" using commit_fill_curve assms(1,4) by blast
  then have "on_curve c" using on_curve_same [OF cb] by simp
  moreover have "plain_quotes c" using assms(3) by (simp add: plain_quotes_def c)
  ultimately have "quoted_outside b \<and> am_peg_multiplier b = am_peg_multiplier c"
    using refresh_cached_quoted [OF b] by simp
  then show ?thesis
    using cb base_swap_output_Ok [OF w] \<open>on_curve b\<close>
    by (auto simp: same_curve_def c swap_direction_of_def split: position_direction.split)
qed

text \<open>The reserves a buyer pays and a seller receives, against the exact value of the move along the curve.\<close>

lemma buy_pays:
  assumes "calculate_base_swap_output a s Remove = Ok w" "quoted_outside a" "0 \<le> s"
  obtains P where "sw_quote_asset_amount w = P * am_peg_multiplier a div 1000000000 + 1"
    "am_sqrt_k a * am_sqrt_k a * s < P * (am_base_asset_reserve a * (am_base_asset_reserve a - s))"
proof -
  let ?k = "am_sqrt_k a * am_sqrt_k a" and ?b = "am_base_asset_reserve a"
  define x q where "x = am_ask_base_asset_reserve a" and "q = am_ask_quote_asset_reserve a"
  have "\<exists>n y. calculate_swap_output s x Remove (am_sqrt_k a) = Ok (n, y)
      \<and> calculate_quote_asset_amount_swapped q n Remove (am_peg_multiplier a) = Ok (sw_quote_asset_amount w)"
    using assms(1) unfolding calculate_base_swap_output_def x_def q_def
    by (simp only: swap_direction.case Let_def prod.case) (elim and_thenE case_prod_OkE, auto simp: ok_iff)
  then obtain n y where out: "calculate_swap_output s x Remove (am_sqrt_k a) = Ok (n, y)"
    and quote: "calculate_quote_asset_amount_swapped q n Remove (am_peg_multiplier a) = Ok (sw_quote_asset_amount w)"
    by blast
  have y: "y = x - s" "n = ?k div (x - s)" "0 < x - s" using swap_output_Ok [OF out] by auto
  define P where "P = n - q + 1"
  have P: "q \<le> n" "sw_quote_asset_amount w = P * am_peg_multiplier a div 1000000000 + 1"
    using quote_swapped_Ok [OF quote] by (auto simp: P_def)
  have quoted: "x \<le> ?b" "x * q \<le> ?k" using assms(2) by (auto simp: quoted_outside_def x_def q_def)
  have "?k < (n + 1) * (x - s)"
    using less_div_mul [of "x - s" ?k] y(3) unfolding y(2) by (simp add: algebra_simps)
  then have "?k * x < (n + 1) * (x - s) * x"
    using y(3) assms(3) by (intro mult_strict_right_mono) auto
  moreover have "x * q * (x - s) \<le> ?k * (x - s)"
    using quoted(2) y(3) by (intro mult_right_mono) auto
  ultimately have "?k * s < P * (x * (x - s))"
    unfolding P_def by (simp add: algebra_simps)
  also have "\<dots> \<le> P * (?b * (?b - s))"
    using quoted(1) y(3) assms(3) P(1) by (intro mult_left_mono mult_mono) (auto simp: P_def)
  finally show ?thesis using P(2) that by blast
qed

lemma sell_receives:
  assumes "calculate_base_swap_output a s Add = Ok w" "quoted_outside a" "0 < s" "0 < am_base_asset_reserve a"
  obtains R where "sw_quote_asset_amount w = R * am_peg_multiplier a div 1000000000"
    "(R - 1) * (am_base_asset_reserve a * (am_base_asset_reserve a + s)) < am_sqrt_k a * am_sqrt_k a * s"
proof -
  let ?k = "am_sqrt_k a * am_sqrt_k a" and ?b = "am_base_asset_reserve a"
  define x q where "x = am_bid_base_asset_reserve a" and "q = am_bid_quote_asset_reserve a"
  have "\<exists>n y. calculate_swap_output s x Add (am_sqrt_k a) = Ok (n, y)
      \<and> calculate_quote_asset_amount_swapped q n Add (am_peg_multiplier a) = Ok (sw_quote_asset_amount w)"
    using assms(1) unfolding calculate_base_swap_output_def x_def q_def
    by (simp only: swap_direction.case Let_def prod.case) (elim and_thenE case_prod_OkE, auto simp: ok_iff)
  then obtain n y where out: "calculate_swap_output s x Add (am_sqrt_k a) = Ok (n, y)"
    and quote: "calculate_quote_asset_amount_swapped q n Add (am_peg_multiplier a) = Ok (sw_quote_asset_amount w)"
    by blast
  have y: "y = x + s" "n = ?k div (x + s)" using swap_output_Ok [OF out] by auto
  define R where "R = q - n"
  have R: "sw_quote_asset_amount w = R * am_peg_multiplier a div 1000000000"
    using quote_swapped_Ok [OF quote] by (auto simp: R_def)
  have quoted: "?b \<le> x" "x * q \<le> ?k" using assms(2) by (auto simp: quoted_outside_def x_def q_def)
  have pos: "0 < x" "0 < x + s" using quoted(1) assms(3,4) by auto
  have "?k < (n + 1) * (x + s)"
    using less_div_mul [of "x + s" ?k] pos unfolding y(2) by (simp add: algebra_simps)
  then have "?k * x < (n + 1) * (x + s) * x"
    using pos by (intro mult_strict_right_mono) auto
  moreover have "x * q * (x + s) \<le> ?k * (x + s)"
    using quoted(2) pos by (intro mult_right_mono) auto
  ultimately have less: "(R - 1) * (x * (x + s)) < ?k * s"
    unfolding R_def by (simp add: algebra_simps)
  have "(R - 1) * (?b * (?b + s)) < ?k * s"
  proof (cases "1 \<le> R")
    case True
    then have "(R - 1) * (?b * (?b + s)) \<le> (R - 1) * (x * (x + s))"
      using quoted(1) assms(3,4) by (intro mult_left_mono mult_mono) auto
    with less show ?thesis by simp
  next
    case False
    then have "(R - 1) * (?b * (?b + s)) < 0"
      using assms(3,4) by (intro mult_neg_pos) auto
    also have "0 \<le> ?k * s" using assms(3) by simp
    finally show ?thesis .
  qed
  then show ?thesis using R that by blast
qed

lemma round_trip:
  assumes "k * s < P * (b * (b - s))" "(R - 1) * ((b - s) * b) < k * (s :: int)" "0 < b" "0 < b - s" "0 \<le> peg"
  shows "R * peg div 1000000000 < P * peg div 1000000000 + 1"
proof -
  have "(R - 1) * (b * (b - s)) < P * (b * (b - s))"
    using assms(1,2) by (simp add: mult.commute)
  then have "R - 1 < P" using assms(3,4) by (simp add: mult_less_cancel_right)
  then have "R * peg \<le> P * peg" using assms(5) by (intro mult_right_mono) auto
  then have "R * peg div 1000000000 \<le> P * peg div 1000000000" by (rule zdiv_mono1) simp
  then show ?thesis by simp
qed

lemma round_trip_loses:
  assumes "calculate_base_swap_output a s (swap_direction_of taker) = Ok w1"
    "commit_fill a f = Ok b" "qf_side f = taker" "qf_base_filled f = s" "0 < s"
    "calculate_base_swap_output b s (swap_direction_of (opposite taker)) = Ok w2"
    "quoted_outside a" "plain_quotes a" "on_curve a"
  shows "case taker of Long \<Rightarrow> sw_quote_asset_amount w2 < sw_quote_asset_amount w1
    | Short \<Rightarrow> sw_quote_asset_amount w1 < sw_quote_asset_amount w2"
proof -
  have peg: "0 \<le> am_peg_multiplier a" using assms(8) by (simp add: plain_quotes_def)
  have b: "quoted_outside b" "am_peg_multiplier b = am_peg_multiplier a" "am_sqrt_k b = am_sqrt_k a" "on_curve b"
    "am_base_asset_reserve b = am_base_asset_reserve a + (case taker of Long \<Rightarrow> - s | Short \<Rightarrow> s)"
    using commit_fill_quoted [OF assms(2) _ assms(8,9)] assms(3-5) by auto
  have pos: "0 < am_base_asset_reserve a" "0 < am_base_asset_reserve b"
    using assms(9) b(4) by (auto simp: on_curve_def)
  show ?thesis
  proof (cases taker)
    case Long
    obtain P where "sw_quote_asset_amount w1 = P * am_peg_multiplier a div 1000000000 + 1"
      "am_sqrt_k a * am_sqrt_k a * s < P * (am_base_asset_reserve a * (am_base_asset_reserve a - s))"
      using buy_pays [of a s w1] assms(1,5,7) Long by (auto simp: swap_direction_of_def)
    moreover obtain R where "sw_quote_asset_amount w2 = R * am_peg_multiplier b div 1000000000"
      "(R - 1) * (am_base_asset_reserve b * (am_base_asset_reserve b + s)) < am_sqrt_k b * am_sqrt_k b * s"
      using sell_receives [of b s w2] assms(5,6) b(1) pos Long by (auto simp: swap_direction_of_def opposite_def)
    ultimately show ?thesis
      using round_trip [of "am_sqrt_k a * am_sqrt_k a" s P "am_base_asset_reserve a" R "am_peg_multiplier a"] b pos peg Long
      by simp
  next
    case Short
    obtain R where "sw_quote_asset_amount w1 = R * am_peg_multiplier a div 1000000000"
      "(R - 1) * (am_base_asset_reserve a * (am_base_asset_reserve a + s)) < am_sqrt_k a * am_sqrt_k a * s"
      using sell_receives [of a s w1] assms(1,5,7) pos Short by (auto simp: swap_direction_of_def)
    moreover obtain P where "sw_quote_asset_amount w2 = P * am_peg_multiplier b div 1000000000 + 1"
      "am_sqrt_k b * am_sqrt_k b * s < P * (am_base_asset_reserve b * (am_base_asset_reserve b - s))"
      using buy_pays [of b s w2] assms(5,6) b(1) Short by (auto simp: swap_direction_of_def opposite_def)
    ultimately show ?thesis
      using round_trip [of "am_sqrt_k a * am_sqrt_k a" s P "am_base_asset_reserve b" R "am_peg_multiplier a"] b pos peg Short
      by simp
  qed
qed

lemma max_fillable_nonneg: "0 \<le> max_fillable a taker"
  by (auto simp: max_fillable_def saturating_sub_def split: position_direction.split)

lemma try_fill_solo_Ok:
  assumes "try_fill_solo a taker target = Ok (Some f)"
  shows "\<exists>w. calculate_base_swap_output a (qf_base_filled f) (swap_direction_of taker) = Ok w
    \<and> qf_quote_filled f = sw_quote_asset_amount w \<and> qf_side f = taker \<and> qf_base_filled f = min target (max_fillable a taker)
    \<and> qf_base_filled f \<noteq> 0"
  using assms unfolding try_fill_solo_def Let_def
  by (elim if_OkE and_thenE) (auto simp: ok_iff)

section \<open>Making in an auction only unwinds inventory\<close>

lemma standardize_base_asset_amount_le:
  assumes "standardize_base_asset_amount b step = Ok j" "0 < step"
  shows "0 \<le> j \<and> j \<le> b"
  using assms by (auto simp: standardize_base_asset_amount_def checked_rem_euclid_def ok_or_def ok_iff
      dest: fits_nonneg split: if_split_asm)

lemma clamped_jit_Ok:
  assumes "calculate_clamped_jit_base_asset_amount a j = Ok v"
  shows "v \<le> \<bar>am_base_asset_amount_with_amm a\<bar>"
  using assms unfolding calculate_clamped_jit_base_asset_amount_def by (elim and_thenE) (simp add: ok_iff)

lemma amm_jit_liquidity_Ok:
  assumes "calculate_amm_jit_liquidity m taker price oracle amount tb mb lim = Ok j" "0 < pm_order_step_size m"
  shows "0 \<le> j \<and> j \<le> \<bar>am_base_asset_amount_with_amm (pm_amm m)\<bar>
    \<and> (j \<noteq> 0 \<longrightarrow> (case taker of Long \<Rightarrow> am_base_asset_amount_with_amm (pm_amm m) < 0
      | Short \<Rightarrow> 0 < am_base_asset_amount_with_amm (pm_amm m)))"
proof -
  let ?b = "am_base_asset_amount_with_amm (pm_amm m)"
  have jit: "0 \<le> j \<and> j \<le> \<bar>?b\<bar>" if "calculate_jit_base_asset_amount m amount price oracle taker = Ok j" for amount
  proof -
    have "0 \<le> j \<and> j \<le> \<bar>?b\<bar>" if "calculate_clamped_jit_base_asset_amount (pm_amm m) x = Ok v"
      "standardize_base_asset_amount (min v y) (pm_order_step_size m) = Ok j" for x y v
      using clamped_jit_Ok [OF that(1)] standardize_base_asset_amount_le [OF that(2) assms(2)] by simp
    then show ?thesis
      using that unfolding calculate_jit_base_asset_amount_def Let_def
      by (elim and_thenE if_OkE case_prod_OkE) auto
  qed
  moreover have "case taker of Long \<Rightarrow> ?b < 0 | Short \<Rightarrow> 0 < ?b"
    if "amm_wants_to_jit_make (pm_amm m) taker (pm_order_step_size m) = Ok True"
    using that assms(2) by (cases taker) (auto simp: amm_wants_to_jit_make_def ok_iff)
  ultimately show ?thesis
    using assms(1) unfolding calculate_amm_jit_liquidity_def by (elim if_OkE and_thenE) auto
qed

end
