(* ===== verification/Hedge_Pool.thy ===== *)
theory Hedge_Pool
  imports Amm_Quoter Paused_Operations
begin

text \<open>
  The pool that hedges the AMM: \<open>LPPool\<close> and \<open>Constituent\<close> of \<open>vlp/hedge/state.rs\<close>. The pool holds
  several tokens, its constituents. Users mint and redeem shares of the pool against a constituent and
  swap constituents, at the oracle price less fees that grow with the size of the trade and with the
  distance from the target weights. What is shown: neither minting nor redeeming dilutes the other
  holders, a swap pays out at most the value it takes in less its fee, and the scaled balance of a
  constituent obeys the contract of the trait \<open>SpotBalance\<close>.
\<close>

abbreviation (input) BASE_SWAP_FEE :: int where "BASE_SWAP_FEE \<equiv> 300"
abbreviation (input) MAX_SWAP_FEE :: int where "MAX_SWAP_FEE \<equiv> 37500"
abbreviation (input) MIN_AUM_EXECUTION_FEE :: int where "MIN_AUM_EXECUTION_FEE \<equiv> 10000000000000"
abbreviation (input) MAX_ORACLE_STALENESS_FOR_TARGET_CALC :: int where "MAX_ORACLE_STALENESS_FOR_TARGET_CALC \<equiv> 4000"
abbreviation (input) MAX_POSITION_STALENESS_FOR_TARGET_CALC :: int where "MAX_POSITION_STALENESS_FOR_TARGET_CALC \<equiv> 0"

text \<open>The casts \<open>as\<close> between machine integers: they keep the low bits.\<close>

definition as_u128 :: "int \<Rightarrow> int" where
  "as_u128 v = v mod 2 ^ 128"

section \<open>Accounts\<close>

record lp_pool =
  lp_pubkey :: pubkey
  lp_mint :: pubkey
  lp_whitelist_mint :: pubkey
  lp_constituent_target_base :: pubkey
  lp_constituent_correlations :: pubkey
  lp_max_aum :: int
  lp_last_aum :: int
  lp_cumulative_quote_sent_to_perp_markets :: int
  lp_cumulative_quote_received_from_perp_markets :: int
  lp_total_mint_redeem_fees_paid :: int
  lp_last_aum_slot :: int
  lp_max_settle_quote_amount :: int
  lp_mint_redeem_id :: int
  lp_settle_id :: int
  lp_min_mint_fee :: int
  lp_token_supply :: int
  lp_volatility :: int
  lp_constituents :: int
  lp_quote_consituent_index :: int
  lp_bump :: int
  lp_gamma_execution :: int
  lp_xi :: int
  lp_target_oracle_delay_fee_bps_per_10_slots :: int
  lp_target_position_delay_fee_bps_per_10_slots :: int
  lp_lp_pool_id :: int

definition default_lp_pool :: lp_pool where
  "default_lp_pool =
     \<lparr> lp_pubkey = 0, lp_mint = 0, lp_whitelist_mint = 0, lp_constituent_target_base = 0,
       lp_constituent_correlations = 0, lp_max_aum = 0, lp_last_aum = 0,
       lp_cumulative_quote_sent_to_perp_markets = 0, lp_cumulative_quote_received_from_perp_markets = 0,
       lp_total_mint_redeem_fees_paid = 0, lp_last_aum_slot = 0, lp_max_settle_quote_amount = 0,
       lp_mint_redeem_id = 0, lp_settle_id = 0, lp_min_mint_fee = 0, lp_token_supply = 0, lp_volatility = 0,
       lp_constituents = 0, lp_quote_consituent_index = 0, lp_bump = 0, lp_gamma_execution = 0, lp_xi = 0,
       lp_target_oracle_delay_fee_bps_per_10_slots = 0, lp_target_position_delay_fee_bps_per_10_slots = 0,
       lp_lp_pool_id = 0 \<rparr>"

record constituent_spot_balance =
  cb_scaled_balance :: int
  cb_cumulative_deposits :: int
  cb_market_index :: int
  cb_balance_type :: spot_balance_type

definition constituent_spot_balance_ops :: "constituent_spot_balance spot_balance_ops" where
  "constituent_spot_balance_ops =
     \<lparr> sb_market_index = cb_market_index,
       sb_balance_type = cb_balance_type,
       sb_balance = cb_scaled_balance,
       sb_increase_balance = (\<lambda>c delta.
         and_then (safe_add U128 (cb_scaled_balance c) delta) (\<lambda>b. Ok (c\<lparr>cb_scaled_balance := b\<rparr>))),
       sb_decrease_balance = (\<lambda>c delta.
         and_then (safe_sub U128 (cb_scaled_balance c) delta) (\<lambda>b. Ok (c\<lparr>cb_scaled_balance := b\<rparr>))),
       sb_update_balance_type = (\<lambda>c t. Ok (c\<lparr>cb_balance_type := t\<rparr>)) \<rparr>"

definition constituent_balance_token_amount :: "constituent_spot_balance \<Rightarrow> spot_market \<Rightarrow> int result" where
  "constituent_balance_token_amount c spot_market =
     get_token_amount (cb_scaled_balance c) spot_market (cb_balance_type c)"

definition constituent_balance_signed_token_amount :: "constituent_spot_balance \<Rightarrow> spot_market \<Rightarrow> int result" where
  "constituent_balance_signed_token_amount c spot_market =
     and_then (constituent_balance_token_amount c spot_market) (\<lambda>token_amount.
     get_signed_token_amount token_amount (cb_balance_type c))"

record constituent =
  ct_pubkey :: pubkey
  ct_mint :: pubkey
  ct_lp_pool :: pubkey
  ct_vault :: pubkey
  ct_total_swap_fees :: int
  ct_spot_balance :: constituent_spot_balance
  ct_last_spot_balance_token_amount :: int
  ct_cumulative_spot_interest_accrued_token_amount :: int
  ct_max_weight_deviation :: int
  ct_swap_fee_min :: int
  ct_swap_fee_max :: int
  ct_max_borrow_token_amount :: int
  ct_vault_token_balance :: int
  ct_last_oracle_price :: int
  ct_last_oracle_slot :: int
  ct_oracle_staleness_threshold :: int
  ct_flash_loan_initial_token_amount :: int
  ct_next_swap_id :: int
  ct_derivative_weight :: int
  ct_volatility :: int
  ct_constituent_derivative_depeg_threshold :: int
  ct_constituent_derivative_index :: int
  ct_spot_market_index :: int
  ct_constituent_index :: int
  ct_decimals :: int
  ct_bump :: int
  ct_vault_bump :: int
  ct_gamma_inventory :: int
  ct_gamma_execution :: int
  ct_xi :: int
  ct_status :: "8 word"
  ct_paused_operations :: "8 word"

definition default_constituent :: constituent where
  "default_constituent =
     \<lparr> ct_pubkey = 0, ct_mint = 0, ct_lp_pool = 0, ct_vault = 0, ct_total_swap_fees = 0,
       ct_spot_balance = \<lparr> cb_scaled_balance = 0, cb_cumulative_deposits = 0, cb_market_index = 0, cb_balance_type = Deposit \<rparr>,
       ct_last_spot_balance_token_amount = 0, ct_cumulative_spot_interest_accrued_token_amount = 0,
       ct_max_weight_deviation = 0, ct_swap_fee_min = 0, ct_swap_fee_max = 0, ct_max_borrow_token_amount = 0,
       ct_vault_token_balance = 0, ct_last_oracle_price = 0, ct_last_oracle_slot = 0,
       ct_oracle_staleness_threshold = 0, ct_flash_loan_initial_token_amount = 0, ct_next_swap_id = 0,
       ct_derivative_weight = 0, ct_volatility = 0, ct_constituent_derivative_depeg_threshold = 0,
       ct_constituent_derivative_index = -1, ct_spot_market_index = 0, ct_constituent_index = 0, ct_decimals = 0,
       ct_bump = 0, ct_vault_bump = 0, ct_gamma_inventory = 0, ct_gamma_execution = 0, ct_xi = 0,
       ct_status = 0, ct_paused_operations = 0 \<rparr>"

datatype constituent_status = CS_ReduceOnly | CS_Decommissioned

primrec constituent_status_bit :: "constituent_status \<Rightarrow> 8 word" where
  "constituent_status_bit CS_ReduceOnly = 0b00000001"
| "constituent_status_bit CS_Decommissioned = 0b00000010"

section \<open>Constituents\<close>

text \<open>\<open>BitFlags::from_bits\<close> fails on a byte with a bit that no flag has.\<close>

definition get_status :: "constituent \<Rightarrow> 8 word result" where
  "get_status c = (if ct_status c AND NOT 0b00000011 = 0 then Ok (ct_status c) else Err FailedUnwrap)"

definition is_decommissioned :: "constituent \<Rightarrow> bool result" where
  "is_decommissioned c =
     and_then (get_status c) (\<lambda>s. Ok (s AND constituent_status_bit CS_Decommissioned \<noteq> 0))"

definition constituent_is_reduce_only :: "constituent \<Rightarrow> bool result" where
  "constituent_is_reduce_only c =
     and_then (get_status c) (\<lambda>s. Ok (s AND constituent_status_bit CS_ReduceOnly \<noteq> 0))"

definition does_constituent_allow_operation :: "constituent \<Rightarrow> constituent_lp_operation \<Rightarrow> unit result" where
  "does_constituent_allow_operation c operation =
     and_then (is_decommissioned c) (\<lambda>d.
     if d then Err InvalidConstituentOperation
     else if is_constituent_lp_operation_paused (ct_paused_operations c) operation then Err InvalidConstituentOperation
     else Ok ())"

definition get_full_token_amount :: "constituent \<Rightarrow> spot_market \<Rightarrow> int result" where
  "get_full_token_amount c spot_market =
     and_then (constituent_balance_signed_token_amount (ct_spot_balance c) spot_market) (\<lambda>token_amount.
     and_then (cast I128 (ct_vault_token_balance c)) (\<lambda>vault_balance.
     safe_add I128 token_amount vault_balance))"

definition is_operation_reducing :: "constituent \<Rightarrow> spot_market \<Rightarrow> bool \<Rightarrow> bool result" where
  "is_operation_reducing c spot_market is_increasing =
     and_then (get_full_token_amount c spot_market) (\<lambda>v.
     Ok (if sgn v > 0 then \<not> is_increasing else is_increasing))"

definition record_swap_fees :: "constituent \<Rightarrow> int \<Rightarrow> constituent result" where
  "record_swap_fees c amount =
     and_then (safe_add I128 (ct_total_swap_fees c) amount) (\<lambda>v. Ok (c\<lparr>ct_total_swap_fees := v\<rparr>))"

definition get_notional :: "constituent \<Rightarrow> int \<Rightarrow> int \<Rightarrow> int result" where
  "get_notional c price token_amount =
     and_then (plain_pow I128 10 (ct_decimals c)) (\<lambda>token_precision.
     and_then (cast I128 price) (\<lambda>price.
     and_then (safe_mul I128 token_amount price) (\<lambda>value_usd.
     safe_div I128 value_usd token_precision)))"

definition get_notional_with_delta :: "constituent \<Rightarrow> int \<Rightarrow> spot_market \<Rightarrow> int \<Rightarrow> int result" where
  "get_notional_with_delta c price spot_market token_amount =
     and_then (plain_pow I128 10 (ct_decimals c)) (\<lambda>token_precision.
     and_then (get_full_token_amount c spot_market) (\<lambda>b.
     and_then (cast I128 b) (\<lambda>bal.
     and_then (safe_add I128 bal token_amount) (\<lambda>amount.
     and_then (cast I128 price) (\<lambda>price.
     and_then (safe_mul I128 amount price) (\<lambda>value_usd.
     safe_div I128 value_usd token_precision))))))"

definition get_weight :: "constituent \<Rightarrow> int \<Rightarrow> spot_market \<Rightarrow> int \<Rightarrow> int \<Rightarrow> int result" where
  "get_weight c price spot_market token_amount_delta lp_pool_aum =
     (if lp_pool_aum = 0 then Ok 0
      else
        and_then (get_notional_with_delta c price spot_market token_amount_delta) (\<lambda>value_usd.
        and_then (safe_mul I128 value_usd PERCENTAGE_PRECISION) (\<lambda>v.
        and_then (cast I128 lp_pool_aum) (\<lambda>aum.
        and_then (safe_div I128 v aum) (\<lambda>v.
        cast I64 v)))))"

definition sync_token_balance :: "constituent \<Rightarrow> int \<Rightarrow> constituent" where
  "sync_token_balance c token_account_amount = c\<lparr>ct_vault_token_balance := token_account_amount\<rparr>"

section \<open>Fees\<close>

definition sync_token_supply :: "lp_pool \<Rightarrow> int \<Rightarrow> lp_pool" where
  "sync_token_supply lp supply = lp\<lparr>lp_token_supply := supply\<rparr>"

definition lp_get_price :: "lp_pool \<Rightarrow> int \<Rightarrow> int result" where
  "lp_get_price lp mint_supply =
     (if mint_supply = 0 then Ok 0
      else
        and_then (safe_mul U128 (lp_last_aum lp) PRICE_PRECISION) (\<lambda>v.
        safe_div U128 v mint_supply))"

type_synonym matrix2 = "(int \<times> int) \<times> (int \<times> int)"

text \<open>A row of the product of the diagonal matrix of the gammas with the covariances.\<close>

definition gamma_times :: "int \<Rightarrow> int \<Rightarrow> int \<Rightarrow> int \<Rightarrow> int result" where
  "gamma_times g0 c0 g1 c1 =
     and_then (ok_or (checked_mul I128 g0 c0) MathError) (\<lambda>v.
     and_then (ok_or (checked_add I128 0 v) MathError) (\<lambda>acc.
     and_then (ok_or (checked_mul I128 g1 c1) MathError) (\<lambda>v.
     ok_or (checked_add I128 acc v) MathError)))"

definition get_gamma_covar_matrix :: "int \<Rightarrow> int \<Rightarrow> int \<Rightarrow> int \<Rightarrow> int \<Rightarrow> matrix2 result" where
  "get_gamma_covar_matrix correlation_ij gamma_i gamma_j vol_i vol_j =
     and_then (safe_mul I128 vol_i vol_i) (\<lambda>v.
     and_then (safe_div I128 v PERCENTAGE_PRECISION) (\<lambda>c00.
     and_then (safe_mul I128 vol_j vol_j) (\<lambda>v.
     and_then (safe_div I128 v PERCENTAGE_PRECISION) (\<lambda>c11.
     and_then (safe_mul I128 vol_i vol_j) (\<lambda>v.
     and_then (safe_mul I128 v correlation_ij) (\<lambda>v.
     and_then (safe_div I128 v PERCENTAGE_PRECISION) (\<lambda>v.
     and_then (safe_div I128 v PERCENTAGE_PRECISION) (\<lambda>c01.
     and_then (gamma_times gamma_i c00 0 c01) (\<lambda>p00.
     and_then (gamma_times gamma_i c01 0 c11) (\<lambda>p01.
     and_then (gamma_times 0 c00 gamma_j c01) (\<lambda>p10.
     and_then (gamma_times 0 c01 gamma_j c11) (\<lambda>p11.
     Ok ((p00, p01), (p10, p11))))))))))))))"

text \<open>The risk of an error of the inventory: the quadratic form of the covariances, by row.\<close>

definition gamma_error :: "int \<times> int \<Rightarrow> int \<times> int \<Rightarrow> int result" where
  "gamma_error g e =
     and_then (safe_mul I128 (fst g) (fst e)) (\<lambda>a.
     and_then (safe_mul I128 (snd g) (snd e)) (\<lambda>b.
     and_then (safe_add I128 a b) (\<lambda>v.
     safe_div I128 v PERCENTAGE_PRECISION)))"

definition inventory_cost :: "int \<Rightarrow> int \<Rightarrow> int result" where
  "inventory_cost gamma_covar_error notional_error =
     and_then (safe_mul I128 gamma_covar_error notional_error) (\<lambda>v.
     and_then (safe_div I128 v 2) (\<lambda>v.
     safe_div I128 v QUOTE_PRECISION))"

definition inventory_fee :: "lp_pool \<Rightarrow> int \<Rightarrow> int \<Rightarrow> int \<Rightarrow> int result" where
  "inventory_fee lp c_pre c_post trade_notional =
     and_then (safe_sub I128 c_post c_pre) (\<lambda>v.
     and_then (safe_mul I128 v PERCENTAGE_PRECISION) (\<lambda>v.
     and_then (cast I128 trade_notional) (\<lambda>n.
     and_then (safe_div I128 v n) (\<lambda>v.
     and_then (safe_mul I128 v QUOTE_PRECISION) (\<lambda>v.
     and_then (cast I128 (lp_last_aum lp)) (\<lambda>aum.
     safe_div I128 v aum))))))"

definition get_quadratic_fee_inventory ::
  "lp_pool \<Rightarrow> matrix2 \<Rightarrow> int \<times> int \<Rightarrow> int \<times> int \<Rightarrow> int \<Rightarrow> (int \<times> int) result" where
  "get_quadratic_fee_inventory lp gamma_covar pre_notional_errors post_notional_errors trade_notional =
     and_then (gamma_error (fst gamma_covar) pre_notional_errors) (\<lambda>pre_in.
     and_then (gamma_error (snd gamma_covar) pre_notional_errors) (\<lambda>pre_out.
     and_then (gamma_error (fst gamma_covar) post_notional_errors) (\<lambda>post_in.
     and_then (gamma_error (snd gamma_covar) post_notional_errors) (\<lambda>post_out.
     and_then (inventory_cost pre_in (fst pre_notional_errors)) (\<lambda>c_pre_in.
     and_then (inventory_cost pre_out (snd pre_notional_errors)) (\<lambda>c_pre_out.
     and_then (inventory_cost post_in (fst post_notional_errors)) (\<lambda>c_post_in.
     and_then (inventory_cost post_out (snd post_notional_errors)) (\<lambda>c_post_out.
     and_then (inventory_fee lp c_pre_in c_post_in trade_notional) (\<lambda>in_fee.
     and_then (inventory_fee lp c_pre_out c_post_out trade_notional) (\<lambda>out_fee.
     Ok (in_fee, out_fee)))))))))))"

definition get_linear_fee_execution :: "int \<Rightarrow> int \<Rightarrow> int \<Rightarrow> int result" where
  "get_linear_fee_execution trade_ratio kappa_execution xi =
     and_then (safe_mul U128 kappa_execution xi) (\<lambda>v.
     and_then (cast I128 v) (\<lambda>v.
     and_then (safe_mul I128 trade_ratio v) (\<lambda>v.
     safe_div I128 v PERCENTAGE_PRECISION)))"

definition get_quadratic_fee_execution :: "int \<Rightarrow> int \<Rightarrow> int \<Rightarrow> int result" where
  "get_quadratic_fee_execution trade_ratio kappa_execution xi =
     and_then (cast I128 kappa_execution) (\<lambda>k.
     and_then (safe_mul U8 xi xi) (\<lambda>x.
     and_then (cast I128 x) (\<lambda>x.
     and_then (safe_mul I128 k x) (\<lambda>v.
     and_then (safe_mul I128 trade_ratio trade_ratio) (\<lambda>r.
     and_then (safe_mul I128 v r) (\<lambda>v.
     and_then (safe_div I128 v PERCENTAGE_PRECISION) (\<lambda>v.
     safe_div I128 v PERCENTAGE_PRECISION)))))))"

definition kappa_execution :: "int \<Rightarrow> int \<Rightarrow> int result" where
  "kappa_execution volatility gamma_execution =
     and_then (safe_mul U128 volatility volatility) (\<lambda>v.
     and_then (safe_mul U128 v gamma_execution) (\<lambda>v.
     and_then (safe_div U128 v PERCENTAGE_PRECISION) (\<lambda>v.
     safe_div U128 v 2)))"

definition notional_target :: "int \<Rightarrow> int \<Rightarrow> int result" where
  "notional_target target_weight aum =
     and_then (cast I128 target_weight) (\<lambda>w.
     and_then (safe_mul I128 w aum) (\<lambda>v.
     safe_div I128 v PERCENTAGE_PRECISION))"

text \<open>
  The other side of a trade: the constituent that is swapped out with its market, price and target
  weight, or the pool itself when shares are minted or redeemed.
\<close>

record out_leg =
  ol_spot_market :: spot_market
  ol_oracle_price :: int
  ol_constituent :: constituent
  ol_target_weight :: int

record out_terms =
  ot_mint_redeem :: bool
  ot_volatility :: int
  ot_gamma_execution :: int
  ot_gamma_inventory :: int
  ot_xi :: int
  ot_notional_target :: int
  ot_notional_pre :: int
  ot_notional_post :: int

definition swap_out_terms :: "lp_pool \<Rightarrow> int \<Rightarrow> out_leg option \<Rightarrow> out_terms result" where
  "swap_out_terms lp notional_trade_size leg =
     (case leg of
        Some l \<Rightarrow>
          (let c = ol_constituent l; sm = ol_spot_market l; p = ol_oracle_price l in
           and_then (plain_pow I128 10 (sm_decimals sm)) (\<lambda>prec.
           and_then (safe_mul I128 notional_trade_size prec) (\<lambda>v.
           and_then (cast I128 p) (\<lambda>q.
           and_then (safe_div I128 v q) (\<lambda>out_amount.
           and_then (cast I128 (ol_target_weight l)) (\<lambda>w.
           and_then (cast I128 (lp_last_aum lp)) (\<lambda>aum.
           and_then (safe_mul I128 w aum) (\<lambda>v.
           and_then (safe_div I128 v PERCENTAGE_PRECISION) (\<lambda>target.
           and_then (get_notional_with_delta c p sm 0) (\<lambda>pre.
           and_then (safe_mul I128 out_amount (-1)) (\<lambda>d.
           and_then (get_notional_with_delta c p sm d) (\<lambda>post.
           Ok \<lparr> ot_mint_redeem = False, ot_volatility = ct_volatility c, ot_gamma_execution = ct_gamma_execution c,
                ot_gamma_inventory = ct_gamma_inventory c, ot_xi = ct_xi c, ot_notional_target = target,
                ot_notional_pre = pre, ot_notional_post = post \<rparr>))))))))))))
      | None \<Rightarrow>
          Ok \<lparr> ot_mint_redeem = True, ot_volatility = lp_volatility lp, ot_gamma_execution = lp_gamma_execution lp,
               ot_gamma_inventory = 0, ot_xi = lp_xi lp, ot_notional_target = 0, ot_notional_pre = 0,
               ot_notional_post = 0 \<rparr>)"

text \<open>What a trade leaves of the distance to the target; minting and redeeming move the target with the pool.\<close>

definition in_notional_error_post :: "lp_pool \<Rightarrow> bool \<Rightarrow> int \<Rightarrow> int \<Rightarrow> int \<Rightarrow> int \<Rightarrow> int result" where
  "in_notional_error_post lp mint_redeem in_notional_post in_notional_target in_target_weight notional_trade_size =
     (if \<not> mint_redeem then safe_sub I128 in_notional_post in_notional_target
      else
        and_then (cast I128 (lp_last_aum lp)) (\<lambda>aum.
        and_then (safe_add I128 aum notional_trade_size) (\<lambda>adjusted_aum.
        and_then (notional_target in_target_weight adjusted_aum) (\<lambda>t.
        safe_sub I128 in_notional_post t))))"

definition total_swap_fee :: "int \<Rightarrow> int \<Rightarrow> int \<Rightarrow> int result" where
  "total_swap_fee execution_linear execution_quadratic inventory =
     and_then (safe_add I128 execution_linear execution_quadratic) (\<lambda>v.
     and_then (safe_add I128 v inventory) (\<lambda>v.
     and_then (safe_div I128 BASE_SWAP_FEE 2) (\<lambda>b.
     safe_add I128 v b)))"

definition get_swap_fees ::
  "lp_pool \<Rightarrow> spot_market \<Rightarrow> int \<Rightarrow> constituent \<Rightarrow> int \<Rightarrow> int \<Rightarrow> out_leg option \<Rightarrow> int \<Rightarrow> (int \<times> int) result" where
  "get_swap_fees lp in_spot_market in_oracle_price in_constituent in_amount in_target_weight leg correlation =
     and_then (get_notional in_constituent in_oracle_price in_amount) (\<lambda>notional_trade_size.
     and_then (swap_out_terms lp notional_trade_size leg) (\<lambda>t.
     and_then (kappa_execution (ct_volatility in_constituent) (ct_gamma_execution in_constituent)) (\<lambda>in_kappa.
     and_then (kappa_execution (ot_volatility t) (ot_gamma_execution t)) (\<lambda>out_kappa.
     and_then (cast I128 in_target_weight) (\<lambda>w.
     and_then (cast I128 (lp_last_aum lp)) (\<lambda>aum.
     and_then (safe_mul I128 w aum) (\<lambda>v.
     and_then (safe_div I128 v PERCENTAGE_PRECISION) (\<lambda>in_notional_target.
     and_then (get_notional_with_delta in_constituent in_oracle_price in_spot_market 0) (\<lambda>in_notional_pre.
     and_then (get_notional_with_delta in_constituent in_oracle_price in_spot_market in_amount) (\<lambda>in_notional_post.
     and_then (safe_sub I128 in_notional_pre in_notional_target) (\<lambda>in_error_pre.
     and_then (in_notional_error_post lp (ot_mint_redeem t) in_notional_post in_notional_target in_target_weight
       notional_trade_size) (\<lambda>in_error_post.
     and_then (safe_sub I128 (ot_notional_pre t) (ot_notional_target t)) (\<lambda>out_error_pre.
     and_then (safe_sub I128 (ot_notional_post t) (ot_notional_target t)) (\<lambda>out_error_post.
     and_then (plain_abs I128 notional_trade_size) (\<lambda>abs_size.
     and_then (safe_mul I128 abs_size PERCENTAGE_PRECISION) (\<lambda>v.
     and_then (cast I128 (max (lp_last_aum lp) MIN_AUM_EXECUTION_FEE)) (\<lambda>denominator.
     and_then (safe_div I128 v denominator) (\<lambda>trade_ratio.
     and_then (get_linear_fee_execution trade_ratio in_kappa (ct_xi in_constituent)) (\<lambda>in_linear.
     and_then (get_linear_fee_execution trade_ratio out_kappa (ot_xi t)) (\<lambda>out_linear.
     and_then (get_quadratic_fee_execution trade_ratio in_kappa (ct_xi in_constituent)) (\<lambda>in_quadratic.
     and_then (get_quadratic_fee_execution trade_ratio out_kappa (ot_xi t)) (\<lambda>out_quadratic.
     and_then (get_gamma_covar_matrix correlation (ct_gamma_inventory in_constituent) (ot_gamma_inventory t)
       (ct_volatility in_constituent) (ot_volatility t)) (\<lambda>gamma_covar.
     and_then (cast U128 abs_size) (\<lambda>trade_notional.
     and_then (get_quadratic_fee_inventory lp gamma_covar (in_error_pre, out_error_pre)
       (in_error_post, out_error_post) trade_notional) (\<lambda>(in_inventory, out_inventory).
     and_then (total_swap_fee in_linear in_quadratic in_inventory) (\<lambda>total_in_fee.
     and_then (total_swap_fee out_linear out_quadratic out_inventory) (\<lambda>total_out_fee.
     Ok (total_in_fee, total_out_fee))))))))))))))))))))))))))))"

definition step_fee :: "int \<Rightarrow> int \<Rightarrow> int \<Rightarrow> int result" where
  "step_fee delay threshold per_10_slot_bps =
     (if delay \<le> threshold \<or> per_10_slot_bps = 0 then Ok 0
      else
        and_then (safe_add U64 (saturating_sub U64 delay threshold) 9) (\<lambda>v.
        and_then (safe_div U64 v 10) (\<lambda>blocks.
        and_then (safe_mul U128 blocks per_10_slot_bps) (\<lambda>fee_bps.
        and_then (safe_mul U128 fee_bps PERCENTAGE_PRECISION) (\<lambda>v.
        safe_div U128 v 10000)))))"

definition get_target_uncertainty_fees :: "lp_pool \<Rightarrow> int \<Rightarrow> int \<Rightarrow> int \<Rightarrow> slot_clock \<Rightarrow> int result" where
  "get_target_uncertainty_fees lp target_position_slot_delay target_oracle_slot_delay current_slot c =
     (let position_periods = div_periods (elapsed_slot_delta c target_position_slot_delay current_slot) STORED_UNIT_MS;
          oracle_periods = div_periods (elapsed_slot_delta c target_oracle_slot_delay current_slot) STORED_UNIT_MS in
      and_then (step_fee oracle_periods (div_periods MAX_ORACLE_STALENESS_FOR_TARGET_CALC STORED_UNIT_MS)
        (lp_target_oracle_delay_fee_bps_per_10_slots lp)) (\<lambda>oracle_fee.
      and_then (step_fee position_periods (div_periods MAX_POSITION_STALENESS_FOR_TARGET_CALC STORED_UNIT_MS)
        (lp_target_position_delay_fee_bps_per_10_slots lp)) (\<lambda>position_fee.
      and_then (safe_add U128 oracle_fee position_fee) (\<lambda>v.
      cast I128 v))))"

section \<open>Swaps, minting and redeeming\<close>

definition get_swap_price :: "int \<Rightarrow> int \<Rightarrow> oracle_price_data \<Rightarrow> oracle_price_data \<Rightarrow> (int \<times> int) result" where
  "get_swap_price in_decimals out_decimals in_oracle out_oracle =
     and_then (cast U128 (op_price in_oracle)) (\<lambda>in_price.
     and_then (cast U128 (op_price out_oracle)) (\<lambda>out_price.
     and_then
       (if out_decimals > in_decimals
        then map_ok (\<lambda>v. (v, 1)) (plain_pow U128 10 (out_decimals - in_decimals))
        else map_ok (\<lambda>v. (1, v)) (plain_pow U128 10 (in_decimals - out_decimals))) (\<lambda>(num, denom).
     and_then (safe_mul U128 in_price num) (\<lambda>swap_price_num.
     and_then (safe_mul U128 out_price denom) (\<lambda>swap_price_denom.
     Ok (swap_price_num, swap_price_denom))))))"

text \<open>The fee of one leg in percent, with what a stale target adds, and the amount it is of a trade.\<close>

definition fee_amount :: "int \<Rightarrow> int \<Rightarrow> int result" where
  "fee_amount amount fee =
     and_then (cast I128 amount) (\<lambda>a.
     and_then (safe_mul I128 a fee) (\<lambda>v.
     safe_div I128 v PERCENTAGE_PRECISION))"

definition get_swap_amount ::
  "lp_pool \<Rightarrow> int \<Rightarrow> int \<Rightarrow> int \<Rightarrow> int \<Rightarrow> oracle_price_data \<Rightarrow> oracle_price_data \<Rightarrow> constituent \<Rightarrow> constituent
     \<Rightarrow> spot_market \<Rightarrow> spot_market \<Rightarrow> int \<Rightarrow> int \<Rightarrow> int \<Rightarrow> int \<Rightarrow> int \<Rightarrow> slot_clock \<Rightarrow> (int \<times> int \<times> int \<times> int) result" where
  "get_swap_amount lp in_position_delay out_position_delay in_oracle_delay out_oracle_delay in_oracle out_oracle
       in_constituent out_constituent in_spot_market out_spot_market in_target_weight out_target_weight in_amount
       correlation current_slot c =
     and_then (get_swap_price (sm_decimals in_spot_market) (sm_decimals out_spot_market) in_oracle out_oracle)
       (\<lambda>(swap_price_num, swap_price_denom).
     and_then (cast I128 in_amount) (\<lambda>signed_in.
     and_then (get_swap_fees lp in_spot_market (op_price in_oracle) in_constituent signed_in in_target_weight
       (Some \<lparr> ol_spot_market = out_spot_market, ol_oracle_price = op_price out_oracle,
               ol_constituent = out_constituent, ol_target_weight = out_target_weight \<rparr>) correlation)
       (\<lambda>(in_fee, out_fee).
     and_then (get_target_uncertainty_fees lp in_position_delay in_oracle_delay current_slot c) (\<lambda>u.
     and_then (safe_add I128 in_fee u) (\<lambda>in_fee.
     and_then (get_target_uncertainty_fees lp out_position_delay out_oracle_delay current_slot c) (\<lambda>u.
     and_then (safe_add I128 out_fee u) (\<lambda>out_fee.
     and_then (fee_amount in_amount (min in_fee MAX_SWAP_FEE)) (\<lambda>in_fee_amount.
     and_then (safe_sub I128 signed_in in_fee_amount) (\<lambda>v.
     and_then (cast U128 v) (\<lambda>v.
     and_then (safe_mul U128 v swap_price_num) (\<lambda>v.
     and_then (safe_div U128 v swap_price_denom) (\<lambda>out_amount.
     and_then (fee_amount out_amount (min out_fee MAX_SWAP_FEE)) (\<lambda>out_fee_amount.
     Ok (in_amount, out_amount, in_fee_amount, out_fee_amount))))))))))))))"

text \<open>The shares a deposit of tokens is worth, and the tokens a share of the pool is worth.\<close>

definition minted_shares :: "lp_pool \<Rightarrow> int \<Rightarrow> int \<Rightarrow> int \<Rightarrow> int \<Rightarrow> int result" where
  "minted_shares lp decimals price in_amount_less_fees dlp_total_supply =
     and_then (plain_pow U128 10 decimals) (\<lambda>token_precision_denominator.
     and_then (cast U128 price) (\<lambda>p.
     and_then (safe_mul U128 p in_amount_less_fees) (\<lambda>token_amount_usd.
     if dlp_total_supply = 0 then safe_div U128 token_amount_usd token_precision_denominator
     else
       and_then (safe_mul U128 token_amount_usd dlp_total_supply) (\<lambda>v.
       and_then (safe_div U128 v (lp_last_aum lp)) (\<lambda>v.
       safe_div U128 v token_precision_denominator)))))"

definition redeemed_tokens :: "lp_pool \<Rightarrow> int \<Rightarrow> int \<Rightarrow> int \<Rightarrow> int \<Rightarrow> int result" where
  "redeemed_tokens lp decimals price lp_amount_less_fees dlp_total_supply =
     and_then (plain_pow U128 10 decimals) (\<lambda>token_precision_denominator.
     and_then (cast U128 lp_amount_less_fees) (\<lambda>v.
     and_then (safe_mul U128 v 1000) (\<lambda>v.
     and_then (safe_mul U128 v PERCENTAGE_PRECISION) (\<lambda>v.
     and_then (safe_div U128 v dlp_total_supply) (\<lambda>proportion.
     and_then (safe_mul U128 (lp_last_aum lp) proportion) (\<lambda>v.
     and_then (safe_mul U128 v token_precision_denominator) (\<lambda>v.
     and_then (safe_div U128 v PERCENTAGE_PRECISION) (\<lambda>v.
     and_then (safe_div U128 v 1000) (\<lambda>v.
     and_then (cast U128 price) (\<lambda>p.
     safe_div U128 v p))))))))))"

definition lp_burn_amount :: "int \<Rightarrow> int \<Rightarrow> int" where
  "lp_burn_amount dlp_total_supply lp_to_burn =
     (if saturating_sub U64 dlp_total_supply lp_to_burn \<le> QUOTE_PRECISION
      then saturating_sub U64 dlp_total_supply QUOTE_PRECISION else lp_to_burn)"

definition lp_burn_fee :: "lp_pool \<Rightarrow> int \<Rightarrow> int result" where
  "lp_burn_fee lp burn =
     and_then (cast I128 burn) (\<lambda>b.
     and_then (cast I128 (lp_min_mint_fee lp)) (\<lambda>f.
     and_then (safe_mul I128 b f) (\<lambda>v.
     and_then (safe_div I128 v PERCENTAGE_PRECISION) (\<lambda>v.
     cast I64 v))))"

definition lp_mint_fee :: "lp_pool \<Rightarrow> int \<Rightarrow> int result" where
  "lp_mint_fee lp lp_amount =
     and_then (safe_mul U128 lp_amount (as_u128 (lp_min_mint_fee lp))) (\<lambda>v.
     and_then (safe_div U128 v PERCENTAGE_PRECISION) (\<lambda>v.
     cast I64 v))"

definition get_add_liquidity_mint_amount ::
  "lp_pool \<Rightarrow> int \<Rightarrow> int \<Rightarrow> spot_market \<Rightarrow> constituent \<Rightarrow> int \<Rightarrow> oracle_price_data \<Rightarrow> int \<Rightarrow> int \<Rightarrow> int \<Rightarrow> slot_clock
     \<Rightarrow> (int \<times> int \<times> int \<times> int) result" where
  "get_add_liquidity_mint_amount lp in_position_delay in_oracle_delay in_spot_market in_constituent in_amount in_oracle
       in_target_weight dlp_total_supply current_slot c =
     and_then
       (if lp_last_aum lp = 0 then Ok (0, 0)
        else
          and_then (cast I128 in_amount) (\<lambda>a.
          get_swap_fees lp in_spot_market (op_price in_oracle) in_constituent a in_target_weight None 0))
       (\<lambda>(in_fee_pct, out_fee_pct).
     and_then (safe_add I128 in_fee_pct out_fee_pct) (\<lambda>in_fee_pct.
     and_then (get_target_uncertainty_fees lp in_position_delay in_oracle_delay current_slot c) (\<lambda>u.
     and_then (plain_add I128 in_fee_pct u) (\<lambda>in_fee_pct.
     and_then (fee_amount in_amount (min in_fee_pct (MAX_SWAP_FEE * 2))) (\<lambda>in_fee_amount.
     and_then (cast I128 in_amount) (\<lambda>a.
     and_then (safe_sub I128 a in_fee_amount) (\<lambda>v.
     and_then (cast U128 (max v 0)) (\<lambda>in_amount_less_fees.
     and_then (minted_shares lp (sm_decimals in_spot_market) (op_price in_oracle) in_amount_less_fees dlp_total_supply)
       (\<lambda>lp_amount.
     and_then (lp_mint_fee lp lp_amount) (\<lambda>lp_fee_to_charge.
     and_then (cast U64 lp_amount) (\<lambda>lp_amount.
     Ok (lp_amount, in_amount, lp_fee_to_charge, in_fee_amount))))))))))))"

definition get_remove_liquidity_amount ::
  "lp_pool \<Rightarrow> int \<Rightarrow> int \<Rightarrow> spot_market \<Rightarrow> constituent \<Rightarrow> int \<Rightarrow> oracle_price_data \<Rightarrow> int \<Rightarrow> int \<Rightarrow> int \<Rightarrow> slot_clock
     \<Rightarrow> (int \<times> int \<times> int \<times> int) result" where
  "get_remove_liquidity_amount lp out_position_delay out_oracle_delay out_spot_market out_constituent lp_to_burn out_oracle
       out_target_weight dlp_total_supply current_slot c =
     (let burn = lp_burn_amount dlp_total_supply lp_to_burn in
      and_then (lp_burn_fee lp burn) (\<lambda>lp_fee_to_charge.
      and_then (safe_sub I128 burn lp_fee_to_charge) (\<lambda>lp_amount_less_fees.
      and_then (redeemed_tokens lp (sm_decimals out_spot_market) (op_price out_oracle) lp_amount_less_fees dlp_total_supply)
        (\<lambda>out_amount.
      and_then (cast I128 out_amount) (\<lambda>a.
      and_then (safe_mul I128 a (-1)) (\<lambda>neg.
      and_then (get_swap_fees lp out_spot_market (op_price out_oracle) out_constituent neg out_target_weight None 0)
        (\<lambda>(in_fee_pct, out_fee_pct).
      and_then (get_target_uncertainty_fees lp out_position_delay out_oracle_delay current_slot c) (\<lambda>u.
      and_then (plain_add I128 out_fee_pct u) (\<lambda>out_fee_pct.
      and_then (safe_add I128 in_fee_pct out_fee_pct) (\<lambda>out_fee_pct.
      and_then (fee_amount out_amount (min out_fee_pct (MAX_SWAP_FEE * 2))) (\<lambda>out_fee_amount.
      Ok (burn, out_amount, lp_fee_to_charge, out_fee_amount))))))))))))"

definition record_mint_redeem_fees :: "lp_pool \<Rightarrow> int \<Rightarrow> lp_pool result" where
  "record_mint_redeem_fees lp amount =
     and_then (cast I128 amount) (\<lambda>a.
     and_then (safe_add I128 (lp_total_mint_redeem_fees_paid lp) a) (\<lambda>v.
     Ok (lp\<lparr>lp_total_mint_redeem_fees_paid := v\<rparr>)))"

interpretation constituent_balance: spot_balance constituent_spot_balance_ops
  by unfold_locales (auto simp: constituent_spot_balance_ops_def ok_iff)

section \<open>Swaps pay at most what they take\<close>

lemma fee_amount_Ok:
  assumes "fee_amount amount fee = Ok v"
  shows "v = amount * fee sdiv 1000000"
  using assms by (auto simp: fee_amount_def ok_iff)

lemma swap_price_Ok:
  assumes "get_swap_price din dout i o' = Ok (num, denom)" "0 \<le> din" "0 \<le> dout"
  shows "0 \<le> num \<and> 0 \<le> denom
    \<and> num * (op_price o' * 10 ^ nat din) = denom * (op_price i * 10 ^ nat dout) \<and> 0 \<le> op_price i \<and> 0 \<le> op_price o'"
proof -
  have e: "(10::int) ^ nat a = 10 ^ nat b * 10 ^ nat (a - b)" if "b \<le> a" "0 \<le> b" for a b :: int
    using that by (simp flip: power_add add: nat_diff_distrib)
  show ?thesis
  proof (cases "din < dout")
    case True
    then show ?thesis using assms e [of din dout] by (auto simp: get_swap_price_def ok_iff dest: fits_nonneg)
  next
    case False
    then show ?thesis using assms e [of dout din] by (auto simp: get_swap_price_def ok_iff dest: fits_nonneg)
  qed
qed

lemma swap_amount_Ok:
  assumes "get_swap_amount lp ip po io oo i o' ci co sm sm' iw ow amount corr slot c = Ok (x, y, fi, fo)"
  shows "\<exists>num denom inf outf. get_swap_price (sm_decimals sm) (sm_decimals sm') i o' = Ok (num, denom)
    \<and> x = amount \<and> fi = amount * min inf 37500 sdiv 1000000 \<and> fo = y * min outf 37500 sdiv 1000000
    \<and> 0 \<le> amount - fi \<and> denom \<noteq> 0 \<and> y = (amount - fi) * num sdiv denom"
  using assms unfolding get_swap_amount_def
  by (elim and_thenE case_prod_OkE) (auto simp: ok_iff dest!: fee_amount_Ok)

lemma cross_div:
  fixes y :: int
  assumes "y = v * num div denom" "num * Q = denom * P" "0 < denom" "0 \<le> Q"
  shows "y * Q \<le> v * P"
proof -
  have "denom * (y * Q) = y * denom * Q" by (simp add: ac_simps)
  also have "\<dots> \<le> v * num * Q"
    using assms(1,3,4) by (intro mult_right_mono) (auto simp: minus_mod_eq_mult_div [symmetric] mult.commute)
  also have "\<dots> = denom * (v * P)" using assms(2) by (simp add: ac_simps)
  finally show ?thesis using assms(3) by simp
qed

lemma fee_at_most:
  fixes x :: int
  assumes "0 \<le> x" "0 \<le> cap"
  shows "x * min f cap sdiv 1000000 * 1000000 \<le> x * cap"
proof (cases "0 \<le> min f cap")
  case True
  then have "x * min f cap sdiv 1000000 = x * min f cap div 1000000" using assms by simp
  moreover have "x * min f cap div 1000000 * 1000000 \<le> x * min f cap"
    by (simp add: minus_mod_eq_div_mult [symmetric])
  moreover have "x * min f cap \<le> x * cap" using assms by (intro mult_left_mono) auto
  ultimately show ?thesis by simp
next
  case False
  then have "x * min f cap \<le> 0" using assms by (intro mult_nonneg_nonpos) auto
  then have "x * min f cap sdiv 1000000 \<le> 0" by (intro sdiv_le) auto
  moreover have "0 \<le> x * cap" using assms by simp
  ultimately show ?thesis by linarith
qed

lemma swap_pays_at_most:
  assumes "get_swap_amount lp ip po io oo i o' ci co sm sm' iw ow amount corr slot c = Ok (x, y, fi, fo)"
    and "0 \<le> sm_decimals sm" "0 \<le> sm_decimals sm'" "0 \<le> amount"
  shows "y * (op_price o' * 10 ^ nat (sm_decimals sm)) \<le> (x - fi) * (op_price i * 10 ^ nat (sm_decimals sm'))
    \<and> fi * 1000000 \<le> x * 37500"
proof -
  obtain num denom f where p: "get_swap_price (sm_decimals sm) (sm_decimals sm') i o' = Ok (num, denom)"
    and x: "x = amount" "fi = amount * min f 37500 sdiv 1000000" "0 \<le> amount - fi" "denom \<noteq> 0"
    and y: "y = (amount - fi) * num sdiv denom"
    using swap_amount_Ok [OF assms(1)] by blast
  note q = swap_price_Ok [OF p assms(2,3)]
  have "y = (amount - fi) * num div denom" using y x(3) q by simp
  moreover have "0 < denom" using q x(4) by simp
  ultimately have "y * (op_price o' * 10 ^ nat (sm_decimals sm)) \<le> (x - fi) * (op_price i * 10 ^ nat (sm_decimals sm'))"
    using q x(1) by (auto intro: cross_div)
  then show ?thesis using fee_at_most [OF assms(4), of 37500 f] x by simp
qed

section \<open>Shares are not diluted\<close>

lemma minted_shares_Ok:
  assumes "minted_shares lp d p v shares = Ok l" "0 < shares" "0 \<le> lp_last_aum lp"
  shows "0 \<le> l \<and> 0 \<le> p \<and> l * (lp_last_aum lp * 10 ^ nat d) \<le> p * v * shares"
proof -
  let ?D = "10 ^ nat d :: int"
  have r: "0 \<le> p" "0 \<le> p * v" "lp_last_aum lp \<noteq> 0" "l = p * v * shares sdiv lp_last_aum lp sdiv ?D"
    using assms(1,2) by (auto simp: minted_shares_def ok_iff)
  have n: "0 \<le> p * v * shares" using r(2) assms(2) by simp
  have pos: "0 < lp_last_aum lp" using r(3) assms(3) by simp
  then have d: "l = p * v * shares div (lp_last_aum lp * ?D)"
    using r(4) n by (simp add: zdiv_zmult2_eq pos_imp_zdiv_nonneg_iff)
  have "0 < lp_last_aum lp * ?D" using pos by simp
  moreover from this have "0 \<le> l" using d n by (simp add: pos_imp_zdiv_nonneg_iff)
  ultimately show ?thesis using d r(1) by (simp add: minus_mod_eq_div_mult [symmetric])
qed

lemma redeemed_tokens_Ok:
  assumes "redeemed_tokens lp d p b shares = Ok y" "0 < shares" "0 \<le> lp_last_aum lp"
  shows "0 \<le> b \<and> 0 \<le> y \<and> 0 < p \<and> y * p * shares \<le> lp_last_aum lp * b * 10 ^ nat d"
proof -
  let ?D = "10 ^ nat d :: int" and ?A = "lp_last_aum lp"
  define q where "q = b * 1000 * 1000000 div shares"
  have r: "0 \<le> b" "0 < p" "y = ?A * (b * 1000 * 1000000 sdiv shares) * ?D sdiv 1000000 sdiv 1000 sdiv p"
    using assms(1) by (auto simp: redeemed_tokens_def ok_iff dest: fits_nonneg)
  have q: "0 \<le> q" "q * shares \<le> b * 1000000000"
    using r(1) assms(2) by (simp_all add: q_def pos_imp_zdiv_nonneg_iff minus_mod_eq_div_mult [symmetric])
  have "y = ?A * q * ?D sdiv 1000000 sdiv 1000 sdiv p" using r(1,3) assms(2) by (simp add: q_def)
  then have y: "y = ?A * q * ?D div (1000000000 * p)"
    using q(1) assms(3) r(2) by (simp add: zdiv_zmult2_eq [of _ 1000000000] pos_imp_zdiv_nonneg_iff flip: zdiv_zmult2_eq)
  have "0 \<le> y" using y q(1) assms(3) r(2) by (simp add: pos_imp_zdiv_nonneg_iff)
  moreover have "y * (1000000000 * p) \<le> ?A * q * ?D" using y r(2) by (simp add: minus_mod_eq_div_mult [symmetric])
  then have "y * p * shares * 1000000000 \<le> ?A * ?D * (q * shares)"
    using assms(2) mult_right_mono [of "y * (1000000000 * p)" "?A * q * ?D" shares] by (simp add: ac_simps)
  moreover have "\<dots> \<le> ?A * ?D * (b * 1000000000)" using q(2) assms(3) by (intro mult_left_mono) auto
  ultimately show ?thesis using r by (simp add: ac_simps)
qed

lemma mint_amount_Ok:
  assumes "get_add_liquidity_mint_amount lp ip io sm ct amount p w shares slot c = Ok (l, x, lf, fi)"
  shows "x = amount \<and> minted_shares lp (sm_decimals sm) (op_price p) (max (x - fi) 0) shares = Ok l"
  using assms unfolding get_add_liquidity_mint_amount_def
  by (elim and_thenE case_prod_OkE) (simp add: ok_iff)

lemma redeem_amount_Ok:
  assumes "get_remove_liquidity_amount lp ip io sm ct to_burn p w shares slot c = Ok (l, y, lf, fo)"
  shows "l = lp_burn_amount shares to_burn \<and> lp_burn_fee lp l = Ok lf
    \<and> redeemed_tokens lp (sm_decimals sm) (op_price p) (l - lf) shares = Ok y"
  using assms unfolding get_remove_liquidity_amount_def Let_def
  by (elim and_thenE case_prod_OkE) (simp add: ok_iff)

lemma lp_burn_amount_le:
  assumes "0 \<le> to_burn" "1000000 \<le> shares" "fits U64 shares"
  shows "lp_burn_amount shares to_burn \<le> to_burn \<and> 1000000 \<le> shares - lp_burn_amount shares to_burn"
  using assms by (auto simp: lp_burn_amount_def saturating_sub_def fits_def)

text \<open>
  Shares minted and at once redeemed return no more tokens than were paid in, when the pool has grown
  by at most the value of the deposit in between.
\<close>

lemma mint_redeem_round_trip:
  assumes mint: "get_add_liquidity_mint_amount lp ip io sm ct amount p w shares slot c = Ok (l, x, lf, fi)"
    and redeem: "get_remove_liquidity_amount lp' ip' io' sm ct' l p w' (shares + l) slot' c = Ok (b, y, bf, fo)"
    and pool: "1000000 \<le> shares" "fits U64 (shares + l)" "0 \<le> lp_last_aum lp" "0 \<le> lp_last_aum lp'" "0 \<le> lp_min_mint_fee lp'"
    and grown: "lp_last_aum lp' * 10 ^ nat (sm_decimals sm) \<le> lp_last_aum lp * 10 ^ nat (sm_decimals sm) + op_price p * x"
    and fee: "0 \<le> fi" "0 \<le> x"
  shows "y \<le> x"
proof -
  let ?D = "10 ^ nat (sm_decimals sm) :: int" and ?S = "shares + l" and ?p = "op_price p"
  have m: "0 \<le> l" "0 \<le> ?p" "l * (lp_last_aum lp * ?D) \<le> ?p * max (x - fi) 0 * shares"
    using mint_amount_Ok [OF mint] minted_shares_Ok [of lp "sm_decimals sm" ?p "max (x - fi) 0" shares l] pool by auto
  have r: "b = lp_burn_amount ?S l" "lp_burn_fee lp' b = Ok bf" "redeemed_tokens lp' (sm_decimals sm) ?p (b - bf) ?S = Ok y"
    using redeem_amount_Ok [OF redeem] by auto
  have q: "0 \<le> b - bf" "0 < ?p" "y * ?p * ?S \<le> lp_last_aum lp' * (b - bf) * ?D"
    using redeemed_tokens_Ok [OF r(3)] m(1) pool by auto
  have "b \<le> l" using r(1) lp_burn_amount_le [of l ?S] m(1) pool by simp
  moreover have "0 \<le> bf"
  proof -
    have "0 \<le> b" using r(1) m(1) pool(1) by (auto simp: lp_burn_amount_def saturating_sub_def)
    then show ?thesis using r(2) pool(5) by (auto simp: lp_burn_fee_def ok_iff pos_imp_zdiv_nonneg_iff)
  qed
  ultimately have "lp_last_aum lp' * (b - bf) * ?D \<le> lp_last_aum lp' * l * ?D"
    using pool(4) by (intro mult_right_mono mult_left_mono) auto
  also have "\<dots> = lp_last_aum lp' * ?D * l" by simp
  also have "\<dots> \<le> (lp_last_aum lp * ?D + ?p * x) * l" using grown m(1) by (rule mult_right_mono)
  also have "\<dots> \<le> ?p * x * shares + ?p * x * l"
  proof -
    have "?p * max (x - fi) 0 * shares \<le> ?p * x * shares"
      using fee m(2) pool(1) by (intro mult_right_mono mult_left_mono) auto
    then show ?thesis using m(3) by (simp add: algebra_simps)
  qed
  also have "\<dots> = x * (?p * ?S)" by (simp add: algebra_simps)
  finally have "y * (?p * ?S) \<le> x * (?p * ?S)" using q(3) by (simp add: ac_simps)
  then show ?thesis using q(2) m(1) pool(1) by (simp add: mult_le_cancel_right)
qed

end
