(* ===== verification/Amm_Cache.thy ===== *)
theory Amm_Cache
  imports Amm_Quoter
begin

text \<open>
  The cache of the AMMs that the hedge pool reads (\<open>vlp/amm_cache.rs\<close>): for every perp market its
  position, oracle price and pool balances at the last update, and the quote the pool owes the market.
  The amount owed follows the change of what the AMM holds, so an update with no change in between
  leaves it as it is, and a withdrawal recorded in the cache is not read as a loss.
\<close>

section \<open>The cached entry of a market\<close>

record cache_info =
  ca_oracle :: pubkey
  ca_last_fee_pool_token_amount :: int
  ca_last_net_pnl_pool_token_amount :: int
  ca_last_exchange_fees :: int
  ca_last_settle_amm_ex_fees :: int
  ca_last_settle_amm_pnl :: int
  ca_position :: int
  ca_slot :: int
  ca_last_settle_amount :: int
  ca_last_settle_slot :: int
  ca_last_settle_ts :: int
  ca_quote_owed_from_lp_pool :: int
  ca_amm_inventory_limit :: int
  ca_oracle_price :: int
  ca_oracle_slot :: int
  ca_market_index :: int
  ca_oracle_source :: int
  ca_oracle_validity :: int
  ca_lp_status_for_perp_market :: int
  ca_amm_position_scalar :: int

definition default_cache_info :: cache_info where
  "default_cache_info =
     \<lparr> ca_oracle = 0, ca_last_fee_pool_token_amount = 0, ca_last_net_pnl_pool_token_amount = 0,
       ca_last_exchange_fees = 0, ca_last_settle_amm_ex_fees = 0, ca_last_settle_amm_pnl = 0, ca_position = 0,
       ca_slot = 0, ca_last_settle_amount = 0, ca_last_settle_slot = 0, ca_last_settle_ts = 0,
       ca_quote_owed_from_lp_pool = 0, ca_amm_inventory_limit = 0, ca_oracle_price = 0, ca_oracle_slot = 0,
       ca_market_index = 0, ca_oracle_source = 0, ca_oracle_validity = 0, ca_lp_status_for_perp_market = 0,
       ca_amm_position_scalar = 0 \<rparr>"

definition get_oracle_source :: "cache_info \<Rightarrow> oracle_source result" where
  "get_oracle_source c = oracle_source_try_from (ca_oracle_source c)"

definition cache_oracle_id :: "cache_info \<Rightarrow> (pubkey \<times> oracle_source) result" where
  "cache_oracle_id c = and_then (get_oracle_source c) (\<lambda>s. Ok (ca_oracle c, s))"

definition has_amm_snapshot :: "cache_info \<Rightarrow> bool" where
  "has_amm_snapshot c \<longleftrightarrow>
     ca_last_net_pnl_pool_token_amount c \<noteq> 0 \<or> ca_last_fee_pool_token_amount c \<noteq> 0 \<or> ca_last_exchange_fees c \<noteq> 0"

definition cache_record_fee_pool_withdrawal :: "cache_info \<Rightarrow> int \<Rightarrow> cache_info result" where
  "cache_record_fee_pool_withdrawal c amount =
     (if \<not> has_amm_snapshot c then Ok c
      else
        (let from_fee_pool = min amount (ca_last_fee_pool_token_amount c) in
         and_then (safe_sub U128 (ca_last_fee_pool_token_amount c) from_fee_pool) (\<lambda>fee_pool.
         and_then (safe_sub U128 amount from_fee_pool) (\<lambda>v.
         and_then (cast I128 v) (\<lambda>v.
         and_then (safe_sub I128 (ca_last_net_pnl_pool_token_amount c) v) (\<lambda>pnl_pool.
         Ok (c\<lparr>ca_last_fee_pool_token_amount := fee_pool, ca_last_net_pnl_pool_token_amount := pnl_pool\<rparr>)))))))"

definition get_last_available_amm_token_amount :: "cache_info \<Rightarrow> int result" where
  "get_last_available_amm_token_amount c =
     and_then (cast I128 (ca_last_fee_pool_token_amount c)) (\<lambda>f.
     safe_add I128 f (ca_last_net_pnl_pool_token_amount c))"

definition update_perp_market_fields :: "cache_info \<Rightarrow> perp_market \<Rightarrow> cache_info result" where
  "update_perp_market_fields c m =
     and_then (get_protocol_owned_position (pm_amm m)) (\<lambda>p.
     and_then (safe_mul I64 p (-1)) (\<lambda>p.
     Ok (c\<lparr> ca_oracle := pm_oracle m, ca_oracle_source := oracle_source_to_u8 (pm_oracle_source m), ca_position := p,
            ca_lp_status_for_perp_market := hc_status (pm_hedge_config m) \<rparr>)))"

primrec perp_max_confidence_interval_multiplier :: "contract_tier \<Rightarrow> int" where
  "perp_max_confidence_interval_multiplier CT_A = 1"
| "perp_max_confidence_interval_multiplier CT_B = 1"
| "perp_max_confidence_interval_multiplier CT_C = 2"
| "perp_max_confidence_interval_multiplier CT_Speculative = 10"
| "perp_max_confidence_interval_multiplier CT_HighlySpeculative = 50"
| "perp_max_confidence_interval_multiplier CT_Isolated = 50"

definition try_update_oracle_info ::
  "cache_info \<Rightarrow> int \<Rightarrow> mm_oracle_price_data \<Rightarrow> perp_market \<Rightarrow> oracle_guard_rails \<Rightarrow> slot_clock \<Rightarrow> cache_info result" where
  "try_update_oracle_info c clock_slot mm m rails clock =
     (let safe = mo_safe_oracle_price_data mm in
      and_then (oracle_validity (ho_last_oracle_price_twap (ms_historical_oracle_data (pm_market_stats m))) safe
        (og_validity rails) (perp_max_confidence_interval_multiplier (pm_contract_tier m)) (pm_oracle_source m)
        (pm_oracle_slot_delay_override m) (mo_safe_price_is_mm_sourced mm) (pm_oracle_low_risk_slot_delay_override m)
        clock_slot clock) (\<lambda>validity.
      and_then
        (if is_oracle_valid_for_action validity (Some UpdateAmmCache) then
           and_then (safe_sub U64 clock_slot (max (op_delay safe) 0)) (\<lambda>s.
           and_then (oracle_validity_to_u8 validity) (\<lambda>code.
           Ok (c\<lparr>ca_oracle_price := op_price safe, ca_oracle_slot := s, ca_oracle_validity := code\<rparr>)))
         else Ok c) (\<lambda>c.
      Ok (c\<lparr>ca_slot := clock_slot\<rparr>))))"

section \<open>The cache\<close>

text \<open>Entries are addressed by position, but for the settlement, which searches the market index.\<close>

definition cache_update_perp_market_fields :: "cache_info list \<Rightarrow> perp_market \<Rightarrow> cache_info list result" where
  "cache_update_perp_market_fields cache m =
     (let i = nat (pm_market_index m) in
      if i < length cache then map_ok (\<lambda>c. cache[i := c]) (update_perp_market_fields (cache ! i) m)
      else Err DefaultError)"

definition owed_to_lp_pool :: "cache_info list \<Rightarrow> int \<Rightarrow> int" where
  "owed_to_lp_pool cache market_index =
     (let i = nat market_index in
      if i < length cache then \<bar>min (ca_quote_owed_from_lp_pool (cache ! i)) 0\<bar> else 0)"

definition record_cached_withdrawal :: "cache_info list \<Rightarrow> int \<Rightarrow> int \<Rightarrow> cache_info list result" where
  "record_cached_withdrawal cache market_index amount =
     (let i = nat market_index in
      if i < length cache then map_ok (\<lambda>c. cache[i := c]) (cache_record_fee_pool_withdrawal (cache ! i) amount)
      else Ok cache)"

definition update_oracle_info ::
  "cache_info list \<Rightarrow> int \<Rightarrow> int \<Rightarrow> mm_oracle_price_data \<Rightarrow> perp_market \<Rightarrow> oracle_guard_rails \<Rightarrow> slot_clock
     \<Rightarrow> cache_info list result" where
  "update_oracle_info cache clock_slot market_index mm m rails clock =
     (let i = nat market_index in
      if i < length cache
      then map_ok (\<lambda>c. cache[i := c]) (try_update_oracle_info (cache ! i) clock_slot mm m rails clock)
      else Err DefaultError)"

definition get_for_market_index :: "cache_info list \<Rightarrow> int \<Rightarrow> cache_info result" where
  "get_for_market_index cache market_index =
     (case position_of (\<lambda>c. ca_market_index c = market_index) cache of
        Some i \<Rightarrow> Ok (cache ! i) | None \<Rightarrow> Err MarketIndexNotFoundAmmCache)"

text \<open>An entry that was never updated has slot 0 and is not checked.\<close>

definition check_staleness :: "(cache_info \<Rightarrow> int) \<Rightarrow> cache_info list \<Rightarrow> int \<Rightarrow> int \<Rightarrow> unit result" where
  "check_staleness slot_of cache slot threshold =
     validate (list_all (\<lambda>c. ca_slot c = 0 \<or> \<not> slot_of c < saturating_sub U64 slot threshold) cache) AMMCacheStale"

definition check_settle_staleness :: "cache_info list \<Rightarrow> int \<Rightarrow> int \<Rightarrow> unit result" where
  "check_settle_staleness = check_staleness ca_last_settle_slot"

definition check_perp_market_staleness :: "cache_info list \<Rightarrow> int \<Rightarrow> int \<Rightarrow> unit result" where
  "check_perp_market_staleness = check_staleness ca_slot"

definition check_oracle_staleness :: "cache_info list \<Rightarrow> int \<Rightarrow> int \<Rightarrow> unit result" where
  "check_oracle_staleness = check_staleness ca_oracle_slot"

text \<open>What the AMM of a market holds: its fee pool and its pnl pool net of the profit of the users.\<close>

definition net_pnl_pool :: "cache_info \<Rightarrow> perp_market \<Rightarrow> spot_market \<Rightarrow> int result" where
  "net_pnl_pool c m quote_market =
     and_then (get_token_amount (pb_scaled_balance (pm_pnl_pool m)) quote_market Deposit) (\<lambda>v.
     and_then (cast I128 v) (\<lambda>v.
     and_then (calculate_net_user_pnl (pm_amm m) (ca_oracle_price c) (pm_quote_asset_amount m)
       (pm_net_unsettled_funding_pnl m)) (\<lambda>p.
     safe_sub I128 v p)))"

definition amount_to_send_to_lp_pool :: "cache_info \<Rightarrow> perp_market \<Rightarrow> int \<Rightarrow> int result" where
  "amount_to_send_to_lp_pool c m amm_amount_available =
     (let exchange_fee_delta = saturating_sub U128 (fl_total_exchange_fee (pm_fee_ledger m)) (ca_last_exchange_fees c) in
      and_then (get_last_available_amm_token_amount c) (\<lambda>l.
      and_then (safe_sub I128 amm_amount_available l) (\<lambda>v.
      and_then (safe_mul I128 v (hc_fee_transfer_scalar (pm_hedge_config m))) (\<lambda>v.
      and_then (safe_div_ceil I128 v 100) (\<lambda>v.
      and_then (cast I128 exchange_fee_delta) (\<lambda>f.
      and_then (safe_mul I128 f (hc_exchange_fee_exclusion_scalar (pm_hedge_config m))) (\<lambda>f.
      and_then (safe_div_ceil I128 f 100) (\<lambda>f.
      safe_sub I128 v f))))))))"

definition update_amount_owed :: "cache_info \<Rightarrow> perp_market \<Rightarrow> spot_market \<Rightarrow> cache_info result" where
  "update_amount_owed c m quote_market =
     and_then (fee_pool_token_amount (pm_amm m) quote_market) (\<lambda>fee_pool.
     and_then (net_pnl_pool c m quote_market) (\<lambda>pnl_pool.
     and_then (cast I128 fee_pool) (\<lambda>f.
     and_then (safe_add I128 pnl_pool f) (\<lambda>amm_amount_available.
     if \<not> has_amm_snapshot c then
       Ok (c\<lparr> ca_last_fee_pool_token_amount := fee_pool, ca_last_net_pnl_pool_token_amount := pnl_pool,
              ca_last_exchange_fees := fl_total_exchange_fee (pm_fee_ledger m),
              ca_last_settle_amm_ex_fees := fl_total_exchange_fee (pm_fee_ledger m), ca_last_settle_amm_pnl := pnl_pool \<rparr>)
     else
       and_then (amount_to_send_to_lp_pool c m amm_amount_available) (\<lambda>v.
       and_then (cast I64 v) (\<lambda>v.
       and_then (safe_sub I64 (ca_quote_owed_from_lp_pool c) v) (\<lambda>owed.
       Ok (c\<lparr> ca_quote_owed_from_lp_pool := owed, ca_last_fee_pool_token_amount := fee_pool,
              ca_last_net_pnl_pool_token_amount := pnl_pool,
              ca_last_exchange_fees := fl_total_exchange_fee (pm_fee_ledger m) \<rparr>))))))))"

definition update_amount_owed_from_lp_pool ::
  "cache_info list \<Rightarrow> perp_market \<Rightarrow> spot_market \<Rightarrow> cache_info list result" where
  "update_amount_owed_from_lp_pool cache m quote_market =
     (let i = nat (pm_market_index m) in
      with_nth i cache (\<lambda>c. map_ok (\<lambda>c. cache[i := c]) (update_amount_owed c m quote_market)))"

section \<open>What is owed follows what the AMM holds\<close>

text \<open>What a market has against the pool: what the AMM held at the last update and what it is owed.\<close>

definition cached_available :: "cache_info \<Rightarrow> int" where
  "cached_available c = ca_last_fee_pool_token_amount c + ca_last_net_pnl_pool_token_amount c"

lemma withdrawal_available:
  assumes "cache_record_fee_pool_withdrawal c amount = Ok c'"
  shows "ca_quote_owed_from_lp_pool c' = ca_quote_owed_from_lp_pool c
    \<and> (has_amm_snapshot c \<longrightarrow> cached_available c' = cached_available c - amount)"
  using assms by (auto simp: cache_record_fee_pool_withdrawal_def Let_def ok_iff cached_available_def split: if_split_asm)

lemma update_amount_owed_Ok:
  assumes "update_amount_owed c m q = Ok c'"
  obtains fee pnl where "fee_pool_token_amount (pm_amm m) q = Ok fee" "net_pnl_pool c m q = Ok pnl"
    "ca_last_fee_pool_token_amount c' = fee" "ca_last_net_pnl_pool_token_amount c' = pnl"
    "ca_last_exchange_fees c' = fl_total_exchange_fee (pm_fee_ledger m)" "ca_oracle_price c' = ca_oracle_price c"
    "has_amm_snapshot c \<Longrightarrow> \<exists>v. amount_to_send_to_lp_pool c m (pnl + fee) = Ok v
       \<and> ca_quote_owed_from_lp_pool c' = ca_quote_owed_from_lp_pool c - v"
    "\<not> has_amm_snapshot c \<Longrightarrow> ca_quote_owed_from_lp_pool c' = ca_quote_owed_from_lp_pool c"
  using assms unfolding update_amount_owed_def
  by (elim and_thenE if_OkE) (rule that; auto simp: ok_iff)+

lemma amount_to_send_unchanged:
  assumes "amount_to_send_to_lp_pool c m (cached_available c) = Ok v"
    and "ca_last_exchange_fees c = fl_total_exchange_fee (pm_fee_ledger m)" "0 \<le> fl_total_exchange_fee (pm_fee_ledger m)"
  shows "v = 0"
  using assms by (auto simp: amount_to_send_to_lp_pool_def get_last_available_amm_token_amount_def
      cached_available_def ok_iff Let_def saturating_sub_def)

text \<open>An update on an unchanged market changes nothing: the owed amount does not drift with the crank.\<close>

lemma owed_update_idempotent:
  assumes "update_amount_owed c m q = Ok c1" "update_amount_owed c1 m q = Ok c2" "0 \<le> fl_total_exchange_fee (pm_fee_ledger m)"
  shows "ca_quote_owed_from_lp_pool c2 = ca_quote_owed_from_lp_pool c1"
proof -
  obtain fee pnl where 1: "fee_pool_token_amount (pm_amm m) q = Ok fee" "net_pnl_pool c m q = Ok pnl"
    "ca_last_fee_pool_token_amount c1 = fee" "ca_last_net_pnl_pool_token_amount c1 = pnl"
    "ca_last_exchange_fees c1 = fl_total_exchange_fee (pm_fee_ledger m)" "ca_oracle_price c1 = ca_oracle_price c"
    using assms(1) by (rule update_amount_owed_Ok)
  have same: "net_pnl_pool c1 m q = net_pnl_pool c m q" using 1(6) by (simp add: net_pnl_pool_def)
  show ?thesis using assms(2)
  proof (rule update_amount_owed_Ok)
    fix fee' pnl'
    assume 2: "fee_pool_token_amount (pm_amm m) q = Ok fee'" "net_pnl_pool c1 m q = Ok pnl'"
      "has_amm_snapshot c1 \<Longrightarrow> \<exists>v. amount_to_send_to_lp_pool c1 m (pnl' + fee') = Ok v
         \<and> ca_quote_owed_from_lp_pool c2 = ca_quote_owed_from_lp_pool c1 - v"
      "\<not> has_amm_snapshot c1 \<Longrightarrow> ca_quote_owed_from_lp_pool c2 = ca_quote_owed_from_lp_pool c1"
    have "pnl' + fee' = cached_available c1" using 1(1-4) 2(1,2) same by (simp add: cached_available_def)
    then show ?thesis using 2(3,4) amount_to_send_unchanged [of c1 m] 1(5) assms(3) by (cases "has_amm_snapshot c1") auto
  qed
qed

end
