(* ===== verification/Hedge_Targets.thy ===== *)
theory Hedge_Targets
  imports Hedge_Pool Amm_Cache
begin

text \<open>
  What the hedge pool should hold: the mapping from perp markets to constituents, the target base of
  every constituent, the correlations and the value of the pool (\<open>vlp/hedge/state.rs\<close>,
  \<open>handle_update_constituent_target_base\<close> and \<open>handle_update_lp_pool_aum\<close> of
  \<open>vlp/hedge/instructions.rs\<close>). The loop that merges the sorted constituents with the sorted mapping is a
  \<open>while\<close> loop over an index; it is a partial function here and shown to end. With every constituent in
  the list it computes the sum over the rows of each constituent; without one it does not.
\<close>

section \<open>Library maps\<close>

text \<open>\<open>BTreeMap\<close>: an association list with ascending keys.\<close>

fun btree_insert :: "int \<Rightarrow> 'a \<Rightarrow> (int \<times> 'a) list \<Rightarrow> (int \<times> 'a) list" where
  "btree_insert k v [] = [(k, v)]"
| "btree_insert k v ((k', v') # xs) =
     (if k < k' then (k, v) # (k', v') # xs else if k = k' then (k, v) # xs
      else (k', v') # btree_insert k v xs)"

section \<open>The mapping from perp markets to constituents\<close>

record amm_constituent_datum =
  ad_perp_market_index :: int
  ad_constituent_index :: int
  ad_last_slot :: int
  ad_weight :: int

definition default_amm_constituent_datum :: amm_constituent_datum where
  "default_amm_constituent_datum =
     \<lparr> ad_perp_market_index = 65535, ad_constituent_index = 65535, ad_last_slot = 0, ad_weight = 0 \<rparr>"

definition validate_mapping :: "amm_constituent_datum list \<Rightarrow> unit result" where
  "validate_mapping weights = validate (length weights \<le> 128) DefaultError"

definition sort_mapping :: "amm_constituent_datum list \<Rightarrow> amm_constituent_datum list" where
  "sort_mapping weights = sort_key ad_constituent_index weights"

record targets_datum =
  td_cost_to_trade_bps :: int
  td_target_base :: int
  td_last_oracle_slot :: int
  td_last_position_slot :: int

definition validate_targets :: "targets_datum list \<Rightarrow> unit result" where
  "validate_targets targets =
     and_then (validate (length targets \<le> 128) DefaultError) (\<lambda>_.
     validate (\<not> list_ex (\<lambda>t. td_cost_to_trade_bps t = 0) targets) DefaultError)"

definition calculate_target_weight :: "int \<Rightarrow> spot_market \<Rightarrow> int \<Rightarrow> int \<Rightarrow> int result" where
  "calculate_target_weight target_base spot_market price lp_pool_aum =
     (if lp_pool_aum = 0 then Ok 0
      else
        and_then (safe_mul I128 target_base price) (\<lambda>v.
        and_then (plain_pow I128 10 (sm_decimals spot_market)) (\<lambda>prec.
        and_then (safe_div I128 v prec) (\<lambda>notional.
        and_then (safe_mul I128 notional PERCENTAGE_PRECISION) (\<lambda>v.
        and_then (cast I128 lp_pool_aum) (\<lambda>aum.
        and_then (safe_div I128 v aum) (\<lambda>v.
        and_then (cast I64 v) (\<lambda>v.
        Ok (clamp v (- PERCENTAGE_PRECISION) PERCENTAGE_PRECISION)))))))))"

definition get_target_weight :: "targets_datum list \<Rightarrow> int \<Rightarrow> spot_market \<Rightarrow> int \<Rightarrow> int \<Rightarrow> int result" where
  "get_target_weight targets constituent_index spot_market price aum =
     and_then (validate (constituent_index < int (length targets) mod 2 ^ 16) InvalidConstituent) (\<lambda>_.
     with_nth (nat constituent_index) targets (\<lambda>datum.
     calculate_target_weight (td_target_base datum) spot_market price aum))"

section \<open>The target base of every constituent\<close>

record amm_inventory =
  ai_inventory :: int
  ai_price :: int
  ai_last_oracle_slot :: int
  ai_last_position_slot :: int

record constituent_price =
  ci_constituent_index :: int
  ci_decimals :: int
  ci_price :: int

type_synonym notionals = "int \<rightharpoonup> int \<times> int \<times> int"

text \<open>The notional of every perp market, with the slots of its price and of its position.\<close>

definition notionals_and_slots :: "(int \<times> amm_inventory) list \<Rightarrow> notionals result" where
  "notionals_and_slots inventories =
     try_fold (\<lambda>m (market_index, i).
       and_then (safe_mul I128 (ai_inventory i) (ai_price i)) (\<lambda>v.
       and_then (safe_div I128 v BASE_PRECISION) (\<lambda>notional.
       Ok (m(market_index \<mapsto> (notional, ai_last_oracle_slot i, ai_last_position_slot i))))))
       Map.empty inventories"

text \<open>One row of the mapping added to the running notional and the oldest slots.\<close>

definition add_row :: "notionals \<Rightarrow> amm_constituent_datum \<Rightarrow> int \<times> int \<times> int \<Rightarrow> int \<times> int \<times> int" where
  "add_row ns d acc =
     (case acc of (target_notional, oldest_oracle_slot, oldest_position_slot) \<Rightarrow>
      case ns (ad_perp_market_index d) of
        Some (perp_notional, oracle_slot, position_slot) \<Rightarrow>
          (saturating_add I128 target_notional (saturating_mul I128 perp_notional (ad_weight d)),
           min oldest_oracle_slot oracle_slot, min oldest_position_slot position_slot)
      | None \<Rightarrow> acc)"

partial_function (option) skip_rows :: "amm_constituent_datum list \<Rightarrow> int \<Rightarrow> nat \<Rightarrow> nat option" where
  "skip_rows mapping constituent_index j =
     (if j < length mapping \<and> ad_constituent_index (mapping ! j) < constituent_index
      then skip_rows mapping constituent_index (j + 1) else Some j)"

partial_function (option) target_rows ::
  "amm_constituent_datum list \<Rightarrow> notionals \<Rightarrow> int \<Rightarrow> nat \<Rightarrow> int \<times> int \<times> int \<Rightarrow> ((int \<times> int \<times> int) \<times> nat) option" where
  "target_rows mapping ns constituent_index j acc =
     (if j < length mapping then
        (if ad_constituent_index (mapping ! j) \<noteq> constituent_index
         then Option.bind (skip_rows mapping constituent_index j) (\<lambda>j'. Some (acc, j'))
         else target_rows mapping ns constituent_index (j + 1) (add_row ns (mapping ! j) acc))
      else Some (acc, j))"

declare skip_rows.simps [code] target_rows.simps [code]

text \<open>What the merged rows write to the cell of a constituent.\<close>

definition write_target ::
  "slot_clock \<Rightarrow> int \<Rightarrow> constituent_price \<Rightarrow> int \<times> int \<times> int \<Rightarrow> nat \<Rightarrow> targets_datum list \<Rightarrow> targets_datum list result" where
  "write_target c slot cp acc i targets =
     (case acc of (target_notional, oldest_oracle_slot, oldest_position_slot) \<Rightarrow>
      with_nth i targets (\<lambda>cell.
      and_then (safe_div I128 target_notional PERCENTAGE_PRECISION) (\<lambda>v.
      and_then (plain_pow I128 10 (ci_decimals cp)) (\<lambda>prec.
      and_then (safe_mul I128 v prec) (\<lambda>v.
      and_then (safe_div I128 v (ci_price cp)) (\<lambda>v.
      and_then (plain_neg I128 v) (\<lambda>target_base.
      and_then (cast I64 target_base) (\<lambda>target_base.
      Ok (targets[i := cell
        \<lparr> td_target_base := target_base,
          td_last_position_slot :=
            (if saturating_sub U64 slot oldest_position_slot = 0 then slot else td_last_position_slot cell),
          td_last_oracle_slot :=
            (if elapsed c oldest_oracle_slot slot \<le> MAX_ORACLE_STALENESS_FOR_TARGET_CALC then slot
             else td_last_oracle_slot cell) \<rparr>])))))))))"

fun target_base_loop ::
  "amm_constituent_datum list \<Rightarrow> notionals \<Rightarrow> slot_clock \<Rightarrow> int \<Rightarrow> constituent_price list \<Rightarrow> nat \<Rightarrow> nat
     \<Rightarrow> targets_datum list \<Rightarrow> targets_datum list result option" where
  "target_base_loop mapping ns c slot [] i mapping_index targets = Some (Ok targets)"
| "target_base_loop mapping ns c slot (cp # cps) i mapping_index targets =
     Option.bind (target_rows mapping ns (ci_constituent_index cp) mapping_index (0, ty_max U64, ty_max U64)) (\<lambda>(acc, j).
     case write_target c slot cp acc i targets of
       Ok targets' \<Rightarrow> target_base_loop mapping ns c slot cps (i + 1) j targets'
     | Err e \<Rightarrow> Some (Err e)
     | Panic \<Rightarrow> Some Panic)"

text \<open>\<open>None\<close> is a run that does not end.\<close>

definition update_target_base ::
  "amm_constituent_datum list \<Rightarrow> (int \<times> amm_inventory) list \<Rightarrow> constituent_price list \<Rightarrow> int \<Rightarrow> slot_clock
     \<Rightarrow> targets_datum list \<Rightarrow> targets_datum list result option" where
  "update_target_base mapping inventories constituents slot c targets =
     (case notionals_and_slots inventories of
        Ok ns \<Rightarrow> target_base_loop mapping ns c slot (sort_key ci_constituent_index constituents) 0 0 targets
      | Err e \<Rightarrow> Some (Err e)
      | Panic \<Rightarrow> Some Panic)"

text \<open>
  The instruction that updates the targets. The constituents are those the caller passes: the map is
  loaded from the accounts of the transaction and not compared with the number of constituents of the
  pool.
\<close>

definition scaled_inventory :: "cache_info \<Rightarrow> int result" where
  "scaled_inventory c =
     and_then (safe_mul I64 (ca_position c) (ca_amm_position_scalar c)) (\<lambda>v.
     and_then (safe_div I64 v 100) (\<lambda>scaled.
     and_then (plain_neg I64 (ca_amm_inventory_limit c)) (\<lambda>lo.
     if lo \<le> ca_amm_inventory_limit c then Ok (clamp scaled lo (ca_amm_inventory_limit c)) else Panic)))"

definition amm_inventories :: "cache_info list \<Rightarrow> (int \<times> amm_inventory) list result" where
  "amm_inventories cache =
     try_fold (\<lambda>m c.
       if ca_lp_status_for_perp_market c = 0 then Ok m
       else
         and_then (scaled_inventory c) (\<lambda>inventory.
         Ok (btree_insert (ca_market_index c)
           \<lparr> ai_inventory = inventory, ai_price = ca_oracle_price c, ai_last_oracle_slot = ca_oracle_slot c,
             ai_last_position_slot = ca_slot c \<rparr> m))) [] cache"

definition handle_update_constituent_target_base ::
  "cache_info list \<Rightarrow> amm_constituent_datum list \<Rightarrow> (int \<times> constituent) list \<Rightarrow> int \<Rightarrow> slot_clock \<Rightarrow> targets_datum list
     \<Rightarrow> targets_datum list result option" where
  "handle_update_constituent_target_base cache mapping constituent_map slot c targets =
     (case amm_inventories cache of
        Ok inventories \<Rightarrow>
          if inventories = [] then Some (Ok targets)
          else update_target_base mapping inventories
            (map (\<lambda>(index, ct). \<lparr> ci_constituent_index = index, ci_decimals = ct_decimals ct,
                                    ci_price = ct_last_oracle_price ct \<rparr>) constituent_map) slot c targets
      | Err e \<Rightarrow> Some (Err e)
      | Panic \<Rightarrow> Some Panic)"

section \<open>The value of the pool\<close>

abbreviation (input) ConstituentNotFound :: error_code where "ConstituentNotFound \<equiv> ErrorCode 327"
abbreviation (input) WrongNumberOfConstituents :: error_code where "WrongNumberOfConstituents \<equiv> ErrorCode 330"

definition get_ref :: "(int \<times> constituent) list \<Rightarrow> int \<Rightarrow> constituent result" where
  "get_ref constituent_map index = ok_or (map_of constituent_map index) ConstituentNotFound"

definition as_i16 :: "int \<Rightarrow> int" where
  "as_i16 v = (if v mod 2 ^ 16 \<ge> 2 ^ 15 then v mod 2 ^ 16 - 2 ^ 16 else v mod 2 ^ 16)"

type_synonym derivative_groups = "(int \<times> int list) list"

definition add_derivative :: "constituent \<Rightarrow> derivative_groups \<Rightarrow> derivative_groups" where
  "add_derivative c groups =
     (let parent = ct_constituent_derivative_index c in
      if parent \<ge> 0 \<and> ct_derivative_weight c \<noteq> 0 then
        (case map_of groups parent of
           None \<Rightarrow> btree_insert parent [ct_constituent_index c] groups
         | Some members \<Rightarrow> btree_insert parent (members @ [ct_constituent_index c]) groups)
      else groups)"

text \<open>
  The spot markets of the constituents and the answer of the oracle map for a market, a price with its
  validity, are arguments.
\<close>

record hedge_env =
  he_slot :: int
  he_clock :: slot_clock
  he_constituents :: "(int \<times> constituent) list"
  he_spot_market :: "int \<Rightarrow> spot_market result"
  he_oracle :: "spot_market \<Rightarrow> (oracle_price_data \<times> oracle_validity_class) result"

definition valid_price :: "hedge_env \<Rightarrow> spot_market \<Rightarrow> int result" where
  "valid_price env sm =
     and_then (he_oracle env sm) (\<lambda>(d, v).
     if is_oracle_valid_for_action v (Some UpdateLpPoolAum) then Ok (op_price d) else Err InvalidOracle)"

definition target_notional_of :: "targets_datum list \<Rightarrow> constituent \<Rightarrow> int \<Rightarrow> int result" where
  "target_notional_of targets c price =
     with_nth (nat (ct_constituent_index c)) targets (\<lambda>t.
     and_then (cast I128 (td_target_base t)) (\<lambda>b.
     and_then (cast I128 price) (\<lambda>p.
     and_then (safe_mul I128 b p) (\<lambda>v.
     and_then (plain_pow I128 10 (ct_decimals c)) (\<lambda>prec.
     and_then (safe_div I128 v prec) (\<lambda>v.
     cast I64 v))))))"

definition add_constituent_aum ::
  "lp_pool \<Rightarrow> hedge_env \<Rightarrow> targets_datum list \<Rightarrow> int \<times> int \<times> derivative_groups \<Rightarrow> int
     \<Rightarrow> (int \<times> int \<times> derivative_groups) result" where
  "add_constituent_aum lp env targets s i =
     (case s of (aum, crypto_delta, groups) \<Rightarrow>
      and_then (get_ref (he_constituents env) i) (\<lambda>c.
      and_then (stored_to_millis STORED_UNIT_MS (ct_oracle_staleness_threshold c)) (\<lambda>max_age.
      if elapsed (he_clock env) (ct_last_oracle_slot c) (he_slot env) > max_age then Err ConstituentOracleStale
      else
        and_then (he_spot_market env (ct_spot_market_index c)) (\<lambda>sm.
        and_then (valid_price env sm) (\<lambda>price.
        and_then (get_full_token_amount c sm) (\<lambda>amount.
        and_then (safe_mul I128 amount price) (\<lambda>v.
        and_then (plain_pow I128 10 (sm_decimals sm)) (\<lambda>prec.
        and_then (safe_div I128 v prec) (\<lambda>constituent_aum.
        and_then
          (if ct_constituent_index c \<noteq> lp_quote_consituent_index lp
              \<and> ct_constituent_derivative_index c \<noteq> as_i16 (lp_quote_consituent_index lp)
           then and_then (target_notional_of targets c price) (\<lambda>n. safe_add I128 crypto_delta n)
           else Ok crypto_delta) (\<lambda>crypto_delta.
        Ok (saturating_add I128 aum constituent_aum, crypto_delta, add_derivative c groups)))))))))))"

definition aum_less_owed :: "int \<Rightarrow> int \<Rightarrow> int result" where
  "aum_less_owed aum total_quote_owed =
     (if total_quote_owed > 0 then Ok (max (saturating_sub I128 aum total_quote_owed) QUOTE_PRECISION)
      else if total_quote_owed < 0 then map_ok (\<lambda>o'. saturating_add I128 aum o') (plain_neg I128 total_quote_owed)
      else Ok aum)"

definition update_aum ::
  "lp_pool \<Rightarrow> hedge_env \<Rightarrow> targets_datum list \<Rightarrow> cache_info list \<Rightarrow> (lp_pool \<times> int \<times> int \<times> derivative_groups) result" where
  "update_aum lp env targets cache =
     and_then (try_fold (add_constituent_aum lp env targets) (0, 0, []) (map int [0..<nat (lp_constituents lp)]))
       (\<lambda>(aum, crypto_delta, groups).
     and_then (try_fold (\<lambda>t ci. safe_add I128 t (ca_quote_owed_from_lp_pool ci)) 0 cache) (\<lambda>total_quote_owed.
     and_then (aum_less_owed aum total_quote_owed) (\<lambda>aum.
     and_then (cast U128 (max aum 0)) (\<lambda>aum.
     Ok (lp\<lparr>lp_last_aum := aum, lp_last_aum_slot := he_slot env\<rparr>, aum, crypto_delta, groups)))))"

section \<open>Targets of derivatives\<close>

definition derivative_step ::
  "hedge_env \<Rightarrow> int \<Rightarrow> int \<Rightarrow> int \<Rightarrow> targets_datum list \<times> int \<Rightarrow> int \<Rightarrow> (targets_datum list \<times> int) result" where
  "derivative_step env aum parent_price target_parent_weight s constituent_index =
     (case s of (targets, derivative_weights_sum) \<Rightarrow>
      and_then (get_ref (he_constituents env) constituent_index) (\<lambda>c.
      and_then (he_spot_market env (ct_spot_market_index c)) (\<lambda>sm.
      and_then (valid_price env sm) (\<lambda>price.
      and_then (safe_mul I64 parent_price (as_i64 (ct_constituent_derivative_depeg_threshold c))) (\<lambda>v.
      and_then (safe_div I64 v PERCENTAGE_PRECISION) (\<lambda>depeg_price.
      if price < depeg_price then
        with_nth (nat constituent_index) targets (\<lambda>t.
        Ok (targets[nat constituent_index := t\<lparr>td_target_base := 0\<rparr>], derivative_weights_sum))
      else
        and_then (cast I128 (ct_derivative_weight c)) (\<lambda>w.
        and_then (safe_mul I128 target_parent_weight w) (\<lambda>v.
        and_then (safe_div I128 v PERCENTAGE_PRECISION) (\<lambda>target_weight.
        and_then (cast I128 aum) (\<lambda>a.
        and_then (safe_mul I128 a target_weight) (\<lambda>v.
        and_then (safe_div I128 v PERCENTAGE_PRECISION) (\<lambda>v.
        and_then (plain_pow I128 10 (ct_decimals c)) (\<lambda>prec.
        and_then (safe_mul I128 v prec) (\<lambda>v.
        and_then (safe_div I128 v price) (\<lambda>v.
        with_nth (nat constituent_index) targets (\<lambda>t.
        and_then (cast I64 v) (\<lambda>target_base.
        Ok (targets[nat constituent_index := t\<lparr>td_target_base := target_base\<rparr>],
            saturating_add U64 derivative_weights_sum (ct_derivative_weight c)))))))))))))))))))"

definition group_step ::
  "hedge_env \<Rightarrow> int \<Rightarrow> targets_datum list \<Rightarrow> int \<times> int list \<Rightarrow> targets_datum list result" where
  "group_step env aum targets g =
     (case g of (parent_index, constituent_indexes) \<Rightarrow>
      and_then (get_ref (he_constituents env) parent_index) (\<lambda>parent.
      and_then (he_spot_market env (ct_spot_market_index parent)) (\<lambda>sm.
      and_then (valid_price env sm) (\<lambda>parent_price.
      with_nth (nat parent_index) targets (\<lambda>t.
      and_then (calculate_target_weight (td_target_base t) sm parent_price aum) (\<lambda>target_parent_weight.
      and_then (try_fold (derivative_step env aum parent_price target_parent_weight) (targets, 0) constituent_indexes)
        (\<lambda>(targets, derivative_weights_sum).
      and_then (validate (derivative_weights_sum \<le> PERCENTAGE_PRECISION) InvalidConstituentDerivativeWeights) (\<lambda>_.
      with_nth (nat parent_index) targets (\<lambda>t'.
      and_then (safe_sub U64 PERCENTAGE_PRECISION derivative_weights_sum) (\<lambda>left.
      and_then (safe_mul I64 (td_target_base t) (as_i64 left)) (\<lambda>v.
      and_then (safe_div I64 v PERCENTAGE_PRECISION) (\<lambda>v.
      Ok (targets[nat parent_index := t'\<lparr>td_target_base := v\<rparr>])))))))))))))"

definition update_constituent_target_base_for_derivatives ::
  "hedge_env \<Rightarrow> int \<Rightarrow> derivative_groups \<Rightarrow> targets_datum list \<Rightarrow> targets_datum list result" where
  "update_constituent_target_base_for_derivatives env aum groups targets = try_fold (group_step env aum) targets groups"

definition handle_update_lp_pool_aum ::
  "lp_pool \<Rightarrow> hedge_env \<Rightarrow> targets_datum list \<Rightarrow> cache_info list \<Rightarrow> (lp_pool \<times> targets_datum list) result" where
  "handle_update_lp_pool_aum lp env targets cache =
     and_then (validate (int (length (he_constituents env)) = lp_constituents lp) WrongNumberOfConstituents) (\<lambda>_.
     and_then (update_aum lp env targets cache) (\<lambda>(lp, aum, crypto_delta, groups).
     and_then (cast I128 aum) (\<lambda>a.
     and_then (safe_sub I128 a crypto_delta) (\<lambda>v.
     with_nth (nat (lp_quote_consituent_index lp)) targets (\<lambda>t.
     and_then (cast I64 v) (\<lambda>v.
     and_then (update_constituent_target_base_for_derivatives env aum groups
       (targets[nat (lp_quote_consituent_index lp) := t\<lparr>td_target_base := v\<rparr>])) (\<lambda>targets.
     Ok (lp, targets))))))))"

section \<open>The merge ends\<close>

text \<open>Both loops move the index forward; what they return is told by the rows from the index on.\<close>

lemma skip_rows_ends:
  "skip_rows mapping c j = Some (j + length (takeWhile (\<lambda>d. ad_constituent_index d < c) (drop j mapping)))"
proof (induction "length mapping - j" arbitrary: j)
  case 0
  then show ?case by (subst skip_rows.simps) simp
next
  case (Suc n)
  then have j: "j < length mapping" by simp
  then have "drop j mapping = mapping ! j # drop (Suc j) mapping" by (simp add: Cons_nth_drop_Suc)
  then show ?case using Suc j by (subst skip_rows.simps) simp
qed

lemma target_rows_ends:
  "target_rows mapping ns c j acc =
     (let rest = drop j mapping; own = takeWhile (\<lambda>d. ad_constituent_index d = c) rest in
      Some (fold (add_row ns) own acc,
            j + length own + length (takeWhile (\<lambda>d. ad_constituent_index d < c) (drop (length own) rest))))"
proof (induction "length mapping - j" arbitrary: j acc)
  case 0
  then show ?case by (subst target_rows.simps) simp
next
  case (Suc n)
  then have j: "j < length mapping" by simp
  then have "drop j mapping = mapping ! j # drop (Suc j) mapping" by (simp add: Cons_nth_drop_Suc)
  then show ?case using Suc j by (subst target_rows.simps) (simp add: skip_rows_ends Let_def)
qed

lemma target_base_loop_ends: "\<exists>r. target_base_loop mapping ns c slot cps i j targets = Some r"
proof (induction cps arbitrary: i j targets)
  case (Cons cp cps)
  then show ?case
    by (auto simp: target_rows_ends Let_def split: result.split)
qed simp

lemma update_target_base_ends: "\<exists>r. update_target_base mapping inventories cps slot c targets = Some r"
  using target_base_loop_ends by (auto simp: update_target_base_def split: result.split)

section \<open>The merge computes the sum of the rows\<close>

text \<open>
  The specification: every constituent in turn gets what all the rows of the mapping that name it add
  up to, whatever their place.
\<close>

definition rows_of :: "amm_constituent_datum list \<Rightarrow> int \<Rightarrow> amm_constituent_datum list" where
  "rows_of mapping c = filter (\<lambda>d. ad_constituent_index d = c) mapping"

fun dense_targets ::
  "amm_constituent_datum list \<Rightarrow> notionals \<Rightarrow> slot_clock \<Rightarrow> int \<Rightarrow> constituent_price list \<Rightarrow> nat
     \<Rightarrow> targets_datum list \<Rightarrow> targets_datum list result" where
  "dense_targets mapping ns c slot [] i targets = Ok targets"
| "dense_targets mapping ns c slot (cp # cps) i targets =
     and_then (write_target c slot cp
       (fold (add_row ns) (rows_of mapping (ci_constituent_index cp)) (0, ty_max U64, ty_max U64)) i targets) (\<lambda>targets.
     dense_targets mapping ns c slot cps (i + 1) targets)"

definition spec_targets ::
  "amm_constituent_datum list \<Rightarrow> (int \<times> amm_inventory) list \<Rightarrow> constituent_price list \<Rightarrow> int \<Rightarrow> slot_clock
     \<Rightarrow> targets_datum list \<Rightarrow> targets_datum list result" where
  "spec_targets mapping inventories cps slot c targets =
     and_then (notionals_and_slots inventories) (\<lambda>ns.
     dense_targets mapping ns c slot (sort_key ci_constituent_index cps) 0 targets)"

text \<open>
  In a sorted mapping whose remaining rows name no constituent before \<open>c\<close>, the rows of \<open>c\<close> come first.
\<close>

lemma no_rows: "\<forall>d \<in> set rest. c < ad_constituent_index d \<Longrightarrow> rows_of rest c = []"
  by (auto simp: rows_of_def filter_empty_conv)

lemma own_rows_first:
  assumes "sorted (map ad_constituent_index rest)" "\<forall>d \<in> set rest. c \<le> ad_constituent_index d"
  shows "takeWhile (\<lambda>d. ad_constituent_index d = c) rest = rows_of rest c
    \<and> (\<forall>d \<in> set (drop (length (rows_of rest c)) rest). c < ad_constituent_index d)"
  using assms
proof (induction rest)
  case (Cons d rest)
  show ?case
  proof (cases "ad_constituent_index d = c")
    case True
    then show ?thesis using Cons by (simp add: rows_of_def)
  next
    case False
    then have "\<forall>x \<in> set (d # rest). c < ad_constituent_index x" using Cons.prems by fastforce
    then show ?thesis using False by (simp add: no_rows)
  qed
qed (simp add: rows_of_def)

lemma target_base_loop_dense:
  assumes "sorted (map ad_constituent_index mapping)" "sorted_wrt (<) (map ci_constituent_index cps)"
    and "ad_constituent_index ` set (drop j mapping) \<subseteq> ci_constituent_index ` set cps"
    and "\<forall>d \<in> set (take j mapping). \<forall>cp \<in> set cps. ad_constituent_index d < ci_constituent_index cp"
  shows "target_base_loop mapping ns c slot cps i j targets = Some (dense_targets mapping ns c slot cps i targets)"
  using assms(2-4)
proof (induction cps arbitrary: i j targets)
  case (Cons cp cps)
  let ?c = "ci_constituent_index cp" and ?rest = "drop j mapping"
  let ?own = "rows_of ?rest ?c"
  have s: "sorted (map ad_constituent_index ?rest)" using assms(1) by (simp flip: drop_map add: sorted_wrt_drop)
  have le: "\<forall>d \<in> set ?rest. ?c \<le> ad_constituent_index d" using Cons.prems(1,2) by (auto simp: image_subset_iff) force
  have own: "takeWhile (\<lambda>d. ad_constituent_index d = ?c) ?rest = ?own" using own_rows_first [OF s le] by simp
  have gt: "\<forall>d \<in> set (drop (length ?own) ?rest). ?c < ad_constituent_index d" using own_rows_first [OF s le] by simp
  then have "takeWhile (\<lambda>d. ad_constituent_index d < ?c) (drop (length ?own) ?rest) = []"
    by (cases "drop (length ?own) ?rest") auto
  moreover have "rows_of mapping ?c = ?own"
  proof -
    have "rows_of (take j mapping) ?c = []" using Cons.prems(3) by (fastforce simp: rows_of_def filter_empty_conv)
    then show ?thesis by (metis append_Nil append_take_drop_id filter_append rows_of_def)
  qed
  ultimately have t: "target_rows mapping ns ?c j acc = Some (fold (add_row ns) (rows_of mapping ?c) acc, j + length ?own)" for acc
    by (simp add: target_rows_ends own Let_def)
  have "ad_constituent_index ` set (drop (j + length ?own) mapping) \<subseteq> ci_constituent_index ` set cps"
  proof
    fix x assume "x \<in> ad_constituent_index ` set (drop (j + length ?own) mapping)"
    then obtain d where d: "d \<in> set (drop (length ?own) ?rest)" "x = ad_constituent_index d" by (auto simp: add.commute)
    then show "x \<in> ci_constituent_index ` set cps" using gt Cons.prems(2) by (fastforce dest: in_set_dropD)
  qed
  moreover have "\<forall>d \<in> set (take (j + length ?own) mapping). \<forall>cp \<in> set cps. ad_constituent_index d < ci_constituent_index cp"
  proof -
    have "take (j + length ?own) mapping = take j mapping @ ?own"
      using own by (metis take_add takeWhile_eq_take)
    then show ?thesis using Cons.prems(1,3) by (auto simp: rows_of_def)
  qed
  ultimately show ?case using Cons.IH Cons.prems(1) by (auto simp: t split: result.split)
qed simp

lemma update_target_base_dense:
  assumes "sorted (map ad_constituent_index mapping)" "distinct (map ci_constituent_index cps)"
    and "ad_constituent_index ` set mapping \<subseteq> ci_constituent_index ` set cps"
  shows "update_target_base mapping inventories cps slot c targets = Some (spec_targets mapping inventories cps slot c targets)"
proof -
  have "sorted_wrt (<) (map ci_constituent_index (sort_key ci_constituent_index cps))"
    using assms(2) by (simp add: strict_sorted_iff distinct_map)
  then show ?thesis using target_base_loop_dense [OF assms(1), of "sort_key ci_constituent_index cps" 0] assms(3)
    by (simp add: update_target_base_def spec_targets_def split: result.split)
qed

end
