(* ===== verification/Spec2Isabelle.thy ===== *)
theory Spec2Isabelle
  imports Spot_Bank User_State Auctions Perp_Position Paused_Operations Hedge_Targets
begin

text \<open>
  \<^bold>\<open>A verification library of the Velocity exchange program\<close> (\<open>src/programs/velocity\<close>).

  The program is a derivatives exchange on Solana. Users hold deposits and borrows of tokens in
  \<^emph>\<open>spot markets\<close> and positions in \<^emph>\<open>perp markets\<close>; balances are kept scaled by interest indexes
  that grow as borrowers pay interest; orders are matched against each other at prices that move
  through an auction; an account whose margin fails is liquidated and, in the end, bankrupt. Every
  instruction is atomic: an error leaves all accounts as they were.

  \<^bold>\<open>Reading the model.\<close> A function of the source is a HOL function of the same name that returns a
  \<open>result\<close>: \<open>Ok\<close>, an error with the discriminant of \<open>error.rs\<close>, or \<open>Panic\<close> for an abort (an overflow
  of a plain operator, an index out of range). \<open>e?\<close> is \<open>and_then\<close>. A machine integer is an \<open>int\<close>
  and every operation checks the range of the width the source uses; flag bytes are 8-bit words.
  A struct is a record whose fields carry a prefix (\<open>sm_\<close> spot market, \<open>sp_\<close> spot position, \<open>pp_\<close> perp
  position, \<open>od_\<close> order, \<open>us_\<close> user, \<open>pb_\<close> pool balance); \<open>&mut\<close> arguments are returned. Loops are
  structural recursions over the arrays they walk, or recursions with a measure. The merge of the hedge
  targets is a \<open>while\<close> loop over an index: it is a \<open>partial_function\<close> whose \<open>None\<close> is a run that does not
  end, and is shown never to be \<open>None\<close>. No fuel is used.

  \<^bold>\<open>Theories.\<close>
  \<^item> \<open>Prelude\<close>, \<open>Safe_Math\<close>, \<open>Constants\<close>: results, machine integers, the checked operators of
    \<open>math/safe_math.rs\<close>, \<open>math/casting.rs\<close>, \<open>math/ceil_div.rs\<close>, \<open>math/floor_div.rs\<close>, the constants.
    The collection \<open>ok_iff\<close> says when each operation returns and with which value; the component
    proofs rest on it.
  \<^item> \<open>Transactions\<close>: atomic instructions, runs of them and reachable states; the locales
    \<open>instruction_set\<close> and \<open>monotone_instructions\<close> lift what one instruction keeps to every run.
    They are interpreted on the instructions of a spot market (\<open>Spot_Bank\<close>), on the liquidation state machine
    of a user (\<open>User_State\<close>), on the positions of a perp market (\<open>Perp_Position\<close>) and on the AMM.
  \<^item> \<open>Math_Helpers\<close>: \<open>math/helpers.rs\<close>, \<open>math/stats.rs\<close>, \<open>math/quote_asset.rs\<close>: proportions, averages,
    the periodic update schedule.
  \<^item> \<open>Paused_Operations\<close>: \<open>state/paused_operations.rs\<close>, pause bytes bit by bit.
  \<^item> \<open>Market_State\<close>, \<open>Spot_Balance_Math\<close>, \<open>Spot_Interest\<close>: the spot market account and
    \<open>math/spot_balance.rs\<close>: token and balance conversions with their rounding, the split of interest
    between lenders, insurance fund and protocol with carried fractions, the borrow rate curve,
    accumulated interest.
  \<^item> \<open>Spot_Balance\<close>, \<open>Spot_Accrual\<close>, \<open>Spot_Bank\<close>: \<open>controller/spot_balance.rs\<close>. The trait \<open>SpotBalance\<close> is
    a record of its methods; the locale \<open>spot_balance\<close> states what the trait promises and proves what
    an update does to the market's totals and to the claims on its vault. The locale is interpreted on
    the three implementations: user positions, pools and the deposits of isolated positions (the
    latter two through \<open>deposit_balance\<close>, which extends it). \<open>Spot_Bank\<close> is a market with all balances
    in it and every operation of the controller as an instruction.
  \<^item> \<open>User_Data\<close>, \<open>User_State\<close>: \<open>state/user.rs\<close> and the position slots of \<open>controller/position.rs\<close>: the
    user account, flag bytes (locale \<open>flag_byte\<close>), position and order slots, running totals, and the
    transitions of cross and isolated liquidation and bankruptcy.
  \<^item> \<open>Slot_Clock\<close>: \<open>math/time.rs\<close>, with the sum of slot lengths as the specification of elapsed time.
  \<^item> \<open>Order_Math\<close>, \<open>Auctions\<close>: \<open>math/orders.rs\<close>, \<open>math/matching.rs\<close>, \<open>math/auction.rs\<close> and the methods of
    \<open>Order\<close>: rounding to steps and ticks, fill prices and limits, price bands, auction prices.
  \<^item> \<open>Perp_Market_State\<close>, \<open>Perp_Position\<close>: the perp market account and \<open>controller/position.rs\<close>: every
    update of a position with the totals and counters of the market.
  \<^item> \<open>Oracle\<close>: \<open>state/oracle.rs\<close>, \<open>math/oracle.rs\<close>: prices of the oracle sources, their validity and which
    action accepts which class of validity, the choice of the safe price.
  \<^item> \<open>Amm_Math\<close>, \<open>Amm_Spread\<close>, \<open>Amm_Curve\<close>, \<open>Amm_Quoter\<close>: the AMM (\<open>vlp/amm\<close>): the constant product
    curve, the spreads and the guard against quoting through the oracle, the cost of moving the peg and
    k, and the quoter: offers, fills, making in auctions, the books and the reaction to funding. The
    integer square root comes from a library and is a parameter \<open>isqrt\<close>. The locale \<open>instruction_set\<close> is
    interpreted on everything that changes an AMM.
  \<^item> \<open>Funding_Math\<close>: \<open>math/funding.rs\<close>.
  \<^item> \<open>Amm_Cache\<close>, \<open>Hedge_Pool\<close>, \<open>Hedge_Targets\<close>: \<open>vlp/amm_cache.rs\<close> and \<open>vlp/hedge/state.rs\<close> with two handlers
    of \<open>vlp/hedge/instructions.rs\<close>: the pool that hedges the AMM, its fees, swaps and shares, what it
    should hold and what it is worth. The scaled balance of a constituent is a fourth interpretation of
    the locale \<open>spot_balance\<close>. The markets and the answers of the oracle map are arguments (\<open>hedge_env\<close>).

  \<^bold>\<open>What is shown.\<close> The properties below are grouped by component. For the spot markets: the ledger
  of a market (all balances add up to its totals) holds in every reachable state, the interest
  indexes never go back, updates and accruals do not create claims the vault cannot pay beyond a
  stated rounding, the interest split does not depend on how often it is cranked, and the rate curve
  is total, bounded and monotone on valid parameters. For users: liquidation and bankruptcy
  exclude each other in every reachable state, an episode keeps its id, slots in use are never
  overwritten. For time and orders: elapsed time is the sum of slot lengths, projections are exact,
  rounding favours the resting side, fills respect both limits, reduce-only orders do not flip
  positions, auctions only improve. For perps: the totals of a market are the sums over its positions
  in every reachable state, and a fill realizes the profit of what it closes. For oracles: each action
  accepts a threshold of validity, and the price in use stays near the exchange's. For the AMM:
  its reserves stay on the curve in every reachable state, round trips against it lose, it never quotes
  through the oracle, moving the peg stays in its budget, funding and expiry stay within what it can
  pay, making in auctions only unwinds inventory. For the hedge pool: the update of the targets ends and
  computes the sum over the mapping, minting and redeeming or swapping gains nothing at the oracle
  price, what is owed does not drift. Where the code departs from this, a property states the departure:
  the rate curve above its first kink, the dust of a flipped deposit, the history of the rolling
  deviation, the wrap of the liquidation id, the clock without a transition archive, the hedge
  targets when a constituent is left out.

  \<^bold>\<open>Not modelled.\<close> Account loading, serialization, token transfers, event records and log lines,
  which have no effect on the values modelled. The oracle accounts themselves (their price is an
  argument). The instruction handlers compose the modelled operations with account checks.
  Of the exchange itself, margin, the order
  controllers, the funding and insurance controllers, the transfers of a liquidation and of a settlement
  are not modelled; the other programs of the repository and its clients are separate programs.
\<close>

section \<open>Concrete inputs\<close>

definition example_market :: spot_market where
  "example_market = default_spot_market
     \<lparr> sm_decimals := 6, sm_cumulative_deposit_interest := 10000000000,
       sm_cumulative_borrow_interest := 10000000000, sm_optimal_utilization := 700000,
       sm_optimal_borrow_rate := 100000, sm_max_borrow_rate := 1000000, sm_status := Active \<rparr>"

definition example_bank :: bank where
  "example_bank = \<lparr> bk_market = example_market,
     bk_positions = [default_spot_position, default_spot_position], bk_isolated = [], bk_pools = [] \<rparr>"

definition example_ops :: "bank_op list" where
  "example_ops = [UpdatePosition 0 1000000 Deposit False, UpdatePosition 1 500000 Borrow True,
     Accrue None 86400 False]"

definition lent_market :: spot_market where
  "lent_market = bk_market (run_ops bank_step example_bank example_ops)"

definition fee_market :: spot_market where
  "fee_market = example_market
     \<lparr> sm_insurance_fund := default_insurance_fund\<lparr>if_if_fee_factor := 200000\<rparr>,
       sm_protocol_fee_factor := 400000 \<rparr>"

definition example_user :: user where
  "example_user = default_user
     \<lparr> us_next_liquidation_id := 1,
       us_perp_positions := (us_perp_positions default_user)
         [2 := default_perp_position\<lparr>pp_market_index := 5, pp_base_asset_amount := 1000000000,
                 pp_position_flag := position_flag_bit PF_IsolatedPosition\<rparr>] \<rparr>"


definition example_perp :: perp_market where
  "example_perp = default_perp_market
     \<lparr> pm_order_step_size := 1000, pm_cumulative_funding_rate_long := 7, pm_cumulative_funding_rate_short := 5 \<rparr>"

definition example_book :: perp_book where
  "example_book = \<lparr> bo_market = example_perp, bo_positions = [default_perp_position, default_perp_position] \<rparr>"

definition example_trades :: "book_op list" where
  "example_trades = [Trade 0 \<lparr>pd_quote_asset_amount = -300, pd_base_asset_amount = 3000\<rparr>,
     Trade 1 \<lparr>pd_quote_asset_amount = 300, pd_base_asset_amount = -3000\<rparr>,
     Trade 0 \<lparr>pd_quote_asset_amount = 110, pd_base_asset_amount = -1000\<rparr>,
     Trade 1 \<lparr>pd_quote_asset_amount = -500, pd_base_asset_amount = 3000\<rparr>, BookClaim 1]"


definition example_amm :: amm where
  "example_amm = default_amm
     \<lparr> am_base_asset_reserve := 100000000000, am_quote_asset_reserve := 100000000000, am_sqrt_k := 100000000000,
       am_terminal_quote_asset_reserve := 100000000000, am_peg_multiplier := 100000000,
       am_min_base_asset_reserve := 50000000000, am_max_base_asset_reserve := 200000000000,
       am_concentration_coef := 1414213, am_base_spread := 1000, am_max_spread := 50000,
       am_long_spread := 500, am_short_spread := 500,
       am_ask_base_asset_reserve := 99975006248, am_ask_quote_asset_reserve := 100025000000,
       am_bid_base_asset_reserve := 100025006251, am_bid_quote_asset_reserve := 99975000000,
       am_curve_update_intensity := 100, am_total_fee_minus_distributions := 1000000000 \<rparr>"




definition example_amm_market :: perp_market where
  "example_amm_market = default_perp_market
     \<lparr> pm_amm := example_amm, pm_order_step_size := 1000, pm_margin_ratio_initial := 1000 \<rparr>"

definition example_mm_oracle :: "mm_oracle_price_data result" where
  "example_mm_oracle = new_mm_oracle_price_data 100500000 1 0 Valid
     \<lparr>op_price = 100000000, op_confidence = 20000, op_delay = 1,
      op_has_sufficient_number_of_data_points = True, op_sequence_id = None\<rparr>"

definition example_funding_inputs :: funding_market_inputs where
  "example_funding_inputs =
     \<lparr> fi_net_counterparty_position = -1000000000, fi_base_asset_amount_long = 0,
       fi_base_asset_amount_short = -1000000000, fi_total_fee_minus_distributions = 300 \<rparr>"

definition example_short_amm :: perp_market where
  "example_short_amm = example_amm_market
     \<lparr> pm_amm := example_amm\<lparr>am_base_asset_reserve := 99000000000, am_quote_asset_reserve := 101010101010,
         am_base_asset_amount_with_amm := 1000000000, am_amm_jit_intensity := 100\<rparr> \<rparr>"









definition example_token :: "int \<Rightarrow> spot_market" where
  "example_token d = default_spot_market
     \<lparr>sm_decimals := d, sm_cumulative_deposit_interest := 10000000000, sm_cumulative_borrow_interest := 10000000000\<rparr>"

definition example_hedged :: perp_market where
  "example_hedged = default_perp_market
     \<lparr>pm_hedge_config := default_hedge_config\<lparr>hc_fee_transfer_scalar := 100\<rparr>,
      pm_pnl_pool := pm_pnl_pool default_perp_market\<lparr>pb_scaled_balance := 50000\<rparr>\<rparr>"

definition example_owed :: cache_info where
  "example_owed = default_cache_info\<lparr>ca_oracle_price := 1000000, ca_last_net_pnl_pool_token_amount := 100\<rparr>"

lemma example_bank_inv: "bank_inv example_bank"
  by code_simp

lemma example_market_fits: "fits_spot_market example_market" "fits_spot_market lent_market"
  by code_simp+

section \<open>The ledger of a spot market\<close>

text \<open>
  C1: In every state a spot market can reach from a consistent one by any sequence of accruals,
  deposits, withdrawals, pool updates and transfers, the scaled balances of all positions and pools
  add up to the market's two totals, and the deposits among them never exceed its deposit total.
\<close>
theorem bank_ledger_reachable:
  assumes "reachable bank_step bk0 bk" "bank_inv bk0"
  shows "sm_deposit_balance (bk_market bk) + sm_borrow_balance (bk_market bk) = bank_balances bk
    \<and> bank_deposits bk \<le> sm_deposit_balance (bk_market bk)"
  using spot_bank.reachable_inv [OF assms] by (simp add: bank_inv_def)

theorem bank_ledger_reachable_witness:
  "\<exists>bk. reachable bank_step example_bank bk \<and> sm_borrow_balance (bk_market bk) = 500000001
    \<and> sm_deposit_balance (bk_market bk) + sm_borrow_balance (bk_market bk) = bank_balances bk"
proof -
  let ?bk = "run_ops bank_step example_bank example_ops"
  have "reachable bank_step example_bank ?bk" by (rule reachable_run [OF reach_start])
  moreover have "sm_borrow_balance (bk_market ?bk) = 500000001" by code_simp
  ultimately show ?thesis using bank_ledger_reachable [of example_bank ?bk] example_bank_inv by blast
qed



text \<open>
  C3: A balance update keeps the vault solvent. Paying tokens into a position raises the net claims
  on the vault (deposits less debts, in index units) by at most what was paid, except for at most one
  scaled unit of debt when it repays a debt; tokens that leave lower the net claims by at least what
  left.
\<close>
theorem position_update_solvent:
  assumes "update_spot_balances spot_position_ops tokens dir m p leaving = Ok (m', p')"
    and "0 \<le> sp_scaled_balance p" "0 \<le> tokens" "fits_spot_market m"
  shows "(dir = Deposit \<longrightarrow> vault_claims m' \<le> vault_claims m + tokens * spot_precision m
        + (if sp_balance_type p = Borrow then sm_cumulative_borrow_interest m else 0))
    \<and> (dir = Borrow \<and> leaving \<longrightarrow> vault_claims m' \<le> vault_claims m - tokens * spot_precision m)"
  using position.update_value [OF assms(1) _ assms(3) index_ok_fits [OF assms(4)]] assms(2) by simp

theorem position_update_solvent_witness:
  "\<exists>m' p'. update_spot_balances spot_position_ops 1000000 Borrow lent_market
       default_spot_position True = Err SpotMarketInsufficientDeposits
    \<and> update_spot_balances spot_position_ops 300000 Borrow lent_market default_spot_position True = Ok (m', p')
    \<and> vault_claims m' \<le> vault_claims lent_market - 300000 * spot_precision lent_market"
proof -
  let ?r = "\<lambda>n. update_spot_balances spot_position_ops n Borrow lent_market default_spot_position True"
  have "?r 1000000 = Err SpotMarketInsufficientDeposits" by code_simp
  moreover have "\<exists>x. ?r 300000 = Ok x \<and> True" by (rule Ok_case) code_simp
  moreover have "0 \<le> sp_scaled_balance default_spot_position" by code_simp
  ultimately show ?thesis
    using position_update_solvent [of 300000 Borrow lent_market default_spot_position True] example_market_fits(2)
    by auto
qed

text \<open>
  C4: One accrual of interest creates less than one token of claims: the claims of the lenders, of
  the insurance fund and of the protocol, and the fractions of a token the pools still carry, grow by
  less than one token more than the debts do.
\<close>
theorem accrual_claims_bounded:
  assumes "update_spot_market_cumulative_interest m opd now paused = Ok m'" "fits_spot_market m"
  shows "vault_claims m' + carried_token_dust m' < vault_claims m + carried_token_dust m + spot_precision m
    \<and> sm_borrow_balance m' = sm_borrow_balance m
    \<and> sm_deposit_balance m' - own_pools m' = sm_deposit_balance m - own_pools m"
  using accrual_facts [OF assms] by (simp add: own_pools_def)

theorem accrual_claims_bounded_witness:
  "\<exists>m'. update_spot_market_cumulative_interest lent_market None 172800 False = Ok m'
    \<and> sm_cumulative_borrow_interest lent_market < sm_cumulative_borrow_interest m'
    \<and> vault_claims m' + carried_token_dust m'
      < vault_claims lent_market + carried_token_dust lent_market + spot_precision lent_market"
proof -
  let ?r = "update_spot_market_cumulative_interest lent_market None 172800 False"
  have "\<exists>m'. ?r = Ok m' \<and> sm_cumulative_borrow_interest lent_market < sm_cumulative_borrow_interest m'"
    by (rule Ok_case) code_simp
  then obtain m' where r: "?r = Ok m'"
    and grow: "sm_cumulative_borrow_interest lent_market < sm_cumulative_borrow_interest m'" by blast
  show ?thesis using r grow accrual_claims_bounded [OF r example_market_fits(2)] by blast
qed

text \<open>
  C5: The interest credited to the depositors is never more than the interest charged to the
  borrowers, in whole tokens.
\<close>
theorem interest_conserved:
  assumes "fits_spot_market m" "calculate_accumulated_interest m now = Ok a"
  shows "sm_deposit_balance m * ia_deposit_interest a div spot_precision m
    \<le> sm_borrow_balance m * ia_borrow_interest a div spot_precision m"
  using accumulated_interest_conserved [OF assms] by simp

theorem interest_conserved_witness:
  "\<exists>a. calculate_accumulated_interest lent_market 172800 = Ok a \<and> 0 < ia_deposit_interest a
    \<and> sm_deposit_balance lent_market * ia_deposit_interest a div spot_precision lent_market
      \<le> sm_borrow_balance lent_market * ia_borrow_interest a div spot_precision lent_market"
proof -
  let ?r = "calculate_accumulated_interest lent_market 172800"
  have "\<exists>a. ?r = Ok a \<and> 0 < ia_deposit_interest a" by (rule Ok_case) code_simp
  then obtain a where r: "?r = Ok a" "0 < ia_deposit_interest a" by blast
  then show ?thesis using interest_conserved [OF example_market_fits(2) r(1)] by blast
qed

text \<open>
  C6: How often interest is cranked does not change who gets it. Two schedules that accrue the same
  total deposit interest give lenders, the insurance fund and the protocol the same amounts, because
  the fractions each step rounds away are carried to the next.
\<close>
theorem split_crank_independent:
  assumes "split_inv m" "0 < combined_factor m"
    and "pb_pending_interest_split_dust (sm_protocol_fee_pool m) < combined_factor m"
    and "list_all (\<lambda>d. 0 \<le> d \<and> fits U128 ((d + 1) * IF_FACTOR_PRECISION)) ds"
    and "list_all (\<lambda>d. 0 \<le> d \<and> fits U128 ((d + 1) * IF_FACTOR_PRECISION)) es"
    and "sum_list ds = sum_list es"
  shows "split_run m ds = split_run m es
    \<and> (\<exists>lenders insurance_fund protocol. split_run m ds = Ok (lenders, insurance_fund, protocol)
       \<and> lenders + insurance_fund + protocol = sum_list ds)"
proof -
  let ?w = "(sum_list ds * combined_factor m + carried_carveout m) div IF_FACTOR_PRECISION"
  let ?i = "(?w * if_factor m + pb_pending_interest_split_dust (sm_protocol_fee_pool m)) div combined_factor m"
  have "split_run m ds = Ok (sum_list ds - ?w, ?i, ?w - ?i)"
    using split_run_totals [OF assms(1-3) assms(4)] by auto
  moreover have "split_run m es = Ok (sum_list ds - ?w, ?i, ?w - ?i)"
    using split_run_totals [OF assms(1-3) assms(5)] assms(6) by auto
  ultimately show ?thesis by simp
qed

theorem split_crank_independent_witness:
  "split_run fee_market [3, 4, 8] = split_run fee_market [15] \<and> split_run fee_market [15] = Ok (6, 3, 6)"
proof -
  have "split_inv fee_market" "0 < combined_factor fee_market"
    "pb_pending_interest_split_dust (sm_protocol_fee_pool fee_market) < combined_factor fee_market"
    by code_simp+
  then have "split_run fee_market [3, 4, 8] = split_run fee_market [15]"
    by (rule split_crank_independent [THEN conjunct1]) (simp_all add: fits_def)
  moreover have "split_run fee_market [15] = Ok (6, 3, 6)" by code_simp
  ultimately show ?thesis by simp
qed

text \<open>
  C7: A borrower's rate is defined at every utilization above zero: with an optimal utilization of
  at most 85 percent the curve returns a rate between the market's minimum rate and its maximum
  (or the minimum, if that is larger), and a higher utilization never has a lower rate.
\<close>
theorem borrow_rate_bounded_monotone:
  assumes "rate_params_ok m" "0 < u" "u \<le> v" "fits U128 v"
  shows "\<exists>r s. calculate_borrow_rate m u = Ok r \<and> calculate_borrow_rate m v = Ok s \<and> r \<le> s
    \<and> sm_min_borrow_rate m * 5000 \<le> r \<and> s \<le> max (sm_max_borrow_rate m) (sm_min_borrow_rate m * 5000)"
proof -
  have "fits U128 u" using assms by (auto simp: fits_def)
  moreover have "0 < v" using assms by simp
  ultimately show ?thesis
    using calculate_borrow_rate_eq [OF assms(1), of u] calculate_borrow_rate_eq [OF assms(1), of v]
      base_rate_mono [OF assms(1-3)] base_rate_bounds [OF assms(1), of v] assms by auto
qed

theorem borrow_rate_bounded_monotone_witness:
  "\<exists>r s. calculate_borrow_rate example_market 700000 = Ok r \<and> calculate_borrow_rate example_market 1000000 = Ok s
    \<and> r \<le> s \<and> s \<le> 1000000"
proof -
  have "rate_params_ok example_market" by code_simp
  then have "\<exists>r s. calculate_borrow_rate example_market 700000 = Ok r
      \<and> calculate_borrow_rate example_market 1000000 = Ok s \<and> r \<le> s
      \<and> sm_min_borrow_rate example_market * 5000 \<le> r
      \<and> s \<le> max (sm_max_borrow_rate example_market) (sm_min_borrow_rate example_market * 5000)"
    by (rule borrow_rate_bounded_monotone) (simp_all add: fits_def)
  moreover have "max (sm_max_borrow_rate example_market) (sm_min_borrow_rate example_market * 5000) = 1000000"
    by code_simp
  ultimately show ?thesis by (simp only:) blast
qed

text \<open>
  C8: An optimal utilization above 85 percent, which the market validation accepts, makes the rate
  curve fail at every utilization above it, so that interest no longer accrues there.
\<close>
theorem borrow_rate_fails_above_first_kink:
  assumes "850000 < sm_optimal_utilization m" "sm_optimal_utilization m < u"
    and "fits U32 (sm_optimal_utilization m)" "fits U32 (sm_optimal_borrow_rate m)"
    and "fits U32 (sm_max_borrow_rate m)" "sm_optimal_borrow_rate m \<le> sm_max_borrow_rate m"
    and "fits U8 (sm_min_borrow_rate m)"
  shows "calculate_borrow_rate m u = Err MathError"
  using assms by (rule calculate_borrow_rate_above_first_kink)

theorem borrow_rate_fails_above_first_kink_witness:
  "calculate_borrow_rate (example_market\<lparr>sm_optimal_utilization := 900000\<rparr>) 950000 = Err MathError"
  by (rule borrow_rate_fails_above_first_kink) (code_simp+)


text \<open>
  C10: Tokens survive the conversion to a scaled balance and back. A deposit is credited at most
  what was paid and less than one token and one scaled unit below it; a borrow is charged at least
  what was taken and less than one token and one scaled unit more.
\<close>
theorem balance_token_round_trip:
  assumes "get_spot_balance tokens m t (t = Borrow) = Ok b" "get_token_amount b m t = Ok tokens2"
    and "fits_spot_market m" "0 \<le> tokens"
  shows "(t = Deposit \<longrightarrow> tokens2 \<le> tokens
        \<and> tokens * spot_precision m < (tokens2 + 1) * spot_precision m + cumulative_interest t m)
    \<and> (t = Borrow \<longrightarrow> tokens \<le> tokens2
        \<and> (tokens2 - 1) * spot_precision m < tokens * spot_precision m + cumulative_interest t m)"
proof -
  note m = fits_spot_market_dests [OF assms(3)]
  note b = get_spot_balance_bounds [OF m(1) assms(4) m(4) assms(1)]
  note tok = get_token_amount_bounds [OF m(1) b(1) m(4) assms(2)]
  have le: "x \<le> y" if "x * spot_precision m \<le> z" "z \<le> y * spot_precision m" for x y z
    using order_trans [OF that] by simp
  show ?thesis
  proof (cases t)
    case Deposit
    then show ?thesis using b tok(1) by (auto intro: le)
  next
    case Borrow
    then show ?thesis using b tok(2) by (auto intro: le)
  qed
qed

theorem balance_token_round_trip_witness:
  "\<exists>b tokens2. get_spot_balance 1000000 lent_market Borrow True = Ok b
    \<and> get_token_amount b lent_market Borrow = Ok tokens2 \<and> 1000000 \<le> tokens2 \<and> tokens2 = 1000001"
proof -
  have "\<exists>b. get_spot_balance 1000000 lent_market Borrow True = Ok b
      \<and> get_token_amount b lent_market Borrow = Ok 1000001"
    by (rule Ok_case) code_simp
  then obtain b where "get_spot_balance 1000000 lent_market Borrow True = Ok b"
    "get_token_amount b lent_market Borrow = Ok 1000001" by blast
  then show ?thesis
    using balance_token_round_trip [of 1000000 lent_market Borrow b 1000001] example_market_fits(2) by auto
qed

section \<open>Numeric helpers\<close>

text \<open>
  The three evaluation orders of the proportion of a 128-bit value (direct, through 192 bits,
  and through the complement) agree: whenever a proportion is returned it is the value times the
  numerator over the denominator, rounded down.
\<close>
theorem get_proportion_exact:
  assumes "get_proportion_u128 v n d = Ok r" "0 \<le> v" "0 \<le> n" "0 < d"
  shows "r = v * n div d"
  using assms by (rule get_proportion_u128_Ok)

theorem get_proportion_exact_witness:
  "get_proportion_u128 1000001 2 3 = Ok 666667 \<and> (666667::int) = 1000001 * 2 div 3"
proof -
  have r: "get_proportion_u128 1000001 2 3 = Ok 666667" by code_simp
  show ?thesis by (rule conjI [OF r get_proportion_exact [OF r]]) simp_all
qed

text \<open>
  A time-weighted average moves between its previous value and the new price: it never leaves
  the interval of the two by more than the one unit the rounding bias adds.
\<close>
theorem new_twap_between:
  assumes "calculate_new_twap price now prev last_ts period = Ok r"
  shows "min price prev - 1 \<le> r \<and> r \<le> max price prev + 1"
  using assms by (rule calculate_new_twap_bounds)

theorem new_twap_between_witness:
  "\<exists>r. calculate_new_twap 110 1800 100 0 3600 = Ok r \<and> min 110 100 - 1 \<le> r \<and> r \<le> max 110 100 + 1"
proof -
  have "\<exists>r. calculate_new_twap 110 1800 100 0 3600 = Ok r \<and> True" by (rule Ok_case) code_simp
  then show ?thesis using new_twap_between by blast
qed

text \<open>
  The rolling deviation of a market forgets its history: the weight of the previous estimate is
  zero at every update, so the estimate is the distance of the current price to the farther of the
  two averages.
\<close>
theorem roll_std_drops_history:
  assumes "roll_std prev last_ts now price ewma ewma_5min = Ok r" "0 \<le> prev"
  shows "r = max \<bar>price - ewma\<bar> \<bar>price - ewma_5min\<bar>"
  using assms by (auto simp: roll_std_def ok_iff Let_def dest!: calculate_rolling_sum_Ok)

theorem roll_std_drops_history_witness:
  "roll_std 5000000 0 1 100 90 95 = Ok 10 \<and> (10::int) = max \<bar>100 - 90\<bar> \<bar>100 - 95\<bar>"
proof -
  have r: "roll_std 5000000 0 1 100 90 95 = Ok 10"
    by (simp add: roll_std_def calculate_rolling_sum_def eval_defs fits_def Let_def)
  show ?thesis by (rule conjI [OF r roll_std_drops_history [OF r]]) simp
qed





text \<open>
  A warm key may only pause or resume funding and the revenue pool: the update of a pause byte
  is allowed exactly when every other operation keeps its state.
\<close>
theorem warm_update_only_editable:
  "is_warm_update_allowed cur new \<longleftrightarrow>
     (\<forall>op. op \<noteq> perp_operation.UpdateFunding \<and> op \<noteq> SettleRevPool \<longrightarrow>
        is_perp_operation_paused cur op = is_perp_operation_paused new op)"
proof -
  have "(\<forall>n < 8. Q n) \<longleftrightarrow> (\<forall>op. Q (perp_operation_index op))" for Q
    using perp_operation_index_surj perp_operation_index_less by metis
  then show ?thesis
    by (simp add: is_warm_update_allowed_bits is_perp_operation_paused_bit warm_index_iff)
qed

theorem warm_update_only_editable_witness:
  "is_warm_update_allowed 0 (perp_operation_bit SettleRevPool)
    \<and> is_perp_operation_paused 0 PerpFill = is_perp_operation_paused (perp_operation_bit SettleRevPool) PerpFill
    \<and> \<not> is_warm_update_allowed 0 (perp_operation_bit PerpFill)"
proof -
  have "is_warm_update_allowed 0 (perp_operation_bit SettleRevPool)"
    "\<not> is_warm_update_allowed 0 (perp_operation_bit PerpFill)"
    by (simp_all add: is_warm_update_allowed_def WARM_EDITABLE_def)
  then show ?thesis using warm_update_only_editable [of 0 "perp_operation_bit SettleRevPool"] by auto
qed

section \<open>Liquidation of a user\<close>

lemma example_user_inv: "liquidation_inv example_user"
  by code_simp

text \<open>
  C13: No sequence of liquidation and bankruptcy transitions puts an account, or one of its isolated
  positions, in both states at once: being liquidated and being bankrupt exclude each other.
\<close>
theorem liquidation_states_exclusive:
  assumes "reachable liquidation_step u0 u" "liquidation_inv u0"
  shows "\<not> (has_status u US_BeingLiquidated \<and> has_status u US_Bankrupt)
    \<and> (\<forall>p \<in> set (us_perp_positions u). \<not> (has_flag p PF_BeingLiquidated \<and> has_flag p PF_Bankrupt))"
  using liquidation.reachable_inv [OF assms] by (auto simp: liquidation_inv_def list_all_iff flags_exclusive_def)

theorem liquidation_states_exclusive_witness:
  "\<exists>u. reachable liquidation_step example_user u \<and> has_status u US_Bankrupt
    \<and> has_flag (us_perp_positions u ! 2) PF_BeingLiquidated
    \<and> \<not> (has_status u US_BeingLiquidated \<and> has_status u US_Bankrupt)"
proof -
  let ?u = "run_ops liquidation_step example_user [EnterCross 10, EnterIsolated 5 11, EnterCrossBankruptcy]"
  have "reachable liquidation_step example_user ?u" by (rule reachable_run [OF reach_start])
  moreover have "has_status ?u US_Bankrupt" "has_flag (us_perp_positions ?u ! 2) PF_BeingLiquidated" by code_simp+
  ultimately show ?thesis using liquidation_states_exclusive [of example_user ?u] example_user_inv by blast
qed

text \<open>
  A liquidation keeps one id for its whole episode. Entering from a healthy account hands out
  the account's next id; entering again while any part of the account is in liquidation returns the
  same id and takes no new one, as long as the id counter does not wrap around.
\<close>
theorem liquidation_episode_id:
  assumes "\<not> is_being_liquidated u" "liquidation_inv u" "us_next_liquidation_id u < 65535"
    and "enter_cross_margin_liquidation u slot = Ok (u1, lid)"
  shows "lid = us_next_liquidation_id u \<and> is_being_liquidated u1
    \<and> (\<exists>u2. enter_cross_margin_liquidation u1 slot2 = Ok (u2, lid)
        \<and> us_next_liquidation_id u2 = us_next_liquidation_id u1)"
proof -
  have u1: "lid = us_next_liquidation_id u" "us_next_liquidation_id u1 = next_id U16 (us_next_liquidation_id u)"
    "is_being_liquidated u1" using enter_cross_fresh [OF assms(1), of slot] assms(4) by auto
  moreover have "next_id U16 (us_next_liquidation_id u) = us_next_liquidation_id u + 1"
    using assms(2,3) by (auto simp: next_id_def liquidation_inv_def fits_def checked_add_def)
  ultimately show ?thesis
    using enter_cross_running [OF enter_cross_inv [OF assms(2,4)], of slot2] by auto
qed

theorem liquidation_episode_id_witness:
  "\<exists>u1 u2. enter_cross_margin_liquidation example_user 10 = Ok (u1, 1)
    \<and> enter_cross_margin_liquidation u1 20 = Ok (u2, 1)"
proof -
  have "\<exists>x. enter_cross_margin_liquidation example_user 10 = Ok x \<and> snd x = 1" by (rule Ok_case) code_simp
  then obtain u1 where u1: "enter_cross_margin_liquidation example_user 10 = Ok (u1, 1)" by auto
  have "\<not> is_being_liquidated example_user" "us_next_liquidation_id example_user < 65535" by code_simp+
  then show ?thesis using liquidation_episode_id [OF _ example_user_inv _ u1, of 20] u1 by blast
qed


section \<open>Position slots\<close>

text \<open>
  C15: Asking for a spot position never overwrites one in use. The slot that is returned belongs to
  the market, every slot that was in use is unchanged, and no market has two slots (an
  empty slot carries the index of the quote market, whose own slot is the first).
\<close>
theorem spot_slots_not_clobbered:
  assumes "force_get_spot_position_index u mi = Ok (u', i)" "spot_slots_ok u"
  shows "spot_slots_ok u' \<and> i < 8 \<and> sp_market_index (us_spot_positions u' ! i) = mi
    \<and> (\<forall>j < 8. \<not> spot_is_available (us_spot_positions u ! j) \<longrightarrow>
         us_spot_positions u' ! j = us_spot_positions u ! j)"
  using force_get_spot_position_Ok [OF assms(1)] force_get_spot_position_slots [OF assms] assms(2)
  by (auto simp: spot_slots_ok_def)

theorem spot_slots_not_clobbered_witness:
  "\<exists>u'. force_get_spot_position_index example_user 7 = Ok (u', 1) \<and> spot_slots_ok u'
    \<and> sp_market_index (us_spot_positions u' ! 1) = 7"
proof -
  have "\<exists>x. force_get_spot_position_index example_user 7 = Ok x \<and> snd x = 1" by (rule Ok_case) code_simp
  then obtain u' where r: "force_get_spot_position_index example_user 7 = Ok (u', 1)" by auto
  have "spot_slots_ok example_user"
    by (simp add: spot_slots_ok_def example_user_def default_user_def default_spot_position_def)
  then show ?thesis using spot_slots_not_clobbered [OF r] r by blast
qed


section \<open>Time\<close>






text \<open>
  Without a transition archive time can run backwards: when the pending slot length takes
  effect, the whole interval is measured with the new length, and one slot later less time has
  passed.
\<close>
theorem legacy_clock_not_monotone:
  "elapsed \<lparr> sc_transition_slots = [0, 0, 0, 0], sc_legacy_base_ms = 400, sc_legacy_pending_ms = 200,
       sc_legacy_effective_slot = 100 \<rparr> 0 99 = 39600
   \<and> elapsed \<lparr> sc_transition_slots = [0, 0, 0, 0], sc_legacy_base_ms = 400, sc_legacy_pending_ms = 200,
       sc_legacy_effective_slot = 100 \<rparr> 0 100 = 20000"
  by code_simp

section \<open>Orders\<close>

text \<open>
  An order's price is rounded to the tick against its owner: a bid down, an ask up, each by less
  than one tick.
\<close>
theorem standardize_price_rounds_passive:
  assumes "standardize_price price tick direction = Ok r" "fits U64 price" "0 < tick"
  shows "r mod tick = 0 \<and> (case direction of Long \<Rightarrow> r \<le> price \<and> price < r + tick
     | Short \<Rightarrow> price \<le> r \<and> r < price + tick)"
  using standardize_price_Ok [OF assms] by (simp add: tick_rounded_def)

theorem standardize_price_rounds_passive_witness:
  "standardize_price 1003 10 Short = Ok 1010 \<and> (1010::int) mod 10 = 0 \<and> 1003 \<le> (1010::int)"
proof -
  have r: "standardize_price 1003 10 Short = Ok 1010" by code_simp
  show ?thesis using r standardize_price_rounds_passive [OF r] by (simp add: fits_def)
qed

text \<open>
  C18: A reduce-only order never increases or flips a position: what it can still fill is zero, or at
  most the size of the position on the side that closes it.
\<close>
theorem reduce_only_never_flips:
  assumes "get_base_asset_amount_unfilled od (Some existing) = Ok b" "od_reduce_only od"
    and "0 \<le> od_base_asset_amount_filled od" "fits U64 (od_base_asset_amount od)"
  shows "0 \<le> b \<and> (b = 0 \<or> b \<le> \<bar>existing\<bar> \<and> od_direction od = (if existing < 0 then Long else Short))"
  using assms by (rule reduce_only_unfilled)

theorem reduce_only_never_flips_witness:
  "get_base_asset_amount_unfilled
     (default_order\<lparr>od_reduce_only := True, od_base_asset_amount := 10, od_direction := Short\<rparr>) (Some 4) = Ok 4
   \<and> (4::int) \<le> \<bar>4\<bar>"
proof -
  let ?od = "default_order\<lparr>od_reduce_only := True, od_base_asset_amount := 10, od_direction := Short\<rparr>"
  have r: "get_base_asset_amount_unfilled ?od (Some 4) = Ok 4" by code_simp
  have "0 \<le> (4::int) \<and> (4 = (0::int) \<or> 4 \<le> \<bar>4::int\<bar> \<and> od_direction ?od = (if (4::int) < 0 then Long else Short))"
    by (rule reduce_only_never_flips [OF r]) code_simp+
  then show ?thesis using r by simp
qed

text \<open>
  C19: A match is fair to both sides. When a maker and a taker order cross, the quote amount of the
  fill passes the price check of both limit prices: the rounding never makes one of them trade
  through its limit.
\<close>
theorem matched_fill_respects_limits:
  assumes "calculate_fill_for_matched_orders mb p tb dec d = Ok (b, q)"
    and "0 < mb" "0 < tb" "fits U64 mb" "fits U64 tb" "fits U64 p" "fits U64 (p + 10 ^ nat dec)" "q < ty_max U64"
    and "do_orders_cross d p tp"
  shows "b = min mb tb \<and> validate_fill_price q b (10 ^ nat dec) d p False = Ok ()
    \<and> validate_fill_price q b (10 ^ nat dec) (opposite d) tp True = Ok ()"
  using matched_fill_valid [OF assms] assms(1) by (auto simp: calculate_fill_for_matched_orders_def ok_iff Let_def)

theorem matched_fill_respects_limits_witness:
  "calculate_fill_for_matched_orders 3000000001 100000001 5000000000 9 Short = Ok (3000000001, 300000004)
   \<and> validate_fill_price 300000004 3000000001 (10 ^ nat 9) Short 100000001 False = Ok ()
   \<and> validate_fill_price 300000004 3000000001 (10 ^ nat 9) Long 100000002 True = Ok ()"
proof -
  have r: "calculate_fill_for_matched_orders 3000000001 100000001 5000000000 9 Short = Ok (3000000001, 300000004)"
    by code_simp
  have "do_orders_cross Short 100000001 100000002" by code_simp
  then show ?thesis using r matched_fill_respects_limits [OF r, of 100000002] by (simp add: fits_def)
qed

text \<open>
  The price of a depth of the book lies between the best and the worst price of the book's
  levels.
\<close>
theorem depth_price_within_levels:
  assumes "estimate_price_from_side levels depth = Ok (Some price)" "0 < depth" "0 \<le> lo"
    and "\<forall>l \<in> set levels. lo \<le> lv_price l \<and> lv_price l \<le> hi \<and> 0 \<le> lv_base_asset_amount l"
  shows "lo \<le> price \<and> price \<le> hi"
  using estimate_price_from_side_bounds [OF assms(1,2) _ assms(3)] assms(4) by blast

theorem depth_price_within_levels_witness:
  "estimate_price_from_side [\<lparr>lv_price = 100, lv_base_asset_amount = 5\<rparr>,
     \<lparr>lv_price = 104, lv_base_asset_amount = 50\<rparr>] 10 = Ok (Some 102) \<and> 100 \<le> (102::int) \<and> (102::int) \<le> 104"
proof -
  have r: "estimate_price_from_side [\<lparr>lv_price = 100, lv_base_asset_amount = 5\<rparr>,
     \<lparr>lv_price = 104, lv_base_asset_amount = 50\<rparr>] 10 = Ok (Some 102)" by code_simp
  show ?thesis using r depth_price_within_levels [OF r, of 100 104] by simp
qed



section \<open>The ledger of a perp market\<close>

text \<open>
  C21: In every state a perp market can reach from a consistent one by any sequence of trades, quote
  updates, booked bankruptcy claims, recycled slots and order bookkeeping, each of the totals the
  market keeps (base, entry and break-even amounts of each side, quote) is the sum over its
  positions, its user counters count the positions in use and those with base, and its pending
  claims count the positions whose booked debt is still a debt.
\<close>
theorem perp_ledger_reachable:
  assumes "reachable book_step bo0 bo" "book_inv bo0"
  shows "total_of k (bo_market bo) = (\<Sum>p \<leftarrow> bo_positions bo. share_of k p)
    \<and> pm_pending_bankruptcy_claims (bo_market bo)
      = int (length (filter has_bankruptcy_claim (bo_positions bo)))
    \<and> (\<forall>p \<in> set (bo_positions bo). has_bankruptcy_claim p \<longrightarrow> pp_quote_asset_amount p < 0)"
proof -
  have inv: "book_inv bo" using book.reachable_inv [OF assms] .
  have "pm_pending_bankruptcy_claims (bo_market bo) = (\<Sum>p \<leftarrow> bo_positions bo. of_bool (has_bankruptcy_claim p))"
    using book_inv_total [OF inv, of T_claims] by (simp add: claims_sum)
  then show ?thesis
    using inv book_inv_total [OF inv, of k]
    by (auto simp: book_inv_def position_inv_def list_all_iff sum_list_of_bool)
qed

theorem perp_ledger_reachable_witness:
  "\<exists>bo. reachable book_step example_book bo
    \<and> pm_quote_asset_amount (bo_market bo) = -390 \<and> pm_base_asset_amount_long (bo_market bo) = 2000
    \<and> pm_pending_bankruptcy_claims (bo_market bo) = 1
    \<and> length (filter has_bankruptcy_claim (bo_positions bo)) = 1"
proof -
  let ?bo = "run_ops book_step example_book example_trades"
  have "reachable book_step example_book ?bo" by (rule reachable_run [OF reach_start])
  moreover have "book_inv example_book" by code_simp
  moreover have "pm_quote_asset_amount (bo_market ?bo) = -390" "pm_base_asset_amount_long (bo_market ?bo) = 2000"
    "pm_pending_bankruptcy_claims (bo_market ?bo) = 1" by code_simp+
  ultimately show ?thesis using perp_ledger_reachable [of example_book ?bo T_quote] by auto
qed



text \<open>
  C23: The pnl a fill reports is exactly what it realizes: the position's base and quote move by the
  fill, and the quote it holds over its entry amount grows by the pnl, whether the fill opens,
  increases, reduces, closes or flips the position.
\<close>
theorem fill_realizes_pnl:
  assumes "update_position_and_market p m delta = Ok (p', m', pnl)"
  shows "pp_base_asset_amount p' = pp_base_asset_amount p + pd_base_asset_amount delta
    \<and> pp_quote_asset_amount p' = pp_quote_asset_amount p + pd_quote_asset_amount delta
    \<and> pp_quote_asset_amount p' - pp_quote_entry_amount p'
      = pp_quote_asset_amount p - pp_quote_entry_amount p + pnl"
  using update_position_and_market_pnl [OF assms] by blast

theorem fill_realizes_pnl_witness:
  "\<exists>p' m' pnl. update_position_and_market
      (default_perp_position\<lparr>pp_base_asset_amount := 3000, pp_quote_asset_amount := -300,
        pp_quote_entry_amount := -300, pp_quote_break_even_amount := -300, pp_last_cumulative_funding_rate := 7\<rparr>)
      example_perp \<lparr>pd_quote_asset_amount = 480, pd_base_asset_amount = -4000\<rparr> = Ok (p', m', pnl)
    \<and> pnl = 60 \<and> pp_base_asset_amount p' = -1000 \<and> pp_quote_asset_amount p' - pp_quote_entry_amount p' = 60"
proof -
  let ?p = "default_perp_position\<lparr>pp_base_asset_amount := 3000, pp_quote_asset_amount := -300,
    pp_quote_entry_amount := -300, pp_quote_break_even_amount := -300, pp_last_cumulative_funding_rate := 7\<rparr>"
  let ?r = "update_position_and_market ?p example_perp \<lparr>pd_quote_asset_amount = 480, pd_base_asset_amount = -4000\<rparr>"
  have "\<exists>x. ?r = Ok x \<and> snd (snd x) = 60" by (rule Ok_case) code_simp
  then obtain p' m' where r: "?r = Ok (p', m', 60)" by auto
  show ?thesis using r fill_realizes_pnl [OF r] by simp
qed




text \<open>
  C26: A taker who trades against the AMM and at once trades the same amount back loses: with quotes
  around the curve and no reference price offset, the sale brings strictly less than the purchase
  cost, in either order.
\<close>
theorem amm_round_trip_loses:
  assumes "try_fill_solo a taker target = Ok (Some f)" "commit_fill a f = Ok b"
    and "try_fill_solo b (opposite taker) (qf_base_filled f) = Ok (Some g)" "qf_base_filled g = qf_base_filled f"
    and "quoted_outside a" "plain_quotes a" "on_curve a" "0 < target"
  shows "case taker of Long \<Rightarrow> qf_quote_filled g < qf_quote_filled f | Short \<Rightarrow> qf_quote_filled f < qf_quote_filled g"
proof -
  obtain w where w: "calculate_base_swap_output a (qf_base_filled f) (swap_direction_of taker) = Ok w"
    "qf_quote_filled f = sw_quote_asset_amount w" "qf_side f = taker"
    "qf_base_filled f = min target (max_fillable a taker)" "qf_base_filled f \<noteq> 0"
    using try_fill_solo_Ok [OF assms(1)] by blast
  obtain v where v: "calculate_base_swap_output b (qf_base_filled f) (swap_direction_of (opposite taker)) = Ok v"
    "qf_quote_filled g = sw_quote_asset_amount v"
    using try_fill_solo_Ok [OF assms(3)] assms(4) by metis
  have "0 < qf_base_filled f"
    using w(4,5) assms(8) max_fillable_nonneg [of a taker] by (smt (verit))
  from round_trip_loses [OF w(1) assms(2) w(3) refl this v(1) assms(5-7)] show ?thesis by (simp only: w(2) v(2))
qed

theorem amm_round_trip_loses_witness:
  "\<exists>f b g. try_fill_solo example_amm Long 1000000000 = Ok (Some f) \<and> commit_fill example_amm f = Ok b
    \<and> try_fill_solo b Short 1000000000 = Ok (Some g) \<and> qf_quote_filled f = 101060868 \<and> qf_quote_filled g = 100959854
    \<and> qf_quote_filled g < qf_quote_filled f"
proof -
  let ?r = "and_then (try_fill_solo example_amm Long 1000000000) (\<lambda>f. and_then (commit_fill example_amm (the f)) (\<lambda>b.
    and_then (try_fill_solo b Short 1000000000) (\<lambda>g. Ok (f, b, g))))"
  have "\<exists>x. ?r = Ok x \<and> (case x of (Some f, b, Some g) \<Rightarrow> qf_base_filled f = 1000000000 \<and> qf_base_filled g = 1000000000
      \<and> qf_quote_filled f = 101060868 \<and> qf_quote_filled g = 100959854 | _ \<Rightarrow> False)"
    by (rule Ok_case) code_simp
  then obtain f b g where r: "try_fill_solo example_amm Long 1000000000 = Ok (Some f)" "commit_fill example_amm f = Ok b"
      "try_fill_solo b Short 1000000000 = Ok (Some g)"
    and v: "qf_base_filled f = 1000000000" "qf_base_filled g = 1000000000"
      "qf_quote_filled f = 101060868" "qf_quote_filled g = 100959854"
    by (elim exE conjE and_thenE) (auto split: option.split_asm)
  have "quoted_outside example_amm" "plain_quotes example_amm" "on_curve example_amm" by code_simp+
  then show ?thesis using amm_round_trip_loses [of example_amm Long 1000000000 f b g] r v by auto
qed



text \<open>
  C28: A repeg stays within its budget: the cost of moving the peg, with or without lowering k first, is
  at most the budget, but for the rounding of a peg move whose whole cost is below one unit per peg.
\<close>
theorem repeg_within_budget:
  assumes "adjust_amm m peg budget adjust_k = Ok (m', cost)" "0 < am_peg_multiplier (pm_amm m)" "0 \<le> budget"
  shows "cost \<le> max budget (\<bar>peg - am_peg_multiplier (pm_amm m)\<bar> div 1000000)"
  using assms by (rule adjust_amm_within_budget)

theorem repeg_within_budget_witness:
  "\<exists>m'. adjust_amm example_short_amm 101000000 500000 True = Ok (m', 499999) \<and> (499999::int) \<le> max 500000 1"
proof -
  have "\<exists>x. adjust_amm example_short_amm 101000000 500000 True = Ok x \<and> snd x = 499999" by (rule Ok_case) code_simp
  then obtain m' where r: "adjust_amm example_short_amm 101000000 500000 True = Ok (m', 499999)" by auto
  have "am_peg_multiplier (pm_amm example_short_amm) = 100000000" by code_simp
  then show ?thesis using repeg_within_budget [OF r] r by simp
qed

text \<open>
  C29: Funding cannot drain the AMM: when the rates of the two sides are those of one update, what the AMM
  is charged for its imbalance is at most a third of its fees less distributions, plus the unit its
  payment is rounded by.
\<close>
theorem amm_funding_within_third:
  assumes "calculate_funding_rate_long_short i r = Ok (rl, rs, pnl)"
    and "0 \<le> fi_base_asset_amount_long i" "fi_base_asset_amount_short i \<le> 0"
      "fi_net_counterparty_position i = fi_base_asset_amount_long i + fi_base_asset_amount_short i"
    and "calculate_amm_funding_payment (fi_base_asset_amount_long i) (fi_base_asset_amount_short i)
      (cl + rl) (cs + rs) cl cs = Ok p"
  shows "- (max (fi_total_fee_minus_distributions i) 0 div 3 + 1) \<le> p"
  using assms by (rule amm_funding_bounded)

theorem amm_funding_within_third_witness:
  "calculate_funding_rate_long_short example_funding_inputs 1000000000 = Ok (1000000000, 99000, -100)
    \<and> calculate_amm_funding_payment 0 (-1000000000) 1000000000 99000 0 0 = Ok (-99)
    \<and> - (max (fi_total_fee_minus_distributions example_funding_inputs) 0 div 3 + 1) \<le> (-99::int)"
proof -
  have r: "calculate_funding_rate_long_short example_funding_inputs 1000000000 = Ok (1000000000, 99000, -100)" by code_simp
  have p: "calculate_amm_funding_payment 0 (-1000000000) 1000000000 99000 0 0 = Ok (-99)" by code_simp
  have "- (max (fi_total_fee_minus_distributions example_funding_inputs) 0 div 3 + 1) \<le> (-99::int)"
    by (rule amm_funding_within_third [OF r, of 0 0]) (simp_all add: p, simp_all add: example_funding_inputs_def p)
  then show ?thesis using r p by simp
qed



text \<open>
  C31: When the AMM makes in an auction it only unwinds: it sells only what the users are net short and
  buys only what they are net long, and never more than that imbalance.
\<close>
theorem jit_only_unwinds:
  assumes "calculate_amm_jit_liquidity m taker price oracle amount tb mb has_limit = Ok j" "0 < pm_order_step_size m"
  shows "0 \<le> j \<and> j \<le> \<bar>am_base_asset_amount_with_amm (pm_amm m)\<bar>
    \<and> (j \<noteq> 0 \<longrightarrow> (case taker of Long \<Rightarrow> am_base_asset_amount_with_amm (pm_amm m) < 0
      | Short \<Rightarrow> 0 < am_base_asset_amount_with_amm (pm_amm m)))"
  using assms by (rule amm_jit_liquidity_Ok)

theorem jit_only_unwinds_witness:
  "calculate_amm_jit_liquidity example_short_amm Short 100000000 (Some 100000000) 10000000000 10000000000 10000000000 False
      = Ok 1000000000
    \<and> 0 < am_base_asset_amount_with_amm (pm_amm example_short_amm)"
proof -
  have r: "calculate_amm_jit_liquidity example_short_amm Short 100000000 (Some 100000000) 10000000000 10000000000
    10000000000 False = Ok 1000000000" by code_simp
  have "pm_order_step_size example_short_amm = 1000" by code_simp
  then show ?thesis using jit_only_unwinds [OF r] r by simp
qed



text \<open>
  C33: The table of what a degraded oracle may still be used for is a threshold: each action accepts
  exactly the classes at least as good as the worst it tolerates, so a better oracle never blocks an
  action that a worse one allows.
\<close>
theorem oracle_actions_are_thresholds: "is_oracle_valid_for_action v action \<longleftrightarrow> worst_accepted action \<le> v"
  by (rule valid_for_action_threshold)

text \<open>
  C34: The price the market trades on stays within one percent of the exchange oracle, whatever the market
  maker's feed says; its confidence interval is widened by the whole gap between the two, and the feed is
  used only when it is set and valid for that.
\<close>
theorem mm_price_is_bounded:
  assumes "new_mm_oracle_price_data mm_price delay sid v d = Ok r"
  shows "\<bar>mm_get_price r - op_price d\<bar> * PERCENTAGE_PRECISION < (MM_EXCHANGE_FALLBACK_THRESHOLD + 1) * max \<bar>op_price d\<bar> 1
    \<and> mm_get_confidence r = op_confidence d + \<bar>mm_get_price r - op_price d\<bar>
    \<and> (mo_safe_price_is_mm_sourced r \<longrightarrow> is_oracle_valid_for_action v (Some UseMMOraclePrice) \<and> mm_get_price r \<noteq> 0)"
  using assms by (rule safe_price_bounds)

theorem mm_price_is_bounded_witness:
  "\<exists>r. example_mm_oracle = Ok r \<and> mm_get_price r = 100500000 \<and> mm_get_confidence r = 520000"
proof -
  have "\<exists>r. example_mm_oracle = Ok r \<and> mm_get_price r = 100500000" by (rule Ok_case) code_simp
  then obtain r where r: "example_mm_oracle = Ok r" "mm_get_price r = 100500000" by blast
  show ?thesis using mm_price_is_bounded [OF r(1) [unfolded example_mm_oracle_def]] r by auto
qed

text \<open>
  C35: The update of the hedge targets always ends, on every mapping, sorted or not, every list of
  constituents and every cache: the merge of the two lists returns a value or an error.
\<close>
theorem target_update_terminates:
  "\<exists>r. handle_update_constituent_target_base cache mapping constituent_map slot c targets = Some r"
  using update_target_base_ends by (auto simp: handle_update_constituent_target_base_def split: result.split)








text \<open>
  C40: The quote the pool owes a market does not drift with the number of updates: a second update on an
  unchanged market leaves it as the first one did.
\<close>
theorem owed_amount_does_not_drift:
  assumes "update_amount_owed c m q = Ok c1" "update_amount_owed c1 m q = Ok c2" "0 \<le> fl_total_exchange_fee (pm_fee_ledger m)"
  shows "ca_quote_owed_from_lp_pool c2 = ca_quote_owed_from_lp_pool c1"
  using assms by (rule owed_update_idempotent)

theorem owed_amount_does_not_drift_witness:
  "\<exists>c1 c2. update_amount_owed example_owed example_hedged (example_token 6) = Ok c1
    \<and> update_amount_owed c1 example_hedged (example_token 6) = Ok c2
    \<and> ca_quote_owed_from_lp_pool c1 = 50 \<and> ca_quote_owed_from_lp_pool c2 = ca_quote_owed_from_lp_pool c1"
proof -
  have "\<exists>x. and_then (update_amount_owed example_owed example_hedged (example_token 6)) (\<lambda>c1.
      and_then (update_amount_owed c1 example_hedged (example_token 6)) (\<lambda>c2. Ok (c1, c2))) = Ok x
      \<and> ca_quote_owed_from_lp_pool (fst x) = 50"
    by (rule Ok_case) code_simp
  then obtain c1 c2 where r: "update_amount_owed example_owed example_hedged (example_token 6) = Ok c1"
      "update_amount_owed c1 example_hedged (example_token 6) = Ok c2" "ca_quote_owed_from_lp_pool c1 = 50"
    by (auto simp: ok_iff)
  have "0 \<le> fl_total_exchange_fee (pm_fee_ledger example_hedged)" by code_simp
  then show ?thesis using owed_amount_does_not_drift [OF r(1,2)] r by blast
qed

end
